(* ===== verification/JS.thy ===== *)
theory JS
  imports Complex_Main
begin

text \<open>
  The values and the library functions of JavaScript that the service uses.
  Strings are lists of characters (the UTF-8 bytes of the text), JSON values a datatype;
  an absent property (\<open>undefined\<close>) is \<open>None\<close>. \<open>''''\<close> is the only falsy string.
\<close>

subsection \<open>JSON values\<close>

datatype json =
    JNull
  | JBool bool
  | JNum rat
  | JStr string
  | JArr "json list"
  | JObj "(string \<times> json) list"

text \<open>Property access \<open>v.k\<close> on an object; every other value has no own property here.\<close>

fun jget :: "string \<Rightarrow> json \<Rightarrow> json option" where
  "jget k (JObj ps) = map_of ps k"
| "jget k _ = None"

fun jstr :: "json option \<Rightarrow> string option" where
  "jstr (Some (JStr s)) = Some s"
| "jstr _ = None"

subsection \<open>Characters\<close>

definition code :: "char \<Rightarrow> nat" where
  "code c = of_char c"

definition is_digit :: "char \<Rightarrow> bool" where
  "is_digit c \<longleftrightarrow> 48 \<le> code c \<and> code c \<le> 57"

definition is_upper :: "char \<Rightarrow> bool" where
  "is_upper c \<longleftrightarrow> 65 \<le> code c \<and> code c \<le> 90"

definition is_lower :: "char \<Rightarrow> bool" where
  "is_lower c \<longleftrightarrow> 97 \<le> code c \<and> code c \<le> 122"

text \<open>White space as \<open>String.prototype.trim\<close> and \<open>\s\<close> understand it (the ASCII part).\<close>

definition is_space :: "char \<Rightarrow> bool" where
  "is_space c \<longleftrightarrow> code c = 32 \<or> (9 \<le> code c \<and> code c \<le> 13)"

definition lower_char :: "char \<Rightarrow> char" where
  "lower_char c = (if is_upper c then char_of (code c + 32) else c)"

definition upper_char :: "char \<Rightarrow> char" where
  "upper_char c = (if is_lower c then char_of (code c - 32) else c)"

text \<open>The case of a letter is bit 5 of its code; as a code equation this spares the conversions to numbers.\<close>

lemma lower_char_bits [code]:
  "lower_char (Char b0 b1 b2 b3 b4 b5 b6 b7) =
     Char b0 b1 b2 b3 b4 (b5 \<or> (b6 \<and> \<not> b7 \<and> (b0 \<or> b1 \<or> b2 \<or> b3 \<or> b4)
        \<and> \<not> (b4 \<and> b3 \<and> (b2 \<or> (b1 \<and> b0))))) b6 b7"
  by (cases b0; cases b1; cases b2; cases b3; cases b4; cases b5; cases b6; cases b7)
    (simp_all add: lower_char_def is_upper_def code_def char_of_def bit_iff_odd)

definition toLowerCase :: "string \<Rightarrow> string" where
  "toLowerCase s = map lower_char s"

definition toUpperCase :: "string \<Rightarrow> string" where
  "toUpperCase s = map upper_char s"

subsection \<open>Strings\<close>

definition startsWith :: "string \<Rightarrow> string \<Rightarrow> bool" where
  "startsWith p s \<longleftrightarrow> take (length p) s = p"

fun includes_sub :: "string \<Rightarrow> string \<Rightarrow> bool" where
  "includes_sub p [] = (p = [])"
| "includes_sub p (c # s) = (startsWith p (c # s) \<or> includes_sub p s)"

definition trimStart :: "string \<Rightarrow> string" where
  "trimStart s = dropWhile is_space s"

definition trim :: "string \<Rightarrow> string" where
  "trim s = rev (dropWhile is_space (rev (dropWhile is_space s)))"

text \<open>\<open>s.split(c)\<close> for a one-character separator.\<close>

fun split_on :: "char \<Rightarrow> string \<Rightarrow> string list" where
  "split_on c [] = [[]]"
| "split_on c (x # xs) =
     (if x = c then [] # split_on c xs
      else case split_on c xs of [] \<Rightarrow> [[x]] | w # ws \<Rightarrow> (x # w) # ws)"

lemma split_on_not_Nil [simp]: "split_on c s \<noteq> []"
  by (induction s) (auto split: list.splits)

lemma split_on_none: "c \<notin> set s \<Longrightarrow> split_on c s = [s]"
  by (induction s) auto

lemma split_on_append: "c \<notin> set u \<Longrightarrow> split_on c (u @ c # v) = u # split_on c v"
  by (induction u) auto

lemma startsWith_append [simp]: "startsWith p (p @ s)"
  by (simp add: startsWith_def)

lemma startsWith_iff: "startsWith p s \<longleftrightarrow> (\<exists>t. s = p @ t)"
  unfolding startsWith_def by (metis append_eq_conv_conj append_take_drop_id)

text \<open>\<open>trim\<close> leaves no white space at either end, and does nothing the second time.\<close>

lemma trim_hd: "trim s = c # t \<Longrightarrow> \<not> is_space c"
proof -
  assume a: "trim s = c # t"
  define u where "u = dropWhile is_space s"
  have t: "trim s = rev (dropWhile is_space (rev u))"
    by (simp add: trim_def u_def)
  obtain v where v: "rev u = v @ dropWhile is_space (rev u)"
    by (metis takeWhile_dropWhile_id)
  have "u = trim s @ rev v"
    using v t by (metis rev_append rev_rev_ident)
  with a have "u = c # (t @ rev v)" by simp
  then show "\<not> is_space c"
    unfolding u_def by (metis dropWhile_eq_Cons_conv)
qed

lemma trim_id:
  assumes "s \<noteq> []" and "\<not> is_space (hd s)" and "\<not> is_space (last s)"
  shows "trim s = s"
proof -
  have 1: "dropWhile is_space s = s"
    using assms(1,2) by (cases s) auto
  have "dropWhile is_space (rev s) = rev s"
    using assms(1,3) by (cases s rule: rev_cases) auto
  with 1 show ?thesis by (simp add: trim_def)
qed

lemma trim_last: "trim s \<noteq> [] \<Longrightarrow> \<not> is_space (last (trim s))"
proof -
  assume a: "trim s \<noteq> []"
  define w where "w = dropWhile is_space (rev (dropWhile is_space s))"
  have w: "trim s = rev w" by (simp add: trim_def w_def)
  with a have "w \<noteq> []" by simp
  then have "\<not> is_space (hd w)"
    unfolding w_def by (rule hd_dropWhile)
  with w \<open>w \<noteq> []\<close> show ?thesis by (simp add: last_rev)
qed

lemma trim_trim [simp]: "trim (trim s) = trim s"
proof (cases "trim s")
  case Nil
  have "trim [] = []" by (simp add: trim_def)
  with Nil show ?thesis by (simp only:)
next
  case (Cons c t)
  then have "\<not> is_space (hd (trim s))" using trim_hd [of s c t] by simp
  moreover have "\<not> is_space (last (trim s))" using Cons trim_last [of s] by simp
  ultimately show ?thesis using Cons by (intro trim_id) auto
qed

lemma length_trim: "length (trim s) \<le> length s"
proof -
  have "length (trim s) \<le> length (dropWhile is_space s)"
    unfolding trim_def using length_dropWhile_le [of is_space "rev (dropWhile is_space s)"] by simp
  also have "\<dots> \<le> length s" by (rule length_dropWhile_le)
  finally show ?thesis .
qed

subsection \<open>Decimal numerals\<close>

definition digit_char :: "nat \<Rightarrow> char" where
  "digit_char n = char_of (48 + n mod 10)"

fun show_nat :: "nat \<Rightarrow> string" where
  "show_nat n = (if n < 10 then [digit_char n] else show_nat (n div 10) @ [digit_char n])"

declare show_nat.simps [simp del]

definition show_int :: "int \<Rightarrow> string" where
  "show_int i = (if i < 0 then CHR ''-'' # show_nat (nat (- i)) else show_nat (nat i))"

text \<open>The UTF-8 bytes of an em dash.\<close>

definition em_dash :: string where
  "em_dash = [CHR 0xE2, CHR 0x80, CHR 0x94]"

subsection \<open>Dates\<close>

text \<open>
  \<open>Date.prototype.toISOString\<close> on milliseconds since the epoch. The days are counted in eras
  of 400 years of 146097 days that begin on 1 March of year 0; 719468 days before the epoch.
\<close>

definition year_of_era :: "int \<Rightarrow> int" where
  "year_of_era doe = (doe - doe div 1460 + doe div 36524 - doe div 146096) div 365"

definition civil_from_days :: "int \<Rightarrow> int \<times> int \<times> int" where
  "civil_from_days days = (let z = days + 719468; doe = z mod 146097; yoe = year_of_era doe;
     doy = doe - (365 * yoe + yoe div 4 - yoe div 100); mp = (5 * doy + 2) div 153;
     m = (if mp < 10 then mp + 3 else mp - 9) in
     (yoe + z div 146097 * 400 + (if m \<le> 2 then 1 else 0), m, doy - (153 * mp + 2) div 5 + 1))"

definition pad_left :: "nat \<Rightarrow> int \<Rightarrow> string" where
  "pad_left n i = (let s = show_nat (nat i) in replicate (n - length s) CHR ''0'' @ s)"

definition toISOString :: "int \<Rightarrow> string" where
  "toISOString t = (let ms = t mod 86400000; (y, m, d) = civil_from_days (t div 86400000) in
     (if 0 \<le> y \<and> y \<le> 9999 then pad_left 4 y else (if y < 0 then CHR ''-'' else CHR ''+'') # pad_left 6 \<bar>y\<bar>)
     @ CHR ''-'' # pad_left 2 m @ CHR ''-'' # pad_left 2 d
     @ CHR ''T'' # pad_left 2 (ms div 3600000) @ CHR '':'' # pad_left 2 (ms div 60000 mod 60)
     @ CHR '':'' # pad_left 2 (ms div 1000 mod 60) @ CHR ''.'' # pad_left 3 (ms mod 1000) @ ''Z'')"

lemma toISOString_examples:
  "toISOString 0 = ''1970-01-01T00:00:00.000Z''"
  "toISOString 1709210096789 = ''2024-02-29T12:34:56.789Z''"
  "toISOString 1798761599999 = ''2026-12-31T23:59:59.999Z''"
  "toISOString (-1) = ''1969-12-31T23:59:59.999Z''"
  by code_simp+

subsection \<open>Percent encoding\<close>

definition hex_upper :: "nat \<Rightarrow> char" where
  "hex_upper n = (if n < 10 then char_of (48 + n) else char_of (55 + n))"

definition is_alnum :: "char \<Rightarrow> bool" where
  "is_alnum c \<longleftrightarrow> is_digit c \<or> is_upper c \<or> is_lower c"

definition percent :: "char \<Rightarrow> string" where
  "percent c = [CHR ''%'', hex_upper (code c div 16), hex_upper (code c mod 16)]"

text \<open>\<open>encodeURIComponent\<close>: the marks \<open>-_.!~*'()\<close> and letters and digits stay.\<close>

definition uri_mark :: "char \<Rightarrow> bool" where
  "uri_mark c \<longleftrightarrow> code c \<in> {45, 95, 46, 33, 126, 42, 39, 40, 41}"

definition encodeURIComponent :: "string \<Rightarrow> string" where
  "encodeURIComponent s = concat (map (\<lambda>c. if is_alnum c \<or> uri_mark c then [c] else percent c) s)"

text \<open>\<open>URLSearchParams.toString\<close>: form encoding, a space is \<open>+\<close>.\<close>

definition form_encode :: "string \<Rightarrow> string" where
  "form_encode s = concat (map (\<lambda>c. if is_alnum c \<or> code c \<in> {42, 45, 46, 95} then [c]
     else if code c = 32 then ''+'' else percent c) s)"

definition urlsearch :: "(string \<times> string) list \<Rightarrow> string" where
  "urlsearch ps = (case map (\<lambda>(k, v). form_encode k @ ''='' @ form_encode v) ps of
     [] \<Rightarrow> [] | w # ws \<Rightarrow> w @ concat (map (\<lambda>x. ''&'' @ x) ws))"

lemma percent_chars: "x \<in> set (percent c) \<Longrightarrow> x = CHR ''%'' \<or> is_digit x \<or> is_upper x"
proof -
  assume x: "x \<in> set (percent c)"
  have c: "code c < 256" by (simp add: code_def)
  have h: "is_digit (hex_upper n) \<or> is_upper (hex_upper n)" if "n < 16" for n
  proof -
    have "n \<in> {0..<16}" using that by simp
    then show ?thesis
      unfolding hex_upper_def is_digit_def is_upper_def code_def by auto
  qed
  from c have "code c div 16 < 16" "code c mod 16 < 16" by auto
  then have "is_digit (hex_upper (code c div 16)) \<or> is_upper (hex_upper (code c div 16))"
    and "is_digit (hex_upper (code c mod 16)) \<or> is_upper (hex_upper (code c mod 16))"
    using h by blast+
  then show ?thesis using x by (auto simp: percent_def)
qed

text \<open>An encoded component has no character that ends or splits a path segment.\<close>

lemma encodeURIComponent_segment:
  "CHR ''/'' \<notin> set (encodeURIComponent s) \<and> CHR ''?'' \<notin> set (encodeURIComponent s)
   \<and> CHR ''#'' \<notin> set (encodeURIComponent s)"
proof -
  have "x \<noteq> CHR ''/'' \<and> x \<noteq> CHR ''?'' \<and> x \<noteq> CHR ''#''"
    if "x \<in> set (encodeURIComponent s)" for x
  proof -
    from that obtain c where c: "c \<in> set s"
      and x: "x \<in> set (if is_alnum c \<or> uri_mark c then [c] else percent c)"
      by (auto simp: encodeURIComponent_def)
    show ?thesis
    proof (cases "is_alnum c \<or> uri_mark c")
      case True
      with x have "x = c" by simp
      with True show ?thesis
        by (auto simp: is_alnum_def uri_mark_def is_digit_def is_upper_def is_lower_def code_def)
    next
      case False
      with x have "x = CHR ''%'' \<or> is_digit x \<or> is_upper x" using percent_chars by simp
      then show ?thesis by (auto simp: is_digit_def is_upper_def code_def)
    qed
  qed
  then show ?thesis by blast
qed

subsection \<open>Text of values\<close>

text \<open>
  The text of a number: a whole number, or the digits of a terminating decimal fraction
  (at most 17 places).
\<close>

fun frac_digits :: "nat \<Rightarrow> rat \<Rightarrow> string" where
  "frac_digits 0 x = []"
| "frac_digits (Suc n) x = (if x = 0 then [] else digit_char (nat \<lfloor>x * 10\<rfloor>) # frac_digits n (x * 10 - of_int \<lfloor>x * 10\<rfloor>))"

definition num_text :: "rat \<Rightarrow> string" where
  "num_text x = (let a = \<bar>x\<bar>; i = \<lfloor>a\<rfloor>; f = a - of_int i in
     (if x < 0 then ''-'' else []) @ show_nat (nat i) @ (if f = 0 then [] else CHR ''.'' # frac_digits 17 f))"

text \<open>\<open>JSON.stringify\<close>.\<close>

definition hex_lower :: "nat \<Rightarrow> char" where
  "hex_lower n = (if n < 10 then char_of (48 + n) else char_of (87 + n))"

definition json_escape :: "char \<Rightarrow> string" where
  "json_escape c = (if code c = 34 \<or> code c = 92 then [char_of (92 :: nat), c]
     else if code c = 8 then [char_of (92 :: nat), CHR ''b'']
     else if code c = 9 then [char_of (92 :: nat), CHR ''t'']
     else if code c = 10 then [char_of (92 :: nat), CHR ''n'']
     else if code c = 12 then [char_of (92 :: nat), CHR ''f'']
     else if code c = 13 then [char_of (92 :: nat), CHR ''r'']
     else if code c < 32 then char_of (92 :: nat) # ''u00'' @ [hex_lower (code c div 16), hex_lower (code c mod 16)]
     else [c])"

definition quote_json :: "string \<Rightarrow> string" where
  "quote_json s = CHR 0x22 # concat (map json_escape s) @ [CHR 0x22]"

fun stringify :: "json \<Rightarrow> string"
  and stringify_items :: "json list \<Rightarrow> string"
  and stringify_fields :: "(string \<times> json) list \<Rightarrow> string" where
  "stringify JNull = ''null''"
| "stringify (JBool b) = (if b then ''true'' else ''false'')"
| "stringify (JNum n) = num_text n"
| "stringify (JStr s) = quote_json s"
| "stringify (JArr xs) = ''['' @ stringify_items xs @ '']''"
| "stringify (JObj ps) = ''{'' @ stringify_fields ps @ ''}''"
| "stringify_items [] = []"
| "stringify_items [x] = stringify x"
| "stringify_items (x # y # xs) = stringify x @ '','' @ stringify_items (y # xs)"
| "stringify_fields [] = []"
| "stringify_fields [(k, v)] = quote_json k @ '':'' @ stringify v"
| "stringify_fields ((k, v) # q # ps) = quote_json k @ '':'' @ stringify v @ '','' @ stringify_fields (q # ps)"

end
