(* ===== verification/Prelude.thy ===== *)
theory Prelude
  imports JS
begin

text \<open>
  Exceptions, actions and the rules every component proof uses. An action takes the state
  and gives the exception or the value together with the state it leaves behind: in the
  service a thrown exception does not undo the writes that were made before it.
\<close>

named_theorems act_simps

subsection \<open>Exceptions\<close>

text \<open>
  The bodies of the NestJS exceptions are a message or an object with a code and a
  message. \<open>AxiosError\<close> carries the data of the error response when there was one,
  \<open>Failure\<close> is any other \<open>Error\<close>.
\<close>

datatype exn_body = Msg string | Coded string string

datatype exn =
    BadRequestException exn_body
  | UnauthorizedException exn_body
  | ForbiddenException exn_body
  | NotFoundException exn_body
  | ConflictException exn_body
  | AxiosError "json option" string
  | Failure string

fun exn_status :: "exn \<Rightarrow> nat" where
  "exn_status (BadRequestException _) = 400"
| "exn_status (UnauthorizedException _) = 401"
| "exn_status (ForbiddenException _) = 403"
| "exn_status (NotFoundException _) = 404"
| "exn_status (ConflictException _) = 409"
| "exn_status _ = 500"

fun body_message :: "exn_body \<Rightarrow> string" where
  "body_message (Msg m) = m"
| "body_message (Coded c m) = m"

text \<open>\<open>(error as Error).message\<close>.\<close>

fun exn_message :: "exn \<Rightarrow> string" where
  "exn_message (BadRequestException b) = body_message b"
| "exn_message (UnauthorizedException b) = body_message b"
| "exn_message (ForbiddenException b) = body_message b"
| "exn_message (NotFoundException b) = body_message b"
| "exn_message (ConflictException b) = body_message b"
| "exn_message (AxiosError _ m) = m"
| "exn_message (Failure m) = m"

type_synonym 'a result = "exn + 'a"

subsection \<open>Actions\<close>

type_synonym ('s, 'a) act = "'s \<Rightarrow> 'a result \<times> 's"

definition ret :: "'a \<Rightarrow> ('s, 'a) act" where
  "ret x s = (Inr x, s)"

definition throw :: "exn \<Rightarrow> ('s, 'a) act" where
  "throw e s = (Inl e, s)"

definition andThen :: "('s, 'a) act \<Rightarrow> ('a \<Rightarrow> ('s, 'b) act) \<Rightarrow> ('s, 'b) act" where
  "andThen m f s = (case m s of (Inl e, t) \<Rightarrow> (Inl e, t) | (Inr x, t) \<Rightarrow> f x t)"

definition catch :: "('s, 'a) act \<Rightarrow> (exn \<Rightarrow> ('s, 'a) act) \<Rightarrow> ('s, 'a) act" where
  "catch m h s = (case m s of (Inl e, t) \<Rightarrow> h e t | (Inr x, t) \<Rightarrow> (Inr x, t))"

definition guardA :: "bool \<Rightarrow> exn \<Rightarrow> ('s, unit) act" where
  "guardA b e = (if b then ret () else throw e)"

definition liftR :: "'a result \<Rightarrow> ('s, 'a) act" where
  "liftR r s = (r, s)"

text \<open>An action on one part of the state.\<close>

definition zoom :: "('s \<Rightarrow> 't) \<Rightarrow> ('t \<Rightarrow> 's \<Rightarrow> 's) \<Rightarrow> ('t, 'a) act \<Rightarrow> ('s, 'a) act" where
  "zoom get put m s = (case m (get s) of (r, t) \<Rightarrow> (r, put t s))"

text \<open>The two parts of a pair.\<close>

definition onFst :: "('s, 'a) act \<Rightarrow> ('s \<times> 't, 'a) act" where
  "onFst m = zoom fst (\<lambda>x s. (x, snd s)) m"

definition onSnd :: "('t, 'a) act \<Rightarrow> ('s \<times> 't, 'a) act" where
  "onSnd m = zoom snd (\<lambda>x s. (fst s, x)) m"

lemma act_basic [act_simps, simp]:
  "ret x s = (Inr x, s)" "throw e s = (Inl e, s)" "liftR r s = (r, s)"
  "guardA True e s = (Inr (), s)" "guardA False e s = (Inl e, s)"
  by (simp_all add: ret_def throw_def liftR_def guardA_def)

lemma guardA_iff [act_simps]:
  "guardA b e s = (Inr u, t) \<longleftrightarrow> b \<and> t = s"
  "guardA b e s = (Inl e', t) \<longleftrightarrow> \<not> b \<and> e' = e \<and> t = s"
  by (auto simp: guardA_def)

lemma andThen_Inr [act_simps]:
  "andThen m f s = (Inr y, t) \<longleftrightarrow> (\<exists>x u. m s = (Inr x, u) \<and> f x u = (Inr y, t))"
  by (auto simp: andThen_def split: prod.splits sum.splits)

lemma andThen_Inl [act_simps]:
  "andThen m f s = (Inl e, t) \<longleftrightarrow>
     m s = (Inl e, t) \<or> (\<exists>x u. m s = (Inr x, u) \<and> f x u = (Inl e, t))"
  by (auto simp: andThen_def split: prod.splits sum.splits)

lemma andThen_step [simp]:
  "m s = (Inr x, u) \<Longrightarrow> andThen m f s = f x u"
  "m s = (Inl e, u) \<Longrightarrow> andThen m f s = (Inl e, u)"
  by (simp_all add: andThen_def)

lemma catch_Inr [act_simps]:
  "catch m h s = (Inr y, t) \<longleftrightarrow>
     m s = (Inr y, t) \<or> (\<exists>e u. m s = (Inl e, u) \<and> h e u = (Inr y, t))"
  by (auto simp: catch_def split: prod.splits sum.splits)

lemma catch_step [simp]:
  "m s = (Inr x, u) \<Longrightarrow> catch m h s = (Inr x, u)"
  "m s = (Inl e, u) \<Longrightarrow> catch m h s = h e u"
  by (simp_all add: catch_def)

lemma zoom_eq [act_simps]:
  "zoom get put m s = (r, s') \<longleftrightarrow> (\<exists>t. m (get s) = (r, t) \<and> s' = put t s)"
  by (auto simp: zoom_def split: prod.splits)

lemma onFst_eq [act_simps]:
  "onFst m s = (r, s') \<longleftrightarrow> (\<exists>t. m (fst s) = (r, t) \<and> s' = (t, snd s))"
  by (auto simp: onFst_def zoom_eq)

lemma onSnd_eq [act_simps]:
  "onSnd m s = (r, s') \<longleftrightarrow> (\<exists>t. m (snd s) = (r, t) \<and> s' = (fst s, t))"
  by (auto simp: onSnd_def zoom_eq)

lemma andThen_throw [simp]: "andThen (throw e) f = throw e"
  by (simp add: fun_eq_iff)

lemma andThen_ret [simp]: "andThen (ret x) f = f x"
  by (simp add: fun_eq_iff)

subsection \<open>Preserved predicates\<close>

text \<open>An action keeps \<open>I\<close> whether it returns or throws.\<close>

definition preserves :: "('s \<Rightarrow> bool) \<Rightarrow> ('s, 'a) act \<Rightarrow> bool" where
  "preserves I m \<longleftrightarrow> (\<forall>s. I s \<longrightarrow> I (snd (m s)))"

lemma preservesI: "(\<And>s r t. I s \<Longrightarrow> m s = (r, t) \<Longrightarrow> I t) \<Longrightarrow> preserves I m"
  unfolding preserves_def by (metis surjective_pairing)

lemma preservesD: "preserves I m \<Longrightarrow> I s \<Longrightarrow> m s = (r, t) \<Longrightarrow> I t"
  unfolding preserves_def by (metis snd_conv)

lemma preserves_ret [intro, simp]: "preserves I (ret x)"
  by (simp add: preserves_def)

lemma preserves_throw [intro, simp]: "preserves I (throw e)"
  by (simp add: preserves_def)

lemma preserves_liftR [intro, simp]: "preserves I (liftR r)"
  by (simp add: preserves_def)

lemma preserves_guardA [intro, simp]: "preserves I (guardA b e)"
  by (simp add: guardA_def)

lemma preserves_andThen [intro]:
  assumes "preserves I m" and "\<And>x. preserves I (f x)"
  shows "preserves I (andThen m f)"
proof (rule preservesI)
  fix s r t
  assume s: "I s" and e: "andThen m f s = (r, t)"
  obtain r1 u where m: "m s = (r1, u)" by fastforce
  have u: "I u" using preservesD [OF assms(1) s m] .
  show "I t"
  proof (cases r1)
    case (Inl x)
    with m e u show ?thesis by simp
  next
    case (Inr x)
    with m e have "f x u = (r, t)" by simp
    then show ?thesis using preservesD [OF assms(2) u] by blast
  qed
qed

lemma preserves_catch [intro]:
  assumes "preserves I m" and "\<And>e. preserves I (h e)"
  shows "preserves I (catch m h)"
proof (rule preservesI)
  fix s r t
  assume s: "I s" and e: "catch m h s = (r, t)"
  obtain r1 u where m: "m s = (r1, u)" by fastforce
  have u: "I u" using preservesD [OF assms(1) s m] .
  show "I t"
  proof (cases r1)
    case (Inl x)
    with m e have "h x u = (r, t)" by simp
    then show ?thesis using preservesD [OF assms(2) u] by blast
  next
    case (Inr x)
    with m e u show ?thesis by simp
  qed
qed

lemma preserves_if [intro]:
  "preserves I m \<Longrightarrow> preserves I n \<Longrightarrow> preserves I (if b then m else n)"
  by simp

lemma preserves_option [intro]:
  "preserves I n \<Longrightarrow> (\<And>x. preserves I (m x)) \<Longrightarrow>
   preserves I (case v of None \<Rightarrow> n | Some x \<Rightarrow> m x)"
  by (cases v) auto

text \<open>
  Triples: from a state with \<open>I\<close> and \<open>P\<close> the action ends, returning or throwing, in a
  state with \<open>I\<close>; when it returns, its value and state satisfy \<open>Q\<close>.
\<close>

definition triple ::
  "('s \<Rightarrow> bool) \<Rightarrow> ('s \<Rightarrow> bool) \<Rightarrow> ('s, 'a) act \<Rightarrow> ('a \<Rightarrow> 's \<Rightarrow> bool) \<Rightarrow> bool" where
  "triple I P m Q \<longleftrightarrow> (\<forall>s r t. I s \<longrightarrow> P s \<longrightarrow> m s = (r, t) \<longrightarrow> I t \<and> (\<forall>x. r = Inr x \<longrightarrow> Q x t))"

lemma tripleI:
  "(\<And>s r t. I s \<Longrightarrow> P s \<Longrightarrow> m s = (r, t) \<Longrightarrow> I t \<and> (\<forall>x. r = Inr x \<longrightarrow> Q x t)) \<Longrightarrow> triple I P m Q"
  unfolding triple_def by blast

lemma tripleD: "triple I P m Q \<Longrightarrow> I s \<Longrightarrow> P s \<Longrightarrow> m s = (r, t) \<Longrightarrow> I t"
  unfolding triple_def by blast

lemma tripleD_Inr: "triple I P m Q \<Longrightarrow> I s \<Longrightarrow> P s \<Longrightarrow> m s = (Inr x, t) \<Longrightarrow> Q x t"
  unfolding triple_def by blast

lemma triple_ret: "(\<And>s. I s \<Longrightarrow> P s \<Longrightarrow> Q x s) \<Longrightarrow> triple I P (ret x) Q"
  by (auto simp: triple_def)

lemma triple_throw: "triple I P (throw e) Q"
  by (auto simp: triple_def)

lemma triple_guardA: "(\<And>s. b \<Longrightarrow> I s \<Longrightarrow> P s \<Longrightarrow> Q () s) \<Longrightarrow> triple I P (guardA b e) Q"
  by (auto simp: triple_def guardA_def)

lemma triple_guard: "triple I P (guardA b e) (\<lambda>_. P)"
  by (auto simp: triple_def guardA_def)

lemma triple_andThen:
  assumes m: "triple I P m Q" and f: "\<And>x. triple I (Q x) (f x) Q'"
  shows "triple I P (andThen m f) Q'"
proof (rule tripleI)
  fix s r t
  assume s: "I s" "P s" and e: "andThen m f s = (r, t)"
  obtain r1 u where ms: "m s = (r1, u)" by fastforce
  have u: "I u" using tripleD [OF m s ms] .
  show "I t \<and> (\<forall>x. r = Inr x \<longrightarrow> Q' x t)"
  proof (cases r1)
    case (Inl x)
    with ms e u show ?thesis by auto
  next
    case (Inr x)
    with ms tripleD_Inr [OF m s] have "Q x u" by simp
    moreover from ms e Inr have "f x u = (r, t)" by simp
    ultimately show ?thesis using f u unfolding triple_def by blast
  qed
qed

lemma triple_catch:
  assumes m: "triple I P m Q" and h: "\<And>e. triple I (\<lambda>_. True) (h e) Q"
  shows "triple I P (catch m h) Q"
proof (rule tripleI)
  fix s r t
  assume s: "I s" "P s" and e: "catch m h s = (r, t)"
  obtain r1 u where ms: "m s = (r1, u)" by fastforce
  have u: "I u" using tripleD [OF m s ms] .
  show "I t \<and> (\<forall>x. r = Inr x \<longrightarrow> Q x t)"
  proof (cases r1)
    case (Inl x)
    with ms e have "h x u = (r, t)" by simp
    then show ?thesis using h u unfolding triple_def by blast
  next
    case (Inr x)
    with ms e tripleD_Inr [OF m s] u show ?thesis by simp
  qed
qed

lemma triple_weaken:
  "triple I P m Q \<Longrightarrow> (\<And>s. P' s \<Longrightarrow> P s) \<Longrightarrow> (\<And>x s. Q x s \<Longrightarrow> Q' x s) \<Longrightarrow> triple I P' m Q'"
  unfolding triple_def by blast

lemma triple_pure: "(p \<Longrightarrow> triple I P m Q) \<Longrightarrow> triple I (\<lambda>s. p \<and> P s) m Q"
  unfolding triple_def by blast

lemma triple_preserves: "preserves I m \<Longrightarrow> triple I P m (\<lambda>_ _. True)"
  unfolding triple_def by (blast dest: preservesD)

lemma triple_if: "(b \<Longrightarrow> triple I P m Q) \<Longrightarrow> (\<not> b \<Longrightarrow> triple I P n Q) \<Longrightarrow> triple I P (if b then m else n) Q"
  by simp

text \<open>An action on a part of the state that neither \<open>I\<close> nor \<open>P\<close> looks at.\<close>

lemma triple_frame:
  "(\<And>x s. I (put x s) = I s) \<Longrightarrow> (\<And>x s. P (put x s) = P s) \<Longrightarrow> triple I P (zoom get put m) (\<lambda>_. P)"
  by (auto simp: triple_def zoom_def split: prod.splits)

text \<open>Loops over a list, in order, stopping at the first exception.\<close>

fun forA :: "'a list \<Rightarrow> ('a \<Rightarrow> ('s, 'b) act) \<Rightarrow> ('s, 'b list) act" where
  "forA [] f = ret []"
| "forA (x # xs) f = andThen (f x) (\<lambda>y. andThen (forA xs f) (\<lambda>ys. ret (y # ys)))"

lemma preserves_forA: "(\<And>x. x \<in> set xs \<Longrightarrow> preserves I (f x)) \<Longrightarrow> preserves I (forA xs f)"
  by (induction xs) (auto intro!: preserves_andThen)

text \<open>
  The other direction: from a state with \<open>P\<close> the action returns, with a value and a state
  that satisfy \<open>Q\<close>.
\<close>

definition succeeds :: "('s \<Rightarrow> bool) \<Rightarrow> ('s, 'a) act \<Rightarrow> ('a \<Rightarrow> 's \<Rightarrow> bool) \<Rightarrow> bool" where
  "succeeds P m Q \<longleftrightarrow> (\<forall>s. P s \<longrightarrow> (\<exists>x t. m s = (Inr x, t) \<and> Q x t))"

lemma succeedsD: "succeeds P m Q \<Longrightarrow> P s \<Longrightarrow> \<exists>x t. m s = (Inr x, t) \<and> Q x t"
  unfolding succeeds_def by blast

lemma succeeds_ret: "(\<And>s. P s \<Longrightarrow> Q x s) \<Longrightarrow> succeeds P (ret x) Q"
  by (simp add: succeeds_def)

lemma succeeds_guardA: "(\<And>s. P s \<Longrightarrow> b) \<Longrightarrow> succeeds P (guardA b e) (\<lambda>_. P)"
  by (auto simp: succeeds_def guardA_def)

lemma succeeds_andThen:
  assumes m: "succeeds P m Q" and f: "\<And>x. succeeds (Q x) (f x) Q'"
  shows "succeeds P (andThen m f) Q'"
  unfolding succeeds_def
proof (intro allI impI)
  fix s
  assume "P s"
  with succeedsD [OF m] obtain x t where m1: "m s = (Inr x, t)" and "Q x t" by blast
  with succeedsD [OF f] obtain y u where f1: "f x t = (Inr y, u)" and "Q' y u" by blast
  with m1 show "\<exists>x t. andThen m f s = (Inr x, t) \<and> Q' x t" by auto
qed

lemma succeeds_catch: "succeeds P m Q \<Longrightarrow> succeeds P (catch m h) Q"
  unfolding succeeds_def by (metis catch_step(1))

lemma succeeds_weaken:
  "succeeds P m Q \<Longrightarrow> (\<And>s. P' s \<Longrightarrow> P s) \<Longrightarrow> (\<And>x s. Q x s \<Longrightarrow> Q' x s) \<Longrightarrow> succeeds P' m Q'"
  unfolding succeeds_def by meson

lemma succeeds_pure: "(p \<Longrightarrow> succeeds P m Q) \<Longrightarrow> succeeds (\<lambda>s. p \<and> P s) m Q"
  unfolding succeeds_def by blast

lemma succeeds_forA_Cons:
  "succeeds P (f x) (\<lambda>_. Q) \<Longrightarrow> succeeds Q (forA xs f) (\<lambda>_. Q') \<Longrightarrow> succeeds P (forA (x # xs) f) (\<lambda>_. Q')"
  by (simp, rule succeeds_andThen, assumption, rule succeeds_andThen, assumption, rule succeeds_ret)

lemma succeeds_zoom:
  "succeeds P m Q \<Longrightarrow> (\<And>x s. get (put x s) = x) \<Longrightarrow>
   succeeds (\<lambda>s. P (get s)) (zoom get put m) (\<lambda>x s. Q x (get s))"
  unfolding succeeds_def zoom_def by (metis (mono_tags, lifting) case_prod_conv)

text \<open>An action that succeeds on its own part and leaves the rest of the state alone.\<close>

lemma succeeds_zoom_frame:
  "(\<And>t. \<exists>x t'. m t = (Inr x, t') \<and> Q x) \<Longrightarrow> (\<And>x s. P (put x s) = P s) \<Longrightarrow>
   succeeds P (zoom get put m) (\<lambda>x s. Q x \<and> P s)"
  unfolding succeeds_def zoom_def by (metis (mono_tags, lifting) case_prod_conv)

lemma forA_length: "forA xs f s = (Inr ys, t) \<Longrightarrow> length ys = length xs"
  by (induction xs arbitrary: s ys) (auto simp: andThen_Inr)

subsection \<open>Options and lists\<close>

text \<open>\<open>a ?? b\<close>.\<close>

definition orElse :: "'a option \<Rightarrow> 'a \<Rightarrow> 'a" where
  "orElse v d = (case v of None \<Rightarrow> d | Some x \<Rightarrow> x)"

lemma orElse_simps [simp]: "orElse None d = d" "orElse (Some x) d = x"
  by (simp_all add: orElse_def)

text \<open>A string-valued property is truthy when present and not empty.\<close>

definition truthy :: "string option \<Rightarrow> bool" where
  "truthy v \<longleftrightarrow> (case v of None \<Rightarrow> False | Some s \<Rightarrow> s \<noteq> [])"

lemma truthy_simps [simp]: "truthy None = False" "truthy (Some s) = (s \<noteq> [])"
  by (simp_all add: truthy_def)

lemma truthyD: "truthy v \<Longrightarrow> \<exists>s. v = Some s \<and> s \<noteq> []"
  by (cases v) auto

end
