(* ===== verification/Common_Utils.thy ===== *)
theory Common_Utils
  imports Prelude
begin

text \<open>
  \<open>common/utils\<close>, \<open>common/constants\<close>, \<open>common/middleware\<close>, \<open>config/api-path.config.ts\<close>
  and \<open>common/tenant\<close>: dates, masking, the regular expressions, the normalisation of the
  bearer header and the route prefixes. Times are milliseconds since the epoch.
\<close>

subsection \<open>date.util.ts\<close>

definition addMinutes :: "int \<Rightarrow> int \<Rightarrow> int" where
  "addMinutes date minutes = date + minutes * 60000"

definition isExpired :: "int \<Rightarrow> int \<Rightarrow> bool" where
  "isExpired now date \<longleftrightarrow> date < now"

subsection \<open>regex.constant.ts\<close>

definition all_digits :: "string \<Rightarrow> bool" where
  "all_digits s \<longleftrightarrow> list_all is_digit s"

text \<open>\<open>/^[6-9]\d{9}$/\<close>\<close>

fun re_mobile :: "string \<Rightarrow> bool" where
  "re_mobile [] = False"
| "re_mobile (c # cs) = (54 \<le> code c \<and> code c \<le> 57 \<and> length cs = 9 \<and> all_digits cs)"

text \<open>\<open>/^\d{6}$/\<close> and the digit patterns of the bill DTO\<close>

definition re_digits :: "nat \<Rightarrow> string \<Rightarrow> bool" where
  "re_digits n s \<longleftrightarrow> length s = n \<and> all_digits s"

definition re_otp :: "string \<Rightarrow> bool" where
  "re_otp = re_digits 6"

text \<open>\<open>/^[A-Z]{5}[0-9]{4}[A-Z]$/\<close>\<close>

definition re_pan :: "string \<Rightarrow> bool" where
  "re_pan s \<longleftrightarrow> length s = 10 \<and> list_all is_upper (take 5 s)
     \<and> all_digits (take 4 (drop 5 s)) \<and> list_all is_upper (drop 9 s)"

text \<open>\<open>/^[^\s@]+@[^\s@]+\.[^\s@]+$/\<close>: a local part, one \<open>@\<close>, a domain with an inner dot.\<close>

definition no_ws_at :: "string \<Rightarrow> bool" where
  "no_ws_at s \<longleftrightarrow> list_all (\<lambda>c. \<not> is_space c \<and> c \<noteq> CHR ''@'') s"

definition inner_dot :: "string \<Rightarrow> bool" where
  "inner_dot d \<longleftrightarrow> list_ex (\<lambda>i. d ! i = CHR ''.'') [1 ..< length d - 1]"

definition re_email :: "string \<Rightarrow> bool" where
  "re_email s \<longleftrightarrow> (case split_on CHR ''@'' s of
      [u, d] \<Rightarrow> u \<noteq> [] \<and> no_ws_at u \<and> no_ws_at d \<and> inner_dot d
    | _ \<Rightarrow> False)"

subsection \<open>masking.util.ts\<close>

text \<open>
  \<open>mobile.replace(/(\d{2})\d+(\d{2})/, '$1******$2')\<close>: the leftmost run of at least five
  digits; the greedy \<open>\d+\<close> gives back just the last two.
\<close>

fun maskMobile :: "string \<Rightarrow> string" where
  "maskMobile [] = []"
| "maskMobile (c # cs) =
     (let run = takeWhile is_digit (c # cs) in
      if 5 \<le> length run
      then take 2 run @ ''******'' @ drop (length run - 2) run @ drop (length run) (c # cs)
      else c # maskMobile cs)"

text \<open>\<open>const [user, domain] = email.split('@')\<close>\<close>

definition maskEmail :: "string \<Rightarrow> string" where
  "maskEmail email = (case split_on CHR ''@'' email of
      user # domain # rest \<Rightarrow> if domain = [] then email else take 2 user @ ''***@'' @ domain
    | _ \<Rightarrow> email)"

subsection \<open>normalize-bearer.middleware.ts\<close>

text \<open>\<open>/^bearer\s+/i.test(token)\<close> and the matching \<open>replace(...)\<close> followed by \<open>trim()\<close>.\<close>

definition bearer_prefixed :: "string \<Rightarrow> bool" where
  "bearer_prefixed t \<longleftrightarrow> toLowerCase (take 6 t) = ''bearer'' \<and> drop 6 t \<noteq> [] \<and> is_space (hd (drop 6 t))"

definition strip_bearer :: "string \<Rightarrow> string" where
  "strip_bearer t = trim (trimStart (drop 6 t))"

lemma strip_bearer_shorter: "bearer_prefixed t \<Longrightarrow> length (strip_bearer t) < length t"
proof -
  assume "bearer_prefixed t"
  then have "drop 6 t \<noteq> []" by (simp add: bearer_prefixed_def)
  have "length (strip_bearer t) \<le> length (trimStart (drop 6 t))"
    unfolding strip_bearer_def by (rule length_trim)
  also have "\<dots> \<le> length (drop 6 t)"
    unfolding trimStart_def by (rule length_dropWhile_le)
  also have "\<dots> < length t" using \<open>drop 6 t \<noteq> []\<close> by simp
  finally show ?thesis .
qed

function strip_bearers :: "string \<Rightarrow> string" where
  "strip_bearers t = (if bearer_prefixed t then strip_bearers (strip_bearer t) else t)"
  by pat_completeness auto
termination
  by (relation "measure length") (auto intro: strip_bearer_shorter)

declare strip_bearers.simps [simp del]

text \<open>The new value of the \<open>authorization\<close> header.\<close>

definition normalizeBearer :: "string option \<Rightarrow> string option" where
  "normalizeBearer header = (case header of
      None \<Rightarrow> None
    | Some h \<Rightarrow> if h = [] then Some h
        else (let token = strip_bearers (trim h)
              in if token = [] then Some h else Some (''Bearer '' @ token)))"

lemma strip_bearers_done: "\<not> bearer_prefixed (strip_bearers t)"
proof (induction t rule: strip_bearers.induct)
  case (1 t)
  then show ?case by (subst strip_bearers.simps) auto
qed

lemma strip_bearers_trimmed: "trim t = t \<Longrightarrow> trim (strip_bearers t) = strip_bearers t"
proof (induction t rule: strip_bearers.induct)
  case (1 t)
  show ?case
  proof (cases "bearer_prefixed t")
    case True
    have "trim (strip_bearer t) = strip_bearer t" by (simp add: strip_bearer_def)
    with 1 True show ?thesis by (simp add: strip_bearers.simps [of t])
  next
    case False
    with 1 show ?thesis by (simp add: strip_bearers.simps [of t])
  qed
qed

lemma strip_bearers_Bearer:
  assumes "token \<noteq> []" and "trim token = token" and "\<not> bearer_prefixed token"
  shows "strip_bearers (trim (''Bearer '' @ token)) = token"
proof -
  have "\<not> is_space (hd token)"
    using trim_hd [of token "hd token" "tl token"] assms(1,2) by simp
  moreover have "\<not> is_space (last token)"
    using trim_last [of token] assms(1,2) by simp
  ultimately have t: "trim (''Bearer '' @ token) = ''Bearer '' @ token"
    using assms(1) by (intro trim_id) (auto simp: is_space_def code_def)
  have p: "bearer_prefixed (''Bearer '' @ token)"
    by (simp add: bearer_prefixed_def toLowerCase_def lower_char_def is_upper_def is_space_def
        code_def char_of_def bit_iff_odd)
  have "trimStart ('' '' @ token) = token"
    using \<open>\<not> is_space (hd token)\<close> assms(1)
    by (cases token) (auto simp: trimStart_def is_space_def code_def)
  then have s: "strip_bearer (''Bearer '' @ token) = token"
    using assms(2) by (simp add: strip_bearer_def)
  have "strip_bearers (''Bearer '' @ token) = strip_bearers token"
    using p s by (subst strip_bearers.simps) simp
  also have "\<dots> = token"
    using assms(3) by (subst strip_bearers.simps) simp
  finally show ?thesis using t by simp
qed

subsection \<open>api-path.config.ts\<close>

definition strip_slashes :: "string \<Rightarrow> string" where
  "strip_slashes s = rev (dropWhile (\<lambda>c. c = CHR ''/'') (rev (dropWhile (\<lambda>c. c = CHR ''/'') s)))"

text \<open>The argument is \<open>process.env.API_GLOBAL_PREFIX\<close>.\<close>

definition resolveApiGlobalPrefix :: "string option \<Rightarrow> string" where
  "resolveApiGlobalPrefix env =
     (let raw = strip_slashes (orElse env ''api/v1'') in
      if startsWith ''identity/'' raw
      then (let r = drop (length ''identity/'') raw in if r = [] then ''api/v1'' else r)
      else if raw = [] then ''api/v1'' else raw)"

definition resolveGatewayPathPrefix :: "string option \<Rightarrow> string" where
  "resolveGatewayPathPrefix env = strip_slashes (orElse env [])"

definition buildPublicPath :: "string \<Rightarrow> string \<Rightarrow> string" where
  "buildPublicPath gatewayPrefix appPath =
     (let p = dropWhile (\<lambda>c. c = CHR ''/'') appPath in
      if gatewayPrefix = [] then (if p = [] then ''/'' else ''/'' @ p)
      else if p = [] then ''/'' @ gatewayPrefix else ''/'' @ gatewayPrefix @ ''/'' @ p)"

subsection \<open>bank-config.service.ts, tenant-context.middleware.ts\<close>

record bank_config =
  bankId :: string
  bankName :: string
  keycloakRealm :: string

text \<open>The environment variables \<open>BANK_ID\<close>, \<open>BANK_NAME\<close> and the configured realm.\<close>

definition getConfig :: "string option \<Rightarrow> string option \<Rightarrow> string option \<Rightarrow> string option \<Rightarrow> bank_config" where
  "getConfig envId envName realm requested =
     \<lparr>bankId = orElse envId ''default'', bankName = orElse envName ''Bharat Banking'',
      keycloakRealm = orElse realm ''bharat-banking''\<rparr>"

subsection \<open>Constants\<close>

definition IDEMPOTENCY_KEY_HEADER :: string where
  "IDEMPOTENCY_KEY_HEADER = ''idempotency-key''"

subsection \<open>Facts about the header and the masks\<close>

lemma maskMobile_10:
  assumes "length s = 10" and "all_digits s"
  shows "maskMobile s = take 2 s @ ''******'' @ drop 8 s"
proof -
  have "takeWhile is_digit s = s"
    using assms(2) by (simp add: all_digits_def list_all_iff)
  moreover obtain c cs where "s = c # cs" using assms(1) by (cases s) auto
  ultimately show ?thesis using assms(1) by (simp add: Let_def)
qed

end
