(* ===== verification/Rbac_Constants.thy ===== *)
theory Rbac_Constants
  imports Prelude
begin

text \<open>
  \<open>rbac/constants/rbac.constants.ts\<close>: the role lists, the role hierarchy and the checks
  on an actor. An actor is the decoded token: its \<open>sub\<close> when that is a string, the
  list \<open>realm_access.roles\<close> and the list \<open>roles\<close> when present.
\<close>

record actor =
  act_sub :: "string option"
  act_realm_roles :: "string list option"
  act_roles :: "string list option"

subsection \<open>Role lists\<close>

definition SUPERADMIN_ROLES :: "string list" where
  "SUPERADMIN_ROLES = [''BANK_SUPER_ADMIN'', ''SUPERADMIN'', ''superadmin'']"

definition DELEGATING_ADMIN_ROLES :: "string list" where
  "DELEGATING_ADMIN_ROLES = [''BANK_ADMIN'', ''BANK_SUPER_ADMIN'']"

definition BANK_CATALOG_ADMIN_ROLES :: "string list" where
  "BANK_CATALOG_ADMIN_ROLES = [''BANK_SUPER_ADMIN'', ''BANK_ADMIN'']"

definition BBPS_CATALOG_READ_ROLES :: "string list" where
  "BBPS_CATALOG_READ_ROLES = [''BANK_SUPER_ADMIN'', ''BANK_ADMIN'', ''RETAIL_CUSTOMER'',
     ''CORPORATE_IT_ADMIN'', ''CORPORATE_MAKER'', ''CORPORATE_CHECKER'', ''CORPORATE_VIEWER'']"

definition BBPS_CUSTOMER_ROLES :: "string list" where
  "BBPS_CUSTOMER_ROLES = [''RETAIL_CUSTOMER'', ''CORPORATE_IT_ADMIN'', ''CORPORATE_MAKER'',
     ''CORPORATE_CHECKER'', ''CORPORATE_VIEWER'']"

definition BBPS_BILL_FETCH_ROLES :: "string list" where
  "BBPS_BILL_FETCH_ROLES = BBPS_CUSTOMER_ROLES"

definition BBPS_PAYMENT_CREATE_ROLES :: "string list" where
  "BBPS_PAYMENT_CREATE_ROLES = [''RETAIL_CUSTOMER'', ''CORPORATE_IT_ADMIN'', ''CORPORATE_MAKER'']"

definition BBPS_PAYMENT_RETRY_ROLES :: "string list" where
  "BBPS_PAYMENT_RETRY_ROLES = [''RETAIL_CUSTOMER'', ''CORPORATE_MAKER'', ''CORPORATE_IT_ADMIN'']"

definition BBPS_SCHEDULE_MUTATION_ROLES :: "string list" where
  "BBPS_SCHEDULE_MUTATION_ROLES = [''RETAIL_CUSTOMER'', ''CORPORATE_MAKER'', ''CORPORATE_IT_ADMIN'']"

definition BBPS_PAYMENT_READ_CUSTOMER_ROLES :: "string list" where
  "BBPS_PAYMENT_READ_CUSTOMER_ROLES = BBPS_BILL_FETCH_ROLES"

definition BBPS_PAYMENT_BANK_READ_ROLES :: "string list" where
  "BBPS_PAYMENT_BANK_READ_ROLES = BANK_CATALOG_ADMIN_ROLES"

definition BBPS_SCHEDULE_READ_ROLES :: "string list" where
  "BBPS_SCHEDULE_READ_ROLES = BBPS_SCHEDULE_MUTATION_ROLES"

subsection \<open>Roles of an actor\<close>

definition extractRealmRoles :: "actor option \<Rightarrow> string list" where
  "extractRealmRoles user = (case user of
      None \<Rightarrow> []
    | Some u \<Rightarrow> if orElse (act_realm_roles u) [] \<noteq> [] then orElse (act_realm_roles u) []
        else orElse (act_roles u) [])"

definition hasAnyRealmRole :: "actor option \<Rightarrow> string list \<Rightarrow> bool" where
  "hasAnyRealmRole user allowed \<longleftrightarrow> list_ex (\<lambda>r. r \<in> set allowed) (extractRealmRoles user)"

definition isSuperadmin :: "actor option \<Rightarrow> bool" where
  "isSuperadmin user \<longleftrightarrow> list_ex (\<lambda>r. r \<in> set SUPERADMIN_ROLES) (extractRealmRoles user)"

definition isEmployeeManager :: "actor option \<Rightarrow> bool" where
  "isEmployeeManager user \<longleftrightarrow> isSuperadmin user
     \<or> list_ex (\<lambda>r. r \<in> set DELEGATING_ADMIN_ROLES) (extractRealmRoles user)"

subsection \<open>Hierarchy levels\<close>

text \<open>
  A level is a number, or something else: \<open>ROLE_HIERARCHY_LEVELS\<close> is an ordinary object,
  so a role named like a member of \<open>Object.prototype\<close> finds that member, which is not a
  number and compares false with every number.
\<close>

datatype level = Lvl int | Not_a_number

fun level_gt :: "level \<Rightarrow> level \<Rightarrow> bool" where
  "level_gt (Lvl a) (Lvl b) = (b < a)"
| "level_gt _ _ = False"

fun level_max :: "level \<Rightarrow> level \<Rightarrow> level" where
  "level_max (Lvl a) (Lvl b) = Lvl (max a b)"
| "level_max _ _ = Not_a_number"

definition object_prototype_members :: "string list" where
  "object_prototype_members = [''constructor'', ''__defineGetter__'', ''__defineSetter__'',
     ''hasOwnProperty'', ''__lookupGetter__'', ''__lookupSetter__'', ''isPrototypeOf'',
     ''propertyIsEnumerable'', ''toString'', ''valueOf'', ''__proto__'', ''toLocaleString'']"

definition ROLE_HIERARCHY_LEVELS :: "(string \<times> int) list" where
  "ROLE_HIERARCHY_LEVELS = [(''BANK_SUPER_ADMIN'', 100), (''SUPERADMIN'', 100),
     (''superadmin'', 100), (''BANK_ADMIN'', 80), (''BANK_MAKER'', 50), (''BANK_CHECKER'', 50),
     (''CORPORATE_IT_ADMIN'', 40), (''CORPORATE_MAKER'', 30), (''CORPORATE_CHECKER'', 30),
     (''CORPORATE_VIEWER'', 20), (''RETAIL_CUSTOMER'', 10)]"

definition DEFAULT_ROLE_HIERARCHY_LEVEL :: int where
  "DEFAULT_ROLE_HIERARCHY_LEVEL = 10"

definition level_lookup :: "string \<Rightarrow> level option" where
  "level_lookup name = (case map_of ROLE_HIERARCHY_LEVELS name of
      Some n \<Rightarrow> Some (Lvl n)
    | None \<Rightarrow> if name \<in> set object_prototype_members then Some Not_a_number else None)"

text \<open>\<open>replace(/\s+/g, '_')\<close>\<close>

fun underscore_spaces :: "string \<Rightarrow> string" where
  "underscore_spaces [] = []"
| "underscore_spaces [c] = [if is_space c then CHR ''_'' else c]"
| "underscore_spaces (c # d # cs) =
     (if is_space c then (if is_space d then underscore_spaces (d # cs)
                          else CHR ''_'' # underscore_spaces (d # cs))
      else c # underscore_spaces (d # cs))"

text \<open>\<open>/SUPER.?ADMIN/i\<close> (the dot is no line terminator), on the upper-case name.\<close>

fun super_admin_at :: "string \<Rightarrow> bool" where
  "super_admin_at s = (startsWith ''SUPERADMIN'' s
     \<or> (startsWith ''SUPER'' s \<and> startsWith ''ADMIN'' (drop 6 s)
        \<and> code (s ! 5) \<noteq> 10 \<and> code (s ! 5) \<noteq> 13))"

fun has_super_admin :: "string \<Rightarrow> bool" where
  "has_super_admin [] = False"
| "has_super_admin (c # s) = (super_admin_at (c # s) \<or> has_super_admin s)"

definition MAKER_ROLE_PATTERN :: "string \<Rightarrow> bool" where
  "MAKER_ROLE_PATTERN s = includes_sub ''MAKER'' (toUpperCase s)"

definition CHECKER_ROLE_PATTERN :: "string \<Rightarrow> bool" where
  "CHECKER_ROLE_PATTERN s = includes_sub ''CHECKER'' (toUpperCase s)"

definition resolveRoleHierarchyLevel :: "string \<Rightarrow> level" where
  "resolveRoleHierarchyLevel roleName = (case level_lookup roleName of
      Some l \<Rightarrow> l
    | None \<Rightarrow> (case level_lookup (underscore_spaces (toUpperCase (trim roleName))) of
        Some l \<Rightarrow> l
      | None \<Rightarrow>
          if has_super_admin (toUpperCase roleName) then Lvl 100
          else if includes_sub ''BANK_ADMIN'' (toUpperCase roleName) then Lvl 80
          else if MAKER_ROLE_PATTERN roleName \<or> CHECKER_ROLE_PATTERN roleName then Lvl 50
          else Lvl DEFAULT_ROLE_HIERARCHY_LEVEL))"

definition resolveActorHierarchyLevel :: "actor option \<Rightarrow> level" where
  "resolveActorHierarchyLevel actor = (case map resolveRoleHierarchyLevel (extractRealmRoles actor) of
      [] \<Rightarrow> Lvl DEFAULT_ROLE_HIERARCHY_LEVEL
    | l # ls \<Rightarrow> fold level_max ls l)"

definition canManageEmployeeWithRole :: "actor option \<Rightarrow> string \<Rightarrow> bool" where
  "canManageEmployeeWithRole actor employeeRoleName \<longleftrightarrow> isSuperadmin actor
     \<or> level_gt (resolveActorHierarchyLevel actor) (resolveRoleHierarchyLevel employeeRoleName)"

definition canAssignRoleToEmployee :: "actor option \<Rightarrow> string \<Rightarrow> bool" where
  "canAssignRoleToEmployee actor targetRoleName \<longleftrightarrow> isSuperadmin actor
     \<or> level_gt (resolveActorHierarchyLevel actor) (resolveRoleHierarchyLevel targetRoleName)"

subsection \<open>Duty types\<close>

datatype roleDutyType = MAKER | CHECKER | OTHER

definition resolveRoleDutyType :: "string \<Rightarrow> roleDutyType" where
  "resolveRoleDutyType roleName = (if MAKER_ROLE_PATTERN roleName then MAKER
     else if CHECKER_ROLE_PATTERN roleName then CHECKER else OTHER)"

subsection \<open>Facts\<close>

lemma level_gt_irrefl [simp]: "\<not> level_gt l l"
  by (cases l) auto

lemma level_gt_trans: "level_gt a b \<Longrightarrow> level_gt b c \<Longrightarrow> level_gt a c"
  by (cases a; cases b; cases c) auto

lemma fold_level_max:
  "fold level_max ls l = Lvl m \<Longrightarrow> \<forall>x \<in> set (l # ls). \<exists>n. x = Lvl n \<and> n \<le> m"
proof (induction ls arbitrary: l)
  case Nil
  then show ?case by simp
next
  case (Cons x ls)
  then have ih: "\<forall>y \<in> set (level_max x l # ls). \<exists>n. y = Lvl n \<and> n \<le> m" by simp
  then obtain n where "level_max x l = Lvl n" "n \<le> m" by auto
  then have "(\<exists>n. x = Lvl n \<and> n \<le> m) \<and> (\<exists>n. l = Lvl n \<and> n \<le> m)"
    by (cases x; cases l) auto
  with ih show ?case by auto
qed

text \<open>An actor with a numeric level is at least at the level of each of its roles.\<close>

lemma actor_level_upper:
  assumes "resolveActorHierarchyLevel a = Lvl m" and "r \<in> set (extractRealmRoles a)"
  shows "\<exists>n. resolveRoleHierarchyLevel r = Lvl n \<and> n \<le> m"
proof -
  have r: "resolveRoleHierarchyLevel r \<in> set (map resolveRoleHierarchyLevel (extractRealmRoles a))"
    using assms(2) by simp
  then obtain l ls where l: "map resolveRoleHierarchyLevel (extractRealmRoles a) = l # ls"
    by (cases "map resolveRoleHierarchyLevel (extractRealmRoles a)") auto
  with assms(1) have "fold level_max ls l = Lvl m"
    by (simp add: resolveActorHierarchyLevel_def)
  from fold_level_max [OF this] r l show ?thesis by auto
qed

lemma isSuperadmin_has: "isSuperadmin a \<longleftrightarrow> hasAnyRealmRole a SUPERADMIN_ROLES"
  by (simp add: isSuperadmin_def hasAnyRealmRole_def)

end
