(* ===== verification/Guards.thy ===== *)
theory Guards
  imports Common_Utils Rbac_Constants
begin

text \<open>
  The guards in front of the handlers: the mock Keycloak guard and its users, the roles
  guard, the IDOR guard, the checksum guard and the superadmin guard. A guard either
  throws or lets the request pass; the Keycloak guard also sets \<open>request.user\<close>.
\<close>

subsection \<open>mock-users.const.ts\<close>

record mock_user =
  mu_username :: string
  mu_password :: string
  mu_sub :: string
  mu_roles :: "string list"

definition MOCK_USERS :: "mock_user list" where
  "MOCK_USERS = [
     \<lparr>mu_username = ''mock-superadmin'', mu_password = ''Mock@123'',
       mu_sub = ''00000000-0000-0000-0000-000000000001'', mu_roles = [''BANK_SUPER_ADMIN'']\<rparr>,
     \<lparr>mu_username = ''mock-admin'', mu_password = ''Mock@123'',
       mu_sub = ''00000000-0000-0000-0000-000000000002'', mu_roles = [''BANK_ADMIN'']\<rparr>,
     \<lparr>mu_username = ''mock-bank-maker'', mu_password = ''Mock@123'',
       mu_sub = ''00000000-0000-0000-0000-000000000003'', mu_roles = [''BANK_MAKER'']\<rparr>,
     \<lparr>mu_username = ''mock-bank-checker'', mu_password = ''Mock@123'',
       mu_sub = ''00000000-0000-0000-0000-000000000004'', mu_roles = [''BANK_CHECKER'']\<rparr>,
     \<lparr>mu_username = ''mock-corporate-maker'', mu_password = ''Mock@123'',
       mu_sub = ''00000000-0000-0000-0000-000000000005'', mu_roles = [''CORPORATE_MAKER'']\<rparr>,
     \<lparr>mu_username = ''mock-corporate-checker'', mu_password = ''Mock@123'',
       mu_sub = ''00000000-0000-0000-0000-000000000006'', mu_roles = [''CORPORATE_CHECKER'']\<rparr>,
     \<lparr>mu_username = ''mock-customer'', mu_password = ''Mock@123'',
       mu_sub = ''00000000-0000-0000-0000-000000000007'', mu_roles = [''RETAIL_CUSTOMER'']\<rparr>]"

definition findMockUserByUsername :: "string \<Rightarrow> mock_user option" where
  "findMockUserByUsername username = find (\<lambda>u. mu_username u = username) MOCK_USERS"

text \<open>\<open>/^mock-(.+)-token$/\<close>: the group of a token that matches.\<close>

definition MOCK_TOKEN_PATTERN :: "string \<Rightarrow> string option" where
  "MOCK_TOKEN_PATTERN token =
     (let n = length token; g = take (n - 11) (drop 5 token) in
      if 12 \<le> n \<and> startsWith ''mock-'' token \<and> drop (n - 6) token = ''-token''
         \<and> list_all (\<lambda>c. code c \<noteq> 10 \<and> code c \<noteq> 13) g
      then Some g else None)"

definition findMockUserByToken :: "string \<Rightarrow> mock_user option" where
  "findMockUserByToken token = (case MOCK_TOKEN_PATTERN token of
      None \<Rightarrow> None | Some g \<Rightarrow> findMockUserByUsername g)"

subsection \<open>keycloak-auth.guard.ts\<close>

definition bearerToken :: "string option \<Rightarrow> string option" where
  "bearerToken authHeader = (case authHeader of
      None \<Rightarrow> None
    | Some h \<Rightarrow> if h \<noteq> [] \<and> startsWith ''bearer '' (toLowerCase h) then Some (trim (drop 7 h)) else None)"

definition keycloakAuthGuard :: "bool \<Rightarrow> string option \<Rightarrow> actor option \<Rightarrow> actor option result" where
  "keycloakAuthGuard isPublic authHeader requestUser =
     (let token = bearerToken authHeader;
          mockUser = (if truthy token then findMockUserByToken (orElse token []) else None)
      in case mockUser of
           Some u \<Rightarrow> Inr (Some \<lparr>act_sub = Some (mu_sub u), act_realm_roles = Some (mu_roles u),
                              act_roles = None\<rparr>)
         | None \<Rightarrow> if isPublic then Inr requestUser
             else Inl (UnauthorizedException (Msg
               (''Invalid or missing mock bearer token '' @ em_dash @ '' call POST /auth/login with a mock-* user first''))))"

subsection \<open>auth.decorator.ts, roles.guard.ts\<close>

record role_metadata =
  md_roles :: "string list"
  md_all :: bool

text \<open>\<open>Auth(...roles)\<close>: no metadata without roles, else the prefixed names, any of them.\<close>

definition realm_prefix :: string where
  "realm_prefix = ''realm:''"

definition Auth :: "string list \<Rightarrow> role_metadata option" where
  "Auth roles = (if roles = [] then None
     else Some \<lparr>md_roles = map (\<lambda>r. realm_prefix @ r) roles, md_all = False\<rparr>)"

definition strip_realm :: "string \<Rightarrow> string" where
  "strip_realm r = (if startsWith realm_prefix r then drop (length realm_prefix) r else r)"

text \<open>\<open>getAllAndOverride(META_ROLES, [class, handler])\<close>: the class metadata comes first.\<close>

definition override_metadata :: "'a option \<Rightarrow> 'a option \<Rightarrow> 'a option" where
  "override_metadata classMeta handlerMeta =
     (case classMeta of Some m \<Rightarrow> Some m | None \<Rightarrow> handlerMeta)"

definition rolesGuard :: "role_metadata option \<Rightarrow> role_metadata option \<Rightarrow> actor option \<Rightarrow> unit result" where
  "rolesGuard classMeta handlerMeta user = (case override_metadata classMeta handlerMeta of
      None \<Rightarrow> Inr ()
    | Some m \<Rightarrow> if md_roles m = [] then Inr () else
        (let userRoles = (case user of None \<Rightarrow> [] | Some u \<Rightarrow> orElse (act_realm_roles u) []);
             requiredRoles = map strip_realm (md_roles m);
             granted = (if md_all m then list_all (\<lambda>r. r \<in> set userRoles) requiredRoles
                        else list_ex (\<lambda>r. r \<in> set userRoles) requiredRoles)
         in if granted then Inr ()
            else Inl (ForbiddenException (Msg ''Mock user does not have the required role''))))"

subsection \<open>idor.guard.ts\<close>

definition ELEVATED_ROLES :: "string list" where
  "ELEVATED_ROLES = [''BANK_SUPER_ADMIN'', ''BANK_ADMIN'']"

fun json_truthy :: "json \<Rightarrow> bool" where
  "json_truthy JNull = False"
| "json_truthy (JBool b) = b"
| "json_truthy (JNum n) = (n \<noteq> 0)"
| "json_truthy (JStr s) = (s \<noteq> [])"
| "json_truthy (JArr _) = True"
| "json_truthy (JObj _) = True"

definition idorGuard :: "actor option \<Rightarrow> json option \<Rightarrow> unit result" where
  "idorGuard user bodyUserId = (case user of
      None \<Rightarrow> Inl (UnauthorizedException (Msg ''Keycloak access token is required''))
    | Some u \<Rightarrow>
        if \<not> truthy (act_sub u)
        then Inl (UnauthorizedException (Msg ''Keycloak access token is required''))
        else (case bodyUserId of
            None \<Rightarrow> Inr ()
          | Some t \<Rightarrow>
              if \<not> json_truthy t \<or> t = JStr (orElse (act_sub u) []) then Inr ()
              else if list_ex (\<lambda>r. r \<in> set ELEVATED_ROLES) (orElse (act_realm_roles u) []) then Inr ()
              else Inl (ForbiddenException (Msg ''Cannot access another user's resource''))))"

subsection \<open>superadmin.guard.ts\<close>

definition superadminGuard :: "actor option \<Rightarrow> unit result" where
  "superadminGuard user =
     (if user = None then Inl (UnauthorizedException (Msg ''Keycloak access token is required''))
      else if \<not> isSuperadmin user
      then Inl (ForbiddenException (Msg ''Only superadmin users can perform this operation''))
      else Inr ())"

subsection \<open>checksum.guard.ts, checksum-signing.interceptor.ts\<close>

definition hex_value :: "char \<Rightarrow> nat option" where
  "hex_value c = (if is_digit c then Some (code c - 48)
     else if 97 \<le> code c \<and> code c \<le> 102 then Some (code c - 87)
     else if 65 \<le> code c \<and> code c \<le> 70 then Some (code c - 55) else None)"

text \<open>\<open>Buffer.from(s, 'hex')\<close>: pairs of digits up to the first that is not hexadecimal.\<close>

fun bufferFromHex :: "string \<Rightarrow> nat list" where
  "bufferFromHex (a # b # s) = (case (hex_value a, hex_value b) of
      (Some x, Some y) \<Rightarrow> (16 * x + y) # bufferFromHex s
    | _ \<Rightarrow> [])"
| "bufferFromHex _ = []"

text \<open>
  \<open>hmac\<close> is HMAC-SHA256 in hex, by key and message; the last argument is the text of
  \<open>JSON.stringify(request.body ?? {})\<close>.
\<close>

definition checksumGuard ::
  "(string \<Rightarrow> string \<Rightarrow> string) \<Rightarrow> string option \<Rightarrow> string option \<Rightarrow> string \<Rightarrow> unit result" where
  "checksumGuard hmac secret provided bodyText =
     (if \<not> truthy secret
      then Inl (UnauthorizedException (Msg ''Checksum verification is not configured (CHECKSUM_SHARED_SECRET unset)''))
      else if \<not> truthy provided then Inl (UnauthorizedException (Msg ''Missing X-Checksum header''))
      else (let expectedBuf = bufferFromHex (hmac (orElse secret []) bodyText);
                providedBuf = bufferFromHex (orElse provided [])
            in if length providedBuf \<noteq> length expectedBuf \<or> providedBuf \<noteq> expectedBuf
               then Inl (UnauthorizedException (Msg ''Invalid checksum'')) else Inr ()))"

text \<open>The value of the \<open>X-Checksum\<close> header of a response, if one is set.\<close>

definition checksumSigning :: "(string \<Rightarrow> string \<Rightarrow> string) \<Rightarrow> string option \<Rightarrow> string \<Rightarrow> string option" where
  "checksumSigning hmac secret bodyText =
     (if \<not> truthy secret then None else Some (hmac (orElse secret []) bodyText))"

subsection \<open>Facts\<close>

lemma findMockUser_mem: "findMockUserByUsername n = Some u \<Longrightarrow> u \<in> set MOCK_USERS \<and> mu_username u = n"
  by (auto simp: findMockUserByUsername_def find_Some_iff)

lemma strip_realm_prefix [simp]: "strip_realm (realm_prefix @ r) = r"
  by (simp add: strip_realm_def)

lemma MOCK_TOKEN_PATTERN_token:
  assumes "n \<noteq> []" and "list_all (\<lambda>c. code c \<noteq> 10 \<and> code c \<noteq> 13) n"
  shows "MOCK_TOKEN_PATTERN (''mock-'' @ n @ ''-token'') = Some n"
proof -
  have "length n \<ge> 1" using assms(1) by (cases n) auto
  then show ?thesis using assms(2) by (simp add: MOCK_TOKEN_PATTERN_def Let_def startsWith_def)
qed

lemma rolesGuard_Auth:
  "rolesGuard None (Auth rs) user = Inr () \<longleftrightarrow>
     rs = [] \<or> (\<exists>r \<in> set rs. r \<in> set (case user of None \<Rightarrow> [] | Some u \<Rightarrow> orElse (act_realm_roles u) []))"
  by (auto simp: rolesGuard_def Auth_def override_metadata_def Let_def list_ex_iff o_def)

text \<open>A request is refused by the IDOR guard exactly when it names somebody else's id.\<close>

lemma idorGuard_foreign:
  assumes "idorGuard user (Some (JStr t)) = Inr ()" and "t \<noteq> []"
  shows "\<exists>u. user = Some u \<and> (act_sub u = Some t
     \<or> (\<exists>r \<in> set ELEVATED_ROLES. r \<in> set (orElse (act_realm_roles u) [])))"
  using assms by (auto simp: idorGuard_def list_ex_iff truthy_def split: option.splits if_splits)

end
