(* ===== verification/Interceptors.thy ===== *)
theory Interceptors
  imports Guards
begin

text \<open>
  \<open>common/interceptors\<close> and \<open>common/filters\<close>: the idempotency key, the masking of
  personal data in the log, the response envelope and the exception filter.
\<close>

subsection \<open>idempotency-key.interceptor.ts\<close>

datatype header_value = One string | Many "string list"

definition header_first :: "header_value option \<Rightarrow> string option" where
  "header_first h = (case h of
      None \<Rightarrow> None
    | Some (One s) \<Rightarrow> Some s
    | Some (Many ss) \<Rightarrow> (case ss of [] \<Rightarrow> None | s # _ \<Rightarrow> Some s))"

text \<open>\<open>{ ...body, k: v }\<close> on the property list of an object.\<close>

definition set_prop :: "string \<Rightarrow> json \<Rightarrow> (string \<times> json) list \<Rightarrow> (string \<times> json) list" where
  "set_prop k v ps = (if k \<in> fst ` set ps then map (\<lambda>(a, b). (a, if a = k then v else b)) ps
     else ps @ [(k, v)])"

definition body_key :: "(string \<times> json) list \<Rightarrow> string" where
  "body_key ps = (case map_of ps ''idempotencyKey'' of Some (JStr s) \<Rightarrow> trim s | _ \<Rightarrow> [])"

text \<open>The new request body, from the header value and the properties of the body.\<close>

definition idempotencyKeyInterceptor ::
  "header_value option \<Rightarrow> (string \<times> json) list \<Rightarrow> ((string \<times> json) list) result" where
  "idempotencyKeyInterceptor header body =
     (let trimmedHeader = map_option trim (header_first header);
          idempotencyKey = (if truthy trimmedHeader then orElse trimmedHeader [] else body_key body)
      in if idempotencyKey = []
         then Inl (BadRequestException (Coded ''IDEMPOTENCY_KEY_REQUIRED''
                (''Missing idempotency key '' @ em_dash @ '' send the '' @ IDEMPOTENCY_KEY_HEADER @ '' header'')))
         else Inr (set_prop ''idempotencyKey'' (JStr idempotencyKey) body))"

subsection \<open>logging.interceptor.ts\<close>

definition MOBILE_KEY_PATTERN :: "string \<Rightarrow> bool" where
  "MOBILE_KEY_PATTERN k \<longleftrightarrow> includes_sub ''mobile'' (toLowerCase k) \<or> includes_sub ''phone'' (toLowerCase k)"

definition EMAIL_KEY_PATTERN :: "string \<Rightarrow> bool" where
  "EMAIL_KEY_PATTERN k \<longleftrightarrow> includes_sub ''email'' (toLowerCase k)"

definition MOBILE_VALUE_PATTERN :: "string \<Rightarrow> bool" where
  "MOBILE_VALUE_PATTERN = re_digits 10"

fun mask_string :: "string option \<Rightarrow> string \<Rightarrow> string" where
  "mask_string keyHint s =
     (if truthy keyHint \<and> MOBILE_KEY_PATTERN (orElse keyHint []) \<and> MOBILE_VALUE_PATTERN s then maskMobile s
      else if truthy keyHint \<and> EMAIL_KEY_PATTERN (orElse keyHint []) \<and> CHR ''@'' \<in> set s then maskEmail s
      else s)"

fun maskPii :: "string option \<Rightarrow> json \<Rightarrow> json"
  and mask_items :: "json list \<Rightarrow> json list"
  and mask_fields :: "(string \<times> json) list \<Rightarrow> (string \<times> json) list" where
  "maskPii keyHint (JStr s) = JStr (mask_string keyHint s)"
| "maskPii keyHint (JArr xs) = JArr (mask_items xs)"
| "maskPii keyHint (JObj ps) = JObj (mask_fields ps)"
| "maskPii keyHint v = v"
| "mask_items [] = []"
| "mask_items (x # xs) = maskPii None x # mask_items xs"
| "mask_fields [] = []"
| "mask_fields ((k, v) # ps) = (k, maskPii (Some k) v) # mask_fields ps"

subsection \<open>response-transform.interceptor.ts, base-response.dto.ts\<close>

record 'a base_response =
  br_success :: bool
  br_data :: 'a
  br_timestamp :: string

definition responseTransform :: "int \<Rightarrow> 'a \<Rightarrow> 'a base_response" where
  "responseTransform now v = \<lparr>br_success = True, br_data = v, br_timestamp = toISOString now\<rparr>"

subsection \<open>http-exception.filter.ts\<close>

record error_response =
  er_statusCode :: nat
  er_path :: string
  er_timestamp :: string
  er_message :: exn_body

fun exn_response :: "exn \<Rightarrow> exn_body" where
  "exn_response (BadRequestException b) = b"
| "exn_response (UnauthorizedException b) = b"
| "exn_response (ForbiddenException b) = b"
| "exn_response (NotFoundException b) = b"
| "exn_response (ConflictException b) = b"
| "exn_response _ = Msg ''Internal server error''"

definition httpExceptionFilter :: "int \<Rightarrow> string \<Rightarrow> exn \<Rightarrow> error_response" where
  "httpExceptionFilter now url e =
     \<lparr>er_statusCode = exn_status e, er_path = url, er_timestamp = toISOString now, er_message = exn_response e\<rparr>"

subsection \<open>Facts\<close>

lemma map_of_set_prop: "map_of (set_prop k v ps) j = (if j = k then Some v else map_of ps j)"
proof (cases "k \<in> fst ` set ps")
  case True
  have "map_of (map (\<lambda>(a, b). (a, if a = k then v else b)) qs) j =
      (if j = k \<and> k \<in> fst ` set qs then Some v else map_of qs j)" for qs
  proof (induction qs)
    case Nil
    show ?case by simp
  next
    case (Cons q qs)
    then show ?case by (cases q; cases "j = k") auto
  qed
  with True show ?thesis by (simp add: set_prop_def)
next
  case False
  then have "map_of ps k = None" by (simp add: map_of_eq_None_iff)
  with False show ?thesis
    by (cases "map_of ps j") (auto simp: set_prop_def map_add_def)
qed

lemma mask_fields_map: "map_of (mask_fields ps) k = map_option (maskPii (Some k)) (map_of ps k)"
  by (induction ps) auto

lemma mask_items_map: "mask_items xs = map (maskPii None) xs"
  by (induction xs) auto

end
