(* ===== verification/Validation.thy ===== *)
theory Validation
  imports Interceptors
begin

text \<open>
  The request DTOs and \<open>new ValidationPipe({ whitelist: true, transform: true })\<close> of
  main.ts. A DTO class is the list of its fields with their class-validator decorators. The
  validators themselves are the library's: \<open>chk\<close> tells whether a value (or its absence)
  satisfies one, and the locale \<open>class_validator\<close> states what is documented of those the
  services rely on.
\<close>

subsection \<open>Decorators\<close>

datatype validator =
    IsNotEmpty | IsString | IsUUID | IsUUID4_each | IsString_each | IsEmail | IsArray | IsNumber | IsInt
  | IsNumberString | IsDateString | MinLength nat | MaxLength nat | Min nat | IsIn "string list"
  | Matches "string \<Rightarrow> bool"

type_synonym json_body = "(string \<times> json) list"

text \<open>
  A field: \<open>@IsOptional()\<close> skips the checks of an absent or null value, \<open>@ValidateIf(c)\<close>
  skips them unless \<open>c\<close> holds of the whole object.
\<close>

record dto_field =
  df_name :: string
  df_optional :: bool
  df_when :: "(json_body \<Rightarrow> bool) option"
  df_checks :: "validator list"

definition required :: "string \<Rightarrow> validator list \<Rightarrow> dto_field" where
  "required n cs = \<lparr>df_name = n, df_optional = False, df_when = None, df_checks = cs\<rparr>"

definition optional :: "string \<Rightarrow> validator list \<Rightarrow> dto_field" where
  "optional n cs = \<lparr>df_name = n, df_optional = True, df_when = None, df_checks = cs\<rparr>"

definition validateIf :: "(json_body \<Rightarrow> bool) \<Rightarrow> string \<Rightarrow> validator list \<Rightarrow> dto_field" where
  "validateIf c n cs = \<lparr>df_name = n, df_optional = False, df_when = Some c, df_checks = cs\<rparr>"

text \<open>\<open>!dto.k\<close> is \<open>\<not> prop_truthy body k\<close>.\<close>

definition prop_truthy :: "json_body \<Rightarrow> string \<Rightarrow> bool" where
  "prop_truthy body k \<longleftrightarrow> (case map_of body k of None \<Rightarrow> False | Some v \<Rightarrow> json_truthy v)"

definition field_ok :: "(validator \<Rightarrow> json option \<Rightarrow> bool) \<Rightarrow> json_body \<Rightarrow> dto_field \<Rightarrow> bool" where
  "field_ok chk body f \<longleftrightarrow> (let v = map_of body (df_name f) in
     (df_optional f \<and> (v = None \<or> v = Some JNull))
     \<or> (case df_when f of None \<Rightarrow> False | Some c \<Rightarrow> \<not> c body)
     \<or> list_all (\<lambda>r. chk r v) (df_checks f))"

text \<open>\<open>None\<close> is the 400 of a rejected request; the accepted body loses unknown properties.\<close>

definition validationPipe ::
  "(validator \<Rightarrow> json option \<Rightarrow> bool) \<Rightarrow> dto_field list \<Rightarrow> json_body \<Rightarrow> json_body option" where
  "validationPipe chk dto body = (if list_all (field_ok chk body) dto
     then Some (filter (\<lambda>(k, v). k \<in> set (map df_name dto)) body) else None)"

subsection \<open>The DTO classes\<close>

definition IdRequestDto :: "dto_field list" where
  "IdRequestDto = [required ''id'' [IsNotEmpty, IsUUID]]"

definition PaginationDto :: "dto_field list" where
  "PaginationDto = [optional ''page'' [IsInt, Min 1], optional ''limit'' [IsInt, Min 1]]"

definition CreateTemplateDto :: "dto_field list" where
  "CreateTemplateDto = [required ''key'' [IsNotEmpty, IsString], required ''channel'' [IsNotEmpty, IsString],
     required ''body'' [IsNotEmpty, IsString]]"

definition ListAdminUsersDto :: "dto_field list" where
  "ListAdminUsersDto = [optional ''role'' [IsIn [''BANK_SUPER_ADMIN'', ''BANK_ADMIN'', ''BANK_MAKER'', ''BANK_CHECKER'']],
     optional ''search'' [IsString]]"

text \<open>\<open>/^\d+(\.\d{1,2})?$/\<close>\<close>

definition re_threshold :: "string \<Rightarrow> bool" where
  "re_threshold s \<longleftrightarrow> (case split_on CHR ''.'' s of
      [i] \<Rightarrow> i \<noteq> [] \<and> all_digits i
    | [i, f] \<Rightarrow> i \<noteq> [] \<and> all_digits i \<and> f \<noteq> [] \<and> length f \<le> 2 \<and> all_digits f
    | _ \<Rightarrow> False)"

definition CreateAuthorizationRuleDto :: "dto_field list" where
  "CreateAuthorizationRuleDto = [required ''ruleName'' [IsNotEmpty, IsString, MaxLength 150],
     required ''cif'' [IsNotEmpty, IsString, MaxLength 20], required ''threshold'' [IsNotEmpty, Matches re_threshold]]"

definition UpdateAuthorizationRuleDto :: "dto_field list" where
  "UpdateAuthorizationRuleDto = [required ''id'' [IsNotEmpty, IsUUID],
     optional ''ruleName'' [IsString, MaxLength 150], optional ''threshold'' [Matches re_threshold],
     optional ''changeReason'' [IsString, MaxLength 255]]"

definition ReportQueryDto :: "dto_field list" where
  "ReportQueryDto = [optional ''fromDate'' [IsString], optional ''toDate'' [IsString], optional ''cif'' [IsString],
     optional ''branch'' [IsString], optional ''status'' [IsString], optional ''transactionType'' [IsString],
     optional ''channel'' [IsString], optional ''minAmount'' [IsNumberString], optional ''maxAmount'' [IsNumberString]]"

definition ReportExportDto :: "dto_field list" where
  "ReportExportDto = ReportQueryDto @ [required ''reportType'' [IsString,
       IsIn [''daily-summary'', ''failed'', ''high-value'', ''branch-wise'', ''channel-wise'']],
     optional ''format'' [IsString, IsIn [''csv'', ''excel'', ''pdf'']]]"

definition HIERARCHY_ROLES :: "string list" where
  "HIERARCHY_ROLES = [''BANK_SUPER_ADMIN'', ''BANK_ADMIN'', ''BANK_MAKER'', ''BANK_CHECKER'', ''CORPORATE_IT_ADMIN'',
     ''CORPORATE_MAKER'', ''CORPORATE_CHECKER'', ''CORPORATE_VIEWER'', ''RETAIL_CUSTOMER'']"

definition SetHierarchyRoleDto :: "dto_field list" where
  "SetHierarchyRoleDto = [required ''userId'' [IsNotEmpty, IsString], required ''cif'' [IsNotEmpty, IsString],
     required ''role'' [IsNotEmpty, IsString, IsIn HIERARCHY_ROLES]]"

definition GetCredentialDto :: "dto_field list" where
  "GetCredentialDto = [optional ''userId'' [IsUUID]]"

definition SetCredentialDto :: "dto_field list" where
  "SetCredentialDto = [required ''userId'' [IsNotEmpty, IsUUID],
     validateIf (\<lambda>d. \<not> prop_truthy d ''mpin'') ''password'' [IsNotEmpty, IsString, MinLength 8, MaxLength 128],
     validateIf (\<lambda>d. \<not> prop_truthy d ''password'') ''mpin'' [IsNotEmpty, IsString, MinLength 4, MaxLength 6]]"

definition VerifyCredentialDto :: "dto_field list" where
  "VerifyCredentialDto = [optional ''userId'' [IsUUID], required ''mpin'' [IsNotEmpty, IsString, MinLength 4, MaxLength 6]]"

definition RegisterDeviceDto :: "dto_field list" where
  "RegisterDeviceDto = [required ''userId'' [IsNotEmpty, IsString], required ''deviceId'' [IsNotEmpty, IsString],
     optional ''deviceModel'' [IsString]]"

definition GenerateOtpDto :: "dto_field list" where
  "GenerateOtpDto = [required ''mobileNumber'' [IsNotEmpty, IsString, Matches re_mobile]]"

definition VerifyOtpDto :: "dto_field list" where
  "VerifyOtpDto = [required ''challengeId'' [IsNotEmpty, IsUUID], required ''otp'' [IsNotEmpty, IsString, Matches re_otp]]"

definition CreateCredentialsDto :: "dto_field list" where
  "CreateCredentialsDto = [required ''attemptId'' [IsNotEmpty, IsUUID],
     required ''password'' [IsNotEmpty, IsString, MinLength 8, MaxLength 128]]"

definition InitRegistrationDto :: "dto_field list" where
  "InitRegistrationDto = [required ''mobileNumber'' [IsNotEmpty, IsString, Matches re_mobile],
     required ''panOrCif'' [IsNotEmpty, IsString]]"

definition RegisterAttemptDeviceDto :: "dto_field list" where
  "RegisterAttemptDeviceDto = [required ''attemptId'' [IsNotEmpty, IsUUID], required ''deviceId'' [IsNotEmpty, IsString],
     optional ''deviceModel'' [IsString]]"

definition VerifyRegistrationOtpDto :: "dto_field list" where
  "VerifyRegistrationOtpDto = [required ''attemptId'' [IsNotEmpty, IsUUID], required ''challengeId'' [IsNotEmpty, IsUUID],
     required ''otp'' [IsNotEmpty, IsString, Matches re_otp]]"

definition LoginDto :: "dto_field list" where
  "LoginDto = [required ''username'' [IsNotEmpty, IsString], required ''password'' [IsNotEmpty, IsString],
     optional ''clientId'' [IsString, IsIn [''admin-web'', ''mobile-app'']]]"

definition LogoutDto :: "dto_field list" where
  "LogoutDto = [required ''refreshToken'' [IsNotEmpty, IsString],
     optional ''clientId'' [IsString, IsIn [''admin-web'', ''mobile-app'']]]"

definition SignupDto :: "dto_field list" where
  "SignupDto = [required ''username'' [IsNotEmpty, IsString, MaxLength 100],
     required ''password'' [IsNotEmpty, IsString, MinLength 8, MaxLength 128], optional ''email'' [IsEmail],
     optional ''firstName'' [IsString, MaxLength 100], optional ''lastName'' [IsString, MaxLength 100]]"

definition FetchBillDto :: "dto_field list" where
  "FetchBillDto = [required ''billerCode'' [IsString, IsNotEmpty], required ''consumerNumber'' [IsString, Matches (re_digits 12)],
     required ''registeredMobile'' [IsString, Matches (re_digits 10)]]"

definition CreateBillerDto :: "dto_field list" where
  "CreateBillerDto = [required ''billerCode'' [IsNotEmpty, IsString], required ''billerName'' [IsNotEmpty, IsString],
     required ''category'' [IsNotEmpty, IsString]]"

definition ListBillersQueryDto :: "dto_field list" where
  "ListBillersQueryDto = [optional ''category'' [IsString]]"

definition CreatePaymentDto :: "dto_field list" where
  "CreatePaymentDto = [
     validateIf (\<lambda>d. \<not> prop_truthy d ''billerCode'' \<and> \<not> prop_truthy d ''consumerNumber'') ''billNumber'' [IsNotEmpty, IsString],
     validateIf (\<lambda>d. \<not> prop_truthy d ''billNumber'') ''billerCode'' [IsNotEmpty, IsString],
     validateIf (\<lambda>d. \<not> prop_truthy d ''billNumber'') ''consumerNumber'' [IsNotEmpty, IsString],
     validateIf (\<lambda>d. \<not> prop_truthy d ''billNumber'') ''amount'' [IsNotEmpty, IsString],
     optional ''idempotencyKey'' [IsString, IsNotEmpty]]"

definition CreateBillScheduleDto :: "dto_field list" where
  "CreateBillScheduleDto = [required ''billerCode'' [IsString], required ''consumerNumber'' [IsString],
     required ''scheduleType'' [IsIn [''ONE_TIME'', ''RECURRING'']], optional ''frequency'' [IsIn [''MONTHLY'']],
     required ''nextRunAt'' [IsDateString], required ''maximumAmount'' [IsNumber, Min 1]]"

definition CreateEmployeeDto :: "dto_field list" where
  "CreateEmployeeDto = [required ''username'' [IsNotEmpty, IsString, MaxLength 100],
     required ''email'' [IsNotEmpty, IsEmail, MaxLength 255], required ''firstName'' [IsNotEmpty, IsString, MaxLength 100],
     required ''lastName'' [IsNotEmpty, IsString, MaxLength 100], required ''password'' [IsNotEmpty, IsString, MinLength 8],
     required ''roleId'' [IsNotEmpty, IsUUID], optional ''employeeCode'' [IsString, MaxLength 50]]"

definition UpdateEmployeeRoleDto :: "dto_field list" where
  "UpdateEmployeeRoleDto = [required ''employeeId'' [IsNotEmpty, IsUUID], required ''roleId'' [IsNotEmpty, IsUUID]]"

definition FetchAccessDetailsDto :: "dto_field list" where
  "FetchAccessDetailsDto = [optional ''keycloakUserId'' [IsString], optional ''employeeId'' [IsUUID],
     optional ''username'' [IsString], optional ''email'' [IsString, Matches re_email], optional ''roleId'' [IsUUID]]"

definition CreatePermissionDto :: "dto_field list" where
  "CreatePermissionDto = [required ''code'' [IsNotEmpty, IsString, MaxLength 100],
     required ''name'' [IsNotEmpty, IsString, MaxLength 150], optional ''description'' [IsString],
     required ''module'' [IsNotEmpty, IsString, MaxLength 80], required ''action'' [IsNotEmpty, IsString, MaxLength 80]]"

definition CreateRoleDto :: "dto_field list" where
  "CreateRoleDto = [required ''name'' [IsNotEmpty, IsString, MaxLength 100],
     required ''displayName'' [IsNotEmpty, IsString, MaxLength 150], optional ''description'' [IsString],
     optional ''delegatedAdminKeycloakUserIds'' [IsArray, IsString_each]]"

definition UpdateRoleDto :: "dto_field list" where
  "UpdateRoleDto = [required ''roleId'' [IsNotEmpty, IsUUID], optional ''displayName'' [IsString, MaxLength 150],
     optional ''description'' [IsString], optional ''isActive'' [],
     optional ''delegatedAdminKeycloakUserIds'' [IsArray, IsString_each]]"

definition MapRolePermissionsDto :: "dto_field list" where
  "MapRolePermissionsDto = [required ''roleId'' [IsNotEmpty, IsUUID], required ''permissionIds'' [IsArray, IsUUID4_each]]"

subsection \<open>What the services rely on\<close>

text \<open>The documented meaning of five validators; the others are left open.\<close>

locale class_validator =
  fixes chk :: "validator \<Rightarrow> json option \<Rightarrow> bool"
  assumes IsNotEmpty_law: "chk IsNotEmpty v \<longleftrightarrow> v \<noteq> None \<and> v \<noteq> Some JNull \<and> v \<noteq> Some (JStr [])"
    and IsString_law: "chk IsString v \<longleftrightarrow> (\<exists>s. v = Some (JStr s))"
    and Matches_law: "chk (Matches p) v \<longleftrightarrow> (\<exists>s. v = Some (JStr s) \<and> p s)"
    and IsIn_law: "chk (IsIn xs) v \<longleftrightarrow> (\<exists>s. v = Some (JStr s) \<and> s \<in> set xs)"
    and MinLength_law: "chk (MinLength n) v \<longleftrightarrow> (\<exists>s. v = Some (JStr s) \<and> n \<le> length s)"
begin

lemmas laws = IsNotEmpty_law IsString_law Matches_law IsIn_law MinLength_law

lemma pipe_fields: "validationPipe chk dto body = Some b \<Longrightarrow> f \<in> set dto \<Longrightarrow> field_ok chk body f"
  by (auto simp: validationPipe_def list_all_iff split: if_splits)

lemma map_of_filter_keys: "k \<in> ks \<Longrightarrow> map_of (filter (\<lambda>(k, v). k \<in> ks) body) k = map_of body k"
  by (induction body) auto

lemma pipe_props:
  assumes "validationPipe chk dto body = Some b" and "k \<in> set (map df_name dto)"
  shows "map_of b k = map_of body k"
  using assms map_of_filter_keys [of k "set (map df_name dto)" body] by (auto simp: validationPipe_def split: if_splits)

lemma pipe_required:
  assumes "validationPipe chk dto body = Some b" and "required k cs \<in> set dto"
  shows "\<forall>r \<in> set cs. chk r (map_of b k)"
proof -
  have "k \<in> set (map df_name dto)" using assms(2) by (force simp: required_def image_iff)
  from pipe_props [OF assms(1) this] pipe_fields [OF assms] show ?thesis
    by (simp add: field_ok_def required_def list_all_iff)
qed

lemma pipe_validateIf:
  assumes "validationPipe chk dto body = Some b" and "validateIf c k cs \<in> set dto" and "c body"
  shows "\<forall>r \<in> set cs. chk r (map_of b k)"
proof -
  have "k \<in> set (map df_name dto)" using assms(2) by (force simp: validateIf_def image_iff)
  from pipe_props [OF assms(1) this] pipe_fields [OF assms(1,2)] assms(3) show ?thesis
    by (simp add: field_ok_def validateIf_def list_all_iff)
qed

lemma non_empty_string: "chk IsNotEmpty v \<Longrightarrow> chk IsString v \<Longrightarrow> \<exists>s. v = Some (JStr s) \<and> s \<noteq> []"
  by (auto simp: laws)

text \<open>A payment names a bill, or gives biller, consumer and amount as texts.\<close>

lemma payment_complete:
  assumes "validationPipe chk CreatePaymentDto body = Some b" and "\<not> prop_truthy b ''billNumber''"
    and "k \<in> {''billerCode'', ''consumerNumber'', ''amount''}"
  shows "\<exists>s. map_of b k = Some (JStr s) \<and> s \<noteq> []"
proof -
  have "map_of b ''billNumber'' = map_of body ''billNumber''"
    by (rule pipe_props [OF assms(1)]) (simp add: CreatePaymentDto_def validateIf_def)
  with assms(2) have n: "\<not> prop_truthy body ''billNumber''" by (simp add: prop_truthy_def)
  have "validateIf (\<lambda>d. \<not> prop_truthy d ''billNumber'') k [IsNotEmpty, IsString] \<in> set CreatePaymentDto"
    using assms(3) by (auto simp: CreatePaymentDto_def)
  from pipe_validateIf [OF assms(1) this n] show ?thesis by (auto intro!: non_empty_string)
qed

end

text \<open>A checker for the examples; an id is any non-empty text.\<close>

definition text_chk :: "validator \<Rightarrow> string \<Rightarrow> bool" where
  "text_chk r s = (case r of Matches p \<Rightarrow> p s | IsIn xs \<Rightarrow> s \<in> set xs | MinLength n \<Rightarrow> n \<le> length s
     | MaxLength n \<Rightarrow> length s \<le> n | _ \<Rightarrow> True)"

definition simple_chk :: "validator \<Rightarrow> json option \<Rightarrow> bool" where
  "simple_chk r v = (case r of
      IsNotEmpty \<Rightarrow> v \<noteq> None \<and> v \<noteq> Some JNull \<and> v \<noteq> Some (JStr [])
    | IsNumber \<Rightarrow> (case v of Some (JNum n) \<Rightarrow> True | _ \<Rightarrow> False)
    | IsArray \<Rightarrow> (case v of Some (JArr xs) \<Rightarrow> True | _ \<Rightarrow> False)
    | _ \<Rightarrow> (case v of Some (JStr s) \<Rightarrow> text_chk r s | _ \<Rightarrow> False))"

interpretation simple_chk: class_validator simple_chk
  by unfold_locales (auto simp: simple_chk_def text_chk_def split: option.splits json.splits)

subsection \<open>Properties\<close>

text \<open>
  What a validated request is: an OTP of six digits, a mobile number of ten digits
  from 6 to 9, twelve and ten digits in a bill request, a known schedule type, and for a
  payment either a bill number or the texts of biller, consumer and amount.
\<close>

theorem validated_types:
  assumes "class_validator chk"
  shows "(validationPipe chk VerifyOtpDto body = Some b \<longrightarrow> (\<exists>s. map_of b ''otp'' = Some (JStr s) \<and> length s = 6 \<and> all_digits s))
    \<and> (validationPipe chk InitRegistrationDto body = Some b \<longrightarrow> (\<exists>s. map_of b ''mobileNumber'' = Some (JStr s) \<and> re_mobile s))
    \<and> (validationPipe chk FetchBillDto body = Some b \<longrightarrow> (\<exists>c m. map_of b ''consumerNumber'' = Some (JStr c) \<and> re_digits 12 c
         \<and> map_of b ''registeredMobile'' = Some (JStr m) \<and> re_digits 10 m))
    \<and> (validationPipe chk CreateBillScheduleDto body = Some b \<longrightarrow>
         (\<exists>s. map_of b ''scheduleType'' = Some (JStr s) \<and> (s = ''ONE_TIME'' \<or> s = ''RECURRING'')))
    \<and> (validationPipe chk CreatePaymentDto body = Some b \<longrightarrow> prop_truthy b ''billNumber''
         \<or> (\<forall>k \<in> {''billerCode'', ''consumerNumber'', ''amount''}. \<exists>s. map_of b k = Some (JStr s) \<and> s \<noteq> []))"
proof (intro conjI impI)
  note laws = class_validator.laws [OF assms] and req = class_validator.pipe_required [OF assms]
  {
    assume a: "validationPipe chk VerifyOtpDto body = Some b"
    have "required ''otp'' [IsNotEmpty, IsString, Matches re_otp] \<in> set VerifyOtpDto" by (simp add: VerifyOtpDto_def)
    from req [OF a this] show "\<exists>s. map_of b ''otp'' = Some (JStr s) \<and> length s = 6 \<and> all_digits s"
      by (auto simp: laws re_otp_def re_digits_def)
  }
  {
    assume a: "validationPipe chk InitRegistrationDto body = Some b"
    have "required ''mobileNumber'' [IsNotEmpty, IsString, Matches re_mobile] \<in> set InitRegistrationDto"
      by (simp add: InitRegistrationDto_def)
    from req [OF a this] show "\<exists>s. map_of b ''mobileNumber'' = Some (JStr s) \<and> re_mobile s" by (auto simp: laws)
  }
  {
    assume a: "validationPipe chk FetchBillDto body = Some b"
    have "required ''consumerNumber'' [IsString, Matches (re_digits 12)] \<in> set FetchBillDto"
      "required ''registeredMobile'' [IsString, Matches (re_digits 10)] \<in> set FetchBillDto" by (simp_all add: FetchBillDto_def)
    from req [OF a this(1)] req [OF a this(2)] show "\<exists>c m. map_of b ''consumerNumber'' = Some (JStr c) \<and> re_digits 12 c
         \<and> map_of b ''registeredMobile'' = Some (JStr m) \<and> re_digits 10 m" by (auto simp: laws)
  }
  {
    assume a: "validationPipe chk CreateBillScheduleDto body = Some b"
    have "required ''scheduleType'' [IsIn [''ONE_TIME'', ''RECURRING'']] \<in> set CreateBillScheduleDto"
      by (simp add: CreateBillScheduleDto_def)
    from req [OF a this] show "\<exists>s. map_of b ''scheduleType'' = Some (JStr s) \<and> (s = ''ONE_TIME'' \<or> s = ''RECURRING'')"
      by (auto simp: laws)
  }
  assume a: "validationPipe chk CreatePaymentDto body = Some b"
  from class_validator.payment_complete [OF assms a] show "prop_truthy b ''billNumber''
     \<or> (\<forall>k \<in> {''billerCode'', ''consumerNumber'', ''amount''}. \<exists>s. map_of b k = Some (JStr s) \<and> s \<noteq> [])" by blast
qed

theorem validated_types_witness:
  "validationPipe simple_chk CreatePaymentDto [(''billNumber'', JStr ''B1''), (''admin'', JBool True)] = Some [(''billNumber'', JStr ''B1'')]
   \<and> prop_truthy [(''billNumber'', JStr ''B1'')] ''billNumber''"
proof -
  have "validationPipe simple_chk CreatePaymentDto [(''billNumber'', JStr ''B1''), (''admin'', JBool True)] = Some [(''billNumber'', JStr ''B1'')]"
    by code_simp
  with validated_types [OF simple_chk.class_validator_axioms,
      of "[(''billNumber'', JStr ''B1''), (''admin'', JBool True)]" "[(''billNumber'', JStr ''B1'')]"] show ?thesis by auto
qed

text \<open>
  The two conditional validations of a credential switch each other off: a request with
  a password and an MPIN is accepted whatever the two are, of any type and any length. In
  the same way a payment with both a bill number and a biller code has none of them checked.
\<close>

theorem validation_switched_off:
  assumes "chk IsNotEmpty (Some u)" and "chk IsUUID (Some u)" and "json_truthy x" and "json_truthy y"
  shows "validationPipe chk SetCredentialDto [(''userId'', u), (''password'', x), (''mpin'', y)]
      = Some [(''userId'', u), (''password'', x), (''mpin'', y)]
    \<and> validationPipe chk CreatePaymentDto [(''billNumber'', x), (''billerCode'', y)]
      = Some [(''billNumber'', x), (''billerCode'', y)]"
  using assms by (simp add: validationPipe_def SetCredentialDto_def CreatePaymentDto_def field_ok_def required_def
      validateIf_def optional_def prop_truthy_def)

theorem validation_switched_off_witness:
  "validationPipe simple_chk SetCredentialDto [(''userId'', JStr ''u1''), (''password'', JStr ''x''), (''mpin'', JNum 7)]
   = Some [(''userId'', JStr ''u1''), (''password'', JStr ''x''), (''mpin'', JNum 7)]"
  using validation_switched_off [of simple_chk "JStr ''u1''" "JStr ''x''" "JNum 7"]
  by (simp add: simple_chk_def text_chk_def)

end
