(* ===== verification/Repository.thy ===== *)
theory Repository
  imports Prelude
begin

text \<open>
  The interface of the TypeORM repositories. TypeORM and the database are not part of the
  service: a repository is a record of operations that the services take as an argument,
  with the laws the services rely on as the locale \<open>repository\<close>. Any operation that
  writes may fail (a lost connection, a unique index) and then leaves the table as it was;
  reads give the rows that are not soft-deleted. \<open>mem_repo\<close> is an executable table with
  unique indexes that satisfies every law.
\<close>

subsection \<open>Rows\<close>

text \<open>
  A row is the generated primary key, the managed time stamps of \<open>SoftDeleteEntity\<close>
  (milliseconds) and the columns of the entity.
\<close>

record 'd row =
  rid :: string
  createdAt :: int
  updatedAt :: int
  deletedAt :: "int option"
  rdata :: 'd

definition upd :: "('d \<Rightarrow> 'd) \<Rightarrow> 'd row \<Rightarrow> 'd row" where
  "upd f e = e\<lparr>rdata := f (rdata e)\<rparr>"

lemma upd_simps [simp]:
  "rid (upd f e) = rid e" "createdAt (upd f e) = createdAt e" "rdata (upd f e) = f (rdata e)"
  by (simp_all add: upd_def)

definition byId :: "string \<Rightarrow> 'd row \<Rightarrow> bool" where
  "byId i e \<longleftrightarrow> rid e = i"

lemma byId_iff [simp]: "byId i e \<longleftrightarrow> rid e = i"
  by (simp add: byId_def)

definition anyRow :: "'d row \<Rightarrow> bool" where
  "anyRow e = True"

lemma anyRow_True [simp]: "anyRow e"
  by (simp add: anyRow_def)

subsection \<open>Operations\<close>

text \<open>
  \<open>insertR\<close> is \<open>save(create(d))\<close>, \<open>saveR\<close> is \<open>save(e)\<close> of a loaded row,
  \<open>insertAllR\<close> is \<open>save\<close> of an array of new entities (one transaction),
  \<open>findOrdR\<close> is \<open>find\<close> with an \<open>order\<close>, given by its sort key.
\<close>

record ('t, 'd) repo =
  findR :: "('d row \<Rightarrow> bool) \<Rightarrow> 't \<Rightarrow> 'd row list"
  findOneR :: "('d row \<Rightarrow> bool) \<Rightarrow> 't \<Rightarrow> 'd row option"
  findOrdR :: "('d row \<Rightarrow> int) \<Rightarrow> ('d row \<Rightarrow> bool) \<Rightarrow> 't \<Rightarrow> 'd row list"
  insertR :: "'d \<Rightarrow> ('t, 'd row) act"
  insertAllR :: "'d list \<Rightarrow> ('t, 'd row list) act"
  saveR :: "'d row \<Rightarrow> ('t, 'd row) act"
  softDeleteR :: "string \<Rightarrow> ('t, unit) act"
  deleteR :: "('d row \<Rightarrow> bool) \<Rightarrow> ('t, unit) act"

definition rows :: "('t, 'd) repo \<Rightarrow> 't \<Rightarrow> 'd row set" where
  "rows R t = set (findR R anyRow t)"

subsection \<open>The contract\<close>

locale repository =
  fixes R :: "('t, 'd) repo"
  assumes find_set: "set (findR R P t) = {e \<in> rows R t. P e}"
    and find_distinct: "distinct (map rid (findR R P t))"
    and findOne_None: "findOneR R P t = None \<longleftrightarrow> (\<forall>e \<in> rows R t. \<not> P e)"
    and findOne_Some: "findOneR R P t = Some e \<Longrightarrow> e \<in> rows R t \<and> P e"
    and findOrd_set: "set (findOrdR R k P t) = {e \<in> rows R t. P e}"
    and findOrd_sorted: "sorted (map k (findOrdR R k P t))"
    and findOrd_distinct: "distinct (map rid (findOrdR R k P t))"
    and insert_ok: "insertR R d t = (Inr e, u) \<Longrightarrow>
          rdata e = d \<and> rid e \<notin> rid ` rows R t \<and> rows R u = insert e (rows R t)"
    and insert_err: "insertR R d t = (Inl x, u) \<Longrightarrow> rows R u = rows R t"
    and insertAll_ok: "insertAllR R ds t = (Inr es, u) \<Longrightarrow>
          map rdata es = ds \<and> rid ` set es \<inter> rid ` rows R t = {}
          \<and> rows R u = set es \<union> rows R t"
    and insertAll_err: "insertAllR R ds t = (Inl x, u) \<Longrightarrow> rows R u = rows R t"
    and save_ok: "saveR R e t = (Inr f, u) \<Longrightarrow> rid e \<in> rid ` rows R t \<Longrightarrow>
          rid f = rid e \<and> rdata f = rdata e \<and> createdAt f = createdAt e
          \<and> rows R u = insert f {x \<in> rows R t. rid x \<noteq> rid e}"
    and save_err: "saveR R e t = (Inl x, u) \<Longrightarrow> rows R u = rows R t"
    and softDelete_ok: "softDeleteR R i t = (Inr (), u) \<Longrightarrow>
          rows R u = {x \<in> rows R t. rid x \<noteq> i}"
    and softDelete_err: "softDeleteR R i t = (Inl x, u) \<Longrightarrow> rows R u = rows R t"
    and delete_ok: "deleteR R P t = (Inr (), u) \<Longrightarrow> rows R u = {x \<in> rows R t. \<not> P x}"
    and delete_err: "deleteR R P t = (Inl x, u) \<Longrightarrow> rows R u = rows R t"
begin

lemma rid_inj:
  assumes "e \<in> rows R t" and "f \<in> rows R t" and "rid e = rid f"
  shows "e = f"
proof -
  have "inj_on rid (set (findR R anyRow t))"
    using find_distinct [of anyRow t] by (simp add: distinct_map)
  with assms show ?thesis unfolding rows_def by (auto dest: inj_onD)
qed

lemma findOne_mem: "findOneR R P t = Some e \<Longrightarrow> e \<in> rows R t"
  using findOne_Some by blast

lemma findOne_sat: "findOneR R P t = Some e \<Longrightarrow> P e"
  using findOne_Some by blast

lemma findOne_byId: "e \<in> rows R t \<Longrightarrow> findOneR R (byId (rid e)) t = Some e"
proof -
  assume e: "e \<in> rows R t"
  then have "findOneR R (byId (rid e)) t \<noteq> None"
    by (subst findOne_None) auto
  then obtain f where f: "findOneR R (byId (rid e)) t = Some f" by blast
  from findOne_Some [OF f] have "f \<in> rows R t" "rid f = rid e" by auto
  with rid_inj [OF this(1) e] f show ?thesis by simp
qed

lemma findOne_byId_iff: "findOneR R (byId i) t = Some e \<longleftrightarrow> e \<in> rows R t \<and> rid e = i"
  using findOne_Some [of "byId i" t e] findOne_byId [of e t] by auto

lemma findOne_byId_None: "findOneR R (byId i) t = None \<longleftrightarrow> i \<notin> rid ` rows R t"
  by (subst findOne_None) auto

text \<open>Saving a loaded row keeps the set of keys, in whatever way it ends.\<close>

lemma save_keys: "saveR R e t = (r, u) \<Longrightarrow> rid e \<in> rid ` rows R t \<Longrightarrow> rid ` rows R u = rid ` rows R t"
  by (cases r) (auto dest!: save_ok dest: save_err)

lemma save_cases:
  assumes "saveR R e t = (r, u)" and "rid e \<in> rid ` rows R t"
  obtains (err) x where "r = Inl x" "rows R u = rows R t"
  | (ok) f where "r = Inr f" "rid f = rid e" "rdata f = rdata e"
      "rows R u = insert f {x \<in> rows R t. rid x \<noteq> rid e}"
  using assms by (cases r) (auto dest!: save_ok dest: save_err)

text \<open>
  A predicate on the columns that holds of every row: reads give rows with it, writes of
  columns with it keep it.
\<close>

lemma all_insert:
  "insertR R d t = (r, u) \<Longrightarrow> Q d \<Longrightarrow> \<forall>e \<in> rows R t. Q (rdata e) \<Longrightarrow> \<forall>e \<in> rows R u. Q (rdata e)"
  by (cases r) (auto dest!: insert_ok dest: insert_err)

lemma all_save:
  "saveR R e t = (r, u) \<Longrightarrow> rid e \<in> rid ` rows R t \<Longrightarrow> Q (rdata e) \<Longrightarrow>
   \<forall>e \<in> rows R t. Q (rdata e) \<Longrightarrow> \<forall>e \<in> rows R u. Q (rdata e)"
  by (cases r) (auto dest!: save_ok dest: save_err)

lemma all_softDelete:
  "softDeleteR R i t = (r, u) \<Longrightarrow> \<forall>e \<in> rows R t. Q e \<Longrightarrow> \<forall>e \<in> rows R u. Q e"
  by (cases r) (auto dest: softDelete_ok softDelete_err)

end

text \<open>A repository whose writes always succeed: no index to violate, no lost connection.\<close>

locale reliable_repository = repository +
  assumes insert_total: "\<exists>e u. insertR R d t = (Inr e, u)"
    and save_total: "rid e \<in> rid ` rows R t \<Longrightarrow> \<exists>f u. saveR R e t = (Inr f, u)"
    and softDelete_total: "\<exists>u. softDeleteR R i t = (Inr (), u)"

end
