(* ===== verification/Mem_Table.thy ===== *)
theory Mem_Table
  imports Repository
begin

text \<open>
  A table in memory that satisfies the repository contract. A slot holds a row, or
  \<open>None\<close> once the row is deleted for good; the key of a row is made from its position, so
  keys never clash. \<open>conf\<close> is the unique index: two rows whose columns conflict cannot
  both be stored (soft-deleted rows still count, as in the database).
\<close>

record 'd mem =
  slots :: "'d row option list"
  clock :: int

definition row_id :: "nat \<Rightarrow> string" where
  "row_id i = replicate (Suc i) CHR ''r''"

lemma row_id_inj [simp]: "row_id i = row_id j \<longleftrightarrow> i = j"
  by (auto simp: row_id_def simp del: replicate_Suc dest: arg_cong [where f = length])

definition show_slot :: "nat \<Rightarrow> 'd row option \<Rightarrow> 'd row list" where
  "show_slot i s = (case s of None \<Rightarrow> []
     | Some r \<Rightarrow> if deletedAt r = None then [r\<lparr>rid := row_id i\<rparr>] else [])"

fun live_from :: "nat \<Rightarrow> 'd row option list \<Rightarrow> 'd row list" where
  "live_from n [] = []"
| "live_from n (s # ss) = show_slot n s @ live_from (Suc n) ss"

definition live :: "'d mem \<Rightarrow> 'd row list" where
  "live m = live_from 0 (slots m)"

definition mem_free :: "('d \<Rightarrow> 'd \<Rightarrow> bool) \<Rightarrow> 'd \<Rightarrow> 'd row option list \<Rightarrow> bool" where
  "mem_free conf d ss \<longleftrightarrow> list_all (\<lambda>s. case s of None \<Rightarrow> True | Some r \<Rightarrow> \<not> conf d (rdata r)) ss"

definition mem_new :: "'d mem \<Rightarrow> 'd \<Rightarrow> 'd row" where
  "mem_new m d = \<lparr>rid = row_id (length (slots m)), createdAt = clock m, updatedAt = clock m,
     deletedAt = None, rdata = d\<rparr>"

definition duplicate_entry :: exn where
  "duplicate_entry = Failure ''ER_DUP_ENTRY''"

definition mem_insert :: "('d \<Rightarrow> 'd \<Rightarrow> bool) \<Rightarrow> 'd \<Rightarrow> ('d mem, 'd row) act" where
  "mem_insert conf d m = (if mem_free conf d (slots m)
     then (Inr (mem_new m d), m\<lparr>slots := slots m @ [Some (mem_new m d)]\<rparr>)
     else (Inl duplicate_entry, m))"

fun mem_inserts :: "('d \<Rightarrow> 'd \<Rightarrow> bool) \<Rightarrow> 'd list \<Rightarrow> ('d mem, 'd row list) act" where
  "mem_inserts conf [] m = (Inr [], m)"
| "mem_inserts conf (d # ds) m = (case mem_insert conf d m of
     (Inl e, _) \<Rightarrow> (Inl e, m)
   | (Inr r, u) \<Rightarrow> (case mem_inserts conf ds u of
       (Inl e, _) \<Rightarrow> (Inl e, m)
     | (Inr rs, v) \<Rightarrow> (Inr (r # rs), v)))"

definition mem_save :: "('d \<Rightarrow> 'd \<Rightarrow> bool) \<Rightarrow> 'd row \<Rightarrow> ('d mem, 'd row) act" where
  "mem_save conf e m = (let i = length (rid e) - 1 in
     if i < length (slots m) \<and> row_id i = rid e \<and> show_slot i (slots m ! i) \<noteq> []
        \<and> mem_free conf (rdata e) ((slots m)[i := None])
     then (let f = e\<lparr>updatedAt := clock m, deletedAt := None\<rparr>
           in (Inr f, m\<lparr>slots := (slots m)[i := Some f]\<rparr>))
     else (Inl duplicate_entry, m))"

definition mem_softDelete :: "string \<Rightarrow> ('d mem, unit) act" where
  "mem_softDelete k m = (let i = length k - 1 in
     (Inr (), if i < length (slots m) \<and> row_id i = k
        then m\<lparr>slots := (slots m)[i := map_option (\<lambda>r. r\<lparr>deletedAt := Some (clock m)\<rparr>) (slots m ! i)]\<rparr>
        else m))"

fun drop_rows :: "('d row \<Rightarrow> bool) \<Rightarrow> nat \<Rightarrow> 'd row option list \<Rightarrow> 'd row option list" where
  "drop_rows P n [] = []"
| "drop_rows P n (s # ss) = (if list_ex P (show_slot n s) then None else s) # drop_rows P (Suc n) ss"

definition mem_repo :: "('d \<Rightarrow> 'd \<Rightarrow> bool) \<Rightarrow> ('d mem, 'd) repo" where
  "mem_repo conf = \<lparr>
     findR = (\<lambda>P m. filter P (live m)),
     findOneR = (\<lambda>P m. find P (live m)),
     findOrdR = (\<lambda>k P m. sort_key k (filter P (live m))),
     insertR = mem_insert conf,
     insertAllR = mem_inserts conf,
     saveR = mem_save conf,
     softDeleteR = mem_softDelete,
     deleteR = (\<lambda>P m. (Inr (), m\<lparr>slots := drop_rows P 0 (slots m)\<rparr>))\<rparr>"

definition mem_empty :: "'d mem" where
  "mem_empty = \<lparr>slots = [], clock = 0\<rparr>"

definition no_conf :: "'d \<Rightarrow> 'd \<Rightarrow> bool" where
  "no_conf a b = False"

subsection \<open>The laws\<close>

lemma ex_less_Suc_shift: "(\<exists>i < Suc n. P i) \<longleftrightarrow> P 0 \<or> (\<exists>i < n. P (Suc i))"
  using less_Suc_eq_0_disj by auto

lemma live_from_iff:
  "r \<in> set (live_from n ss) \<longleftrightarrow> (\<exists>i < length ss. r \<in> set (show_slot (n + i) (ss ! i)))"
  by (induction ss arbitrary: n) (auto simp: ex_less_Suc_shift)

lemma show_slot_iff:
  "r \<in> set (show_slot i s) \<longleftrightarrow>
     (\<exists>q. s = Some q \<and> deletedAt q = None \<and> r = q\<lparr>rid := row_id i\<rparr>)"
  by (auto simp: show_slot_def split: option.splits)

lemma live_iff:
  "r \<in> set (live m) \<longleftrightarrow> (\<exists>i < length (slots m). r \<in> set (show_slot i (slots m ! i)))"
  by (simp add: live_def live_from_iff)

lemma show_slot_rid: "r \<in> set (show_slot i s) \<Longrightarrow> rid r = row_id i"
  by (auto simp: show_slot_iff)

lemma live_from_ids: "k \<in> rid ` set (live_from n ss) \<Longrightarrow> \<exists>i. n \<le> i \<and> i < n + length ss \<and> k = row_id i"
proof -
  assume "k \<in> rid ` set (live_from n ss)"
  then obtain r i where "k = rid r" "i < length ss" "r \<in> set (show_slot (n + i) (ss ! i))"
    by (auto simp: live_from_iff)
  then have "n \<le> n + i \<and> n + i < n + length ss \<and> k = row_id (n + i)"
    by (simp add: show_slot_rid)
  then show ?thesis by blast
qed

lemma live_fresh: "r \<in> set (live m) \<Longrightarrow> rid r \<noteq> row_id (length (slots m))"
  using live_from_ids [of "rid r" 0 "slots m"] by (auto simp: live_def)

lemma live_from_distinct: "distinct (map rid (live_from n ss))"
proof (induction ss arbitrary: n)
  case Nil
  then show ?case by simp
next
  case (Cons s ss)
  have "distinct (map rid (show_slot n s))"
    by (simp add: show_slot_def split: option.splits)
  moreover have "rid ` set (show_slot n s) \<inter> rid ` set (live_from (Suc n) ss) = {}"
    by (auto dest!: show_slot_rid simp: image_iff live_from_iff)
  ultimately show ?case using Cons.IH by (auto simp: distinct_map inj_on_Un)
qed

lemma live_distinct: "distinct (map rid (live m))"
  by (simp add: live_def live_from_distinct)

lemma live_from_append: "live_from n (xs @ ys) = live_from n xs @ live_from (n + length xs) ys"
  by (induction xs arbitrary: n) auto

lemma distinct_map_filter_rid: "distinct (map rid xs) \<Longrightarrow> distinct (map rid (filter P xs))"
  by (simp add: distinct_map_filter)

lemma mem_insert_rows:
  "mem_insert conf d m = (Inr e, u) \<Longrightarrow>
     rdata e = d \<and> rid e \<notin> rid ` set (live m) \<and> set (live u) = insert e (set (live m))"
proof -
  assume a: "mem_insert conf d m = (Inr e, u)"
  then have e: "e = mem_new m d" and u: "u = m\<lparr>slots := slots m @ [Some e]\<rparr>"
    by (auto simp: mem_insert_def split: if_splits)
  have "set (live u) = insert e (set (live m))"
    by (auto simp: u e live_def live_from_append show_slot_def mem_new_def)
  moreover have "rid e \<notin> rid ` set (live m)"
    using live_fresh [of _ m] by (force simp: e mem_new_def)
  ultimately show ?thesis by (simp add: e mem_new_def)
qed

lemma mem_inserts_rows:
  "mem_inserts conf ds m = (Inr es, u) \<Longrightarrow>
     map rdata es = ds \<and> rid ` set es \<inter> rid ` set (live m) = {}
     \<and> set (live u) = set es \<union> set (live m)"
proof (induction ds arbitrary: m es)
  case Nil
  then show ?case by simp
next
  case (Cons d ds)
  from Cons.prems obtain r rs v where 1: "mem_insert conf d m = (Inr r, v)"
    and 2: "mem_inserts conf ds v = (Inr rs, u)" and es: "es = r # rs"
    by (auto split: prod.splits sum.splits)
  from mem_insert_rows [OF 1] Cons.IH [OF 2] es show ?case by auto
qed

lemma mem_inserts_err: "mem_inserts conf ds m = (Inl x, u) \<Longrightarrow> u = m"
  by (cases ds) (auto split: prod.splits sum.splits)

lemma mem_save_rows:
  assumes "mem_save conf e m = (Inr f, u)"
  shows "rid f = rid e \<and> rdata f = rdata e \<and> createdAt f = createdAt e
     \<and> set (live u) = insert f {x \<in> set (live m). rid x \<noteq> rid e}"
proof -
  define i where "i = length (rid e) - 1"
  from assms have i: "i < length (slots m)" "row_id i = rid e"
    and f: "f = e\<lparr>updatedAt := clock m, deletedAt := None\<rparr>"
    and u: "u = m\<lparr>slots := (slots m)[i := Some f]\<rparr>"
    by (auto simp: mem_save_def i_def Let_def split: if_splits)
  have "set (live u) = insert f {x \<in> set (live m). rid x \<noteq> rid e}"
  proof (rule set_eqI)
    fix r
    have s: "set (show_slot i (Some f)) = {f}"
      using f i by (simp add: show_slot_def)
    have "r \<in> set (live u) \<longleftrightarrow>
        (\<exists>j < length (slots m). r \<in> set (show_slot j (if j = i then Some f else slots m ! j)))"
      by (auto simp: live_iff u nth_list_update)
    also have "\<dots> \<longleftrightarrow> r = f \<or> (\<exists>j < length (slots m). j \<noteq> i \<and> r \<in> set (show_slot j (slots m ! j)))"
      using i(1) s by auto
    also have "\<dots> \<longleftrightarrow> r = f \<or> (r \<in> set (live m) \<and> rid r \<noteq> rid e)"
    proof -
      have "rid r \<noteq> rid e \<longleftrightarrow> j \<noteq> i" if "r \<in> set (show_slot j (slots m ! j))" for j
        using show_slot_rid [OF that] i(2) [symmetric] by simp
      then show ?thesis unfolding live_iff by blast
    qed
    finally show "r \<in> set (live u) \<longleftrightarrow> r \<in> insert f {x \<in> set (live m). rid x \<noteq> rid e}" by simp
  qed
  with f show ?thesis by simp
qed

lemma mem_save_err: "mem_save conf e m = (Inl x, u) \<Longrightarrow> u = m"
  by (auto simp: mem_save_def Let_def split: if_splits)

lemma mem_softDelete_rows:
  "set (live (snd (mem_softDelete k m))) = {x \<in> set (live m). rid x \<noteq> k}"
proof -
  define i where "i = length k - 1"
  show ?thesis
  proof (cases "i < length (slots m) \<and> row_id i = k")
    case True
    define del where "del = map_option (\<lambda>r. r\<lparr>deletedAt := Some (clock m)\<rparr>) (slots m ! i)"
    have none: "show_slot i del = []"
      by (simp add: del_def show_slot_def split: option.splits)
    have "r \<in> set (live (snd (mem_softDelete k m))) \<longleftrightarrow>
        (\<exists>j < length (slots m). j \<noteq> i \<and> r \<in> set (show_slot j (slots m ! j)))" for r
    proof -
      have "snd (mem_softDelete k m) = m\<lparr>slots := (slots m)[i := del]\<rparr>"
        using True unfolding mem_softDelete_def Let_def i_def [symmetric] del_def by simp
      moreover have "set (show_slot i del) = {}" using none by simp
      moreover have "(slots m)[i := del] ! j = (if j = i then del else slots m ! j)" for j
        using True by (cases "j = i") auto
      ultimately show ?thesis by (auto simp: live_iff split: if_splits)
    qed
    moreover have "rid r \<noteq> k \<longleftrightarrow> j \<noteq> i" if "r \<in> set (show_slot j (slots m ! j))" for r j
      using show_slot_rid [OF that] True by auto
    ultimately show ?thesis unfolding set_eq_iff mem_Collect_eq live_iff by blast
  next
    case False
    then have "snd (mem_softDelete k m) = m"
      unfolding mem_softDelete_def Let_def i_def [symmetric] by auto
    moreover have "rid x \<noteq> k" if "x \<in> set (live m)" for x
    proof
      assume "rid x = k"
      with that obtain j where "j < length (slots m)" "row_id j = k"
        by (auto simp: live_iff dest: show_slot_rid)
      with False show False by (auto simp: i_def row_id_def)
    qed
    ultimately show ?thesis by auto
  qed
qed

lemma drop_rows_live:
  "set (live_from n (drop_rows P n ss)) = {x \<in> set (live_from n ss). \<not> P x}"
  by (induction ss arbitrary: n) (auto simp: show_slot_def split: option.splits)

text \<open>The table satisfies the contract, whatever its unique index.\<close>

lemma mem_rows: "rows (mem_repo conf) m = set (live m)"
  by (simp add: rows_def mem_repo_def)

lemma mem_repo_simps [simp]:
  "findR (mem_repo conf) = (\<lambda>P m. filter P (live m))"
  "findOneR (mem_repo conf) = (\<lambda>P m. find P (live m))"
  "findOrdR (mem_repo conf) = (\<lambda>k P m. sort_key k (filter P (live m)))"
  "insertR (mem_repo conf) = mem_insert conf"
  "insertAllR (mem_repo conf) = mem_inserts conf"
  "saveR (mem_repo conf) = mem_save conf"
  "softDeleteR (mem_repo conf) = mem_softDelete"
  "deleteR (mem_repo conf) = (\<lambda>P m. (Inr (), m\<lparr>slots := drop_rows P 0 (slots m)\<rparr>))"
  by (simp_all add: mem_repo_def)

lemma distinct_map_sort_filter:
  "distinct (map rid xs) \<Longrightarrow> distinct (map rid (sort_key k (filter P xs)))"
  by (auto simp: distinct_map intro: inj_on_subset)

interpretation mem: repository "mem_repo conf"
proof (unfold_locales, unfold mem_rows mem_repo_simps, goal_cases)
  case (2 P t)
  show ?case by (rule distinct_map_filter_rid [OF live_distinct])
next
  case (4 P t e)
  then show ?case by (auto simp: find_Some_iff)
next
  case (7 k P t)
  show ?case by (rule distinct_map_sort_filter [OF live_distinct])
next
  case (8 d t e u)
  then show ?case by (rule mem_insert_rows)
next
  case (9 d t x u)
  then show ?case by (auto simp: mem_insert_def split: if_splits)
next
  case (10 ds t es u)
  then show ?case by (rule mem_inserts_rows)
next
  case (11 ds t x u)
  then show ?case by (auto dest: mem_inserts_err)
next
  case (12 e t f u)
  from 12(1) show ?case by (rule mem_save_rows)
next
  case (13 e t x u)
  then show ?case by (auto dest: mem_save_err)
next
  case (14 i t u)
  then show ?case using mem_softDelete_rows [of i t] by simp
next
  case (15 i t x u)
  then show ?case by (simp add: mem_softDelete_def Let_def)
next
  case (16 P t u)
  then show ?case by (auto simp: live_def drop_rows_live)
qed (auto simp: find_None_iff)

text \<open>Without a unique index no write of the table fails.\<close>

lemma mem_free_no_conf [simp]: "mem_free no_conf d ss"
  by (induction ss) (auto simp: mem_free_def no_conf_def split: option.splits)

lemma length_row_id [simp]: "length (row_id i) = Suc i"
  by (simp add: row_id_def)

interpretation mem_reliable: reliable_repository "mem_repo no_conf"
proof (unfold_locales, unfold mem_rows mem_repo_simps)
  fix d :: 'a and t :: "'a mem"
  show "\<exists>e u. mem_insert no_conf d t = (Inr e, u)" by (simp add: mem_insert_def)
next
  fix e :: "'a row" and t :: "'a mem"
  assume "rid e \<in> rid ` set (live t)"
  then obtain i r where i: "i < length (slots t)" "r \<in> set (show_slot i (slots t ! i))"
    and "rid e = rid r" by (auto simp: live_iff)
  with show_slot_rid [OF i(2)] have "rid e = row_id i" by simp
  with i show "\<exists>f u. mem_save no_conf e t = (Inr f, u)"
    by (auto simp: mem_save_def Let_def)
next
  fix i and t :: "'a mem"
  show "\<exists>u. mem_softDelete i t = (Inr (), u)" by (simp add: mem_softDelete_def Let_def)
qed

end
