(* ===== verification/JS_Number.thy ===== *)
theory JS_Number
  imports JS
begin

text \<open>
  \<open>Number(s)\<close> on strings, with the rounding to IEEE doubles, and the decimal columns
  \<open>decimal(12, 2)\<close> of the entities. A finite double is the rational it denotes.
\<close>

datatype jsnum = NaN | Infinite bool | Num rat

subsection \<open>Rounding to a double\<close>

text \<open>Number of binary digits.\<close>

function blen :: "int \<Rightarrow> nat" where
  "blen n = (if n \<le> 0 then 0 else Suc (blen (n div 2)))"
  by pat_completeness auto
termination
  by (relation "measure nat") auto

declare blen.simps [simp del]

text \<open>Round to an integer, ties to even.\<close>

definition round_even :: "rat \<Rightarrow> int" where
  "round_even x = (let n = \<lfloor>x\<rfloor>; f = x - of_int n in
     if f < 1/2 then n else if 1/2 < f then n + 1 else if even n then n else n + 1)"

definition pow2 :: "int \<Rightarrow> rat" where
  "pow2 e = (if 0 \<le> e then 2 ^ nat e else 1 / 2 ^ nat (- e))"

text \<open>
  An exponent \<open>e\<close> with \<open>2 ^ e \<le> x < 2 ^ (e + 1)\<close> for a positive \<open>x = p / q\<close>: the
  difference of the lengths, or one less.
\<close>

definition exponent :: "rat \<Rightarrow> int" where
  "exponent x = (let (p, q) = quotient_of x; e = int (blen p) - int (blen q)
     in if pow2 e \<le> x then e else e - 1)"

definition ulp :: "rat \<Rightarrow> rat" where
  "ulp x = pow2 (max (exponent x) (-1022) - 52)"

definition to_double :: "rat \<Rightarrow> jsnum" where
  "to_double x = (if x = 0 then Num 0 else
     let u = ulp \<bar>x\<bar>; r = of_int (round_even (x / u)) * u in
     if 2 ^ 1024 \<le> \<bar>r\<bar> then Infinite (0 < x) else Num r)"

subsection \<open>The grammar of \<open>Number(s)\<close>\<close>

definition digits_value :: "int \<Rightarrow> int list \<Rightarrow> int" where
  "digits_value base ds = foldl (\<lambda>a d. a * base + d) 0 ds"

definition digit_value :: "char \<Rightarrow> int" where
  "digit_value c = (if is_digit c then int (code c) - 48
     else if is_lower c then int (code c) - 87 else if is_upper c then int (code c) - 55 else 99)"

definition radix_literal :: "int \<Rightarrow> string \<Rightarrow> jsnum" where
  "radix_literal base s = (if s \<noteq> [] \<and> list_all (\<lambda>c. digit_value c < base) s
     then to_double (of_int (digits_value base (map digit_value s))) else NaN)"

definition pow10 :: "int \<Rightarrow> rat" where
  "pow10 e = (if 0 \<le> e then 10 ^ nat e else 1 / 10 ^ nat (- e))"

definition exponent_part :: "string \<Rightarrow> int option" where
  "exponent_part s = (case s of [] \<Rightarrow> Some 0
     | c # cs \<Rightarrow> if c \<noteq> CHR ''e'' \<and> c \<noteq> CHR ''E'' then None else
        (let neg = (cs \<noteq> [] \<and> hd cs = CHR ''-'');
             ds = (if cs \<noteq> [] \<and> (hd cs = CHR ''-'' \<or> hd cs = CHR ''+'') then tl cs else cs);
             n = digits_value 10 (map digit_value ds)
         in if ds \<noteq> [] \<and> list_all is_digit ds then Some (if neg then - n else n) else None))"

definition unsigned_decimal :: "string \<Rightarrow> rat option" where
  "unsigned_decimal s =
     (let ip = takeWhile is_digit s; r1 = dropWhile is_digit s;
          dot = (r1 \<noteq> [] \<and> hd r1 = CHR ''.'');
          fp = (if dot then takeWhile is_digit (tl r1) else []);
          r2 = (if dot then dropWhile is_digit (tl r1) else r1)
      in if ip = [] \<and> fp = [] then None
         else (case exponent_part r2 of None \<Rightarrow> None
           | Some e \<Rightarrow> Some (of_int (digits_value 10 (map digit_value (ip @ fp)))
               * pow10 (e - int (length fp)))))"

definition infinity_text :: string where
  "infinity_text = ''Infinity''"

definition signed_decimal :: "string \<Rightarrow> jsnum" where
  "signed_decimal s =
     (let neg = (s \<noteq> [] \<and> hd s = CHR ''-'');
          t = (if s \<noteq> [] \<and> (hd s = CHR ''-'' \<or> hd s = CHR ''+'') then tl s else s)
      in if t = infinity_text then Infinite (\<not> neg)
         else (case unsigned_decimal t of None \<Rightarrow> NaN
           | Some x \<Rightarrow> to_double (if neg then - x else x)))"

definition Number :: "string \<Rightarrow> jsnum" where
  "Number s = (let t = trim s; p = map lower_char (take 2 t); r = drop 2 t in
     if t = [] then Num 0
     else if p = ''0x'' then radix_literal 16 r
     else if p = ''0o'' then radix_literal 8 r
     else if p = ''0b'' then radix_literal 2 r
     else signed_decimal t)"

subsection \<open>Decimal columns\<close>

text \<open>A \<open>decimal(12, 2)\<close> column keeps a number to two places.\<close>

definition dec2 :: "rat \<Rightarrow> rat" where
  "dec2 x = of_int \<lfloor>x * 100 + 1/2\<rfloor> / 100"

definition is_dec12_2 :: "rat \<Rightarrow> bool" where
  "is_dec12_2 x \<longleftrightarrow> x * 100 = of_int \<lfloor>x * 100\<rfloor> \<and> \<bar>x\<bar> < 10 ^ 10"

text \<open>\<open>Number\<close> of the text of a decimal column.\<close>

definition column_number :: "rat \<Rightarrow> rat" where
  "column_number x = (case to_double x of Num r \<Rightarrow> r | _ \<Rightarrow> 0)"

subsection \<open>Facts\<close>

lemma round_even_err: "\<bar>of_int (round_even x) - x\<bar> \<le> 1/2"
proof -
  have a: "of_int \<lfloor>x\<rfloor> \<le> x" "x < of_int \<lfloor>x\<rfloor> + 1" by linarith+
  then show ?thesis
    unfolding round_even_def Let_def by (auto simp: abs_le_iff)
qed

lemma pow2_pos [simp]: "0 < pow2 e"
  by (simp add: pow2_def)

lemma pow2_Suc: "pow2 (e + 1) = 2 * pow2 e"
proof (cases "0 \<le> e")
  case True
  then show ?thesis by (simp add: pow2_def nat_add_distrib)
next
  case False
  show ?thesis
  proof (cases "e = -1")
    case False
    with \<open>\<not> 0 \<le> e\<close> have "nat (- e) = Suc (nat (- (e + 1)))" by simp
    with False \<open>\<not> 0 \<le> e\<close> show ?thesis by (simp add: pow2_def)
  qed (simp add: pow2_def)
qed

lemma pow2_add_nat: "pow2 (e + int n) = 2 ^ n * pow2 e"
proof (induction n)
  case (Suc n)
  have "pow2 (e + int (Suc n)) = pow2 ((e + int n) + 1)" by (simp add: algebra_simps)
  also have "\<dots> = 2 * (2 ^ n * pow2 e)" using Suc pow2_Suc by simp
  finally show ?case by simp
qed simp

lemma pow2_mono: "a \<le> b \<Longrightarrow> pow2 a \<le> pow2 b"
proof -
  assume "a \<le> b"
  then obtain n where b: "b = a + int n" by (metis zle_iff_zadd)
  have "1 * pow2 a \<le> 2 ^ n * pow2 a"
    by (rule mult_right_mono) (simp_all add: less_imp_le)
  then show ?thesis unfolding b pow2_add_nat by simp
qed

lemma blen_upper: "n < 2 ^ blen n"
proof (induction n rule: blen.induct)
  case (1 n)
  show ?case
  proof (cases "n \<le> 0")
    case True
    then show ?thesis by (simp add: blen.simps)
  next
    case False
    with 1 have "n div 2 < 2 ^ blen (n div 2)" by simp
    with False show ?thesis by (simp add: blen.simps [of n])
  qed
qed

lemma blen_lower: "0 < n \<Longrightarrow> 2 ^ blen n \<le> 2 * n"
proof (induction n rule: blen.induct)
  case (1 n)
  show ?case
  proof (cases "n div 2 \<le> 0")
    case True
    with 1(2) have "n = 1" by simp
    then show ?thesis by (simp add: blen.simps)
  next
    case False
    with 1 have "2 ^ blen (n div 2) \<le> 2 * (n div 2)" by simp
    with 1(2) show ?thesis by (simp add: blen.simps [of n])
  qed
qed

text \<open>The unit in the last place of a positive amount below \<open>2 ^ 34\<close> is tiny.\<close>

lemma exponent_small:
  assumes "0 < x" and "x < 2 ^ 34"
  shows "exponent x \<le> 34"
proof (rule ccontr)
  assume a: "\<not> exponent x \<le> 34"
  obtain p q where pq: "quotient_of x = (p, q)" by fastforce
  define e where "e = int (blen p) - int (blen q)"
  have ex: "exponent x = (if pow2 e \<le> x then e else e - 1)"
    by (simp add: exponent_def pq e_def Let_def)
  have q: "0 < q" and x: "x = of_int p / of_int q"
    using quotient_of_denom_pos [OF pq] quotient_of_div [OF pq] by simp_all
  have p: "0 < p" using assms(1) q x by (simp add: zero_less_divide_iff)
  have "pow2 (e - 1) \<le> x"
  proof -
    have p1: "(2::rat) ^ blen p \<le> 2 * of_int p"
    proof -
      have "of_int (2 ^ blen p) \<le> (of_int (2 * p) :: rat)" using blen_lower [OF p] by (subst of_int_le_iff)
      then show ?thesis by simp
    qed
    have q1: "(of_int q :: rat) \<le> 2 ^ blen q"
    proof -
      have "of_int q \<le> (of_int (2 ^ blen q) :: rat)" using blen_upper [of q] by (subst of_int_le_iff) simp
      then show ?thesis by simp
    qed
    have "pow2 e = 2 ^ blen p / 2 ^ blen q"
    proof -
      have "pow2 (- int (blen q) + int (blen p)) = 2 ^ blen p * pow2 (- int (blen q))"
        by (rule pow2_add_nat)
      then show ?thesis by (simp add: e_def pow2_def)
    qed
    also have "\<dots> \<le> 2 * of_int p / of_int q"
      using p1 q1 q p by (intro frac_le) simp_all
    finally have "pow2 e \<le> 2 * x" using x by simp
    then show ?thesis using pow2_Suc [of "e - 1"] by simp
  qed
  moreover have "35 \<le> e" "e = 35 \<longrightarrow> pow2 e \<le> x" using a ex by (auto split: if_splits)
  ultimately have "pow2 34 \<le> x"
    using pow2_mono [of 34 "e - 1"] by linarith
  with assms(2) show False by (simp add: pow2_def)
qed

lemma to_double_err:
  assumes "\<bar>x\<bar> < 2 ^ 34"
  shows "\<exists>r. to_double x = Num r \<and> \<bar>r - x\<bar> \<le> 1 / 2 ^ 19"
proof (cases "x = 0")
  case True
  then show ?thesis by (simp add: to_double_def)
next
  case False
  define u where "u = ulp \<bar>x\<bar>"
  have "exponent \<bar>x\<bar> \<le> 34" using assms False by (intro exponent_small) auto
  then have "u \<le> pow2 (-18)" unfolding u_def ulp_def by (intro pow2_mono) simp
  then have u: "u \<le> 1 / 2 ^ 18" by (simp add: pow2_def)
  have u0: "0 < u" by (simp add: u_def ulp_def)
  define r where "r = of_int (round_even (x / u)) * u"
  have "\<bar>r - x\<bar> = \<bar>of_int (round_even (x / u)) - x / u\<bar> * u"
  proof -
    have "r - x = (of_int (round_even (x / u)) - x / u) * u"
      using u0 by (simp add: r_def left_diff_distrib)
    then show ?thesis using u0 by (simp add: abs_mult)
  qed
  also have "\<dots> \<le> 1/2 * u" using round_even_err u0 by (intro mult_right_mono) auto
  also have "\<dots> \<le> 1/2 * (1 / 2 ^ 18)" using u by (intro mult_left_mono) auto
  finally have d: "\<bar>r - x\<bar> \<le> 1 / 2 ^ 19" by simp
  have "\<bar>r\<bar> < 2 ^ 35"
  proof -
    have "\<bar>r\<bar> \<le> \<bar>x\<bar> + \<bar>r - x\<bar>" by linarith
    also have "\<dots> < 2 ^ 34 + 1" using d assms by (simp add: divide_simps)
    finally show ?thesis by simp
  qed
  also have "(2::rat) ^ 35 \<le> 2 ^ 1024" by (rule power_increasing) simp_all
  finally have "\<not> 2 ^ 1024 \<le> \<bar>r\<bar>" by (simp only: not_le)
  with False d show ?thesis
    unfolding to_double_def Let_def u_def [symmetric] r_def [symmetric] by simp
qed

text \<open>A decimal column survives the way to a double and back.\<close>

lemma dec2_column_number:
  assumes "is_dec12_2 x"
  shows "dec2 (column_number x) = x"
proof -
  have "\<bar>x\<bar> < 2 ^ 34"
  proof -
    have "(10::rat) ^ 10 \<le> 2 ^ 34" by simp
    with assms show ?thesis unfolding is_dec12_2_def by linarith
  qed
  then obtain r where r: "to_double x = Num r" "\<bar>r - x\<bar> \<le> 1 / 2 ^ 19"
    using to_double_err by blast
  define n where "n = \<lfloor>x * 100\<rfloor>"
  have n: "x * 100 = of_int n" using assms by (simp add: is_dec12_2_def n_def)
  have "\<bar>r * 100 - of_int n\<bar> = \<bar>r - x\<bar> * 100"
  proof -
    have "r * 100 - of_int n = (r - x) * 100" by (simp add: n [symmetric] left_diff_distrib)
    then have "\<bar>r * 100 - of_int n\<bar> = \<bar>(r - x) * 100\<bar>" by (rule arg_cong)
    also have "\<dots> = \<bar>r - x\<bar> * 100" by (simp only: abs_mult abs_numeral)
    finally show ?thesis .
  qed
  also have "\<dots> \<le> 1 / 2 ^ 19 * 100" using r(2) by (intro mult_right_mono) auto
  also have "\<dots> < 1/2" by simp
  finally have "\<bar>r * 100 - of_int n\<bar> < 1/2" .
  then have "\<lfloor>r * 100 + 1/2\<rfloor> = n" by (intro floor_unique) linarith+
  with r(1) n show ?thesis by (simp add: dec2_def column_number_def)
qed

lemma column_number_inj:
  "is_dec12_2 x \<Longrightarrow> is_dec12_2 y \<Longrightarrow> column_number x = column_number y \<longleftrightarrow> x = y"
  using dec2_column_number by metis

text \<open>Whole numbers of that size are exact.\<close>

lemma round_even_int [simp]: "round_even (of_int n) = n"
  by (simp add: round_even_def)

lemma to_double_int:
  assumes "\<bar>n\<bar> < 2 ^ 34"
  shows "to_double (of_int n) = Num (of_int n)"
proof (cases "n = 0")
  case True
  then show ?thesis by (simp add: to_double_def)
next
  case False
  define x :: rat where "x = of_int n"
  have x: "\<bar>x\<bar> < 2 ^ 34" "0 < \<bar>x\<bar>"
  proof -
    have "of_int \<bar>n\<bar> < (of_int (2 ^ 34) :: rat)" using assms by (subst of_int_less_iff)
    then show "\<bar>x\<bar> < 2 ^ 34" "0 < \<bar>x\<bar>" using False by (simp_all add: x_def)
  qed
  define k where "k = nat (52 - max (exponent \<bar>x\<bar>) (-1022))"
  have "exponent \<bar>x\<bar> \<le> 34" using x by (intro exponent_small)
  then have u: "ulp \<bar>x\<bar> = 1 / 2 ^ k" by (auto simp: ulp_def pow2_def k_def max_def)
  have "x / ulp \<bar>x\<bar> = x * 2 ^ k" unfolding u by simp
  then have q: "x / ulp \<bar>x\<bar> = of_int (n * 2 ^ k)" by (simp add: x_def)
  then have r: "of_int (round_even (x / ulp \<bar>x\<bar>)) * ulp \<bar>x\<bar> = x"
    unfolding q round_even_int unfolding u by (simp add: x_def)
  have "(2::rat) ^ 34 \<le> 2 ^ 1024" by (rule power_increasing) simp_all
  with x(1) have "\<not> 2 ^ 1024 \<le> \<bar>x\<bar>" by (simp only: not_le)
  with False r show ?thesis unfolding x_def [symmetric] to_double_def Let_def by (simp add: x_def)
qed

text \<open>The shortcut the evaluation of the examples takes.\<close>

lemma to_double_eval [code]:
  "to_double x = (if x = 0 then Num 0 else if x = of_int \<lfloor>x\<rfloor> \<and> \<bar>\<lfloor>x\<rfloor>\<bar> < 17179869184 then Num x else
     let u = ulp \<bar>x\<bar>; r = of_int (round_even (x / u)) * u in
     if 2 ^ 1024 \<le> \<bar>r\<bar> then Infinite (0 < x) else Num r)"
proof (cases "x = of_int \<lfloor>x\<rfloor> \<and> \<bar>\<lfloor>x\<rfloor>\<bar> < 17179869184")
  case True
  with to_double_int [of "\<lfloor>x\<rfloor>"] have "to_double x = Num x" by simp
  with True show ?thesis by (simp add: to_double_def)
next
  case False
  then show ?thesis by (simp only: to_double_def if_False)
qed

end
