(* ===== verification/Bill_Catalog.thy ===== *)
theory Bill_Catalog
  imports Rbac_Constants Repository Mem_Table JS_Number
begin

text \<open>
  \<open>modules/bill-payment\<close> without payments and schedules: the catalog constant and its
  seeder, the biller service, the bill fetch and the ownership checks of
  \<open>common/bbps-access.util.ts\<close>.
\<close>

subsection \<open>Entities\<close>

record biller =
  bi_billerCode :: string
  bi_billerName :: string
  bi_category :: string
  bi_active :: bool

text \<open>
  \<open>mock_bill\<close> and \<open>demo_bbps_data\<close>; the amount is the value of the decimal column.
\<close>

record mock_bill =
  mb_billerCode :: string
  mb_consumerNumber :: string
  mb_billNumber :: string
  mb_registeredMobile :: string
  mb_customerName :: string
  mb_amount :: rat
  mb_dueDate :: string
  mb_status :: string

record demo_bill = mock_bill +
  de_billerName :: string
  de_category :: string

definition same_bill :: "'z mock_bill_scheme \<Rightarrow> 'z mock_bill_scheme \<Rightarrow> bool" where
  "same_bill a b \<longleftrightarrow> mb_billerCode a = mb_billerCode b \<and> mb_consumerNumber a = mb_consumerNumber b"

definition of_consumer :: "string \<Rightarrow> string \<Rightarrow> 'z mock_bill_scheme row \<Rightarrow> bool" where
  "of_consumer billerCode consumerNumber e \<longleftrightarrow>
     mb_billerCode (rdata e) = billerCode \<and> mb_consumerNumber (rdata e) = consumerNumber"

definition of_number :: "string \<Rightarrow> 'z mock_bill_scheme row \<Rightarrow> bool" where
  "of_number billNumber e \<longleftrightarrow> mb_billNumber (rdata e) = billNumber"

subsection \<open>bbps-catalog.const.ts\<close>

definition BBPS_CATEGORIES :: "string list" where
  "BBPS_CATEGORIES = [''ELECTRICITY'', ''GAS'', ''WATER'']"

record catalog_entry =
  ce_billerCode :: string
  ce_billerName :: string
  ce_category :: string
  ce_consumerNumber :: string
  ce_registeredMobile :: string
  ce_billNumber :: string
  ce_customerName :: string
  ce_amount :: rat
  ce_dueDate :: string

definition BBPS_CATALOG :: "catalog_entry list" where
  "BBPS_CATALOG = [
     \<lparr>ce_billerCode = ''ELEC-MSEDCL-01'', ce_billerName = ''Maharashtra State Electricity (MSEDCL)'',
       ce_category = ''ELECTRICITY'', ce_consumerNumber = ''100000000001'',
       ce_registeredMobile = ''9000000001'', ce_billNumber = ''BBPS-ELEC-001'',
       ce_customerName = ''Demo Customer Elec 1'', ce_amount = 12505/10, ce_dueDate = ''2026-12-31''\<rparr>,
     \<lparr>ce_billerCode = ''ELEC-BESCOM-01'', ce_billerName = ''BESCOM Electricity'',
       ce_category = ''ELECTRICITY'', ce_consumerNumber = ''100000000002'',
       ce_registeredMobile = ''9000000002'', ce_billNumber = ''BBPS-ELEC-002'',
       ce_customerName = ''Demo Customer Elec 2'', ce_amount = 980, ce_dueDate = ''2026-12-31''\<rparr>,
     \<lparr>ce_billerCode = ''GAS-GAIL-01'', ce_billerName = ''GAIL Gas'',
       ce_category = ''GAS'', ce_consumerNumber = ''100000000011'',
       ce_registeredMobile = ''9000000011'', ce_billNumber = ''BBPS-GAS-001'',
       ce_customerName = ''Demo Customer Gas 1'', ce_amount = 900, ce_dueDate = ''2026-12-31''\<rparr>,
     \<lparr>ce_billerCode = ''GAS-IGL-01'', ce_billerName = ''Indraprastha Gas (IGL)'',
       ce_category = ''GAS'', ce_consumerNumber = ''100000000012'',
       ce_registeredMobile = ''9000000012'', ce_billNumber = ''BBPS-GAS-002'',
       ce_customerName = ''Demo Customer Gas 2'', ce_amount = 65075/100, ce_dueDate = ''2026-12-31''\<rparr>,
     \<lparr>ce_billerCode = ''WATER-DJB-01'', ce_billerName = ''Delhi Jal Board'',
       ce_category = ''WATER'', ce_consumerNumber = ''100000000021'',
       ce_registeredMobile = ''9000000021'', ce_billNumber = ''BBPS-WATER-001'',
       ce_customerName = ''Demo Customer Water 1'', ce_amount = 480, ce_dueDate = ''2026-12-31''\<rparr>,
     \<lparr>ce_billerCode = ''WATER-BWSSB-01'', ce_billerName = ''Bangalore Water Supply (BWSSB)'',
       ce_category = ''WATER'', ce_consumerNumber = ''100000000022'',
       ce_registeredMobile = ''9000000022'', ce_billNumber = ''BBPS-WATER-002'',
       ce_customerName = ''Demo Customer Water 2'', ce_amount = 52025/100, ce_dueDate = ''2026-12-31''\<rparr>]"

subsection \<open>bbps-catalog.seeder.ts\<close>

record ('b, 'm, 'd) bill_tables =
  bt_billers :: 'b
  bt_mock :: 'm
  bt_demo :: 'd

record ('b, 'm, 'd) bill_env =
  be_billers :: "('b, biller) repo"
  be_mock :: "('m, mock_bill) repo"
  be_demo :: "('d, demo_bill) repo"

definition onBillers :: "('b, 'x) act \<Rightarrow> (('b, 'm, 'd) bill_tables, 'x) act" where
  "onBillers = zoom bt_billers (\<lambda>x s. s\<lparr>bt_billers := x\<rparr>)"

definition onMock :: "('m, 'x) act \<Rightarrow> (('b, 'm, 'd) bill_tables, 'x) act" where
  "onMock = zoom bt_mock (\<lambda>x s. s\<lparr>bt_mock := x\<rparr>)"

definition onDemo :: "('d, 'x) act \<Rightarrow> (('b, 'm, 'd) bill_tables, 'x) act" where
  "onDemo = zoom bt_demo (\<lambda>x s. s\<lparr>bt_demo := x\<rparr>)"

definition upsertBiller :: "('b, biller) repo \<Rightarrow> catalog_entry \<Rightarrow> ('b, unit) act" where
  "upsertBiller R c t = (case findOneR R (\<lambda>e. bi_billerCode (rdata e) = ce_billerCode c) t of
      Some existing \<Rightarrow> andThen (saveR R (upd (\<lambda>d. d\<lparr>bi_billerName := ce_billerName c,
          bi_category := ce_category c, bi_active := True\<rparr>) existing)) (\<lambda>_. ret ()) t
    | None \<Rightarrow> andThen (insertR R \<lparr>bi_billerCode = ce_billerCode c, bi_billerName = ce_billerName c,
          bi_category = ce_category c, bi_active = True\<rparr>) (\<lambda>_. ret ()) t)"

text \<open>A bill that is paid stays paid when the catalog is seeded again.\<close>

definition seeded_status :: "'z mock_bill_scheme row option \<Rightarrow> string" where
  "seeded_status existing = (if map_option (\<lambda>e. mb_status (rdata e)) existing = Some ''PAID''
     then ''PAID'' else ''UNPAID'')"

definition seed_mock :: "catalog_entry \<Rightarrow> string \<Rightarrow> mock_bill" where
  "seed_mock c status = \<lparr>mb_billerCode = ce_billerCode c, mb_consumerNumber = ce_consumerNumber c,
     mb_billNumber = ce_billNumber c, mb_registeredMobile = ce_registeredMobile c,
     mb_customerName = ce_customerName c, mb_amount = dec2 (ce_amount c), mb_dueDate = ce_dueDate c,
     mb_status = status\<rparr>"

definition seed_demo :: "catalog_entry \<Rightarrow> string \<Rightarrow> demo_bill" where
  "seed_demo c status = \<lparr>mb_billerCode = ce_billerCode c, mb_consumerNumber = ce_consumerNumber c,
     mb_billNumber = ce_billNumber c, mb_registeredMobile = ce_registeredMobile c,
     mb_customerName = ce_customerName c, mb_amount = dec2 (ce_amount c), mb_dueDate = ce_dueDate c,
     mb_status = status, de_billerName = ce_billerName c, de_category = ce_category c\<rparr>"

definition upsert_bill ::
  "('t, 'z mock_bill_scheme) repo \<Rightarrow> (catalog_entry \<Rightarrow> string \<Rightarrow> 'z mock_bill_scheme) \<Rightarrow> catalog_entry
   \<Rightarrow> ('t, unit) act" where
  "upsert_bill R seed c t =
     (let existing = findOneR R (of_consumer (ce_billerCode c) (ce_consumerNumber c)) t;
          payload = seed c (seeded_status existing)
      in case existing of
           Some e \<Rightarrow> andThen (saveR R (upd (\<lambda>_. payload) e)) (\<lambda>_. ret ()) t
         | None \<Rightarrow> andThen (insertR R payload) (\<lambda>_. ret ()) t)"

definition upsertMockBill :: "('m, mock_bill) repo \<Rightarrow> catalog_entry \<Rightarrow> ('m, unit) act" where
  "upsertMockBill R c = upsert_bill R seed_mock c"

definition upsertDemo :: "('d, demo_bill) repo \<Rightarrow> catalog_entry \<Rightarrow> ('d, unit) act" where
  "upsertDemo R c = upsert_bill R seed_demo c"

definition onModuleInit :: "('b, 'm, 'd) bill_env \<Rightarrow> (('b, 'm, 'd) bill_tables, unit) act" where
  "onModuleInit E = andThen (forA BBPS_CATALOG (\<lambda>c.
     andThen (onBillers (upsertBiller (be_billers E) c)) (\<lambda>_.
     andThen (onMock (upsertMockBill (be_mock E) c)) (\<lambda>_.
     onDemo (upsertDemo (be_demo E) c))))) (\<lambda>_. ret ())"

subsection \<open>biller.service.ts\<close>

definition bi_findAll :: "('b, biller) repo \<Rightarrow> string option \<Rightarrow> 'b \<Rightarrow> biller row list" where
  "bi_findAll R category t = (if truthy category
     then findR R (\<lambda>e. bi_category (rdata e) = orElse category [] \<and> bi_active (rdata e)) t
     else findR R anyRow t)"

definition bi_findOne :: "('b, biller) repo \<Rightarrow> string \<Rightarrow> 'b \<Rightarrow> biller row option" where
  "bi_findOne R i t = findOneR R (byId i) t"

definition getCategories :: "(string \<times> string) list" where
  "getCategories = map (\<lambda>c. (c, c)) BBPS_CATEGORIES"

text \<open>The column \<open>active\<close> has the default \<open>true\<close>.\<close>

definition bi_create :: "('b, biller) repo \<Rightarrow> string \<Rightarrow> string \<Rightarrow> string \<Rightarrow> ('b, biller row) act" where
  "bi_create R billerCode billerName category = insertR R \<lparr>bi_billerCode = billerCode,
     bi_billerName = billerName, bi_category = category, bi_active = True\<rparr>"

subsection \<open>bill.service.ts\<close>

record fetch_bill_dto =
  fb_billerCode :: string
  fb_consumerNumber :: string
  fb_registeredMobile :: string

record bill_details =
  bd_billerName :: string
  bd_bill :: mock_bill

definition bill_not_found :: exn where
  "bill_not_found = NotFoundException (Coded ''BILL_NOT_FOUND'' ''Bill not found'')"

definition of_fetch :: "fetch_bill_dto \<Rightarrow> 'z mock_bill_scheme row \<Rightarrow> bool" where
  "of_fetch dto e \<longleftrightarrow> of_consumer (fb_billerCode dto) (fb_consumerNumber dto) e
     \<and> mb_registeredMobile (rdata e) = fb_registeredMobile dto"

definition fetchBill ::
  "('b, 'm, 'd) bill_env \<Rightarrow> fetch_bill_dto \<Rightarrow> ('b, 'm, 'd) bill_tables \<Rightarrow> bill_details result" where
  "fetchBill E dto s =
     (let b = findOneR (be_billers E) (\<lambda>e. bi_billerCode (rdata e) = fb_billerCode dto \<and> bi_active (rdata e))
                (bt_billers s);
          bill = (if b = None then None else findOneR (be_mock E) (of_fetch dto) (bt_mock s))
      in case (b, bill) of
           (Some x, Some y) \<Rightarrow> Inr \<lparr>bd_billerName = bi_billerName (rdata x), bd_bill = rdata y\<rparr>
         | _ \<Rightarrow> (case findOneR (be_demo E) (of_fetch dto) (bt_demo s) of
               None \<Rightarrow> Inl bill_not_found
             | Some d \<Rightarrow> Inr \<lparr>bd_billerName = de_billerName (rdata d), bd_bill = mock_bill.truncate (rdata d)\<rparr>))"

subsection \<open>bbps-access.util.ts\<close>

definition requireActorSub :: "actor option \<Rightarrow> string result" where
  "requireActorSub actor = (case actor of
      None \<Rightarrow> Inl (UnauthorizedException (Msg ''Keycloak access token is required''))
    | Some a \<Rightarrow> if \<not> truthy (act_sub a)
        then Inl (UnauthorizedException (Msg ''Keycloak access token is required''))
        else Inr (orElse (act_sub a) []))"

definition canViewAllBillPayments :: "actor option \<Rightarrow> bool" where
  "canViewAllBillPayments actor = hasAnyRealmRole actor BBPS_PAYMENT_BANK_READ_ROLES"

definition payment_not_found :: exn where
  "payment_not_found = NotFoundException (Coded ''PAYMENT_NOT_FOUND'' ''Bill payment not found'')"

definition schedule_not_found :: exn where
  "schedule_not_found = NotFoundException (Coded ''SCHEDULE_NOT_FOUND'' ''Bill schedule not found'')"

definition owned_by_actor :: "exn \<Rightarrow> string option \<Rightarrow> actor option \<Rightarrow> unit result" where
  "owned_by_actor e owner actor = (case requireActorSub actor of
      Inl x \<Rightarrow> Inl x
    | Inr sub \<Rightarrow> if \<not> truthy owner \<or> owner \<noteq> Some sub then Inl e else Inr ())"

definition assertPaymentOwnedByActor :: "string option \<Rightarrow> actor option \<Rightarrow> unit result" where
  "assertPaymentOwnedByActor owner actor =
     (if canViewAllBillPayments actor then Inr () else owned_by_actor payment_not_found owner actor)"

definition assertScheduleOwnedByActor :: "string option \<Rightarrow> actor option \<Rightarrow> unit result" where
  "assertScheduleOwnedByActor owner actor = owned_by_actor schedule_not_found owner actor"

definition assertIdempotentPaymentOwnedByActor :: "string option \<Rightarrow> actor option \<Rightarrow> unit result" where
  "assertIdempotentPaymentOwnedByActor owner actor = (if \<not> truthy owner then Inr () else
     (case requireActorSub actor of
        Inl x \<Rightarrow> Inl x
      | Inr sub \<Rightarrow> if owner \<noteq> Some sub then Inl payment_not_found else Inr ()))"

subsection \<open>Facts\<close>

lemma requireActorSub_ok: "requireActorSub actor = Inr u \<longleftrightarrow> u \<noteq> [] \<and> (\<exists>a. actor = Some a \<and> act_sub a = Some u)"
  by (auto simp: requireActorSub_def truthy_def split: option.splits if_splits)

lemma owned_by_actor_ok:
  "owned_by_actor e owner actor = Inr () \<longleftrightarrow> (\<exists>u. requireActorSub actor = Inr u \<and> owner = Some u)"
  by (auto simp: owned_by_actor_def requireActorSub_def truthy_def split: sum.splits option.splits if_splits)

text \<open>A bill seeded as paid or unpaid from its former state keeps being paid.\<close>

lemma seeded_status_paid: "seeded_status e = ''PAID'' \<longleftrightarrow> (\<exists>x. e = Some x \<and> mb_status (rdata x) = ''PAID'')"
  by (cases e) (auto simp: seeded_status_def)

locale bill_repository = repository R for R :: "('t, 'z mock_bill_scheme) repo"
begin

text \<open>The keys of the paid bills only grow when an entry is seeded.\<close>

definition paid :: "'t \<Rightarrow> string set" where
  "paid t = rid ` {x \<in> rows R t. mb_status (rdata x) = ''PAID''}"

lemma upsert_bill_paid:
  assumes "upsert_bill R seed c t = (r, u)" and seed: "\<And>st. mb_status (seed c st) = st"
  shows "paid t \<subseteq> paid u"
proof -
  define e where "e = findOneR R (of_consumer (ce_billerCode c) (ce_consumerNumber c)) t"
  define p where "p = seed c (seeded_status e)"
  show ?thesis
  proof (cases e)
    case None
    obtain q v where i: "insertR R p t = (q, v)" by fastforce
    have "u = v" using assms(1) None i unfolding upsert_bill_def Let_def e_def [symmetric] p_def [symmetric]
      by (cases q) auto
    then show ?thesis using i by (cases q) (auto simp: paid_def dest: insert_ok insert_err)
  next
    case (Some y)
    have y: "y \<in> rows R t" using findOne_mem [OF Some [unfolded e_def]] .
    obtain q v where s: "saveR R (upd (\<lambda>_. p) y) t = (q, v)" by fastforce
    have "u = v" using assms(1) Some s unfolding upsert_bill_def Let_def e_def [symmetric] p_def [symmetric]
      by (cases q) auto
    moreover have "i \<in> paid v" if "i \<in> paid t" for i
    proof -
      from that obtain x where x: "x \<in> rows R t" "mb_status (rdata x) = ''PAID''" "i = rid x"
        by (auto simp: paid_def)
      have k: "rid (upd (\<lambda>_. p) y) \<in> rid ` rows R t" using y by simp
      have st: "mb_status p = ''PAID''" if "rid x = rid y"
        using rid_inj [OF x(1) y that] x(2) Some by (simp add: p_def seed seeded_status_def)
      have mem: "i \<in> paid v" if "z \<in> rows R v" "mb_status (rdata z) = ''PAID''" "rid z = i" for z
        using that by (auto simp: paid_def)
      show ?thesis
      proof (cases rule: save_cases [OF s k])
        case (1 e)
        with x show ?thesis by (intro mem) simp_all
      next
        case (2 f)
        show ?thesis
        proof (cases "rid x = rid y")
          case True
          with 2 st x(3) show ?thesis by (intro mem [of f]) simp_all
        next
          case False
          with 2 x show ?thesis by (intro mem [of x]) simp_all
        qed
      qed
    qed
    ultimately show ?thesis by blast
  qed
qed

end

interpretation mem_bill: bill_repository "mem_repo conf"
  by unfold_locales

end
