(* ===== verification/Payment.thy ===== *)
theory Payment
  imports Bill_Catalog Interceptors
begin

text \<open>
  \<open>modules/bill-payment/payment\<close>: paying a bill through the BBPS adapter, once per
  idempotency key, and retrying a payment. The state holds the payment table, the two
  tables of bills and the world of the adapter. The idempotency key of the DTO is the one
  the interceptor put there, so it is never absent.
\<close>

subsection \<open>bill-payment.entity.ts, bbps.adapter.ts\<close>

record payment =
  py_billerCode :: string
  py_consumerNumber :: string
  py_amount :: rat
  py_status :: string
  py_idempotencyKey :: string
  py_keycloakUserId :: "string option"
  py_bbpsReferenceId :: "string option"

definition same_key :: "payment \<Rightarrow> payment \<Rightarrow> bool" where
  "same_key a b \<longleftrightarrow> py_idempotencyKey a = py_idempotencyKey b"

datatype bbps_status = SUCCESS | FAILED | PENDING | TIMEOUT

fun bbps_status_text :: "bbps_status \<Rightarrow> string" where
  "bbps_status_text SUCCESS = ''SUCCESS''"
| "bbps_status_text FAILED = ''FAILED''"
| "bbps_status_text PENDING = ''PENDING''"
| "bbps_status_text TIMEOUT = ''TIMEOUT''"

record bbps_request =
  bq_billerCode :: string
  bq_consumerNumber :: string
  bq_amount :: rat

record bbps_response =
  bs_status :: bbps_status
  bs_referenceId :: "string option"

type_synonym 'w bbps_adapter = "bbps_request \<Rightarrow> ('w, bbps_response) act"

subsection \<open>mock-bbps.adapter.ts\<close>

text \<open>\<open>rnd\<close> is \<open>Math.floor(Math.random() * 20)\<close>, \<open>now\<close> the clock.\<close>

definition mock_response :: "nat \<Rightarrow> int \<Rightarrow> bbps_response" where
  "mock_response rnd now = (let ref = Some (''BBPS-'' @ show_int now) in
     if rnd \<le> 4 then \<lparr>bs_status = SUCCESS, bs_referenceId = ref\<rparr>
     else if rnd \<le> 9 then \<lparr>bs_status = FAILED, bs_referenceId = ref\<rparr>
     else if rnd \<le> 14 then \<lparr>bs_status = PENDING, bs_referenceId = ref\<rparr>
     else \<lparr>bs_status = TIMEOUT, bs_referenceId = None\<rparr>)"

text \<open>The adapter over a source of random numbers and clocks; the world counts the calls.\<close>

definition mock_adapter :: "(nat \<Rightarrow> nat \<times> int) \<Rightarrow> nat bbps_adapter" where
  "mock_adapter src req n = (Inr (case src n of (rnd, now) \<Rightarrow> mock_response rnd now), Suc n)"

subsection \<open>State\<close>

record ('p, 'm, 'd, 'w) pay_state =
  ps_payments :: 'p
  ps_mock :: 'm
  ps_demo :: 'd
  ps_world :: 'w

record ('p, 'm, 'd, 'w) pay_env =
  pe_payments :: "('p, payment) repo"
  pe_mock :: "('m, mock_bill) repo"
  pe_demo :: "('d, demo_bill) repo"
  pe_adapter :: "'w bbps_adapter"

definition onPayments :: "('p, 'x) act \<Rightarrow> (('p, 'm, 'd, 'w) pay_state, 'x) act" where
  "onPayments = zoom ps_payments (\<lambda>x s. s\<lparr>ps_payments := x\<rparr>)"

definition onMockBills :: "('m, 'x) act \<Rightarrow> (('p, 'm, 'd, 'w) pay_state, 'x) act" where
  "onMockBills = zoom ps_mock (\<lambda>x s. s\<lparr>ps_mock := x\<rparr>)"

definition onDemoBills :: "('d, 'x) act \<Rightarrow> (('p, 'm, 'd, 'w) pay_state, 'x) act" where
  "onDemoBills = zoom ps_demo (\<lambda>x s. s\<lparr>ps_demo := x\<rparr>)"

definition onAdapter :: "('w, 'x) act \<Rightarrow> (('p, 'm, 'd, 'w) pay_state, 'x) act" where
  "onAdapter = zoom ps_world (\<lambda>x s. s\<lparr>ps_world := x\<rparr>)"

subsection \<open>payment.service.ts\<close>

datatype billing_record = Mock_record "mock_bill row" | Demo_record "demo_bill row"

fun record_bill :: "billing_record \<Rightarrow> mock_bill" where
  "record_bill (Mock_record r) = rdata r"
| "record_bill (Demo_record r) = mock_bill.truncate (rdata r)"

definition find_billing ::
  "('p, 'm, 'd, 'w) pay_env \<Rightarrow> (mock_bill row \<Rightarrow> bool) \<Rightarrow> (demo_bill row \<Rightarrow> bool)
   \<Rightarrow> ('p, 'm, 'd, 'w) pay_state \<Rightarrow> billing_record option" where
  "find_billing E P Q s = (case findOneR (pe_mock E) P (ps_mock s) of
      Some m \<Rightarrow> Some (Mock_record m)
    | None \<Rightarrow> map_option Demo_record (findOneR (pe_demo E) Q (ps_demo s)))"

definition findBillingRecordByBillNumber ::
  "('p, 'm, 'd, 'w) pay_env \<Rightarrow> string \<Rightarrow> ('p, 'm, 'd, 'w) pay_state \<Rightarrow> billing_record option" where
  "findBillingRecordByBillNumber E billNumber = find_billing E (of_number billNumber) (of_number billNumber)"

definition findBillingRecord ::
  "('p, 'm, 'd, 'w) pay_env \<Rightarrow> string \<Rightarrow> string \<Rightarrow> ('p, 'm, 'd, 'w) pay_state \<Rightarrow> billing_record option" where
  "findBillingRecord E billerCode consumerNumber =
     find_billing E (of_consumer billerCode consumerNumber) (of_consumer billerCode consumerNumber)"

definition py_findAll ::
  "('p, payment) repo \<Rightarrow> actor option \<Rightarrow> 'p \<Rightarrow> payment row list result" where
  "py_findAll R actor t = (if canViewAllBillPayments actor then Inr (findR R anyRow t)
     else (case requireActorSub actor of
        Inl e \<Rightarrow> Inl e
      | Inr sub \<Rightarrow> Inr (findR R (\<lambda>p. py_keycloakUserId (rdata p) = Some sub) t)))"

definition py_findOne ::
  "('p, payment) repo \<Rightarrow> string \<Rightarrow> actor option \<Rightarrow> ('p, payment row) act" where
  "py_findOne R i actor t = (case findOneR R (byId i) t of
      None \<Rightarrow> (Inl payment_not_found, t)
    | Some p \<Rightarrow> (case assertPaymentOwnedByActor (py_keycloakUserId (rdata p)) actor of
        Inl e \<Rightarrow> (Inl e, t) | Inr _ \<Rightarrow> (Inr p, t)))"

record payment_dto =
  pm_billNumber :: "string option"
  pm_billerCode :: "string option"
  pm_consumerNumber :: "string option"
  pm_amount :: "string option"
  pm_idempotencyKey :: string

record payment_result =
  pr_paymentId :: string
  pr_billNumber :: "string option"
  pr_billerCode :: string
  pr_consumerNumber :: string
  pr_amount :: rat
  pr_status :: string
  pr_bbpsReferenceId :: "string option"
  pr_duplicate :: bool

definition invalid_payment_request :: exn where
  "invalid_payment_request = BadRequestException (Coded ''INVALID_PAYMENT_REQUEST''
     ''Provide billNumber from fetch, or billerCode + consumerNumber + amount together'')"

definition idempotency_key_reused :: exn where
  "idempotency_key_reused = BadRequestException (Coded ''IDEMPOTENCY_KEY_REUSED''
     ''Idempotency key is already used for a different payment'')"

definition bill_not_payable :: exn where
  "bill_not_payable = BadRequestException (Coded ''BILL_NOT_PAYABLE''
     ''Bill is already paid or not payable'')"

definition amount_mismatch :: exn where
  "amount_mismatch = BadRequestException (Coded ''AMOUNT_MISMATCH''
     ''Payment amount does not match bill amount'')"

definition isSamePaymentRequest ::
  "('p, 'm, 'd, 'w) pay_env \<Rightarrow> payment_dto \<Rightarrow> payment \<Rightarrow> ('p, 'm, 'd, 'w) pay_state \<Rightarrow> bool" where
  "isSamePaymentRequest E dto p s =
     (if truthy (pm_billNumber dto)
      then (case findBillingRecordByBillNumber E (orElse (pm_billNumber dto) []) s of
          None \<Rightarrow> False
        | Some found \<Rightarrow> (let bill = record_bill found in
            py_billerCode p = mb_billerCode bill \<and> py_consumerNumber p = mb_consumerNumber bill
            \<and> column_number (py_amount p) = column_number (mb_amount bill)))
      else Some (py_billerCode p) = pm_billerCode dto \<and> Some (py_consumerNumber p) = pm_consumerNumber dto
           \<and> Num (column_number (py_amount p))
             = (case pm_amount dto of None \<Rightarrow> NaN | Some a \<Rightarrow> Number a))"

definition requested_amount :: "payment_dto \<Rightarrow> rat \<Rightarrow> jsnum" where
  "requested_amount dto billAmount =
     (if truthy (pm_amount dto) then Number (orElse (pm_amount dto) []) else Num billAmount)"

definition mark_paid :: "'z mock_bill_scheme \<Rightarrow> 'z mock_bill_scheme" where
  "mark_paid d = d\<lparr>mb_status := ''PAID''\<rparr>"

text \<open>\<open>bill.status = 'PAID'\<close> and the save in the table the bill came from.\<close>

fun save_paid ::
  "('p, 'm, 'd, 'w) pay_env \<Rightarrow> billing_record \<Rightarrow> (('p, 'm, 'd, 'w) pay_state, unit) act" where
  "save_paid E (Mock_record r) = andThen (onMockBills (saveR (pe_mock E) (upd mark_paid r))) (\<lambda>_. ret ())"
| "save_paid E (Demo_record r) = andThen (onDemoBills (saveR (pe_demo E) (upd mark_paid r))) (\<lambda>_. ret ())"

text \<open>The idempotency check: the answer for a key that is already stored.\<close>

definition replay ::
  "('p, 'm, 'd, 'w) pay_env \<Rightarrow> payment_dto \<Rightarrow> actor option \<Rightarrow> payment row
   \<Rightarrow> ('p, 'm, 'd, 'w) pay_state \<Rightarrow> payment_result result" where
  "replay E dto actor p s =
     (case assertIdempotentPaymentOwnedByActor (py_keycloakUserId (rdata p)) actor of
        Inl e \<Rightarrow> Inl e
      | Inr _ \<Rightarrow> if \<not> isSamePaymentRequest E dto (rdata p) s then Inl idempotency_key_reused
          else Inr \<lparr>pr_paymentId = rid p, pr_billNumber = None, pr_billerCode = py_billerCode (rdata p),
            pr_consumerNumber = py_consumerNumber (rdata p), pr_amount = py_amount (rdata p),
            pr_status = py_status (rdata p), pr_bbpsReferenceId = py_bbpsReferenceId (rdata p),
            pr_duplicate = True\<rparr>)"

text \<open>The checks on the bill, in order.\<close>

definition payable ::
  "('p, 'm, 'd, 'w) pay_env \<Rightarrow> payment_dto \<Rightarrow> ('p, 'm, 'd, 'w) pay_state \<Rightarrow> billing_record result" where
  "payable E dto s =
     (case (if truthy (pm_billNumber dto) then findBillingRecordByBillNumber E (orElse (pm_billNumber dto) []) s
            else findBillingRecord E (orElse (pm_billerCode dto) []) (orElse (pm_consumerNumber dto) []) s) of
        None \<Rightarrow> Inl bill_not_found
      | Some found \<Rightarrow>
          (let bill = record_bill found; billAmount = column_number (mb_amount bill) in
           if mb_status bill \<noteq> ''UNPAID'' then Inl bill_not_payable
           else if requested_amount dto billAmount \<noteq> Num billAmount then Inl amount_mismatch
           else Inr found))"

definition new_payment :: "mock_bill \<Rightarrow> bbps_response \<Rightarrow> string \<Rightarrow> string \<Rightarrow> payment" where
  "new_payment bill resp key owner = \<lparr>py_billerCode = mb_billerCode bill,
     py_consumerNumber = mb_consumerNumber bill, py_amount = dec2 (column_number (mb_amount bill)),
     py_status = bbps_status_text (bs_status resp), py_idempotencyKey = key,
     py_keycloakUserId = Some owner, py_bbpsReferenceId = bs_referenceId resp\<rparr>"

text \<open>Steps 4 to 7: the call, the payment record, the bill and the result.\<close>

definition execute_payment ::
  "('p, 'm, 'd, 'w) pay_env \<Rightarrow> string \<Rightarrow> string \<Rightarrow> billing_record
   \<Rightarrow> (('p, 'm, 'd, 'w) pay_state, payment_result) act" where
  "execute_payment E key owner found =
     (let bill = record_bill found; billAmount = column_number (mb_amount bill) in
      andThen (onAdapter (pe_adapter E \<lparr>bq_billerCode = mb_billerCode bill,
         bq_consumerNumber = mb_consumerNumber bill, bq_amount = billAmount\<rparr>)) (\<lambda>resp.
      andThen (onPayments (insertR (pe_payments E) (new_payment bill resp key owner))) (\<lambda>saved.
      andThen (if bs_status resp = SUCCESS then save_paid E found else ret ()) (\<lambda>_.
      ret \<lparr>pr_paymentId = rid saved, pr_billNumber = Some (mb_billNumber bill),
        pr_billerCode = py_billerCode (rdata saved), pr_consumerNumber = py_consumerNumber (rdata saved),
        pr_amount = billAmount, pr_status = py_status (rdata saved),
        pr_bbpsReferenceId = py_bbpsReferenceId (rdata saved), pr_duplicate = False\<rparr>))))"

definition py_create ::
  "('p, 'm, 'd, 'w) pay_env \<Rightarrow> payment_dto \<Rightarrow> actor option
   \<Rightarrow> (('p, 'm, 'd, 'w) pay_state, payment_result) act" where
  "py_create E dto actor s = (case requireActorSub actor of
      Inl e \<Rightarrow> (Inl e, s)
    | Inr keycloakUserId \<Rightarrow>
        if \<not> truthy (pm_billNumber dto) \<and>
           (\<not> truthy (pm_billerCode dto) \<or> \<not> truthy (pm_consumerNumber dto) \<or> \<not> truthy (pm_amount dto))
        then (Inl invalid_payment_request, s)
        else (case findOneR (pe_payments E) (\<lambda>p. py_idempotencyKey (rdata p) = pm_idempotencyKey dto)
                 (ps_payments s) of
            Some p \<Rightarrow> (replay E dto actor p s, s)
          | None \<Rightarrow> (case payable E dto s of
                Inl e \<Rightarrow> (Inl e, s)
              | Inr found \<Rightarrow> execute_payment E (pm_idempotencyKey dto) keycloakUserId found s)))"

definition retried :: "bbps_response \<Rightarrow> payment \<Rightarrow> payment" where
  "retried resp d = d\<lparr>py_status := bbps_status_text (bs_status resp),
     py_bbpsReferenceId := (case bs_referenceId resp of Some r \<Rightarrow> Some r | None \<Rightarrow> py_bbpsReferenceId d)\<rparr>"

text \<open>A retry dispatches the payment again and marks the bill of its consumer.\<close>

definition redispatch ::
  "('p, 'm, 'd, 'w) pay_env \<Rightarrow> payment row \<Rightarrow> (('p, 'm, 'd, 'w) pay_state, unit) act" where
  "redispatch E p =
     andThen (onAdapter (pe_adapter E \<lparr>bq_billerCode = py_billerCode (rdata p),
         bq_consumerNumber = py_consumerNumber (rdata p), bq_amount = column_number (py_amount (rdata p))\<rparr>)) (\<lambda>resp.
     andThen (onPayments (saveR (pe_payments E) (upd (retried resp) p))) (\<lambda>_.
     if bs_status resp = SUCCESS
     then (\<lambda>s. case findBillingRecord E (py_billerCode (rdata p)) (py_consumerNumber (rdata p)) s of
             None \<Rightarrow> (Inr (), s) | Some found \<Rightarrow> save_paid E found s)
     else ret ()))"

definition payViaBbps ::
  "('p, 'm, 'd, 'w) pay_env \<Rightarrow> string \<Rightarrow> actor option \<Rightarrow> (('p, 'm, 'd, 'w) pay_state, unit) act" where
  "payViaBbps E i actor s = (case findOneR (pe_payments E) (byId i) (ps_payments s) of
      None \<Rightarrow> (Inl payment_not_found, s)
    | Some p \<Rightarrow> (case assertPaymentOwnedByActor (py_keycloakUserId (rdata p)) actor of
        Inl e \<Rightarrow> (Inl e, s)
      | Inr _ \<Rightarrow> if py_status (rdata p) = ''SUCCESS'' then (Inr (), s) else redispatch E p s))"

text \<open>The controller: the interceptor before the creation, the read after the retry.\<close>

definition retry_payment ::
  "('p, 'm, 'd, 'w) pay_env \<Rightarrow> string \<Rightarrow> actor option \<Rightarrow> (('p, 'm, 'd, 'w) pay_state, payment row) act" where
  "retry_payment E i actor = andThen (payViaBbps E i actor) (\<lambda>_. onPayments (py_findOne (pe_payments E) i actor))"

subsection \<open>Facts\<close>

lemma payable_ok:
  "payable E dto s = Inr found \<Longrightarrow> mb_status (record_bill found) = ''UNPAID''
     \<and> requested_amount dto (column_number (mb_amount (record_bill found)))
       = Num (column_number (mb_amount (record_bill found)))"
  by (auto simp: payable_def Let_def split: option.splits if_splits)

text \<open>A request that changes anything has passed every check.\<close>

lemma py_create_executes:
  assumes "py_create E dto actor s = (r, t)" and "t \<noteq> s \<or> (\<exists>x. r = Inr x \<and> \<not> pr_duplicate x)"
  shows "\<exists>owner found. requireActorSub actor = Inr owner \<and> payable E dto s = Inr found
     \<and> findOneR (pe_payments E) (\<lambda>p. py_idempotencyKey (rdata p) = pm_idempotencyKey dto) (ps_payments s) = None
     \<and> execute_payment E (pm_idempotencyKey dto) owner found s = (r, t)"
  using assms
  by (auto simp: py_create_def replay_def split: sum.splits option.splits if_splits)

text \<open>The bill of a record, in the table it came from.\<close>

definition in_tables :: "('p, 'm, 'd, 'w) pay_env \<Rightarrow> billing_record \<Rightarrow> ('p, 'm, 'd, 'w) pay_state \<Rightarrow> bool" where
  "in_tables E found s \<longleftrightarrow> (case found of Mock_record m \<Rightarrow> m \<in> rows (pe_mock E) (ps_mock s)
     | Demo_record d \<Rightarrow> d \<in> rows (pe_demo E) (ps_demo s))"

text \<open>All bills, as the columns both tables share.\<close>

definition all_bills :: "('p, 'm, 'd, 'w) pay_env \<Rightarrow> ('p, 'm, 'd, 'w) pay_state \<Rightarrow> mock_bill set" where
  "all_bills E s = rdata ` rows (pe_mock E) (ps_mock s)
     \<union> (\<lambda>e. mock_bill.truncate (rdata e)) ` rows (pe_demo E) (ps_demo s)"

definition bill_of :: "payment \<Rightarrow> mock_bill \<Rightarrow> bool" where
  "bill_of p b \<longleftrightarrow> mb_billerCode b = py_billerCode p \<and> mb_consumerNumber b = py_consumerNumber p"

text \<open>
  Every payment belongs to a bill, and one that succeeded to a bill that is paid; no two
  payments share an idempotency key.
\<close>

definition settled :: "('p, 'm, 'd, 'w) pay_env \<Rightarrow> ('p, 'm, 'd, 'w) pay_state \<Rightarrow> bool" where
  "settled E s \<longleftrightarrow> (\<forall>p \<in> rows (pe_payments E) (ps_payments s).
     (\<exists>b \<in> all_bills E s. bill_of (rdata p) b)
     \<and> (py_status (rdata p) = ''SUCCESS'' \<longrightarrow>
          (\<exists>b \<in> all_bills E s. bill_of (rdata p) b \<and> mb_status b = ''PAID'')))"

definition unique_keys :: "('p, payment) repo \<Rightarrow> 'p \<Rightarrow> bool" where
  "unique_keys R t \<longleftrightarrow> (\<forall>a \<in> rows R t. \<forall>b \<in> rows R t.
     py_idempotencyKey (rdata a) = py_idempotencyKey (rdata b) \<longrightarrow> a = b)"

lemma mark_paid_truncate [simp]: "mock_bill.truncate (mark_paid d) = mark_paid (mock_bill.truncate d)"
  by (simp add: mark_paid_def mock_bill.defs)

lemma mark_paid_simps [simp]:
  "mb_status (mark_paid d) = ''PAID''" "mb_billerCode (mark_paid d) = mb_billerCode d"
  "mb_consumerNumber (mark_paid d) = mb_consumerNumber d" "mb_billNumber (mark_paid d) = mb_billNumber d"
  "mb_amount (mark_paid d) = mb_amount d"
  by (simp_all add: mark_paid_def)

lemma bill_of_mark_paid [simp]: "bill_of p (mark_paid b) = bill_of p b"
  by (simp add: bill_of_def)

lemma truncate_simps [simp]:
  "mb_billerCode (mock_bill.truncate d) = mb_billerCode d"
  "mb_consumerNumber (mock_bill.truncate d) = mb_consumerNumber d"
  by (simp_all add: mock_bill.defs)

locale payments =
  pays: repository "pe_payments E" + mocks: repository "pe_mock E" + demos: repository "pe_demo E"
  for E :: "('p, 'm, 'd, 'w) pay_env"
begin

lemma find_billing_Some:
  assumes "find_billing E P Q s = Some found"
  shows "in_tables E found s \<and> (case found of Mock_record m \<Rightarrow> P m | Demo_record d \<Rightarrow> Q d)"
  using assms
  by (auto simp: find_billing_def in_tables_def split: option.splits
      dest: mocks.findOne_Some demos.findOne_Some)

lemma payable_in_tables: "payable E dto s = Inr found \<Longrightarrow> in_tables E found s"
  by (auto simp: payable_def Let_def findBillingRecordByBillNumber_def findBillingRecord_def
      split: option.splits if_splits dest: find_billing_Some)

lemma in_tables_bill: "in_tables E found s \<Longrightarrow> record_bill found \<in> all_bills E s"
  by (cases found) (auto simp: in_tables_def all_bills_def)

text \<open>Marking a bill: its row is paid, nothing else moves.\<close>

lemma save_paid_ok:
  assumes "save_paid E found s = (Inr (), t)" and "in_tables E found s"
  shows "ps_payments t = ps_payments s \<and> ps_world t = ps_world s \<and> mark_paid (record_bill found) \<in> all_bills E t
    \<and> (\<forall>b \<in> all_bills E s. b \<in> all_bills E t \<or> b = record_bill found)"
proof (cases found)
  case (Mock_record m)
  with assms(1) obtain f u where s: "saveR (pe_mock E) (upd mark_paid m) (ps_mock s) = (Inr f, u)"
    and t: "t = s\<lparr>ps_mock := u\<rparr>"
    by (auto simp: andThen_Inr onMockBills_def zoom_eq)
  have "rdata f = mark_paid (rdata m) \<and> rows (pe_mock E) u = insert f {x \<in> rows (pe_mock E) (ps_mock s). rid x \<noteq> rid m}"
    using mocks.save_ok [OF s] assms(2) Mock_record by (simp add: in_tables_def)
  moreover have "rdata x = rdata m" if "x \<in> rows (pe_mock E) (ps_mock s)" "rid x = rid m" for x
    using mocks.rid_inj [of x "ps_mock s" m] that assms(2) Mock_record by (simp add: in_tables_def)
  ultimately show ?thesis using Mock_record t by (auto simp: all_bills_def)
next
  case (Demo_record m)
  with assms(1) obtain f u where s: "saveR (pe_demo E) (upd mark_paid m) (ps_demo s) = (Inr f, u)"
    and t: "t = s\<lparr>ps_demo := u\<rparr>"
    by (auto simp: andThen_Inr onDemoBills_def zoom_eq)
  have "rdata f = mark_paid (rdata m) \<and> rows (pe_demo E) u = insert f {x \<in> rows (pe_demo E) (ps_demo s). rid x \<noteq> rid m}"
    using demos.save_ok [OF s] assms(2) Demo_record by (simp add: in_tables_def)
  moreover have "rdata x = rdata m" if "x \<in> rows (pe_demo E) (ps_demo s)" "rid x = rid m" for x
    using demos.rid_inj [of x "ps_demo s" m] that assms(2) Demo_record by (simp add: in_tables_def)
  ultimately show ?thesis using Demo_record t by (auto simp: all_bills_def)
qed

text \<open>A payment that keeps its bill when a bill of the tables is marked as paid.\<close>

lemma save_paid_keeps:
  assumes "save_paid E found s = (Inr (), t)" and "in_tables E found s" and "b \<in> all_bills E s"
    and "bill_of p b"
  shows "\<exists>c \<in> all_bills E t. bill_of p c \<and> (mb_status b = ''PAID'' \<longrightarrow> mb_status c = ''PAID'')"
proof (cases "b \<in> all_bills E t")
  case True
  with assms(4) show ?thesis by blast
next
  case False
  with save_paid_ok [OF assms(1,2)] assms(3) have "b = record_bill found" "mark_paid (record_bill found) \<in> all_bills E t"
    by auto
  with assms(4) show ?thesis by (intro bexI [of _ "mark_paid (record_bill found)"]) auto
qed

text \<open>What the execution of a payment that returns has done.\<close>

lemma execute_payment_ok:
  assumes "execute_payment E key owner found s = (Inr r, t)"
  shows "\<exists>resp p u. pe_adapter E \<lparr>bq_billerCode = mb_billerCode (record_bill found),
         bq_consumerNumber = mb_consumerNumber (record_bill found),
         bq_amount = column_number (mb_amount (record_bill found))\<rparr> (ps_world s) = (Inr resp, ps_world u)
     \<and> rdata p = new_payment (record_bill found) resp key owner
     \<and> rows (pe_payments E) (ps_payments u) = insert p (rows (pe_payments E) (ps_payments s))
     \<and> ps_mock u = ps_mock s \<and> ps_demo u = ps_demo s
     \<and> pr_paymentId r = rid p \<and> pr_status r = bbps_status_text (bs_status resp) \<and> \<not> pr_duplicate r
     \<and> (if bs_status resp = SUCCESS then save_paid E found u = (Inr (), t) else t = u)"
proof -
  let ?req = "\<lparr>bq_billerCode = mb_billerCode (record_bill found),
         bq_consumerNumber = mb_consumerNumber (record_bill found),
         bq_amount = column_number (mb_amount (record_bill found))\<rparr>"
  obtain x w where a: "pe_adapter E ?req (ps_world s) = (x, w)" by fastforce
  obtain resp where x: "x = Inr resp"
    using assms a by (cases x) (auto simp: execute_payment_def Let_def onAdapter_def zoom_def andThen_def)
  obtain y v where i: "insertR (pe_payments E) (new_payment (record_bill found) resp key owner) (ps_payments s) = (y, v)"
    by fastforce
  obtain p where y: "y = Inr p"
    using assms a x i
    by (cases y) (auto simp: execute_payment_def Let_def onAdapter_def onPayments_def zoom_def andThen_def)
  define u where "u = s\<lparr>ps_world := w, ps_payments := v\<rparr>"
  have "andThen (if bs_status resp = SUCCESS then save_paid E found else ret ()) (\<lambda>_. ret
        \<lparr>pr_paymentId = rid p, pr_billNumber = Some (mb_billNumber (record_bill found)),
        pr_billerCode = py_billerCode (rdata p), pr_consumerNumber = py_consumerNumber (rdata p),
        pr_amount = column_number (mb_amount (record_bill found)), pr_status = py_status (rdata p),
        pr_bbpsReferenceId = py_bbpsReferenceId (rdata p), pr_duplicate = False\<rparr>) u = (Inr r, t)"
    using assms a x i y
    by (simp add: execute_payment_def Let_def onAdapter_def onPayments_def zoom_def andThen_def u_def)
  then have "(if bs_status resp = SUCCESS then save_paid E found u = (Inr (), t) else t = u)"
    and "pr_paymentId r = rid p" "pr_status r = py_status (rdata p)" "\<not> pr_duplicate r"
    by (auto simp: andThen_Inr split: if_splits)
  moreover have "rdata p = new_payment (record_bill found) resp key owner"
    "rows (pe_payments E) v = insert p (rows (pe_payments E) (ps_payments s))"
    using pays.insert_ok [OF i [unfolded y]] by simp_all
  ultimately show ?thesis using a x
    by (intro exI [of _ resp] exI [of _ p] exI [of _ u]) (auto simp: u_def new_payment_def)
qed

lemma new_payment_bill [simp]: "bill_of (new_payment b resp key owner) b"
  by (simp add: bill_of_def new_payment_def)

lemma execute_payment_settled:
  assumes "execute_payment E key owner found s = (Inr r, t)" and "settled E s" and "in_tables E found s"
  shows "settled E t"
proof -
  obtain resp p u where u: "rdata p = new_payment (record_bill found) resp key owner"
      "rows (pe_payments E) (ps_payments u) = insert p (rows (pe_payments E) (ps_payments s))"
      "ps_mock u = ps_mock s" "ps_demo u = ps_demo s"
      "if bs_status resp = SUCCESS then save_paid E found u = (Inr (), t) else t = u"
    using execute_payment_ok [OF assms(1)] by blast
  have same: "all_bills E u = all_bills E s" "in_tables E found u"
    using u assms(3) by (auto simp: all_bills_def in_tables_def split: billing_record.splits)
  have bill: "record_bill found \<in> all_bills E u" using in_tables_bill [OF same(2)] .
  show ?thesis
  proof (cases "bs_status resp = SUCCESS")
    case True
    with u(5) have save: "save_paid E found u = (Inr (), t)" by simp
    note sp = save_paid_ok [OF save same(2)]
    show ?thesis unfolding settled_def
    proof
      fix q assume "q \<in> rows (pe_payments E) (ps_payments t)"
      with sp u(2) have q: "q = p \<or> q \<in> rows (pe_payments E) (ps_payments s)" by simp
      have "bill_of (rdata p) (mark_paid (record_bill found))" using u(1) by simp
      with q assms(2) sp show "(\<exists>b \<in> all_bills E t. bill_of (rdata q) b)
          \<and> (py_status (rdata q) = ''SUCCESS'' \<longrightarrow> (\<exists>b \<in> all_bills E t. bill_of (rdata q) b \<and> mb_status b = ''PAID''))"
        using save_paid_keeps [OF save same(2)] unfolding settled_def same(1) by (metis mark_paid_simps(1))
    qed
  next
    case False
    with u(5) have t: "t = u" by simp
    have "py_status (rdata p) \<noteq> ''SUCCESS''"
      using False u(1) by (cases "bs_status resp") (auto simp: new_payment_def)
    then show ?thesis
      using assms(2) u(1,2) bill unfolding settled_def t same(1) by (auto intro!: bexI [of _ "record_bill found"])
  qed
qed

lemma execute_payment_keys:
  assumes "execute_payment E key owner found s = (r, t)"
    and "unique_keys (pe_payments E) (ps_payments s)"
    and "findOneR (pe_payments E) (\<lambda>p. py_idempotencyKey (rdata p) = key) (ps_payments s) = None"
  shows "unique_keys (pe_payments E) (ps_payments t)"
proof -
  let ?R = "pe_payments E"
  have keep: "ps_payments v = ps_payments u" if "save_paid E found u = (q, v)" for u v q
    using that by (cases found) (auto simp: onMockBills_def onDemoBills_def zoom_def andThen_def
      split: prod.splits sum.splits)
  have "rows ?R (ps_payments t) = rows ?R (ps_payments s)
    \<or> (\<exists>p. py_idempotencyKey (rdata p) = key \<and> rows ?R (ps_payments t) = insert p (rows ?R (ps_payments s)))"
  proof -
    obtain x w where a: "pe_adapter E \<lparr>bq_billerCode = mb_billerCode (record_bill found),
         bq_consumerNumber = mb_consumerNumber (record_bill found),
         bq_amount = column_number (mb_amount (record_bill found))\<rparr> (ps_world s) = (x, w)" by fastforce
    show ?thesis
    proof (cases x)
      case (Inl e)
      with assms(1) a show ?thesis by (auto simp: execute_payment_def Let_def onAdapter_def zoom_def andThen_def)
    next
      case (Inr resp)
      obtain y v where i: "insertR ?R (new_payment (record_bill found) resp key owner) (ps_payments s) = (y, v)"
        by fastforce
      have tv: "ps_payments t = v"
        using assms(1) a Inr i
        by (auto simp: execute_payment_def Let_def onAdapter_def onPayments_def zoom_def andThen_def
            dest!: keep split: sum.splits prod.splits if_splits)
      show ?thesis
      proof (cases y)
        case (Inl e)
        with i tv show ?thesis by (auto dest: pays.insert_err)
      next
        case (Inr p)
        with pays.insert_ok [of _ "ps_payments s" p v] i tv show ?thesis
          by (auto simp: new_payment_def intro!: exI [of _ p])
      qed
    qed
  qed
  moreover have "\<forall>p \<in> rows ?R (ps_payments s). py_idempotencyKey (rdata p) \<noteq> key"
    using assms(3) by (simp add: pays.findOne_None)
  ultimately show ?thesis using assms(2) unfolding unique_keys_def by (elim disjE exE) (simp, metis insert_iff)
qed

text \<open>The retry of a payment that is not final.\<close>

lemma redispatch_settled:
  assumes "redispatch E p s = (Inr (), t)" and "settled E s" and p: "p \<in> rows (pe_payments E) (ps_payments s)"
  shows "settled E t"
proof -
  let ?R = "pe_payments E"
  from assms(1) obtain resp w where a: "pe_adapter E \<lparr>bq_billerCode = py_billerCode (rdata p),
         bq_consumerNumber = py_consumerNumber (rdata p), bq_amount = column_number (py_amount (rdata p))\<rparr>
         (ps_world s) = (Inr resp, w)"
    by (auto simp: redispatch_def andThen_Inr onAdapter_def zoom_eq)
  with assms(1) obtain f v where sv: "saveR ?R (upd (retried resp) p) (ps_payments s) = (Inr f, v)"
    by (auto simp: redispatch_def andThen_Inr onAdapter_def onPayments_def zoom_eq)
  define u where "u = s\<lparr>ps_world := w, ps_payments := v\<rparr>"
  have fin: "(if bs_status resp = SUCCESS
     then (case findBillingRecord E (py_billerCode (rdata p)) (py_consumerNumber (rdata p)) u of
             None \<Rightarrow> (Inr (), u) | Some found \<Rightarrow> save_paid E found u)
     else (Inr (), u)) = (Inr (), t)"
    using assms(1) a sv unfolding u_def
    by (auto simp: redispatch_def andThen_Inr onAdapter_def onPayments_def zoom_eq split: if_splits)
  have rows: "rdata f = retried resp (rdata p)" "rows ?R v = insert f {x \<in> rows ?R (ps_payments s). rid x \<noteq> rid p}"
    using pays.save_ok [OF sv] p by simp_all
  have bills: "all_bills E u = all_bills E s" by (simp add: all_bills_def u_def)
  have pb: "\<exists>b \<in> all_bills E u. bill_of (rdata p) b" using assms(2) p bills by (simp add: settled_def)
  have of_p: "bill_of (rdata f) b = bill_of (rdata p) b" for b by (simp add: rows(1) bill_of_def retried_def)
  show ?thesis
  proof (cases "bs_status resp = SUCCESS")
    case False
    with fin have t: "t = u" by simp
    have "py_status (rdata f) \<noteq> ''SUCCESS''"
      using False rows(1) by (cases "bs_status resp") (auto simp: retried_def)
    then show ?thesis using assms(2) rows pb of_p unfolding settled_def t bills by (auto simp: u_def)
  next
    case True
    obtain b where b: "b \<in> all_bills E u" "bill_of (rdata p) b" using pb by blast
    have "findBillingRecord E (py_billerCode (rdata p)) (py_consumerNumber (rdata p)) u \<noteq> None"
    proof
      assume "findBillingRecord E (py_billerCode (rdata p)) (py_consumerNumber (rdata p)) u = None"
      then have "findOneR (pe_mock E) (of_consumer (py_billerCode (rdata p)) (py_consumerNumber (rdata p))) (ps_mock u) = None"
        "findOneR (pe_demo E) (of_consumer (py_billerCode (rdata p)) (py_consumerNumber (rdata p))) (ps_demo u) = None"
        by (simp_all add: findBillingRecord_def find_billing_def split: option.splits)
      with b show False
        by (auto simp: mocks.findOne_None demos.findOne_None all_bills_def bill_of_def of_consumer_def)
    qed
    then obtain found where found: "findBillingRecord E (py_billerCode (rdata p)) (py_consumerNumber (rdata p)) u = Some found"
      by blast
    with fin True have save: "save_paid E found u = (Inr (), t)" by simp
    have ft: "in_tables E found u" "bill_of (rdata p) (record_bill found)"
      using find_billing_Some [OF found [unfolded findBillingRecord_def]]
      by (auto simp: of_consumer_def bill_of_def split: billing_record.splits)
    note sp = save_paid_ok [OF save ft(1)]
    show ?thesis unfolding settled_def
    proof
      fix q assume "q \<in> rows ?R (ps_payments t)"
      with sp rows(2) have q: "q = f \<or> q \<in> rows ?R (ps_payments s)" by (auto simp: u_def)
      have "bill_of (rdata f) (mark_paid (record_bill found))" using ft(2) of_p by simp
      with q assms(2) sp show "(\<exists>b \<in> all_bills E t. bill_of (rdata q) b)
          \<and> (py_status (rdata q) = ''SUCCESS'' \<longrightarrow> (\<exists>b \<in> all_bills E t. bill_of (rdata q) b \<and> mb_status b = ''PAID''))"
        using save_paid_keeps [OF save ft(1)] unfolding settled_def bills by (metis mark_paid_simps(1))
    qed
  qed
qed

lemma redispatch_keys:
  assumes "redispatch E p s = (r, t)" and "unique_keys (pe_payments E) (ps_payments s)"
    and p: "p \<in> rows (pe_payments E) (ps_payments s)"
  shows "unique_keys (pe_payments E) (ps_payments t)"
proof -
  let ?R = "pe_payments E"
  have keep: "ps_payments v = ps_payments u" if "save_paid E found u = (q, v)" for u v q found
    using that by (cases found) (auto simp: onMockBills_def onDemoBills_def zoom_def andThen_def
      split: prod.splits sum.splits)
  obtain x w where a: "pe_adapter E \<lparr>bq_billerCode = py_billerCode (rdata p),
         bq_consumerNumber = py_consumerNumber (rdata p), bq_amount = column_number (py_amount (rdata p))\<rparr>
         (ps_world s) = (x, w)" by fastforce
  show ?thesis
  proof (cases x)
    case (Inl e)
    with assms(1,2) a show ?thesis by (auto simp: redispatch_def onAdapter_def zoom_def andThen_def)
  next
    case (Inr resp)
    obtain y v where sv: "saveR ?R (upd (retried resp) p) (ps_payments s) = (y, v)" by fastforce
    have tv: "ps_payments t = v"
      using assms(1) a Inr sv
      by (auto simp: redispatch_def onAdapter_def onPayments_def zoom_def andThen_def
          dest!: keep split: sum.splits prod.splits if_splits option.splits)
    have k: "rid (upd (retried resp) p) \<in> rid ` rows ?R (ps_payments s)" using p by simp
    show ?thesis unfolding tv
    proof (cases rule: pays.save_cases [OF sv k])
      case (1 e)
      with assms(2) show "unique_keys ?R v" by (simp add: unique_keys_def)
    next
      case (2 f)
      then have f: "py_idempotencyKey (rdata f) = py_idempotencyKey (rdata p)" by (simp add: retried_def)
      have other: "py_idempotencyKey (rdata q) \<noteq> py_idempotencyKey (rdata p)"
        if "q \<in> rows ?R (ps_payments s)" "rid q \<noteq> rid p" for q
        using assms(2) p that unfolding unique_keys_def by metis
      show "unique_keys ?R v"
        unfolding unique_keys_def 2(4)
        using f other assms(2) unfolding unique_keys_def by (metis (mono_tags, lifting) insert_iff mem_Collect_eq upd_simps(1))
    qed
  qed
qed

text \<open>Both operations keep both invariants.\<close>

lemma py_create_keys:
  assumes "py_create E dto actor s = (r, t)" and "unique_keys (pe_payments E) (ps_payments s)"
  shows "unique_keys (pe_payments E) (ps_payments t)"
proof (cases "t = s")
  case False
  with py_create_executes [OF assms(1)] execute_payment_keys assms(2) show ?thesis by blast
qed (use assms in simp)

lemma py_create_settled:
  assumes "py_create E dto actor s = (Inr r, t)" and "settled E s"
  shows "settled E t"
proof (cases "t = s")
  case False
  with py_create_executes [OF assms(1)] execute_payment_settled assms(2) payable_in_tables show ?thesis by blast
qed (use assms in simp)

lemma payViaBbps_cases:
  assumes "payViaBbps E i actor s = (r, t)"
  shows "t = s \<or> (\<exists>p \<in> rows (pe_payments E) (ps_payments s). rid p = i \<and> py_status (rdata p) \<noteq> ''SUCCESS''
     \<and> assertPaymentOwnedByActor (py_keycloakUserId (rdata p)) actor = Inr () \<and> redispatch E p s = (r, t))"
  using assms
  by (auto simp: payViaBbps_def pays.findOne_byId_iff split: option.splits sum.splits if_splits)

lemma payViaBbps_keys:
  assumes "payViaBbps E i actor s = (r, t)" and "unique_keys (pe_payments E) (ps_payments s)"
  shows "unique_keys (pe_payments E) (ps_payments t)"
  using payViaBbps_cases [OF assms(1)] assms(2) redispatch_keys by blast

lemma payViaBbps_settled:
  assumes "payViaBbps E i actor s = (Inr (), t)" and "settled E s"
  shows "settled E t"
  using payViaBbps_cases [OF assms(1)] assms(2) redispatch_settled by blast

end

definition mem_pay_env ::
  "'w bbps_adapter \<Rightarrow> (payment mem, mock_bill mem, demo_bill mem, 'w) pay_env" where
  "mem_pay_env adapter = \<lparr>pe_payments = mem_repo same_key, pe_mock = mem_repo same_bill,
     pe_demo = mem_repo same_bill, pe_adapter = adapter\<rparr>"

lemma mem_pay_env_simps [simp]:
  "pe_payments (mem_pay_env adapter) = mem_repo same_key" "pe_mock (mem_pay_env adapter) = mem_repo same_bill"
  "pe_demo (mem_pay_env adapter) = mem_repo same_bill" "pe_adapter (mem_pay_env adapter) = adapter"
  by (simp_all add: mem_pay_env_def)

interpretation mem_payments: payments "mem_pay_env adapter"
  unfolding payments_def mem_pay_env_simps by (intro conjI mem.repository_axioms)

end
