(* ===== verification/Keycloak.thy ===== *)
theory Keycloak
  imports Guards
begin

text \<open>
  \<open>modules/auth/keycloak/keycloak.service.ts\<close>: the login and logout calls, the mock
  login, and the calls of the admin API. The HTTP client is the argument \<open>http\<close>, an action
  on the outside world that gives a response or throws the \<open>AxiosError\<close> of a status that
  the request does not accept. Of a response the model reads the properties with the types
  the code declares for them; a property of another type reads as absent.
\<close>

subsection \<open>Requests and responses\<close>

datatype http_body = No_body | Form string | Json json

record http_req =
  hq_method :: string
  hq_url :: string
  hq_body :: http_body
  hq_token :: "string option"
  hq_below_500 :: bool

record http_resp =
  hr_status :: nat
  hr_location :: "string option"
  hr_data :: json

type_synonym 'w http = "http_req \<Rightarrow> ('w, http_resp) act"

text \<open>\<open>v.k\<close>: reading a property of \<open>null\<close> throws, of any other value it may be absent.\<close>

definition get_prop :: "string \<Rightarrow> json \<Rightarrow> ('s, json option) act" where
  "get_prop k v = (if v = JNull
     then throw (Failure (''Cannot read properties of null (reading '' @ k @ '')'')) else ret (jget k v))"

text \<open>\<open>v?.k\<close>.\<close>

definition oprop :: "string \<Rightarrow> json option \<Rightarrow> json option" where
  "oprop k v = (case v of None \<Rightarrow> None | Some x \<Rightarrow> jget k x)"

text \<open>A string-valued variable inside a template literal.\<close>

definition tmpl :: "string option \<Rightarrow> string" where
  "tmpl v = (case v of None \<Rightarrow> ''undefined'' | Some s \<Rightarrow> s)"

subsection \<open>keycloak.config.ts and app.config.ts\<close>

record kc_config =
  authServerUrl :: "string option"
  realm :: "string option"
  kc_clientId :: "string option"
  kc_clientSecret :: "string option"
  kc_tokenValidation :: string
  adminUsername :: "string option"
  adminPassword :: "string option"
  authMockMode :: string

text \<open>The environment is the map of \<open>process.env\<close>.\<close>

definition keycloak_config :: "(string \<Rightarrow> string option) \<Rightarrow> kc_config" where
  "keycloak_config env = \<lparr>
     authServerUrl = env ''KEYCLOAK_AUTH_SERVER_URL'',
     realm = env ''KEYCLOAK_REALM'',
     kc_clientId = env ''KEYCLOAK_CLIENT_ID'',
     kc_clientSecret = Some (orElse (env ''KEYCLOAK_CLIENT_SECRET'') []),
     kc_tokenValidation = orElse (env ''KEYCLOAK_TOKEN_VALIDATION'') ''offline'',
     adminUsername = env ''KEYCLOAK_ADMIN_USERNAME'',
     adminPassword = env ''KEYCLOAK_ADMIN_PASSWORD'',
     authMockMode = orElse (env ''AUTH_MOCK_MODE'') ''false''\<rparr>"

subsection \<open>Tokens\<close>

record token_response =
  tr_accessToken :: "json option"
  tr_expiresIn :: "json option"
  tr_refreshExpiresIn :: "json option"
  tr_refreshToken :: "json option"
  tr_tokenType :: "json option"
  tr_scope :: "json option"

record login_dto =
  ld_username :: string
  ld_password :: string
  ld_clientId :: "string option"

record logout_dto =
  lo_refreshToken :: string
  lo_clientId :: "string option"

definition realm_url :: "kc_config \<Rightarrow> string" where
  "realm_url c = tmpl (authServerUrl c) @ ''/realms/'' @ tmpl (realm c)"

definition tokenUrl :: "kc_config \<Rightarrow> string" where
  "tokenUrl c = realm_url c @ ''/protocol/openid-connect/token''"

definition logoutUrl :: "kc_config \<Rightarrow> string" where
  "logoutUrl c = realm_url c @ ''/protocol/openid-connect/logout''"

definition resolveClient :: "kc_config \<Rightarrow> string option \<Rightarrow> string \<times> string option" where
  "resolveClient c clientId =
     (let resolvedId = (case clientId of Some i \<Rightarrow> i | None \<Rightarrow> orElse (kc_clientId c) ''admin-web'')
      in if resolvedId = ''mobile-app'' then (resolvedId, None) else (resolvedId, kc_clientSecret c))"

definition isMockAuth :: "kc_config \<Rightarrow> bool" where
  "isMockAuth c \<longleftrightarrow> authMockMode c = ''true''"

definition mock_prefix :: string where
  "mock_prefix = ''mock-''"

definition mockLogin :: "login_dto \<Rightarrow> token_response result" where
  "mockLogin dto = (case findMockUserByUsername (ld_username dto) of
      None \<Rightarrow> Inl (UnauthorizedException (Msg ''Invalid user credentials''))
    | Some user \<Rightarrow>
        if mu_password user \<noteq> ld_password dto
        then Inl (UnauthorizedException (Msg ''Invalid user credentials''))
        else Inr \<lparr>tr_accessToken = Some (JStr (mock_prefix @ mu_username user @ ''-token'')),
               tr_expiresIn = Some (JNum 86400), tr_refreshExpiresIn = Some (JNum 172800),
               tr_refreshToken = Some (JStr (mock_prefix @ mu_username user @ ''-refresh'')),
               tr_tokenType = Some (JStr ''Bearer''), tr_scope = Some (JStr ''openid profile email'')\<rparr>)"

definition form_post :: "string \<Rightarrow> (string \<times> string) list \<Rightarrow> http_req" where
  "form_post url ps = \<lparr>hq_method = ''POST'', hq_url = url, hq_body = Form (urlsearch ps),
     hq_token = None, hq_below_500 = False\<rparr>"

text \<open>\<open>body.set('client_secret', ...)\<close> when there is a secret.\<close>

definition with_secret :: "string option \<Rightarrow> (string \<times> string) list \<Rightarrow> (string \<times> string) list" where
  "with_secret secret ps = (if truthy secret then ps @ [(''client_secret'', orElse secret [])] else ps)"

text \<open>The \<open>catch\<close> of \<open>login\<close> and \<open>logout\<close>.\<close>

definition auth_failure :: "string \<Rightarrow> exn \<Rightarrow> exn" where
  "auth_failure dflt e = (let data = (case e of AxiosError d _ \<Rightarrow> d | _ \<Rightarrow> None) in
     UnauthorizedException (Msg (case jstr (oprop ''error_description'' data) of
        Some m \<Rightarrow> m | None \<Rightarrow> orElse (jstr (oprop ''error'' data)) dflt)))"

definition login :: "'w http \<Rightarrow> kc_config \<Rightarrow> login_dto \<Rightarrow> ('w, token_response) act" where
  "login http c dto = (if isMockAuth c then liftR (mockLogin dto) else
     (let (cid, secret) = resolveClient c (ld_clientId dto);
          body = with_secret secret [(''grant_type'', ''password''), (''client_id'', cid),
                   (''username'', ld_username dto), (''password'', ld_password dto)]
      in catch
        (andThen (http (form_post (tokenUrl c) body)) (\<lambda>r.
         andThen (get_prop ''access_token'' (hr_data r)) (\<lambda>a. ret
           \<lparr>tr_accessToken = a, tr_expiresIn = jget ''expires_in'' (hr_data r),
            tr_refreshExpiresIn = jget ''refresh_expires_in'' (hr_data r),
            tr_refreshToken = jget ''refresh_token'' (hr_data r),
            tr_tokenType = jget ''token_type'' (hr_data r), tr_scope = jget ''scope'' (hr_data r)\<rparr>)))
        (\<lambda>e. throw (auth_failure ''Login failed'' e))))"

definition logout :: "'w http \<Rightarrow> kc_config \<Rightarrow> logout_dto \<Rightarrow> ('w, bool) act" where
  "logout http c dto = (if isMockAuth c then ret (startsWith mock_prefix (lo_refreshToken dto)) else
     (let (cid, secret) = resolveClient c (lo_clientId dto);
          body = with_secret secret [(''client_id'', cid), (''refresh_token'', lo_refreshToken dto)]
      in catch (andThen (http (form_post (logoutUrl c) body)) (\<lambda>_. ret True))
           (\<lambda>e. throw (auth_failure ''Logout failed'' e))))"

subsection \<open>The admin API\<close>

definition adminBaseUrl :: "kc_config \<Rightarrow> string" where
  "adminBaseUrl c = tmpl (authServerUrl c) @ ''/admin/realms/'' @ tmpl (realm c)"

definition getAdminAccessToken :: "'w http \<Rightarrow> kc_config \<Rightarrow> ('w, string) act" where
  "getAdminAccessToken http c =
     andThen (http (form_post (tmpl (authServerUrl c) @ ''/realms/master/protocol/openid-connect/token'')
       [(''grant_type'', ''password''), (''client_id'', ''admin-cli''),
        (''username'', orElse (adminUsername c) []), (''password'', orElse (adminPassword c) [])]))
     (\<lambda>r. andThen (get_prop ''access_token'' (hr_data r)) (\<lambda>a. ret (tmpl (jstr a))))"

text \<open>A JSON request with \<open>adminHeaders(token)\<close>; \<open>path\<close> is appended to the base URL.\<close>

definition admin_req :: "kc_config \<Rightarrow> string \<Rightarrow> string \<Rightarrow> string \<Rightarrow> http_body \<Rightarrow> http_req" where
  "admin_req c token meth path body = \<lparr>hq_method = meth, hq_url = adminBaseUrl c @ path,
     hq_body = body, hq_token = Some token, hq_below_500 = False\<rparr>"

text \<open>A method that takes a fresh admin token first.\<close>

definition as_admin :: "'w http \<Rightarrow> kc_config \<Rightarrow> (string \<Rightarrow> ('w, 'a) act) \<Rightarrow> ('w, 'a) act" where
  "as_admin http c m = andThen (getAdminAccessToken http c) m"

definition role_path :: "string \<Rightarrow> string" where
  "role_path name = ''/roles/'' @ encodeURIComponent name"

definition user_path :: "string \<Rightarrow> string" where
  "user_path userId = ''/users/'' @ userId"

definition role_map_path :: "string \<Rightarrow> string" where
  "role_map_path userId = user_path userId @ ''/role-mappings/realm''"

text \<open>A role of Keycloak, as far as the service reads it.\<close>

record kc_role =
  kr_id :: "string option"
  kr_name :: "string option"

definition kc_role_of :: "json \<Rightarrow> kc_role" where
  "kc_role_of j = \<lparr>kr_id = jstr (jget ''id'' j), kr_name = jstr (jget ''name'' j)\<rparr>"

fun json_list :: "json \<Rightarrow> json list" where
  "json_list (JArr xs) = xs"
| "json_list _ = []"

record kc_user =
  ku_id :: string
  ku_username :: "string option"
  ku_email :: "string option"
  ku_firstName :: "string option"
  ku_lastName :: "string option"
  ku_enabled :: "json option"

definition kc_user_of :: "json \<Rightarrow> kc_user" where
  "kc_user_of j = \<lparr>ku_id = tmpl (jstr (jget ''id'' j)), ku_username = jstr (jget ''username'' j),
     ku_email = jstr (jget ''email'' j), ku_firstName = jstr (jget ''firstName'' j),
     ku_lastName = jstr (jget ''lastName'' j), ku_enabled = jget ''enabled'' j\<rparr>"

definition createRealmRole :: "'w http \<Rightarrow> kc_config \<Rightarrow> string \<Rightarrow> string option \<Rightarrow> ('w, kc_role) act" where
  "createRealmRole http c name description = as_admin http c (\<lambda>token.
     andThen (http (admin_req c token ''POST'' ''/roles''
       (Json (JObj [(''name'', JStr name), (''description'', JStr (orElse description []))])))) (\<lambda>_.
     andThen (http (admin_req c token ''GET'' (role_path name) No_body)) (\<lambda>r.
     andThen (get_prop ''id'' (hr_data r)) (\<lambda>_. ret (kc_role_of (hr_data r))))))"

definition updateRealmRole :: "'w http \<Rightarrow> kc_config \<Rightarrow> string \<Rightarrow> string option \<Rightarrow> ('w, unit) act" where
  "updateRealmRole http c roleName description = as_admin http c (\<lambda>token.
     andThen (http (admin_req c token ''GET'' (role_path roleName) No_body)) (\<lambda>r.
     andThen (get_prop ''id'' (hr_data r)) (\<lambda>i.
     andThen (http (admin_req c token ''PUT'' (role_path roleName)
       (Json (JObj
          ((case i of None \<Rightarrow> [] | Some v \<Rightarrow> [(''id'', v)])
           @ (case jget ''name'' (hr_data r) of None \<Rightarrow> [] | Some v \<Rightarrow> [(''name'', v)])
           @ [(''description'', JStr (case description of Some d \<Rightarrow> d
                | None \<Rightarrow> orElse (jstr (jget ''description'' (hr_data r))) []))])))))
     (\<lambda>_. ret ()))))"

text \<open>The password call; the token is the one of the caller.\<close>

definition put_password :: "'w http \<Rightarrow> kc_config \<Rightarrow> string \<Rightarrow> string \<Rightarrow> string \<Rightarrow> ('w, unit) act" where
  "put_password http c userId password token =
     andThen (http (admin_req c token ''PUT'' (user_path userId @ ''/reset-password'')
       (Json (JObj [(''type'', JStr ''password''), (''value'', JStr password), (''temporary'', JBool False)]))))
     (\<lambda>_. ret ())"

definition resetUserPassword :: "'w http \<Rightarrow> kc_config \<Rightarrow> string \<Rightarrow> string \<Rightarrow> ('w, unit) act" where
  "resetUserPassword http c userId password = as_admin http c (put_password http c userId password)"

definition findUsersByUsername :: "'w http \<Rightarrow> kc_config \<Rightarrow> string \<Rightarrow> ('w, kc_user list) act" where
  "findUsersByUsername http c username = as_admin http c (\<lambda>token.
     andThen (http (admin_req c token ''GET''
       (''/users?username='' @ encodeURIComponent username @ ''&exact=true'') No_body))
     (\<lambda>r. ret (map kc_user_of (json_list (hr_data r)))))"

record new_user =
  nu_username :: string
  nu_email :: string
  nu_firstName :: string
  nu_lastName :: string
  nu_password :: string
  nu_enabled :: "bool option"

definition new_user_json :: "new_user \<Rightarrow> json" where
  "new_user_json p = JObj [(''username'', JStr (nu_username p)), (''email'', JStr (nu_email p)),
     (''firstName'', JStr (nu_firstName p)), (''lastName'', JStr (nu_lastName p)),
     (''enabled'', JBool (orElse (nu_enabled p) True)), (''emailVerified'', JBool True)]"

text \<open>\<open>location?.split('/').pop()\<close>.\<close>

definition location_id :: "string option \<Rightarrow> string option" where
  "location_id location = map_option (\<lambda>l. last (split_on CHR ''/'' l)) location"

definition createUser :: "'w http \<Rightarrow> kc_config \<Rightarrow> new_user \<Rightarrow> ('w, string) act" where
  "createUser http c p = as_admin http c (\<lambda>token.
     andThen (http (admin_req c token ''POST'' ''/users'' (Json (new_user_json p)) \<lparr>hq_below_500 := True\<rparr>)) (\<lambda>r.
     if 400 \<le> hr_status r
     then throw (UnauthorizedException (Msg (orElse (jstr (jget ''errorMessage'' (hr_data r)))
            ''Keycloak user creation failed'')))
     else if \<not> truthy (location_id (hr_location r))
     then andThen (findUsersByUsername http c (nu_username p)) (\<lambda>users. case users of
            [] \<Rightarrow> throw (UnauthorizedException (Msg ''Keycloak user created but ID could not be resolved''))
          | u # _ \<Rightarrow> andThen (put_password http c (ku_id u) (nu_password p) token) (\<lambda>_. ret (ku_id u)))
     else (let userId = orElse (location_id (hr_location r)) []
           in andThen (put_password http c userId (nu_password p) token) (\<lambda>_. ret userId))))"

definition removeRealmRoleFromUser :: "'w http \<Rightarrow> kc_config \<Rightarrow> string \<Rightarrow> string \<Rightarrow> ('w, unit) act" where
  "removeRealmRoleFromUser http c userId roleName = as_admin http c (\<lambda>token.
     andThen (http (admin_req c token ''GET'' (role_path roleName) No_body)) (\<lambda>r.
     andThen (http (admin_req c token ''DELETE'' (role_map_path userId) (Json (JArr [hr_data r]))))
     (\<lambda>_. ret ())))"

definition assignRealmRoleToUser :: "'w http \<Rightarrow> kc_config \<Rightarrow> string \<Rightarrow> string \<Rightarrow> ('w, unit) act" where
  "assignRealmRoleToUser http c userId roleName = as_admin http c (\<lambda>token.
     andThen (http (admin_req c token ''GET'' (role_path roleName) No_body)) (\<lambda>r.
     andThen (http (admin_req c token ''POST'' (role_map_path userId) (Json (JArr [hr_data r]))))
     (\<lambda>_. ret ())))"

definition getUserRealmRoles :: "'w http \<Rightarrow> kc_config \<Rightarrow> string \<Rightarrow> ('w, kc_role list) act" where
  "getUserRealmRoles http c userId = as_admin http c (\<lambda>token.
     andThen (http (admin_req c token ''GET'' (role_map_path userId) No_body))
     (\<lambda>r. ret (map kc_role_of (json_list (hr_data r)))))"

record user_filters =
  uf_username :: "string option"
  uf_email :: "string option"
  uf_keycloakUserId :: "string option"

definition user_params :: "user_filters \<Rightarrow> (string \<times> string) list" where
  "user_params f =
     (let u = truthy (uf_username f); e = truthy (uf_email f) in
      (if u then [(''username'', orElse (uf_username f) []), (''exact'', ''true'')] else [])
      @ (if e then (''email'', orElse (uf_email f) []) # (if u then [] else [(''exact'', ''true'')]) else [])
      @ [(''max'', ''100'')])"

definition findUsers :: "'w http \<Rightarrow> kc_config \<Rightarrow> user_filters \<Rightarrow> ('w, kc_user list) act" where
  "findUsers http c f = as_admin http c (\<lambda>token.
     if truthy (uf_keycloakUserId f)
     then andThen (http (admin_req c token ''GET'' (user_path (orElse (uf_keycloakUserId f) [])) No_body
                      \<lparr>hq_below_500 := True\<rparr>))
       (\<lambda>r. ret (if \<not> json_truthy (hr_data r)
                   \<or> (case jget ''error'' (hr_data r) of None \<Rightarrow> False | Some e \<Rightarrow> json_truthy e)
                 then [] else [kc_user_of (hr_data r)]))
     else andThen (http (admin_req c token ''GET'' (''/users?'' @ urlsearch (user_params f)) No_body))
       (\<lambda>r. ret (map kc_user_of (json_list (hr_data r)))))"

definition disableUser :: "'w http \<Rightarrow> kc_config \<Rightarrow> string \<Rightarrow> ('w, unit) act" where
  "disableUser http c userId = as_admin http c (\<lambda>token.
     andThen (http (admin_req c token ''PUT'' (user_path userId) (Json (JObj [(''enabled'', JBool False)]))))
     (\<lambda>_. ret ()))"

definition forceLogout :: "'w http \<Rightarrow> kc_config \<Rightarrow> string \<Rightarrow> ('w, unit) act" where
  "forceLogout http c userId = as_admin http c (\<lambda>token.
     andThen (http (admin_req c token ''POST'' (user_path userId @ ''/logout'') (Json (JObj []))))
     (\<lambda>_. ret ()))"

subsection \<open>signup\<close>

record signup_dto =
  su_username :: string
  su_password :: string
  su_email :: "string option"
  su_firstName :: "string option"
  su_lastName :: "string option"

definition SIGNUP_ROLE :: string where
  "SIGNUP_ROLE = ''RETAIL_CUSTOMER''"

definition signup :: "'w http \<Rightarrow> kc_config \<Rightarrow> signup_dto \<Rightarrow> ('w, string \<times> string) act" where
  "signup http c dto =
     andThen (findUsersByUsername http c (su_username dto)) (\<lambda>existing.
     if existing \<noteq> []
     then throw (ConflictException (Msg (''Username '' @ su_username dto @ '' already exists'')))
     else andThen (createUser http c
       \<lparr>nu_username = su_username dto,
        nu_email = orElse (su_email dto) (su_username dto @ ''@signup.bharat-banking.local''),
        nu_firstName = orElse (su_firstName dto) (su_username dto),
        nu_lastName = orElse (su_lastName dto) (su_username dto),
        nu_password = su_password dto, nu_enabled = Some True\<rparr>) (\<lambda>userId.
     andThen (assignRealmRoleToUser http c userId SIGNUP_ROLE) (\<lambda>_.
     ret (userId, su_username dto))))"

subsection \<open>A Keycloak for the examples\<close>

text \<open>
  A concrete Keycloak for the examples: the world is the list of the requests received so
  far; every login succeeds, the listed users exist, every role exists, and a created user
  gets the id \<open>u1\<close>.
\<close>

definition sim_response :: "json list \<Rightarrow> http_req \<Rightarrow> http_resp" where
  "sim_response users q =
     (let d = \<lparr>hr_status = 200, hr_location = None, hr_data = JObj []\<rparr> in
      if hq_token q = None then d\<lparr>hr_data := JObj [(''access_token'', JStr ''admin-token'')]\<rparr>
      else if hq_below_500 q \<and> hq_method q = ''POST''
      then d\<lparr>hr_status := 201, hr_location := Some ''http://kc/admin/realms/bank/users/u1''\<rparr>
      else if hq_method q = ''GET'' \<and> includes_sub ''/users?'' (hq_url q) then d\<lparr>hr_data := JArr users\<rparr>
      else if hq_method q = ''GET'' then d\<lparr>hr_data := JObj [(''id'', JStr ''r1''), (''name'', JStr ''RETAIL_CUSTOMER'')]\<rparr>
      else d)"

definition sim_http :: "json list \<Rightarrow> http_req list http" where
  "sim_http users q w = (Inr (sim_response users q), w @ [q])"

definition sim_config :: kc_config where
  "sim_config = keycloak_config (map_of [(''KEYCLOAK_AUTH_SERVER_URL'', ''http://kc''), (''KEYCLOAK_REALM'', ''bank'')])"

lemma sim_token: "getAdminAccessToken (sim_http us) c w
    = (Inr ''admin-token'', w @ [form_post (tmpl (authServerUrl c) @ ''/realms/master/protocol/openid-connect/token'')
       [(''grant_type'', ''password''), (''client_id'', ''admin-cli''),
        (''username'', orElse (adminUsername c) []), (''password'', orElse (adminPassword c) [])]])"
  by (simp add: getAdminAccessToken_def sim_http_def sim_response_def form_post_def get_prop_def tmpl_def)

lemma sim_createUser: "\<exists>w'. createUser (sim_http us) c p w = (Inr ''u1'', w')"
  by (simp add: createUser_def as_admin_def sim_token sim_http_def sim_response_def admin_req_def Let_def
      put_password_def location_id_def)

lemma sim_assign: "\<exists>w'. assignRealmRoleToUser (sim_http us) c u r w = (Inr (), w')"
  by (simp add: assignRealmRoleToUser_def as_admin_def sim_token sim_http_def)

end
