(* ===== verification/Routes.thy ===== *)
theory Routes
  imports Validation Payment Keycloak
begin

text \<open>
  The controllers as the table of their routes (method, path, decorators, DTO and handler),
  the way of a request from the middleware to the handler in mock mode, and the security
  section of the Swagger document. Outside mock mode the two guards are those of
  nest-keycloak-connect, which are not part of the service.
\<close>

subsection \<open>Routes\<close>

datatype route_guard = IdorGuard | SuperadminGuard

text \<open>
  \<open>rt_class\<close> and \<open>rt_auth\<close> are the arguments of \<open>@Auth\<close> on the controller and on the
  handler; \<open>rt_dto\<close> is the class of the \<open>@Body()\<close> or \<open>@Query()\<close> parameter.
\<close>

record route =
  rt_method :: string
  rt_path :: string
  rt_handler :: string
  rt_public :: bool
  rt_class :: "string list option"
  rt_auth :: "string list option"
  rt_guards :: "route_guard list"
  rt_idempotency :: bool
  rt_dto :: "dto_field list option"

definition on :: "string \<Rightarrow> string \<Rightarrow> string \<Rightarrow> route" where
  "on m p h = \<lparr>rt_method = m, rt_path = p, rt_handler = h, rt_public = False, rt_class = None, rt_auth = None,
     rt_guards = [], rt_idempotency = False, rt_dto = None\<rparr>"

definition post :: "string \<Rightarrow> string \<Rightarrow> dto_field list option \<Rightarrow> route" where
  "post p h dto = (on ''POST'' p h)\<lparr>rt_dto := dto\<rparr>"

definition get :: "string \<Rightarrow> string \<Rightarrow> dto_field list option \<Rightarrow> route" where
  "get p h dto = (on ''GET'' p h)\<lparr>rt_dto := dto\<rparr>"

definition open_to_all :: "route \<Rightarrow> route" where
  "open_to_all r = r\<lparr>rt_public := True\<rparr>"

definition auth :: "string list \<Rightarrow> route \<Rightarrow> route" where
  "auth roles r = r\<lparr>rt_auth := Some roles\<rparr>"

definition guarded :: "route_guard \<Rightarrow> route \<Rightarrow> route" where
  "guarded g r = r\<lparr>rt_guards := [g]\<rparr>"

definition controller :: "string \<Rightarrow> string list option \<Rightarrow> route list \<Rightarrow> route list" where
  "controller base classAuth rs = map (\<lambda>r. r\<lparr>rt_class := classAuth,
     rt_path := (if rt_path r = [] then base else base @ CHR ''/'' # rt_path r)\<rparr>) rs"

subsection \<open>Controllers\<close>

definition health_routes :: "route list" where
  "health_routes = controller ''health'' None [open_to_all (post ''check'' ''check'' None)]"

definition template_routes :: "route list" where
  "template_routes = controller ''templates'' (Some [''BANK_SUPER_ADMIN'', ''BANK_ADMIN'']) [
     get [] ''findAll'' None, get '':id'' ''findOne'' None, post [] ''create'' (Some CreateTemplateDto)]"

definition admin_user_routes :: "route list" where
  "admin_user_routes = controller ''admin/admin-user'' (Some []) [
     post ''list'' ''list'' (Some ListAdminUsersDto), post ''get'' ''get'' (Some IdRequestDto)]"

definition rule_routes :: "route list" where
  "rule_routes = controller ''admin/authorization-rules'' None [
     auth [''BANK_SUPER_ADMIN'', ''BANK_ADMIN''] (post ''list'' ''list'' None),
     auth [''BANK_SUPER_ADMIN'', ''BANK_ADMIN''] (post ''get'' ''get'' (Some IdRequestDto)),
     auth [''BANK_SUPER_ADMIN'', ''BANK_ADMIN''] (post ''history'' ''history'' (Some IdRequestDto)),
     auth [''BANK_SUPER_ADMIN''] (post ''create'' ''create'' (Some CreateAuthorizationRuleDto)),
     auth [''BANK_SUPER_ADMIN''] (post ''update'' ''update'' (Some UpdateAuthorizationRuleDto)),
     auth [''BANK_SUPER_ADMIN''] (post ''deactivate'' ''deactivate'' (Some IdRequestDto))]"

definition reporting_routes :: "route list" where
  "reporting_routes = controller ''admin/reporting'' (Some []) [
     get ''transactions/daily-summary'' ''dailySummary'' (Some ReportQueryDto),
     get ''transactions/failed'' ''failedTransactions'' (Some ReportQueryDto),
     get ''transactions/high-value'' ''highValueTransactions'' (Some ReportQueryDto),
     get ''transactions/branch-wise'' ''branchWise'' (Some ReportQueryDto),
     get ''transactions/channel-wise'' ''channelWise'' (Some ReportQueryDto),
     get ''transactions/export'' ''exportReport'' (Some ReportExportDto)]"

definition hierarchy_routes :: "route list" where
  "hierarchy_routes = controller ''auth/corporate-hierarchy'' (Some []) [
     post ''list'' ''list'' None, post ''get'' ''get'' (Some IdRequestDto),
     post ''create'' ''create'' (Some SetHierarchyRoleDto), post ''delete'' ''delete'' (Some IdRequestDto)]"

definition credential_routes :: "route list" where
  "credential_routes = controller ''auth/credential'' (Some []) [
     post ''list'' ''list'' None,
     guarded IdorGuard (post ''get'' ''get'' (Some GetCredentialDto)),
     guarded IdorGuard (post ''create'' ''create'' (Some SetCredentialDto)),
     guarded IdorGuard (post ''verify'' ''verify'' (Some VerifyCredentialDto)),
     guarded IdorGuard (post ''delete'' ''delete'' (Some GetCredentialDto))]"

definition device_routes :: "route list" where
  "device_routes = controller ''auth/device'' (Some []) [
     post ''list'' ''list'' None, post ''get'' ''get'' (Some IdRequestDto),
     post ''create'' ''create'' (Some RegisterDeviceDto), post ''delete'' ''delete'' (Some IdRequestDto)]"

definition otp_routes :: "route list" where
  "otp_routes = controller ''auth/otp'' None [
     auth [] (post ''list'' ''list'' None), auth [] (post ''get'' ''get'' (Some IdRequestDto)),
     open_to_all (post ''create'' ''create'' (Some GenerateOtpDto)),
     open_to_all (post ''verify'' ''verify'' (Some VerifyOtpDto)),
     auth [] (post ''delete'' ''delete'' (Some IdRequestDto))]"

definition registration_routes :: "route list" where
  "registration_routes = controller ''auth/registration'' None [
     auth [] (post ''list'' ''list'' None), auth [] (post ''get'' ''get'' (Some IdRequestDto)),
     open_to_all (post ''resume'' ''resume'' (Some IdRequestDto)),
     open_to_all (post ''create'' ''create'' (Some InitRegistrationDto)),
     open_to_all (post ''verify-otp'' ''verifyOtp'' (Some VerifyRegistrationOtpDto)),
     open_to_all (post ''create-credentials'' ''createCredentials'' (Some CreateCredentialsDto)),
     open_to_all (post ''register-device'' ''registerDevice'' (Some RegisterAttemptDeviceDto)),
     open_to_all (post ''complete'' ''complete'' (Some IdRequestDto)),
     auth [] (post ''delete'' ''delete'' (Some IdRequestDto))]"

definition auth_routes :: "route list" where
  "auth_routes = controller ''auth'' None [
     open_to_all (post ''login'' ''login'' (Some LoginDto)), open_to_all (post ''signup'' ''signup'' (Some SignupDto)),
     auth [] (post ''logout'' ''logout'' (Some LogoutDto)), auth [] (post ''me'' ''me'' None)]"

definition bill_routes :: "route list" where
  "bill_routes = controller ''bill-payment/bill'' None [
     auth BBPS_BILL_FETCH_ROLES (post ''fetch'' ''fetchBill'' (Some FetchBillDto))]"

definition biller_routes :: "route list" where
  "biller_routes = controller ''bill-payment/biller'' None [
     auth BBPS_CATALOG_READ_ROLES (get ''categories'' ''getCategories'' None),
     auth BBPS_CATALOG_READ_ROLES (get [] ''findAll'' (Some ListBillersQueryDto)),
     auth BBPS_CATALOG_READ_ROLES (get '':id'' ''findOne'' None),
     auth BANK_CATALOG_ADMIN_ROLES (post [] ''create'' (Some CreateBillerDto))]"

definition payment_create_route :: route where
  "payment_create_route = (auth BBPS_PAYMENT_CREATE_ROLES (post [] ''create'' (Some CreatePaymentDto)))\<lparr>rt_idempotency := True\<rparr>"

definition payment_routes :: "route list" where
  "payment_routes = controller ''bill-payment/payment'' None [
     auth (BBPS_PAYMENT_READ_CUSTOMER_ROLES @ BBPS_PAYMENT_BANK_READ_ROLES) (get [] ''findAll'' None),
     auth (BBPS_PAYMENT_READ_CUSTOMER_ROLES @ BBPS_PAYMENT_BANK_READ_ROLES) (get '':id'' ''findOne'' None),
     payment_create_route,
     auth BBPS_PAYMENT_RETRY_ROLES (post ''retry'' ''retry'' (Some IdRequestDto))]"

definition schedule_routes :: "route list" where
  "schedule_routes = controller ''bill-payment/schedule'' None [
     auth BBPS_SCHEDULE_READ_ROLES (get [] ''findAll'' None),
     auth BBPS_SCHEDULE_MUTATION_ROLES (get ''upcoming'' ''upcoming'' None),
     auth BBPS_SCHEDULE_MUTATION_ROLES (get '':id/executions'' ''executions'' None),
     auth BBPS_SCHEDULE_READ_ROLES (get '':id'' ''findOne'' None),
     auth BBPS_SCHEDULE_MUTATION_ROLES (post [] ''create'' (Some CreateBillScheduleDto)),
     auth BBPS_SCHEDULE_MUTATION_ROLES (post '':id/pause'' ''pause'' None),
     auth BBPS_SCHEDULE_MUTATION_ROLES (post '':id/resume'' ''resume'' None),
     auth BBPS_SCHEDULE_MUTATION_ROLES (post '':id/cancel'' ''cancel'' None)]"

definition employee_routes :: "route list" where
  "employee_routes = controller ''employees'' (Some []) [
     post ''create'' ''create'' (Some CreateEmployeeDto), post ''update-role'' ''updateRole'' (Some UpdateEmployeeRoleDto)]"

definition permission_routes :: "route list" where
  "permission_routes = controller ''permissions'' (Some []) [
     guarded SuperadminGuard (post ''create'' ''create'' (Some CreatePermissionDto))]"

definition role_routes :: "route list" where
  "role_routes = controller ''roles'' (Some []) [
     guarded SuperadminGuard (post ''create'' ''create'' (Some CreateRoleDto)),
     guarded SuperadminGuard (post ''update'' ''update'' (Some UpdateRoleDto)),
     guarded SuperadminGuard (post ''map-permissions'' ''mapPermissions'' (Some MapRolePermissionsDto))]"

definition user_routes :: "route list" where
  "user_routes = controller ''users'' (Some []) [
     post ''fetch-access-details'' ''fetchAccessDetails'' (Some FetchAccessDetailsDto)]"

text \<open>
  The modules with their controllers. No module imports \<open>TemplatesModule\<close>, so the routes of
  its controller are not among those of the application.
\<close>

definition AuthModule :: "route list" where
  "AuthModule = registration_routes @ credential_routes @ device_routes @ hierarchy_routes @ otp_routes @ auth_routes"

definition RbacModule :: "route list" where
  "RbacModule = role_routes @ permission_routes @ employee_routes @ user_routes"

definition AdminModule :: "route list" where
  "AdminModule = admin_user_routes @ rule_routes @ reporting_routes"

definition BillPaymentModule :: "route list" where
  "BillPaymentModule = biller_routes @ payment_routes @ bill_routes @ schedule_routes"

definition TemplatesModule :: "route list" where
  "TemplatesModule = template_routes"

definition ROUTES :: "route list" where
  "ROUTES = health_routes @ AuthModule @ RbacModule @ AdminModule @ BillPaymentModule"

text \<open>Two handlers do more than call one operation of a service.\<close>

definition retry_handler ::
  "('p, 'm, 'd, 'w) pay_env \<Rightarrow> string \<Rightarrow> actor option \<Rightarrow> (('p, 'm, 'd, 'w) pay_state, payment row) act" where
  "retry_handler E i actor = andThen (payViaBbps E i actor) (\<lambda>_. \<lambda>s.
     case py_findOne (pe_payments E) i actor (ps_payments s) of (r, t) \<Rightarrow> (r, s\<lparr>ps_payments := t\<rparr>))"

text \<open>\<open>dto.userId ?? user?.sub\<close> of the credential controller.\<close>

definition credential_user :: "string option \<Rightarrow> actor option \<Rightarrow> string option" where
  "credential_user userId user = (case userId of Some u \<Rightarrow> Some u | None \<Rightarrow> Option.bind user act_sub)"

subsection \<open>The way of a request\<close>

definition roles_metadata :: "string list option \<Rightarrow> role_metadata option" where
  "roles_metadata a = Option.bind a Auth"

definition run_guard :: "route_guard \<Rightarrow> json_body \<Rightarrow> actor option \<Rightarrow> unit result" where
  "run_guard g body user = (case g of
      IdorGuard \<Rightarrow> idorGuard user (map_of body ''userId'')
    | SuperadminGuard \<Rightarrow> superadminGuard user)"

fun run_guards :: "route_guard list \<Rightarrow> json_body \<Rightarrow> actor option \<Rightarrow> unit result" where
  "run_guards [] body user = Inr ()"
| "run_guards (g # gs) body user = (case run_guard g body user of Inl e \<Rightarrow> Inl e | Inr _ \<Rightarrow> run_guards gs body user)"

text \<open>Middleware and guards, in their order: the user the handler will see.\<close>

definition admit :: "route \<Rightarrow> string option \<Rightarrow> json_body \<Rightarrow> actor option result" where
  "admit r header body = (case keycloakAuthGuard (rt_public r) (normalizeBearer header) None of
      Inl e \<Rightarrow> Inl e
    | Inr user \<Rightarrow> (case rolesGuard (roles_metadata (rt_class r)) (roles_metadata (rt_auth r)) user of
        Inl e \<Rightarrow> Inl e
      | Inr _ \<Rightarrow> (case run_guards (rt_guards r) body user of Inl e \<Rightarrow> Inl e | Inr _ \<Rightarrow> Inr user)))"

definition validation_failed :: exn where
  "validation_failed = BadRequestException (Msg ''Bad Request'')"

text \<open>Then the interceptor of the route and the validation pipe: the body of the handler.\<close>

definition receive ::
  "(validator \<Rightarrow> json option \<Rightarrow> bool) \<Rightarrow> route \<Rightarrow> string option \<Rightarrow> header_value option \<Rightarrow> json_body
   \<Rightarrow> (actor option \<times> json_body) result" where
  "receive chk r header key body = (case admit r header body of
      Inl e \<Rightarrow> Inl e
    | Inr user \<Rightarrow> (case (if rt_idempotency r then idempotencyKeyInterceptor key body else Inr body) of
        Inl e \<Rightarrow> Inl e
      | Inr b \<Rightarrow> (case rt_dto r of
          None \<Rightarrow> Inr (user, b)
        | Some dto \<Rightarrow> (case validationPipe chk dto b of
            None \<Rightarrow> Inl validation_failed | Some b' \<Rightarrow> Inr (user, b')))))"

subsection \<open>swagger-document.util.ts\<close>

definition PUBLIC_PATH_METHODS :: "string list" where
  "PUBLIC_PATH_METHODS = map toLowerCase [
     ''POST /api/v1/auth/login'', ''POST /api/v1/auth/signup'', ''POST /api/v1/health/check'',
     ''POST /api/v1/auth/otp/create'', ''POST /api/v1/auth/otp/verify'', ''POST /api/v1/auth/registration/resume'',
     ''POST /api/v1/auth/registration/create'', ''POST /api/v1/auth/registration/verify-otp'',
     ''POST /api/v1/auth/registration/create-credentials'', ''POST /api/v1/auth/registration/register-device'',
     ''POST /api/v1/auth/registration/complete'']"

lemma PUBLIC_PATH_METHODS_eval [code]:
  "PUBLIC_PATH_METHODS = [
     ''post /api/v1/auth/login'', ''post /api/v1/auth/signup'', ''post /api/v1/health/check'',
     ''post /api/v1/auth/otp/create'', ''post /api/v1/auth/otp/verify'', ''post /api/v1/auth/registration/resume'',
     ''post /api/v1/auth/registration/create'', ''post /api/v1/auth/registration/verify-otp'',
     ''post /api/v1/auth/registration/create-credentials'', ''post /api/v1/auth/registration/register-device'',
     ''post /api/v1/auth/registration/complete'']"
  unfolding PUBLIC_PATH_METHODS_def by code_simp

text \<open>An operation of the document; the security is the list of the required schemes.\<close>

record operation =
  op_path :: string
  op_method :: string
  op_responses :: bool
  op_security :: "string list option"

definition secure_operation :: "operation \<Rightarrow> operation" where
  "secure_operation q = (if \<not> op_responses q then q
     else if toLowerCase (toLowerCase (op_method q) @ CHR '' '' # op_path q) \<in> set PUBLIC_PATH_METHODS
     then q\<lparr>op_security := Some []\<rparr>
     else if op_security q = None then q\<lparr>op_security := Some [''bearer'']\<rparr> else q)"

text \<open>The security of the document and its operations.\<close>

definition applySwaggerSecurityDefaults :: "operation list \<Rightarrow> string list \<times> operation list" where
  "applySwaggerSecurityDefaults doc = ([''bearer''], map secure_operation doc)"

text \<open>The operation that the decorators of a route give under a prefix.\<close>

definition operation_of :: "string \<Rightarrow> route \<Rightarrow> operation" where
  "operation_of prefix r = \<lparr>op_path = CHR ''/'' # prefix @ CHR ''/'' # rt_path r, op_method = rt_method r, op_responses = True,
     op_security = (if rt_class r = None \<and> rt_auth r = None then None else Some [''bearer''])\<rparr>"

subsection \<open>Facts\<close>

lemma roles_metadata_simps [simp]: "roles_metadata None = None" "roles_metadata (Some []) = None"
  by (simp_all add: roles_metadata_def Auth_def)

text \<open>What \<open>@Auth\<close> on the controller and the handler asks for together.\<close>

definition required_roles :: "route \<Rightarrow> string list" where
  "required_roles r = (case (rt_class r, rt_auth r) of
      (Some (x # xs), _) \<Rightarrow> x # xs | (_, Some ys) \<Rightarrow> ys | _ \<Rightarrow> [])"

lemma rolesGuard_required:
  "rolesGuard (roles_metadata (rt_class r)) (roles_metadata (rt_auth r)) user = Inr () \<longleftrightarrow>
     required_roles r = [] \<or> (\<exists>q \<in> set (required_roles r). q \<in> set (case user of None \<Rightarrow> [] | Some u \<Rightarrow> orElse (act_realm_roles u) []))"
proof -
  have "override_metadata (roles_metadata (rt_class r)) (roles_metadata (rt_auth r)) = Auth (required_roles r)"
    by (auto simp: override_metadata_def roles_metadata_def required_roles_def Auth_def split: option.splits list.splits)
  then have "rolesGuard (roles_metadata (rt_class r)) (roles_metadata (rt_auth r)) user = rolesGuard None (Auth (required_roles r)) user"
    by (simp add: rolesGuard_def override_metadata_def)
  then show ?thesis by (simp add: rolesGuard_Auth)
qed

lemma admit_cases:
  assumes "admit r header body = Inr user" and "\<not> rt_public r"
  shows "\<exists>u \<in> set MOCK_USERS. \<exists>token. bearerToken (normalizeBearer header) = Some token \<and> findMockUserByToken token = Some u
    \<and> user = Some \<lparr>act_sub = Some (mu_sub u), act_realm_roles = Some (mu_roles u), act_roles = None\<rparr>
    \<and> (required_roles r = [] \<or> (\<exists>q \<in> set (required_roles r). q \<in> set (mu_roles u)))
    \<and> run_guards (rt_guards r) body user = Inr ()"
proof -
  from assms obtain token u where u: "bearerToken (normalizeBearer header) = Some token" "findMockUserByToken token = Some u"
    "user = Some \<lparr>act_sub = Some (mu_sub u), act_realm_roles = Some (mu_roles u), act_roles = None\<rparr>"
    by (auto simp: admit_def keycloakAuthGuard_def Let_def truthy_def split: option.splits sum.splits if_splits)
  have "u \<in> set MOCK_USERS" using u(2) findMockUser_mem by (auto simp: findMockUserByToken_def split: option.splits)
  moreover have "rolesGuard (roles_metadata (rt_class r)) (roles_metadata (rt_auth r)) user = Inr ()"
    "run_guards (rt_guards r) body user = Inr ()"
    using assms(1) by (auto simp: admit_def split: sum.splits)
  ultimately show ?thesis using u rolesGuard_required [of r user] by auto
qed

end
