(* ===== verification/Access_Properties.thy ===== *)
theory Access_Properties
  imports Keycloak Interceptors
begin

text \<open>
  What stands in front of the handlers: the bearer header from the login to the guard, the
  IDOR and checksum guards, the idempotency key, the masked log, and the role hierarchy.
\<close>

subsection \<open>Bearer tokens\<close>

lemma normalizeBearer_stable:
  assumes "token \<noteq> []" and "trim token = token" and "\<not> bearer_prefixed token"
  shows "normalizeBearer (Some (''Bearer '' @ token)) = Some (''Bearer '' @ token)"
  using strip_bearers_Bearer [OF assms] assms(1) by (simp add: normalizeBearer_def Let_def)

text \<open>
  The bearer middleware is idempotent: a header that went through it is its own
  normal form, however often the prefix was repeated in the header of the request.
\<close>

lemma normalizeBearer_idempotent: "normalizeBearer (normalizeBearer h) = normalizeBearer h"
proof (cases "\<exists>s. h = Some s \<and> s \<noteq> [] \<and> strip_bearers (trim s) \<noteq> []")
  case True
  then obtain s where s: "h = Some s" "s \<noteq> []" "strip_bearers (trim s) \<noteq> []" by blast
  have "trim (strip_bearers (trim s)) = strip_bearers (trim s)" by (simp add: strip_bearers_trimmed)
  from normalizeBearer_stable [OF s(3) this strip_bearers_done] s show ?thesis
    by (simp add: normalizeBearer_def Let_def)
next
  case False
  then show ?thesis by (cases h) (auto simp: normalizeBearer_def Let_def)
qed

subsection \<open>A mock session\<close>

text \<open>
  The header as a client may spell it: the token after any number of prefixes, each the word
  \<open>bearer\<close> in any case and some white space.
\<close>

definition bearer_prefixes :: "(string \<times> string) list \<Rightarrow> bool" where
  "bearer_prefixes ps \<longleftrightarrow> list_all (\<lambda>(b, w). toLowerCase b = ''bearer'' \<and> w \<noteq> [] \<and> list_all is_space w) ps"

fun spelled :: "(string \<times> string) list \<Rightarrow> string \<Rightarrow> string" where
  "spelled [] token = token"
| "spelled ((b, w) # ps) token = b @ w @ spelled ps token"

definition clean_token :: "string \<Rightarrow> bool" where
  "clean_token t \<longleftrightarrow> t \<noteq> [] \<and> trim t = t \<and> \<not> bearer_prefixed t"

lemma trim_ends: "trim t = t \<Longrightarrow> t \<noteq> [] \<Longrightarrow> \<not> is_space (hd t) \<and> \<not> is_space (last t)"
  using trim_hd [of t "hd t" "tl t"] trim_last [of t] by simp

lemma lower_space: "is_space (lower_char c) \<longleftrightarrow> is_space c"
  by (auto simp: lower_char_def is_upper_def is_space_def code_def)

lemma bearer_word:
  assumes "toLowerCase b = ''bearer''"
  shows "length b = 6 \<and> b \<noteq> [] \<and> \<not> is_space (hd b)"
proof -
  have l: "length b = 6" using arg_cong [OF assms, of length] by (simp add: toLowerCase_def)
  then obtain c cs where b: "b = c # cs" by (cases b) auto
  with assms have "lower_char c = CHR ''b''" by (simp add: toLowerCase_def)
  then have "\<not> is_space c" using lower_space [of c] by (simp add: is_space_def code_def)
  with l b show ?thesis by simp
qed

lemma spelled_ends:
  assumes "bearer_prefixes ps" and "trim t = t" and "t \<noteq> []"
  shows "spelled ps t \<noteq> [] \<and> trim (spelled ps t) = spelled ps t"
proof -
  have "spelled ps t \<noteq> [] \<and> \<not> is_space (hd (spelled ps t)) \<and> \<not> is_space (last (spelled ps t))"
    using assms(1)
  proof (induction ps)
    case Nil
    then show ?case using trim_ends [OF assms(2,3)] assms(3) by simp
  next
    case (Cons p ps)
    obtain b w where p: "p = (b, w)" by fastforce
    with Cons bearer_word [of b] show ?case by (auto simp: bearer_prefixes_def)
  qed
  then show ?thesis by (intro conjI trim_id) auto
qed

lemma strip_spelled:
  assumes "bearer_prefixes ps" and "clean_token t"
  shows "strip_bearers (spelled ps t) = t"
  using assms(1)
proof (induction ps)
  case Nil
  then show ?case using assms(2) by (subst strip_bearers.simps) (simp add: clean_token_def)
next
  case (Cons p ps)
  obtain b w where p: "p = (b, w)" by fastforce
  with Cons.prems have b: "toLowerCase b = ''bearer''" "w \<noteq> []" "list_all is_space w" "bearer_prefixes ps"
    by (auto simp: bearer_prefixes_def)
  let ?r = "spelled ps t"
  have r: "?r \<noteq> []" "trim ?r = ?r" using spelled_ends [OF b(4), of t] assms(2) by (simp_all add: clean_token_def)
  have d: "take 6 (b @ w @ ?r) = b" "drop 6 (b @ w @ ?r) = w @ ?r" using bearer_word [OF b(1)] by simp_all
  have "trimStart (w @ ?r) = ?r"
    using b(3) trim_ends [OF r(2,1)] r(1) by (cases ?r) (auto simp: trimStart_def list_all_iff dropWhile_append)
  moreover have "bearer_prefixed (b @ w @ ?r)"
    using b d(1,2) by (cases w) (auto simp: bearer_prefixed_def)
  ultimately have "strip_bearers (b @ w @ ?r) = strip_bearers ?r"
    using r(2) d(2) by (subst strip_bearers.simps) (simp add: strip_bearer_def)
  with Cons.IH [OF b(4)] p show ?case by simp
qed

lemma bearer_spelled:
  assumes "bearer_prefixes ps" and "clean_token t"
  shows "bearerToken (normalizeBearer (Some (spelled ps t))) = Some t"
proof -
  have t: "t \<noteq> []" "trim t = t" using assms(2) by (simp_all add: clean_token_def)
  from spelled_ends [OF assms(1) t(2,1)] strip_spelled [OF assms] t
  have "normalizeBearer (Some (spelled ps t)) = Some (''Bearer '' @ t)" by (simp add: normalizeBearer_def Let_def)
  moreover have "toLowerCase (''Bearer '' @ t) = ''bearer '' @ toLowerCase t"
    by (simp add: toLowerCase_def lower_char_def is_upper_def code_def char_of_def bit_iff_odd)
  ultimately show ?thesis using t by (simp add: bearerToken_def startsWith_def)
qed

definition mock_token :: "mock_user \<Rightarrow> string" where
  "mock_token u = mock_prefix @ mu_username u @ ''-token''"

definition mock_actor :: "mock_user \<Rightarrow> actor" where
  "mock_actor u = \<lparr>act_sub = Some (mu_sub u), act_realm_roles = Some (mu_roles u), act_roles = None\<rparr>"

lemma mock_tokens: "list_all (\<lambda>u. clean_token (mock_token u) \<and> findMockUserByToken (mock_token u) = Some u) MOCK_USERS"
  by code_simp

text \<open>
  C24: a mock session round trip: whoever logs in in mock mode is one of the listed users
  with the listed password, nothing outside is called, and the access token, in every
  accepted spelling of the header, makes the guard set exactly the subject and the roles of
  that user, whatever user the request carried before.
\<close>

theorem mock_session_roundtrip:
  assumes "isMockAuth c" and "login http c dto w = (Inr r, w')" and "bearer_prefixes ps"
  shows "w' = w \<and> (\<exists>u \<in> set MOCK_USERS. mu_username u = ld_username dto \<and> mu_password u = ld_password dto
    \<and> tr_accessToken r = Some (JStr (mock_token u))
    \<and> keycloakAuthGuard isPublic (normalizeBearer (Some (spelled ps (mock_token u)))) old = Inr (Some (mock_actor u)))"
proof -
  from assms(1,2) obtain u where u: "findMockUserByUsername (ld_username dto) = Some u" "mu_password u = ld_password dto"
    "tr_accessToken r = Some (JStr (mock_token u))" "w' = w"
    by (auto simp: login_def mockLogin_def mock_token_def split: option.splits if_splits)
  have m: "u \<in> set MOCK_USERS \<and> mu_username u = ld_username dto" using findMockUser_mem [OF u(1)] .
  with mock_tokens have t: "clean_token (mock_token u)" "findMockUserByToken (mock_token u) = Some u"
    by (auto simp only: list_all_iff)
  then have "keycloakAuthGuard isPublic (normalizeBearer (Some (spelled ps (mock_token u)))) old = Inr (Some (mock_actor u))"
    by (simp add: keycloakAuthGuard_def Let_def mock_actor_def bearer_spelled [OF assms(3)] clean_token_def [of "mock_token u"])
  with u(2-4) m show ?thesis by blast
qed

theorem mock_session_roundtrip_witness:
  "keycloakAuthGuard False (normalizeBearer (Some ''Bearer bearer  mock-mock-customer-token'')) None
   = Inr (Some \<lparr>act_sub = Some ''00000000-0000-0000-0000-000000000007'',
        act_realm_roles = Some [''RETAIL_CUSTOMER''], act_roles = None\<rparr>)"
proof -
  let ?c = "sim_config\<lparr>authMockMode := ''true''\<rparr>"
  let ?dto = "\<lparr>ld_username = ''mock-customer'', ld_password = ''Mock@123'', ld_clientId = None\<rparr>"
  let ?ps = "[(''Bearer'', '' ''), (''bearer'', ''  '')]"
  have 1: "isMockAuth ?c" by (simp add: isMockAuth_def)
  obtain r where 2: "login (sim_http []) ?c ?dto [] = (Inr r, [])"
    by (simp add: login_def 1 mockLogin_def findMockUserByUsername_def MOCK_USERS_def)
  have 3: "bearer_prefixes ?ps" by code_simp
  from mock_session_roundtrip [OF 1 2 3, of False None] obtain u where u: "u \<in> set MOCK_USERS"
    "mu_username u = ''mock-customer''" "keycloakAuthGuard False (normalizeBearer (Some (spelled ?ps (mock_token u)))) None
      = Inr (Some (mock_actor u))" by auto
  from u(1,2) have "mu_sub u = ''00000000-0000-0000-0000-000000000007''" "mu_roles u = [''RETAIL_CUSTOMER'']"
    "mock_token u = ''mock-mock-customer-token''"
    by (auto simp: MOCK_USERS_def mock_token_def mock_prefix_def)
  with u(3) show ?thesis by (simp add: mock_actor_def)
qed

subsection \<open>Guards\<close>


text \<open>
  A checksum that the interceptor writes under a secret is accepted by the guard for
  the same text, and the guard accepts only texts that decode to the same bytes.
\<close>

lemma checksum_roundtrip:
  assumes "checksumSigning hmac secret bodyText = Some signature" and "signature \<noteq> []"
  shows "checksumGuard hmac secret (Some signature) bodyText = Inr ()
    \<and> (checksumGuard hmac secret (Some other) bodyText = Inr ()
       \<longleftrightarrow> other \<noteq> [] \<and> bufferFromHex other = bufferFromHex signature)"
  using assms by (auto simp: checksumSigning_def checksumGuard_def Let_def split: if_splits)

subsection \<open>Requests and logs\<close>

text \<open>
  A request body leaves the idempotency interceptor with a trimmed key that is not
  empty, the one of the header when that is not blank; its other properties are unchanged.
\<close>

lemma idempotency_key_set:
  assumes "idempotencyKeyInterceptor header body = Inr body'"
  shows "(\<exists>k. map_of body' ''idempotencyKey'' = Some (JStr k) \<and> k \<noteq> [] \<and> trim k = k
       \<and> k = (case header_first header of
               None \<Rightarrow> body_key body
             | Some h \<Rightarrow> if trim h = [] then body_key body else trim h))
     \<and> (\<forall>p. p \<noteq> ''idempotencyKey'' \<longrightarrow> map_of body' p = map_of body p)"
proof -
  have t: "trim (body_key body) = body_key body"
    by (auto simp: body_key_def trim_def [of "[]"] split: option.splits json.splits)
  show ?thesis
    using assms t by (auto simp: idempotencyKeyInterceptor_def Let_def map_of_set_prop truthy_def split: option.splits if_splits)
qed



subsection \<open>Levels\<close>

lemma role_level_bound: "resolveRoleHierarchyLevel r = Lvl n \<Longrightarrow> n \<le> 100"
proof -
  have "level_lookup x = Some (Lvl m) \<Longrightarrow> m \<le> 100" for x m
    by (auto simp: level_lookup_def ROLE_HIERARCHY_LEVELS_def split: option.splits if_splits)
  then show "resolveRoleHierarchyLevel r = Lvl n \<Longrightarrow> n \<le> 100"
    by (auto simp: resolveRoleHierarchyLevel_def DEFAULT_ROLE_HIERARCHY_LEVEL_def split: option.splits if_splits)
qed

lemma fold_level_max_bound:
  "fold level_max ls l = Lvl m \<Longrightarrow> \<exists>x \<in> set (l # ls). x = Lvl m"
proof (induction ls arbitrary: l)
  case (Cons x ls)
  then obtain y where "y \<in> set (level_max x l # ls)" "y = Lvl m" by fastforce
  then show ?case by (cases x; cases l) (auto simp: max_def split: if_splits)
qed simp

lemma role_level_least: "resolveRoleHierarchyLevel r = Lvl n \<Longrightarrow> 10 \<le> n"
proof -
  have "level_lookup x = Some (Lvl m) \<Longrightarrow> 10 \<le> m" for x m
    by (auto simp: level_lookup_def ROLE_HIERARCHY_LEVELS_def split: option.splits if_splits)
  then show "resolveRoleHierarchyLevel r = Lvl n \<Longrightarrow> 10 \<le> n"
    by (auto simp: resolveRoleHierarchyLevel_def DEFAULT_ROLE_HIERARCHY_LEVEL_def split: option.splits if_splits)
qed

lemma superadmin_levels: "list_all (\<lambda>r. resolveRoleHierarchyLevel r = Lvl 100) SUPERADMIN_ROLES"
  by code_simp

lemma superadmin_level: "r \<in> set SUPERADMIN_ROLES \<Longrightarrow> resolveRoleHierarchyLevel r = Lvl 100"
  using superadmin_levels by (simp add: list_all_iff)

text \<open>
  C25: no escalation: who is not a superadmin assigns a role only when he holds a role
  strictly above it in the hierarchy, and so never a superadmin role; the same check
  decides whose employees he manages.
\<close>

theorem hierarchy_no_escalation:
  assumes "canAssignRoleToEmployee actor roleName \<or> canManageEmployeeWithRole actor roleName" and "\<not> isSuperadmin actor"
  shows "roleName \<notin> set SUPERADMIN_ROLES \<and> (\<exists>r \<in> set (extractRealmRoles actor). \<exists>m n.
     resolveRoleHierarchyLevel r = Lvl m \<and> resolveRoleHierarchyLevel roleName = Lvl n \<and> n < m \<and> m \<le> 100)"
proof -
  from assms obtain m n where l: "resolveActorHierarchyLevel actor = Lvl m" "resolveRoleHierarchyLevel roleName = Lvl n" "n < m"
    by (cases "resolveActorHierarchyLevel actor"; cases "resolveRoleHierarchyLevel roleName")
      (auto simp: canAssignRoleToEmployee_def canManageEmployeeWithRole_def)
  have "10 \<le> n" using role_level_least [OF l(2)] .
  with l have "extractRealmRoles actor \<noteq> []" by (auto simp: resolveActorHierarchyLevel_def DEFAULT_ROLE_HIERARCHY_LEVEL_def)
  then obtain k ks where k: "map resolveRoleHierarchyLevel (extractRealmRoles actor) = k # ks"
    by (cases "extractRealmRoles actor") auto
  with l(1) have "fold level_max ks k = Lvl m" by (simp add: resolveActorHierarchyLevel_def)
  from fold_level_max_bound [OF this] k have "Lvl m \<in> set (map resolveRoleHierarchyLevel (extractRealmRoles actor))" by auto
  then obtain r where r: "r \<in> set (extractRealmRoles actor)" "resolveRoleHierarchyLevel r = Lvl m" by auto
  with l role_level_bound [OF r(2)] superadmin_level [of roleName] show ?thesis by fastforce
qed

theorem hierarchy_no_escalation_witness: "''BANK_MAKER'' \<notin> set SUPERADMIN_ROLES"
proof -
  let ?a = "Some \<lparr>act_sub = Some ''u1'', act_realm_roles = Some [''BANK_ADMIN''], act_roles = None\<rparr>"
  have "canAssignRoleToEmployee ?a ''BANK_MAKER''" "\<not> isSuperadmin ?a" by code_simp+
  then show ?thesis using hierarchy_no_escalation [of ?a "''BANK_MAKER''"] by blast
qed

end
