(* ===== verification/Routes_Properties.thy ===== *)
theory Routes_Properties
  imports Routes Access_Properties
begin

text \<open>
  What the table of routes gives: who reaches a handler and with which body, and that the
  Swagger document opens exactly the public routes.
\<close>

lemma run_guards_all: "run_guards gs body user = Inr () \<longleftrightarrow> (\<forall>g \<in> set gs. run_guard g body user = Inr ())"
  by (induction gs) (auto split: sum.splits)

text \<open>
  C38: every handler of a route that is not public is reached only with the token of a mock
  user who has one of the roles the route asks for; behind the superadmin guard he is a
  superadmin, and behind the IDOR guard a user id in the body is his own unless he has an
  elevated role.
\<close>

theorem routes_enforced:
  assumes "admit r header body = Inr user" and "\<not> rt_public r"
  shows "\<exists>u \<in> set MOCK_USERS. user = Some (mock_actor u)
    \<and> Option.bind (bearerToken (normalizeBearer header)) findMockUserByToken = Some u
    \<and> (required_roles r = [] \<or> (\<exists>q \<in> set (required_roles r). q \<in> set (mu_roles u)))
    \<and> (SuperadminGuard \<in> set (rt_guards r) \<longrightarrow> isSuperadmin user)
    \<and> (\<forall>t. IdorGuard \<in> set (rt_guards r) \<and> map_of body ''userId'' = Some (JStr t) \<and> t \<noteq> [] \<longrightarrow>
         t = mu_sub u \<or> (\<exists>q \<in> set ELEVATED_ROLES. q \<in> set (mu_roles u)))"
proof -
  from admit_cases [OF assms] obtain u token where u: "u \<in> set MOCK_USERS"
    "bearerToken (normalizeBearer header) = Some token" "findMockUserByToken token = Some u" "user = Some (mock_actor u)"
    "required_roles r = [] \<or> (\<exists>q \<in> set (required_roles r). q \<in> set (mu_roles u))"
    and g: "run_guards (rt_guards r) body user = Inr ()" by (auto simp: mock_actor_def)
  have "isSuperadmin user" if "SuperadminGuard \<in> set (rt_guards r)"
  proof -
    from g that have "run_guard SuperadminGuard body user = Inr ()" by (simp add: run_guards_all)
    then show ?thesis by (auto simp: run_guard_def superadminGuard_def split: if_splits)
  qed
  moreover have "t = mu_sub u \<or> (\<exists>q \<in> set ELEVATED_ROLES. q \<in> set (mu_roles u))"
    if "IdorGuard \<in> set (rt_guards r)" "map_of body ''userId'' = Some (JStr t)" "t \<noteq> []" for t
  proof -
    from g that(1) have "run_guard IdorGuard body user = Inr ()" by (simp add: run_guards_all)
    with that(2) have "idorGuard user (Some (JStr t)) = Inr ()" by (simp add: run_guard_def)
    from idorGuard_foreign [OF this that(3)] u(4) show ?thesis by (auto simp: mock_actor_def)
  qed
  ultimately show ?thesis using u by auto
qed

definition as_user :: "string \<Rightarrow> string option" where
  "as_user name = Some (''Bearer mock-'' @ name @ ''-token'')"

definition mpin_get_route :: route where
  "mpin_get_route = hd (tl credential_routes)"

theorem routes_enforced_witness:
  "\<exists>u \<in> set MOCK_USERS. admit mpin_get_route (as_user ''mock-customer'') [(''userId'', JStr (mu_sub u))] = Inr (Some (mock_actor u))"
proof -
  let ?b = "[(''userId'', JStr ''00000000-0000-0000-0000-000000000007'')]"
  let ?a = "admit mpin_get_route (as_user ''mock-customer'') ?b"
  have "\<not> isl ?a" "\<not> rt_public mpin_get_route" "IdorGuard \<in> set (rt_guards mpin_get_route)" by code_simp+
  moreover have "case ?a of Inl _ \<Rightarrow> True | Inr user \<Rightarrow>
      list_ex (\<lambda>q. q \<in> set ELEVATED_ROLES) (case user of None \<Rightarrow> [] | Some v \<Rightarrow> orElse (act_realm_roles v) []) = False" by code_simp
  ultimately obtain user where a: "?a = Inr user" and n: "list_ex (\<lambda>q. q \<in> set ELEVATED_ROLES)
      (case user of None \<Rightarrow> [] | Some v \<Rightarrow> orElse (act_realm_roles v) []) = False" by (cases ?a) auto
  from routes_enforced [OF a] \<open>\<not> rt_public mpin_get_route\<close> \<open>IdorGuard \<in> set (rt_guards mpin_get_route)\<close> n
  obtain u where "u \<in> set MOCK_USERS" "user = Some (mock_actor u)" "mu_sub u = ''00000000-0000-0000-0000-000000000007''"
    by (auto simp: mock_actor_def list_ex_iff)
  with a show ?thesis by (intro bexI [of _ u]) simp_all
qed

text \<open>
  C39: a payment request that reaches its handler carries the subject of a mock user with a
  paying role, a trimmed idempotency key that is not empty, and either a bill number or the
  texts of biller, consumer and amount.
\<close>

theorem payment_request_admitted:
  assumes "class_validator chk" and "receive chk payment_create_route header key body = Inr (user, b)"
  shows "(\<exists>u \<in> set MOCK_USERS. user = Some (mock_actor u) \<and> requireActorSub user = Inr (mu_sub u)
       \<and> (\<exists>q \<in> set BBPS_PAYMENT_CREATE_ROLES. q \<in> set (mu_roles u)))
    \<and> (\<exists>k. map_of b ''idempotencyKey'' = Some (JStr k) \<and> k \<noteq> [] \<and> trim k = k)
    \<and> (prop_truthy b ''billNumber''
       \<or> (\<forall>f \<in> {''billerCode'', ''consumerNumber'', ''amount''}. \<exists>s. map_of b f = Some (JStr s) \<and> s \<noteq> []))"
proof -
  have r: "rt_public payment_create_route = False" "rt_idempotency payment_create_route = True"
    "rt_dto payment_create_route = Some CreatePaymentDto" "required_roles payment_create_route = BBPS_PAYMENT_CREATE_ROLES"
    by (simp_all add: payment_create_route_def auth_def post_def on_def required_roles_def)
  from assms(2) r obtain c where a: "admit payment_create_route header body = Inr user"
    and c: "idempotencyKeyInterceptor key body = Inr c" and v: "validationPipe chk CreatePaymentDto c = Some b"
    by (auto simp: receive_def split: sum.splits option.splits)
  have nr: "\<not> rt_public payment_create_route" using r(1) by simp
  from admit_cases [OF a nr] r(4) obtain u where u: "u \<in> set MOCK_USERS" "user = Some (mock_actor u)"
    "\<exists>q \<in> set BBPS_PAYMENT_CREATE_ROLES. q \<in> set (mu_roles u)"
    by (auto simp: mock_actor_def BBPS_PAYMENT_CREATE_ROLES_def)
  have "list_all (\<lambda>u. mu_sub u \<noteq> []) MOCK_USERS" by code_simp
  with u(1,2) have s: "requireActorSub user = Inr (mu_sub u)" by (simp add: requireActorSub_ok mock_actor_def list_all_iff)
  have "map_of b ''idempotencyKey'' = map_of c ''idempotencyKey''"
    by (rule class_validator.pipe_props [OF assms(1) v]) (simp add: CreatePaymentDto_def optional_def)
  with idempotency_key_set [OF c] have k: "\<exists>k. map_of b ''idempotencyKey'' = Some (JStr k) \<and> k \<noteq> [] \<and> trim k = k" by auto
  from class_validator.payment_complete [OF assms(1) v] u s k show ?thesis by blast
qed

theorem payment_request_admitted_witness:
  "case receive simple_chk payment_create_route (as_user ''mock-customer'') (Some (One '' k1 '')) [(''billNumber'', JStr ''B1'')] of
     Inl _ \<Rightarrow> False
   | Inr (user, b) \<Rightarrow> requireActorSub user = Inr ''00000000-0000-0000-0000-000000000007''
        \<and> map_of b ''idempotencyKey'' = Some (JStr ''k1'')"
proof -
  let ?r = "receive simple_chk payment_create_route (as_user ''mock-customer'') (Some (One '' k1 '')) [(''billNumber'', JStr ''B1'')]"
  have e: "case ?r of Inl _ \<Rightarrow> False | Inr (user, b) \<Rightarrow> requireActorSub user = Inr ''00000000-0000-0000-0000-000000000007''
        \<and> map_of b ''idempotencyKey'' = Some (JStr ''k1'')" by code_simp
  then obtain user b where r: "?r = Inr (user, b)" by (auto split: sum.splits)
  from payment_request_admitted [OF simple_chk.class_validator_axioms r] e show ?thesis by blast
qed

text \<open>
  Under the default prefix the Swagger document asks for a bearer token on exactly the
  routes that need one, and no two routes have the same method and path.
\<close>

theorem public_routes_documented:
  "list_all (\<lambda>r. op_security (secure_operation (operation_of (resolveApiGlobalPrefix None) r))
      = (if rt_public r then Some [] else Some [''bearer''])) ROUTES
   \<and> distinct (map (\<lambda>r. (rt_method r, rt_path r)) ROUTES)"
  by code_simp

text \<open>The list of public paths is written out for \<open>/api/v1\<close>: with another prefix they are documented as protected.\<close>

theorem public_routes_other_prefix:
  "list_all (\<lambda>r. op_security (secure_operation (operation_of (resolveApiGlobalPrefix (Some ''v2'')) r)) = Some [''bearer'']) ROUTES"
  by code_simp

text \<open>The module of the notification templates is not imported: its three routes do not exist.\<close>

theorem templates_unreachable:
  "length TemplatesModule = 3 \<and> list_all (\<lambda>r. \<not> List.member (map rt_path ROUTES) (rt_path r)) TemplatesModule"
  by code_simp

text \<open>
  The routes that list registrations, credentials and one-time passwords, and the one that
  sets a hierarchy role, ask for no role: a customer reaches their handlers.
\<close>

theorem staff_routes_open:
  "list_all (\<lambda>r. required_roles r = [] \<and> \<not> isl (admit r (as_user ''mock-customer'') []))
     (filter (\<lambda>r. rt_handler r = ''list'') (registration_routes @ credential_routes @ otp_routes @ device_routes) @ hierarchy_routes)"
  by code_simp

end
