(* ===== verification/Config.thy ===== *)
theory Config
  imports Keycloak
begin

text \<open>
  \<open>config/\<close>, the tenant middleware and the settings that \<open>bootstrap\<close> of main.ts computes
  from the environment before it starts the server. \<open>env\<close> is the map of \<open>process.env\<close>.
\<close>

type_synonym env = "string \<Rightarrow> string option"

subsection \<open>app.config.ts and database.config.ts\<close>

definition digits_nat :: "string \<Rightarrow> nat" where
  "digits_nat s = foldl (\<lambda>n c. 10 * n + (code c - 48)) 0 s"

text \<open>\<open>parseInt(s, 10)\<close>; \<open>None\<close> is NaN.\<close>

definition parseInt10 :: "string \<Rightarrow> int option" where
  "parseInt10 s = (let t = trimStart s;
     (neg, u) = (case t of c # cs \<Rightarrow> if c = CHR ''-'' then (True, cs) else if c = CHR ''+'' then (False, cs) else (False, t)
                 | [] \<Rightarrow> (False, []));
     ds = takeWhile is_digit u in
     if ds = [] then None else Some (if neg then - int (digits_nat ds) else int (digits_nat ds)))"

record app_config =
  ac_port :: "int option"
  ac_globalPrefix :: string
  ac_gatewayPathPrefix :: string
  ac_publicBaseUrl :: "string option"
  ac_env :: string
  ac_authMockMode :: string
  ac_checksumSharedSecret :: "string option"

definition app_config_of :: "env \<Rightarrow> app_config" where
  "app_config_of env = \<lparr>
     ac_port = parseInt10 (orElse (env ''PORT'') ''3000''),
     ac_globalPrefix = resolveApiGlobalPrefix (env ''API_GLOBAL_PREFIX''),
     ac_gatewayPathPrefix = resolveGatewayPathPrefix (env ''GATEWAY_PATH_PREFIX''),
     ac_publicBaseUrl = env ''APP_PUBLIC_BASE_URL'',
     ac_env = orElse (env ''NODE_ENV'') ''development'',
     ac_authMockMode = orElse (env ''AUTH_MOCK_MODE'') ''false'',
     ac_checksumSharedSecret = env ''CHECKSUM_SHARED_SECRET''\<rparr>"

record data_source =
  ds_type :: string
  ds_host :: string
  ds_port :: "int option"
  ds_username :: string
  ds_password :: string
  ds_database :: string
  ds_entities :: "string list"
  ds_migrations :: "string list"
  ds_synchronize :: bool
  ds_logging :: bool
  ds_charset :: string

text \<open>\<open>dir\<close> is \<open>__dirname\<close>.\<close>

definition buildDataSourceOptions :: "string \<Rightarrow> env \<Rightarrow> data_source" where
  "buildDataSourceOptions dir env = \<lparr>
     ds_type = ''mysql'',
     ds_host = orElse (env ''DB_HOST'') ''localhost'',
     ds_port = parseInt10 (orElse (env ''DB_PORT'') ''3306''),
     ds_username = orElse (env ''DB_USERNAME'') ''bcb_user'',
     ds_password = orElse (env ''DB_PASSWORD'') ''bcb_pass'',
     ds_database = orElse (env ''DB_DATABASE'') ''db1'',
     ds_entities = [dir @ ''/../**/*.entity{.ts,.js}''],
     ds_migrations = [dir @ ''/../**/migrations/*{.ts,.js}''],
     ds_synchronize = (env ''DB_SYNCHRONIZE'' = Some ''true''),
     ds_logging = (env ''DB_LOGGING'' = Some ''true''),
     ds_charset = ''utf8mb4''\<rparr>"

subsection \<open>keycloak-connect.config.ts\<close>

datatype token_validation = ONLINE | OFFLINE

record connect_options =
  co_authServerUrl :: string
  co_realm :: string
  co_clientId :: string
  co_secret :: string
  co_bearerOnly :: bool
  co_verifyTokenAudience :: bool
  co_permissive :: bool
  co_tokenValidation :: token_validation

definition createKeycloakConnectOptions :: "kc_config \<Rightarrow> connect_options result" where
  "createKeycloakConnectOptions kc =
     (if \<not> truthy (authServerUrl kc) \<or> \<not> truthy (realm kc) \<or> \<not> truthy (kc_clientId kc)
      then Inl (Failure (''Keycloak is not configured. Set KEYCLOAK_AUTH_SERVER_URL, '' @
             ''KEYCLOAK_REALM, and KEYCLOAK_CLIENT_ID.''))
      else Inr \<lparr>co_authServerUrl = the (authServerUrl kc), co_realm = the (realm kc),
        co_clientId = the (kc_clientId kc), co_secret = orElse (kc_clientSecret kc) [],
        co_bearerOnly = True, co_verifyTokenAudience = False, co_permissive = True,
        co_tokenValidation = (if kc_tokenValidation kc = ''online'' then ONLINE else OFFLINE)\<rparr>)"

subsection \<open>tenant-context.middleware.ts\<close>

text \<open>The context that \<open>use\<close> attaches to a request with the header \<open>x-bank-id\<close>.\<close>

definition tenantContext :: "env \<Rightarrow> string option \<Rightarrow> bank_config" where
  "tenantContext env header =
     getConfig (env ''BANK_ID'') (env ''BANK_NAME'') (realm (keycloak_config env)) header"

subsection \<open>main.ts\<close>

record boot =
  bt_prefix :: string
  bt_prefix_warning :: bool
  bt_https_headers :: bool
  bt_server :: "string option"
  bt_swagger_path :: string
  bt_swagger_json :: string
  bt_swagger_url :: "string option"
  bt_logged_swagger :: string
  bt_port :: string
  bt_host :: string

definition bootstrap :: "env \<Rightarrow> boot" where
  "bootstrap env = (let
     globalPrefix = resolveApiGlobalPrefix (env ''API_GLOBAL_PREFIX'');
     gatewayPrefix = resolveGatewayPathPrefix (env ''GATEWAY_PATH_PREFIX'');
     configuredPrefix = strip_slashes (orElse (env ''API_GLOBAL_PREFIX'') ''api/v1'');
     publicBaseUrl = map_option (\<lambda>s. rev (dropWhile (\<lambda>c. c = CHR ''/'') (rev s))) (env ''APP_PUBLIC_BASE_URL'');
     mountPath = globalPrefix @ ''/docs'';
     jsonPath = globalPrefix @ ''/docs-json'' in
     \<lparr>bt_prefix = globalPrefix,
      bt_prefix_warning = startsWith ''identity/'' configuredPrefix,
      bt_https_headers = (env ''ENABLE_HTTPS_HEADERS'' = Some ''true''),
      bt_server = (if truthy publicBaseUrl then publicBaseUrl
        else if gatewayPrefix \<noteq> [] then Some (CHR ''/'' # gatewayPrefix) else None),
      bt_swagger_path = mountPath,
      bt_swagger_json = jsonPath,
      bt_swagger_url = (if gatewayPrefix \<noteq> [] then Some (buildPublicPath gatewayPrefix jsonPath) else None),
      bt_logged_swagger = (if gatewayPrefix \<noteq> [] then buildPublicPath gatewayPrefix mountPath else CHR ''/'' # mountPath),
      bt_port = orElse (env ''PORT'') ''3000'',
      bt_host = orElse (env ''HOST'') ''0.0.0.0''\<rparr>)"

subsection \<open>Facts\<close>

lemma dropWhile_slash_hd: "dropWhile (\<lambda>c. c = CHR ''/'') s = x # t \<Longrightarrow> x \<noteq> CHR ''/''"
  by (induction s) (auto split: if_splits)

lemma strip_slashes_hd: "strip_slashes s = x # t \<Longrightarrow> x \<noteq> CHR ''/''"
proof -
  assume a: "strip_slashes s = x # t"
  let ?u = "dropWhile (\<lambda>c. c = CHR ''/'') s"
  have "\<exists>v. ?u = strip_slashes s @ v"
    unfolding strip_slashes_def
    by (metis rev_append rev_rev_ident takeWhile_dropWhile_id)
  with a obtain v where "?u = x # t @ v" by auto
  then show ?thesis by (rule dropWhile_slash_hd)
qed

text \<open>Options exist exactly when server, realm and client are set, and then carry them.\<close>

lemma connect_options_exact:
  "createKeycloakConnectOptions kc = Inr q \<longleftrightarrow>
     (\<exists>s r c. authServerUrl kc = Some s \<and> s \<noteq> [] \<and> realm kc = Some r \<and> r \<noteq> [] \<and> kc_clientId kc = Some c \<and> c \<noteq> []
        \<and> q = \<lparr>co_authServerUrl = s, co_realm = r, co_clientId = c, co_secret = orElse (kc_clientSecret kc) [],
             co_bearerOnly = True, co_verifyTokenAudience = False, co_permissive = True,
             co_tokenValidation = (if kc_tokenValidation kc = ''online'' then ONLINE else OFFLINE)\<rparr>)"
  by (auto simp: createKeycloakConnectOptions_def truthy_def split: option.splits)

text \<open>Unless the gateway's segment has to be cut off, the prefix of the routes is not empty and does not start with a slash.\<close>

lemma prefix_no_slash:
  assumes "resolveApiGlobalPrefix e = p" and "\<not> startsWith ''identity/'' (strip_slashes (orElse e ''api/v1''))"
  shows "p \<noteq> [] \<and> hd p \<noteq> CHR ''/''"
  using assms strip_slashes_hd [of "orElse e ''api/v1''"]
  by (cases "strip_slashes (orElse e ''api/v1'')") (auto simp: resolveApiGlobalPrefix_def Let_def)

text \<open>Behind a gateway the JSON of the document is announced below the gateway's prefix.\<close>

lemma bootstrap_default:
  "bootstrap (\<lambda>_. None) = \<lparr>bt_prefix = ''api/v1'', bt_prefix_warning = False, bt_https_headers = False, bt_server = None,
     bt_swagger_path = ''api/v1/docs'', bt_swagger_json = ''api/v1/docs-json'', bt_swagger_url = None,
     bt_logged_swagger = ''/api/v1/docs'', bt_port = ''3000'', bt_host = ''0.0.0.0''\<rparr>"
  "bt_swagger_url (bootstrap [''GATEWAY_PATH_PREFIX'' \<mapsto> ''/identity/'']) = Some ''/identity/api/v1/docs-json''"
  by code_simp+

end
