(* ===== verification/Audit_Outbox.thy ===== *)
theory Audit_Outbox
  imports Repository Mem_Table
begin

text \<open>
  \<open>common/resilience\<close>, \<open>clients/audit.client.ts\<close> and \<open>clients/audit-outbox\<close>: retries
  with back-off around an outbound call, and the job that relays the pending rows of the
  outbox table to the audit service.
\<close>

subsection \<open>resilient-http-client.factory.ts\<close>

record resilience_options =
  ro_timeout :: nat
  ro_errorThresholdPercentage :: nat
  ro_resetTimeout :: nat
  ro_retries :: nat

definition DEFAULT_OPTIONS :: resilience_options where
  "DEFAULT_OPTIONS = \<lparr>ro_timeout = 5000, ro_errorThresholdPercentage = 50,
     ro_resetTimeout = 10000, ro_retries = 2\<rparr>"

text \<open>
  \<open>withRetries\<close> on an action of the outside world \<open>'w\<close>; the second component of the
  state is the list of the back-off delays (milliseconds) slept so far. \<open>attempt\<close> counts
  up to \<open>retries\<close>; the last error is thrown.
\<close>

function retry_from :: "nat \<Rightarrow> nat \<Rightarrow> ('w, 'a) act \<Rightarrow> ('w \<times> nat list, 'a) act" where
  "retry_from retries attempt action (w, slept) = (case action w of
      (Inr x, w') \<Rightarrow> (Inr x, (w', slept))
    | (Inl e, w') \<Rightarrow>
        if attempt < retries
        then retry_from retries (Suc attempt) action (w', slept @ [100 * 2 ^ attempt])
        else (Inl e, (w', slept)))"
  by pat_completeness auto
termination
  by (relation "measure (\<lambda>(retries, attempt, action, s). retries - attempt)") auto

declare retry_from.simps [simp del]

definition withRetries :: "nat \<Rightarrow> ('w, 'a) act \<Rightarrow> ('w \<times> nat list, 'a) act" where
  "withRetries retries action = retry_from retries 0 action"

text \<open>\<open>n\<close> failing runs of the action in a row.\<close>

fun fail_run :: "('w, 'a) act \<Rightarrow> nat \<Rightarrow> 'w \<Rightarrow> 'w \<Rightarrow> bool" where
  "fail_run action 0 w v \<longleftrightarrow> v = w"
| "fail_run action (Suc n) w v \<longleftrightarrow> (\<exists>e u. action w = (Inl e, u) \<and> fail_run action n u v)"

lemma retry_from_bounds:
  assumes "retry_from retries attempt action (w, slept) = (r, (w', slept'))" and "attempt \<le> retries"
  shows "\<exists>k v. k \<le> retries - attempt \<and> fail_run action k w v \<and> action v = (r, w')
     \<and> slept' = slept @ map (\<lambda>i. 100 * 2 ^ i) [attempt ..< attempt + k]
     \<and> (\<forall>e. r = Inl e \<longrightarrow> k = retries - attempt)"
  using assms
proof (induction retries attempt action "(w, slept)" arbitrary: w slept rule: retry_from.induct)
  case (1 retries attempt action w slept)
  obtain q u where q: "action w = (q, u)" by fastforce
  show ?case
  proof (cases q)
    case (Inr x)
    with 1 q have "r = q \<and> w' = u \<and> slept' = slept" by (simp add: retry_from.simps)
    with q Inr show ?thesis by (intro exI [of _ 0]) auto
  next
    case (Inl e)
    show ?thesis
    proof (cases "attempt < retries")
      case True
      with "1.prems" q Inl have
        "retry_from retries (Suc attempt) action (u, slept @ [100 * 2 ^ attempt]) = (r, (w', slept'))"
        by (simp add: retry_from.simps [of retries attempt])
      from "1.hyps" [OF q [symmetric] Inl True this] True obtain k v where k: "k \<le> retries - Suc attempt"
        "fail_run action k u v" "action v = (r, w')"
        "slept' = slept @ [100 * 2 ^ attempt] @ map (\<lambda>i. 100 * 2 ^ i) [Suc attempt ..< Suc attempt + k]"
        "\<forall>e. r = Inl e \<longrightarrow> k = retries - Suc attempt" by auto
      have "[attempt ..< attempt + Suc k] = attempt # [Suc attempt ..< Suc attempt + k]"
        by (simp add: upt_conv_Cons)
      moreover have "fail_run action (Suc k) w v" using q Inl k(2) by auto
      ultimately show ?thesis using k True by (intro exI [of _ "Suc k"] exI [of _ v]) auto
    next
      case False
      with "1.prems" q Inl have "r = q \<and> w' = u \<and> slept' = slept" by (simp add: retry_from.simps)
      with q Inl False "1.prems" show ?thesis by (intro exI [of _ 0]) auto
    qed
  qed
qed

lemma sum_backoff: "(\<Sum>i \<leftarrow> [0 ..< k]. 100 * 2 ^ i :: nat) = 100 * (2 ^ k - 1)"
proof (induction k)
  case 0
  then show ?case by simp
next
  case (Suc k)
  have "(1::nat) \<le> 2 ^ k" by simp
  with Suc show ?case by (simp add: algebra_simps)
qed

subsection \<open>audit-outbox.entity.ts\<close>

record audit_outbox =
  ob_eventType :: string
  ob_payload :: json
  ob_status :: string
  ob_attempts :: nat

definition MAX_RELAY_ATTEMPTS :: nat where
  "MAX_RELAY_ATTEMPTS = 5"

definition ob_pending :: "audit_outbox row \<Rightarrow> bool" where
  "ob_pending e \<longleftrightarrow> ob_status (rdata e) = ''PENDING''"

definition findPending :: "('t, audit_outbox) repo \<Rightarrow> 't \<Rightarrow> audit_outbox row list" where
  "findPending R t = findR R ob_pending t"

subsection \<open>audit.client.ts\<close>

text \<open>\<open>fire\<close> is the circuit breaker around the HTTP call (URL, event type, payload).\<close>

definition relay ::
  "(string \<Rightarrow> string \<Rightarrow> json \<Rightarrow> ('w, unit) act) \<Rightarrow> string option \<Rightarrow> string \<Rightarrow> json \<Rightarrow> ('w, unit) act" where
  "relay fire auditServiceUrl eventType payload =
     (if \<not> truthy auditServiceUrl
      then throw (Failure (''AUDIT_SERVICE_URL is not configured '' @ em_dash @ '' no Audit service to relay to''))
      else fire (orElse auditServiceUrl [] @ ''/events'') eventType payload)"

subsection \<open>audit-outbox-relay.job.ts\<close>

definition mark_sent :: "audit_outbox \<Rightarrow> audit_outbox" where
  "mark_sent d = d\<lparr>ob_status := ''SENT''\<rparr>"

definition mark_failed :: "audit_outbox \<Rightarrow> audit_outbox" where
  "mark_failed d = (let attempts = ob_attempts d + 1;
      status = (if MAX_RELAY_ATTEMPTS \<le> attempts then ''FAILED'' else ''PENDING'')
    in d\<lparr>ob_attempts := attempts, ob_status := status\<rparr>)"

text \<open>
  One turn of the loop: the relay and the save of \<open>SENT\<close> are inside the \<open>try\<close>, the
  save of the handler is not. \<open>rel\<close> is the client's \<open>relay\<close>.
\<close>

definition relay_row ::
  "('t, audit_outbox) repo \<Rightarrow> (string \<Rightarrow> json \<Rightarrow> ('w, unit) act) \<Rightarrow> audit_outbox row
   \<Rightarrow> ('t \<times> 'w, unit) act" where
  "relay_row R rel e = catch
     (andThen (onSnd (rel (ob_eventType (rdata e)) (ob_payload (rdata e))))
        (\<lambda>_. andThen (onFst (saveR R (upd mark_sent e))) (\<lambda>_. ret ())))
     (\<lambda>_. andThen (onFst (saveR R (upd mark_failed e))) (\<lambda>_. ret ()))"

definition relay_handle ::
  "('t, audit_outbox) repo \<Rightarrow> (string \<Rightarrow> json \<Rightarrow> ('w, unit) act) \<Rightarrow> ('t \<times> 'w, unit) act" where
  "relay_handle R rel s = (case findPending R (fst s) of
      [] \<Rightarrow> (Inr (), s)
    | pending \<Rightarrow> andThen (forA pending (relay_row R rel)) (\<lambda>_. ret ()) s)"

text \<open>The columns of a row are in one of three conditions.\<close>

definition ob_wf :: "audit_outbox \<Rightarrow> bool" where
  "ob_wf d \<longleftrightarrow> (ob_status d = ''PENDING'' \<and> ob_attempts d < MAX_RELAY_ATTEMPTS)
     \<or> (ob_status d = ''SENT'' \<and> ob_attempts d < MAX_RELAY_ATTEMPTS)
     \<or> (ob_status d = ''FAILED'' \<and> ob_attempts d = MAX_RELAY_ATTEMPTS)"

lemma mark_failed_wf:
  "ob_wf d \<Longrightarrow> ob_status d = ''PENDING'' \<Longrightarrow> ob_wf (mark_failed d)"
  by (auto simp: ob_wf_def mark_failed_def Let_def MAX_RELAY_ATTEMPTS_def)

lemma mark_sent_wf: "ob_wf d \<Longrightarrow> ob_status d = ''PENDING'' \<Longrightarrow> ob_wf (mark_sent d)"
  by (auto simp: ob_wf_def mark_sent_def)

text \<open>Back from attempts to a bound: five failing turns end in \<open>FAILED\<close>.\<close>

lemma mark_failed_pow:
  "k < MAX_RELAY_ATTEMPTS \<Longrightarrow> ob_status d = ''PENDING'' \<Longrightarrow> ob_attempts d = 0 \<Longrightarrow>
   ob_attempts ((mark_failed ^^ k) d) = k \<and> ob_status ((mark_failed ^^ k) d) = ''PENDING''"
  by (induction k) (auto simp: mark_failed_def Let_def MAX_RELAY_ATTEMPTS_def)

text \<open>The table after a turn is the one left by one of three saves.\<close>

lemma relay_row_table:
  assumes rel: "rel (ob_eventType (rdata e)) (ob_payload (rdata e)) w = (q, b)"
    and s1: "saveR R (upd mark_sent e) t = (q1, t1)"
    and s2: "saveR R (upd mark_failed e) t = (q2, t2)"
    and s3: "saveR R (upd mark_failed e) t1 = (q3, t3)"
  shows "fst (snd (relay_row R rel e (t, w))) \<in> {t1, t2, t3}"
proof (cases q)
  case (Inl x)
  with rel s2 show ?thesis
    by (simp add: relay_row_def catch_def andThen_def onFst_def onSnd_def zoom_def del: andThen_step split: sum.split)
next
  case (Inr x)
  with rel s1 s3 show ?thesis
    by (cases q1) (simp_all add: relay_row_def catch_def andThen_def onFst_def onSnd_def zoom_def del: andThen_step
      split: sum.split)
qed

text \<open>The job relies on the contract of the outbox table only.\<close>

locale outbox_repository = repository R for R :: "('t, audit_outbox) repo"
begin

lemma findPending_sat:
  "e \<in> set (findPending R t) \<longleftrightarrow> e \<in> rows R t \<and> ob_status (rdata e) = ''PENDING''"
  by (simp add: findPending_def find_set ob_pending_def)

text \<open>A turn of the loop leaves every row well formed and keeps the keys.\<close>

lemma relay_row_wf:
  assumes "relay_row R rel e (t, w) = (r, (u, v))" and "e \<in> rows R t"
    and "ob_status (rdata e) = ''PENDING''" and "\<forall>x \<in> rows R t. ob_wf (rdata x)"
  shows "(\<forall>x \<in> rows R u. ob_wf (rdata x)) \<and> rid ` rows R u = rid ` rows R t"
proof -
  have save: "(\<forall>x \<in> rows R b. ob_wf (rdata x)) \<and> rid ` rows R b = rid ` rows R t"
    if "saveR R (upd f e) a = (q, b)" and "f \<in> {mark_sent, mark_failed}"
      and "\<forall>x \<in> rows R a. ob_wf (rdata x)" and "rid ` rows R a = rid ` rows R t" for f a q b
  proof -
    have k: "rid (upd f e) \<in> rid ` rows R a" using assms(2) that(4) by auto
    have "ob_wf (f (rdata e))"
      using that(2) assms(2,3,4) mark_failed_wf mark_sent_wf by auto
    then have "ob_wf (rdata (upd f e))" by (simp only: upd_simps)
    from all_save [of "upd f e" a q b ob_wf, OF that(1) k this that(3)]
    have "\<forall>x \<in> rows R b. ob_wf (rdata x)" .
    moreover have "rid ` rows R b = rid ` rows R t"
      using save_keys [OF that(1) k] that(4) by (rule trans)
    ultimately show ?thesis by blast
  qed
  obtain q b where rel: "rel (ob_eventType (rdata e)) (ob_payload (rdata e)) w = (q, b)" by fastforce
  obtain q1 t1 where s1: "saveR R (upd mark_sent e) t = (q1, t1)" by fastforce
  obtain q2 t2 where s2: "saveR R (upd mark_failed e) t = (q2, t2)" by fastforce
  obtain q3 t3 where s3: "saveR R (upd mark_failed e) t1 = (q3, t3)" by fastforce
  note w1 = save [OF s1] and w2 = save [OF s2]
  have ok1: "(\<forall>x \<in> rows R t1. ob_wf (rdata x)) \<and> rid ` rows R t1 = rid ` rows R t"
    using w1 assms(4) by simp
  have "u = t1 \<or> u = t2 \<or> u = t3"
    using relay_row_table [of rel e w, OF rel s1 s2 s3] assms(1) by simp
  moreover have "(\<forall>x \<in> rows R t2. ob_wf (rdata x)) \<and> rid ` rows R t2 = rid ` rows R t"
    using w2 assms(4) by simp
  moreover have "(\<forall>x \<in> rows R t3. ob_wf (rdata x)) \<and> rid ` rows R t3 = rid ` rows R t"
    using save [OF s3] ok1 by simp
  ultimately show ?thesis using ok1 by (elim disjE) (hypsubst, assumption)+
qed

text \<open>A turn on one row keeps every other row of the table.\<close>

lemma relay_row_other:
  assumes "relay_row R rel e (t, w) = (r, (u, v))" and "e \<in> rows R t" and "x \<in> rows R t"
    and "rid x \<noteq> rid e"
  shows "x \<in> rows R u"
proof -
  have save: "x \<in> rows R b \<and> rid e \<in> rid ` rows R b"
    if "saveR R (upd f e) a = (q, b)" and "x \<in> rows R a" and "rid e \<in> rid ` rows R a" for f a q b
    using that assms(4) by (cases rule: save_cases [OF that(1)]) auto
  obtain q b where rel: "rel (ob_eventType (rdata e)) (ob_payload (rdata e)) w = (q, b)" by fastforce
  obtain q1 t1 where s1: "saveR R (upd mark_sent e) t = (q1, t1)" by fastforce
  obtain q2 t2 where s2: "saveR R (upd mark_failed e) t = (q2, t2)" by fastforce
  obtain q3 t3 where s3: "saveR R (upd mark_failed e) t1 = (q3, t3)" by fastforce
  have e: "rid e \<in> rid ` rows R t" using assms(2) by blast
  have "u = t1 \<or> u = t2 \<or> u = t3"
    using relay_row_table [of rel e w, OF rel s1 s2 s3] assms(1) by simp
  then show ?thesis using save [OF s1 assms(3) e] save [OF s2 assms(3) e] save [OF s3] by metis
qed

lemma relay_rows_wf:
  assumes "forA es (relay_row R rel) (t, w) = (r, (u, v))" and "set es \<subseteq> rows R t"
    and "distinct (map rid es)" and "\<forall>e \<in> set es. ob_status (rdata e) = ''PENDING''"
    and "\<forall>x \<in> rows R t. ob_wf (rdata x)"
  shows "\<forall>x \<in> rows R u. ob_wf (rdata x)"
  using assms
proof (induction es arbitrary: t w r u v)
  case Nil
  then show ?case by simp
next
  case (Cons e es)
  obtain q t1 w1 where 1: "relay_row R rel e (t, w) = (q, (t1, w1))" by (metis prod_cases3)
  from relay_row_wf [OF 1] Cons.prems have wf: "\<forall>x \<in> rows R t1. ob_wf (rdata x)" by simp
  show ?case
  proof (cases q)
    case (Inl z)
    with Cons.prems(1) 1 wf show ?thesis by (auto simp: andThen_def)
  next
    case (Inr z)
    obtain q2 t2 w2 where 2: "forA es (relay_row R rel) (t1, w1) = (q2, (t2, w2))" by (metis prod_cases3)
    have "set es \<subseteq> rows R t1"
    proof
      fix x assume x: "x \<in> set es"
      then have "rid x \<noteq> rid e" using Cons.prems(3) by (metis distinct.simps(2) imageI list.simps(9) set_map)
      with relay_row_other [OF 1] x Cons.prems(2) show "x \<in> rows R t1" by auto
    qed
    with Cons.IH [OF 2] Cons.prems wf have "\<forall>x \<in> rows R t2. ob_wf (rdata x)" by simp
    moreover have "u = t2" using Cons.prems(1) 1 2 Inr by (auto simp: andThen_def split: sum.splits)
    ultimately show ?thesis by simp
  qed
qed

lemma relay_handle_wf:
  assumes "relay_handle R rel (t, w) = (r, (u, v))" and "\<forall>x \<in> rows R t. ob_wf (rdata x)"
  shows "\<forall>x \<in> rows R u. ob_wf (rdata x)"
proof (cases "findPending R t")
  case Nil
  with assms show ?thesis by (simp add: relay_handle_def)
next
  case (Cons e es)
  obtain q t1 w1 where 1: "forA (findPending R t) (relay_row R rel) (t, w) = (q, (t1, w1))"
    by (metis prod_cases3)
  have "u = t1"
    using assms(1) 1 Cons by (auto simp: relay_handle_def andThen_def split: sum.splits)
  moreover have "\<forall>x \<in> rows R t1. ob_wf (rdata x)"
  proof (rule relay_rows_wf [OF 1 _ _ _ assms(2)])
    show "distinct (map rid (findPending R t))" by (simp add: findPending_def find_distinct)
  qed (auto simp: findPending_sat)
  ultimately show ?thesis by simp
qed

end

interpretation mem_outbox: outbox_repository "mem_repo conf"
  by unfold_locales

end
