(* ===== verification/Clients.thy ===== *)
theory Clients
  imports Audit_Outbox Keycloak
begin

text \<open>
  \<open>clients/cbs.client.ts\<close>, \<open>clients/notification.client.ts\<close> and the HTTP call of
  \<open>clients/audit.client.ts\<close>: every call goes through the retries of the resilience factory
  and the circuit breaker. \<open>breaker\<close> is the third-party circuit breaker, a transformer of
  the wrapped action.
\<close>

type_synonym 'w breaker = "('w \<times> nat list, json) act \<Rightarrow> ('w \<times> nat list, json) act"

definition plain_req :: "string \<Rightarrow> string \<Rightarrow> http_body \<Rightarrow> http_req" where
  "plain_req meth url body = \<lparr>hq_method = meth, hq_url = url, hq_body = body, hq_token = None,
     hq_below_500 = False\<rparr>"

definition createResilientClient ::
  "'w breaker \<Rightarrow> resilience_options \<Rightarrow> ('w, json) act \<Rightarrow> ('w \<times> nat list, json) act" where
  "createResilientClient breaker opts action = breaker (withRetries (ro_retries opts) action)"

definition client_action :: "'w http \<Rightarrow> string \<Rightarrow> string \<Rightarrow> json option \<Rightarrow> ('w, json) act" where
  "client_action http meth url body = andThen
     (if meth = ''get'' then http (plain_req ''GET'' url No_body)
      else http (plain_req ''POST'' url (case body of None \<Rightarrow> No_body | Some b \<Rightarrow> Json b)))
     (\<lambda>r. ret (hr_data r))"

definition client_get :: "'w breaker \<Rightarrow> 'w http \<Rightarrow> string \<Rightarrow> ('w \<times> nat list, json) act" where
  "client_get breaker http url = createResilientClient breaker DEFAULT_OPTIONS (client_action http ''get'' url None)"

definition client_post :: "'w breaker \<Rightarrow> 'w http \<Rightarrow> string \<Rightarrow> json \<Rightarrow> ('w \<times> nat list, json) act" where
  "client_post breaker http url body =
     createResilientClient breaker DEFAULT_OPTIONS (client_action http ''post'' url (Some body))"

definition audit_fire ::
  "'w breaker \<Rightarrow> 'w http \<Rightarrow> string \<Rightarrow> string \<Rightarrow> json \<Rightarrow> ('w \<times> nat list, unit) act" where
  "audit_fire breaker http url eventType payload = andThen
     (client_post breaker http url (JObj [(''eventType'', JStr eventType), (''payload'', payload)]))
     (\<lambda>_. ret ())"

definition audit_relay ::
  "'w breaker \<Rightarrow> 'w http \<Rightarrow> string option \<Rightarrow> string \<Rightarrow> json \<Rightarrow> ('w \<times> nat list, unit) act" where
  "audit_relay breaker http auditServiceUrl = relay (audit_fire breaker http) auditServiceUrl"

text \<open>
  The client of the notification service: the same resilience around its own calls. Nothing
  in the service uses it yet.
\<close>

definition notification_action :: "'w http \<Rightarrow> string \<Rightarrow> string \<Rightarrow> json option \<Rightarrow> ('w, json) act" where
  "notification_action http meth url body = andThen
     (if meth = ''get'' then http (plain_req ''GET'' url No_body)
      else http (plain_req ''POST'' url (case body of None \<Rightarrow> No_body | Some b \<Rightarrow> Json b)))
     (\<lambda>r. ret (hr_data r))"

definition notification_get :: "'w breaker \<Rightarrow> 'w http \<Rightarrow> string \<Rightarrow> ('w \<times> nat list, json) act" where
  "notification_get breaker http url =
     createResilientClient breaker DEFAULT_OPTIONS (notification_action http ''get'' url None)"

definition notification_post :: "'w breaker \<Rightarrow> 'w http \<Rightarrow> string \<Rightarrow> json \<Rightarrow> ('w \<times> nat list, json) act" where
  "notification_post breaker http url body =
     createResilientClient breaker DEFAULT_OPTIONS (notification_action http ''post'' url (Some body))"

end
