(* ===== verification/Otp.thy ===== *)
theory Otp
  imports Common_Utils Repository Mem_Table
begin

text \<open>
  \<open>modules/auth/otp\<close>: one-time passwords. A challenge stores the hash of the code, the
  number of wrong attempts, the lock and the expiry. \<open>hash\<close> is the SHA-256 of
  \<open>hashOtp\<close>, \<open>now\<close> the clock of the request, \<open>rnd\<close> the value of
  \<open>randomInt(100000, 999999)\<close>.
\<close>

record otp_challenge =
  oc_mobileNumber :: string
  oc_otpHash :: string
  oc_attemptCount :: int
  oc_lockedUntil :: "int option"
  oc_expiresAt :: int

text \<open>\<open>OTP_MAX_ATTEMPTS\<close>, \<open>OTP_LOCK_MINUTES\<close> and \<open>OTP_TTL_SECONDS\<close> of the environment.\<close>

record otp_config =
  maxAttempts :: int
  lockMinutes :: int
  ttlSeconds :: int

definition otp_defaults :: otp_config where
  "otp_defaults = \<lparr>maxAttempts = 5, lockMinutes = 15, ttlSeconds = 300\<rparr>"

definition otp_not_found :: exn where
  "otp_not_found = NotFoundException (Msg ''OTP challenge not found'')"

definition otp_findAll :: "('t, otp_challenge) repo \<Rightarrow> 't \<Rightarrow> otp_challenge row list" where
  "otp_findAll R t = findR R anyRow t"

definition otp_findOne :: "('t, otp_challenge) repo \<Rightarrow> string \<Rightarrow> ('t, otp_challenge row) act" where
  "otp_findOne R i t = (case findOneR R (byId i) t of
      None \<Rightarrow> (Inl otp_not_found, t) | Some c \<Rightarrow> (Inr c, t))"

text \<open>The saved challenge together with the code, which the response contains.\<close>

definition otp_create ::
  "('t, otp_challenge) repo \<Rightarrow> otp_config \<Rightarrow> (string \<Rightarrow> string) \<Rightarrow> int \<Rightarrow> nat \<Rightarrow> string
   \<Rightarrow> ('t, otp_challenge row \<times> string) act" where
  "otp_create R cfg hash now rnd mobile =
     (let otp = show_nat rnd in
      andThen (insertR R \<lparr>oc_mobileNumber = mobile, oc_otpHash = hash otp, oc_attemptCount = 0,
                 oc_lockedUntil = None, oc_expiresAt = now + ttlSeconds cfg * 1000\<rparr>)
        (\<lambda>saved. ret (saved, otp)))"

definition otp_wrong :: "otp_config \<Rightarrow> int \<Rightarrow> otp_challenge \<Rightarrow> otp_challenge" where
  "otp_wrong cfg now c =
     (let c' = c\<lparr>oc_attemptCount := oc_attemptCount c + 1\<rparr> in
      if maxAttempts cfg \<le> oc_attemptCount c'
      then c'\<lparr>oc_lockedUntil := Some (addMinutes now (lockMinutes cfg))\<rparr> else c')"

definition otp_locked :: "int \<Rightarrow> otp_challenge \<Rightarrow> bool" where
  "otp_locked now c \<longleftrightarrow> (case oc_lockedUntil c of None \<Rightarrow> False | Some l \<Rightarrow> \<not> isExpired now l)"

definition otp_locked_until :: "int \<Rightarrow> exn" where
  "otp_locked_until l = ForbiddenException (Msg (''Too many failed attempts '' @ em_dash @ '' locked until '' @ toISOString l))"

text \<open>\<open>verify\<close>: the mobile number of the challenge.\<close>

definition otp_verify ::
  "('t, otp_challenge) repo \<Rightarrow> otp_config \<Rightarrow> (string \<Rightarrow> string) \<Rightarrow> int \<Rightarrow> string \<Rightarrow> string
   \<Rightarrow> ('t, string) act" where
  "otp_verify R cfg hash now challengeId otp t = (case findOneR R (byId challengeId) t of
      None \<Rightarrow> (Inl otp_not_found, t)
    | Some c \<Rightarrow>
        if otp_locked now (rdata c)
        then (Inl (otp_locked_until (the (oc_lockedUntil (rdata c)))), t)
        else if isExpired now (oc_expiresAt (rdata c))
        then (Inl (BadRequestException (Msg ''OTP has expired'')), t)
        else if hash otp \<noteq> oc_otpHash (rdata c)
        then andThen (saveR R (upd (otp_wrong cfg now) c))
               (\<lambda>_. throw (BadRequestException (Msg ''Invalid OTP''))) t
        else andThen (softDeleteR R (rid c)) (\<lambda>_. ret (oc_mobileNumber (rdata c))) t)"

definition otp_softDelete :: "('t, otp_challenge) repo \<Rightarrow> string \<Rightarrow> ('t, string) act" where
  "otp_softDelete R i = andThen (otp_findOne R i) (\<lambda>_. andThen (softDeleteR R i) (\<lambda>_. ret i))"

subsection \<open>Facts\<close>

lemma otp_wrong_simps [simp]:
  "oc_attemptCount (otp_wrong cfg now c) = oc_attemptCount c + 1"
  "oc_mobileNumber (otp_wrong cfg now c) = oc_mobileNumber c"
  "oc_otpHash (otp_wrong cfg now c) = oc_otpHash c"
  "oc_expiresAt (otp_wrong cfg now c) = oc_expiresAt c"
  by (simp_all add: otp_wrong_def Let_def)

text \<open>Once the limit is reached, the wrong attempt leaves the challenge locked.\<close>

lemma otp_wrong_locks:
  "maxAttempts cfg \<le> oc_attemptCount c + 1 \<Longrightarrow> 0 \<le> lockMinutes cfg \<Longrightarrow>
   otp_locked now (otp_wrong cfg now c)"
  by (simp add: otp_wrong_def Let_def otp_locked_def isExpired_def addMinutes_def)

locale otp_repository = repository R for R :: "('t, otp_challenge) repo"
begin

text \<open>A successful verification: the stored hash matched, and the challenge is gone.\<close>

lemma verify_success:
  assumes "otp_verify R cfg hash now i otp t = (Inr m, u)"
  shows "\<exists>c \<in> rows R t. rid c = i \<and> hash otp = oc_otpHash (rdata c) \<and> \<not> otp_locked now (rdata c)
     \<and> now \<le> oc_expiresAt (rdata c) \<and> m = oc_mobileNumber (rdata c)
     \<and> rows R u = {x \<in> rows R t. rid x \<noteq> i}"
proof -
  from assms obtain c where c: "findOneR R (byId i) t = Some c" "\<not> otp_locked now (rdata c)"
      "\<not> isExpired now (oc_expiresAt (rdata c))" "hash otp = oc_otpHash (rdata c)"
      "m = oc_mobileNumber (rdata c)" and d: "softDeleteR R (rid c) t = (Inr (), u)"
    by (auto simp: otp_verify_def act_simps split: option.splits if_splits)
  from c(1) have "c \<in> rows R t" "rid c = i" by (simp_all add: findOne_byId_iff)
  with c softDelete_ok [OF d] show ?thesis
    by (intro bexI [of _ c]) (simp_all add: isExpired_def)
qed

lemma verify_gone:
  assumes "i \<notin> rid ` rows R t"
  shows "otp_verify R cfg hash now i otp t = (Inl otp_not_found, t)"
  using assms by (auto simp: otp_verify_def findOne_byId_iff split: option.splits)

text \<open>A challenge within its lock refuses every code, and is left as it was.\<close>

lemma verify_locked:
  assumes "c \<in> rows R t" and "otp_locked now (rdata c)"
  shows "otp_verify R cfg hash now (rid c) otp t
     = (Inl (otp_locked_until (the (oc_lockedUntil (rdata c)))), t)"
  using assms by (simp add: otp_verify_def findOne_byId)

text \<open>A wrong code counts one attempt on that challenge and changes no other row.\<close>

lemma verify_wrong:
  assumes "c \<in> rows R t" and "\<not> otp_locked now (rdata c)" and "now \<le> oc_expiresAt (rdata c)"
    and "hash otp \<noteq> oc_otpHash (rdata c)" and "otp_verify R cfg hash now (rid c) otp t = (r, u)"
  shows "(\<exists>e. r = Inl e) \<and> (rows R u = rows R t \<or>
     (\<exists>f. rid f = rid c \<and> rdata f = otp_wrong cfg now (rdata c)
       \<and> rows R u = insert f {x \<in> rows R t. rid x \<noteq> rid c}))"
proof -
  obtain q v where s: "saveR R (upd (otp_wrong cfg now) c) t = (q, v)" by fastforce
  have "u = v \<and> (\<exists>e. r = Inl e)"
    using assms s
    by (cases q) (auto simp: otp_verify_def findOne_byId isExpired_def andThen_def)
  then show ?thesis
    using assms(1) by (cases rule: save_cases [OF s]) auto
qed

lemma create_row:
  assumes "otp_create R cfg hash now rnd mobile t = (Inr (c, otp), u)"
  shows "c \<in> rows R u \<and> rid c \<notin> rid ` rows R t \<and> otp = show_nat rnd
     \<and> rdata c = \<lparr>oc_mobileNumber = mobile, oc_otpHash = hash otp, oc_attemptCount = 0,
                 oc_lockedUntil = None, oc_expiresAt = now + ttlSeconds cfg * 1000\<rparr>"
  using assms by (auto simp: otp_create_def act_simps Let_def dest!: insert_ok)

end

interpretation mem_otp: otp_repository "mem_repo conf"
  by unfold_locales

end
