(* ===== verification/Otp_Properties.thy ===== *)
theory Otp_Properties
  imports Otp
begin

text \<open>
  What otp.service.ts gives: a one-time code is accepted once, and a series of wrong guesses
  locks the challenge.  The locale proves it for every reliable table of challenges.
\<close>

subsection \<open>Guessing\<close>

text \<open>A series of verifications of one challenge, each at its own time.\<close>

fun otp_tries ::
  "('t, otp_challenge) repo \<Rightarrow> otp_config \<Rightarrow> (string \<Rightarrow> string) \<Rightarrow> string \<Rightarrow> (int \<times> string) list \<Rightarrow> 't \<Rightarrow> 't" where
  "otp_tries R cfg hash i [] t = t"
| "otp_tries R cfg hash i ((now, otp) # qs) t = otp_tries R cfg hash i qs (snd (otp_verify R cfg hash now i otp t))"

text \<open>The stored challenge: its secret, its expiry, and its count of wrong attempts.\<close>

definition otp_row :: "('t, otp_challenge) repo \<Rightarrow> string \<Rightarrow> (otp_challenge \<Rightarrow> bool) \<Rightarrow> 't \<Rightarrow> bool" where
  "otp_row R i P t \<longleftrightarrow> (\<exists>c \<in> rows R t. rid c = i \<and> P (rdata c))"

definition open_with :: "int \<Rightarrow> string \<Rightarrow> int \<Rightarrow> otp_challenge \<Rightarrow> bool" where
  "open_with n h e d \<longleftrightarrow> oc_attemptCount d = n \<and> oc_otpHash d = h \<and> oc_expiresAt d = e \<and> oc_lockedUntil d = None"

locale reliable_otp = otp_repository R + reliable_repository R for R :: "('t, otp_challenge) repo"
begin

lemma wrong_step:
  assumes "otp_row R i (open_with n h e) t" and "hash otp \<noteq> h" and "now \<le> e"
  shows "fst (otp_verify R cfg hash now i otp t) = Inl (BadRequestException (Msg ''Invalid OTP''))
    \<and> otp_row R i (\<lambda>d. \<exists>c. open_with n h e c \<and> d = otp_wrong cfg now c) (snd (otp_verify R cfg hash now i otp t))"
proof -
  from assms(1) obtain c where c: "c \<in> rows R t" "rid c = i" "open_with n h e (rdata c)"
    by (auto simp: otp_row_def)
  have k: "rid (upd (otp_wrong cfg now) c) \<in> rid ` rows R t" using c(1) by simp
  then obtain f u where s: "saveR R (upd (otp_wrong cfg now) c) t = (Inr f, u)" using save_total by blast
  have "otp_verify R cfg hash now i otp t = (Inl (BadRequestException (Msg ''Invalid OTP'')), u)"
    using c assms(2,3) s
    by (auto simp: otp_verify_def findOne_byId [OF c(1), unfolded c(2)] open_with_def otp_locked_def isExpired_def)
  moreover have "f \<in> rows R u \<and> rid f = i \<and> rdata f = otp_wrong cfg now (rdata c)"
    using save_ok [OF s k] c(2) by simp
  ultimately show ?thesis using c(3) by (auto simp: otp_row_def)
qed

lemma wrong_counts:
  assumes "otp_row R i (open_with n h e) t" and "hash otp \<noteq> h" and "now \<le> e" and "n + 1 < maxAttempts cfg"
  shows "otp_row R i (open_with (n + 1) h e) (snd (otp_verify R cfg hash now i otp t))"
  using wrong_step [of i n h e t hash otp now cfg, OF assms(1-3)] assms(4)
  by (fastforce simp: otp_row_def open_with_def otp_wrong_def Let_def)

lemma tries_lock:
  assumes "otp_row R i (open_with n h e) t" and "\<forall>(now, otp) \<in> set qs. hash otp \<noteq> h \<and> now \<le> e"
    and "qs \<noteq> []" and "n + int (length qs) = maxAttempts cfg"
  shows "otp_row R i (\<lambda>d. oc_lockedUntil d = Some (addMinutes (fst (last qs)) (lockMinutes cfg)))
    (otp_tries R cfg hash i qs t)"
  using assms
proof (induction qs arbitrary: n t)
  case (Cons q qs)
  obtain now otp where q: "q = (now, otp)" by fastforce
  let ?u = "snd (otp_verify R cfg hash now i otp t)"
  show ?case
  proof (cases "qs = []")
    case True
    with Cons.prems q have "otp_row R i (\<lambda>d. \<exists>c. open_with n h e c \<and> d = otp_wrong cfg now c) ?u"
      using wrong_step [of i n h e t hash otp now cfg, OF Cons.prems(1)] by auto
    moreover have "maxAttempts cfg \<le> n + 1" using Cons.prems(4) True by simp
    ultimately show ?thesis using True q
      by (auto simp: otp_row_def open_with_def otp_wrong_def Let_def)
  next
    case False
    then have "n + 1 < maxAttempts cfg" using Cons.prems(4) by (cases qs) auto
    with Cons.prems q have "otp_row R i (open_with (n + 1) h e) ?u"
      using wrong_counts [OF Cons.prems(1), of hash otp now cfg] by auto
    from Cons.IH [OF this _ False] Cons.prems(2,4) q False show ?thesis by simp
  qed
qed simp

end

interpretation mem_reliable_otp: reliable_otp "mem_repo no_conf"
  by unfold_locales

subsection \<open>Properties\<close>

text \<open>The examples: the challenge with the code 123456 that expires at 300000.\<close>

definition otp_example :: "otp_challenge mem" where
  "otp_example = snd (mem_insert no_conf \<lparr>oc_mobileNumber = ''9876543210'', oc_otpHash = ''123456'',
     oc_attemptCount = 0, oc_lockedUntil = None, oc_expiresAt = 300000\<rparr> mem_empty)"

lemma otp_example_rows:
  "rows (mem_repo no_conf) otp_example = {mem_new mem_empty \<lparr>oc_mobileNumber = ''9876543210'',
     oc_otpHash = ''123456'', oc_attemptCount = 0, oc_lockedUntil = None, oc_expiresAt = 300000\<rparr>}"
  by (simp add: mem_rows otp_example_def mem_insert_def live_def mem_empty_def mem_new_def show_slot_def mem_free_def)

text \<open>
  C20: a code is accepted once: the challenge existed, was neither locked nor expired and
  held the hash of the code; the answer is its mobile number, no other challenge is touched,
  and no later verification of it can succeed.
\<close>

theorem otp_single_use:
  assumes "repository R" and "otp_verify R cfg hash now i otp t = (Inr m, u)"
  shows "(\<exists>c \<in> rows R t. rid c = i \<and> hash otp = oc_otpHash (rdata c) \<and> \<not> otp_locked now (rdata c)
       \<and> now \<le> oc_expiresAt (rdata c) \<and> m = oc_mobileNumber (rdata c))
     \<and> rows R u = {x \<in> rows R t. rid x \<noteq> i}
     \<and> otp_verify R cfg' hash' now' i otp' u = (Inl otp_not_found, u)"
proof -
  have O: "otp_repository R" by (rule otp_repository.intro [OF assms(1)])
  from otp_repository.verify_success [OF O assms(2)]
  have "rows R u = {x \<in> rows R t. rid x \<noteq> i}" by blast
  then have "otp_verify R cfg' hash' now' i otp' u = (Inl otp_not_found, u)"
    by (intro otp_repository.verify_gone [OF O]) auto
  with otp_repository.verify_success [OF O assms(2)] show ?thesis by blast
qed

theorem otp_single_use_witness:
  "fst (otp_verify (mem_repo no_conf) otp_defaults (\<lambda>s. s) 1000 (row_id 0) ''123456'' otp_example) = Inr ''9876543210''
   \<and> fst (otp_verify (mem_repo no_conf) otp_defaults (\<lambda>s. s) 1001 (row_id 0) ''123456''
       (snd (otp_verify (mem_repo no_conf) otp_defaults (\<lambda>s. s) 1000 (row_id 0) ''123456'' otp_example)))
     = Inl otp_not_found"
proof -
  have 1: "fst (otp_verify (mem_repo no_conf) otp_defaults (\<lambda>s. s) 1000 (row_id 0) ''123456'' otp_example) = Inr ''9876543210''"
    by code_simp
  from otp_single_use [OF mem.repository_axioms, of no_conf otp_defaults "\<lambda>s. s" 1000 "row_id 0" "''123456''" otp_example
      "''9876543210''" "snd (otp_verify (mem_repo no_conf) otp_defaults (\<lambda>s. s) 1000 (row_id 0) ''123456'' otp_example)"
      otp_defaults "\<lambda>s. s" 1001 "''123456''"] 1
  show ?thesis by (simp add: prod_eq_iff)
qed

text \<open>
  C19: guessing is bounded: as many wrong codes as the limit allows lock a fresh challenge,
  and until the lock has run out every code, the right one too, is refused without a change.
\<close>

theorem otp_bruteforce_locked:
  assumes "reliable_repository R" and "c \<in> rows R t" and "oc_attemptCount (rdata c) = 0"
    and "oc_lockedUntil (rdata c) = None"
    and "\<forall>(now, otp) \<in> set qs. hash otp \<noteq> oc_otpHash (rdata c) \<and> now \<le> oc_expiresAt (rdata c)"
    and "qs \<noteq> []" and "int (length qs) = maxAttempts cfg"
    and "now' \<le> addMinutes (fst (last qs)) (lockMinutes cfg)"
  shows "otp_verify R cfg hash now' (rid c) otp (otp_tries R cfg hash (rid c) qs t)
     = (Inl (otp_locked_until (addMinutes (fst (last qs)) (lockMinutes cfg))), otp_tries R cfg hash (rid c) qs t)"
proof -
  have L: "reliable_otp R"
    by (intro reliable_otp.intro otp_repository.intro reliable_repository.axioms(1) [OF assms(1)] assms(1))
  have "otp_row R (rid c) (open_with 0 (oc_otpHash (rdata c)) (oc_expiresAt (rdata c))) t"
    using assms(2-4) by (auto simp: otp_row_def open_with_def)
  from reliable_otp.tries_lock [OF L this assms(5,6)] assms(7)
  obtain d where d: "d \<in> rows R (otp_tries R cfg hash (rid c) qs t)" "rid d = rid c"
    "oc_lockedUntil (rdata d) = Some (addMinutes (fst (last qs)) (lockMinutes cfg))"
    by (auto simp: otp_row_def)
  have "otp_locked now' (rdata d)" using d(3) assms(8) by (simp add: otp_locked_def isExpired_def)
  from otp_repository.verify_locked [OF otp_repository.intro [OF reliable_repository.axioms(1) [OF assms(1)]] d(1) this]
  show ?thesis by (simp add: d(2,3))
qed

theorem otp_bruteforce_locked_witness:
  "fst (otp_verify (mem_repo no_conf) otp_defaults (\<lambda>s. s) 2000 (row_id 0) ''123456''
     (otp_tries (mem_repo no_conf) otp_defaults (\<lambda>s. s) (row_id 0)
        [(1000, ''000001''), (1001, ''000002''), (1002, ''000003''), (1003, ''000004''), (1004, ''000005'')] otp_example))
   = Inl (otp_locked_until 901004)"
proof -
  let ?c = "mem_new mem_empty \<lparr>oc_mobileNumber = ''9876543210'', oc_otpHash = ''123456'',
     oc_attemptCount = 0, oc_lockedUntil = None, oc_expiresAt = 300000\<rparr>"
  have c: "?c \<in> rows (mem_repo no_conf) otp_example" by (simp add: otp_example_rows)
  have i: "rid ?c = row_id 0" by (simp add: mem_new_def mem_empty_def)
  from otp_bruteforce_locked [OF mem_reliable.reliable_repository_axioms c, of
      "[(1000, ''000001''), (1001, ''000002''), (1002, ''000003''), (1003, ''000004''), (1004, ''000005'')]"
      "\<lambda>s. s" otp_defaults 2000 "''123456''"]
  show ?thesis unfolding i by (simp add: mem_new_def otp_defaults_def addMinutes_def)
qed

end
