(* ===== verification/Outbox_Properties.thy ===== *)
theory Outbox_Properties
  imports Audit_Outbox
begin

text \<open>
  What the resilience wrapper and the relay job give: bounded retries with doubling delays,
  and the life of an outbox event while the audit service is up or down.
\<close>

subsection \<open>Retries\<close>

text \<open>
  C29: a call with retries always ends: it runs the action after some failing runs, at most
  as many as there are retries, its result is that of the last run, it slept 100 ms, 200 ms
  and so on doubling between the runs, and it throws only when every retry is used up.
\<close>

theorem withRetries_bounded:
  "\<exists>k v r w'. withRetries retries action (w, []) = (r, (w', map (\<lambda>i. 100 * 2 ^ i) [0 ..< k]))
     \<and> k \<le> retries \<and> fail_run action k w v \<and> action v = (r, w')
     \<and> (\<Sum>ms \<leftarrow> map (\<lambda>i. 100 * 2 ^ i) [0 ..< k]. ms) = 100 * (2 ^ k - 1 :: nat)
     \<and> (if isl r then k = retries else k \<le> retries)"
proof -
  obtain r w' slept where run: "withRetries retries action (w, []) = (r, (w', slept))"
    by (metis surj_pair)
  from retry_from_bounds [OF run [unfolded withRetries_def]] obtain k v where
    "k \<le> retries" "fail_run action k w v" "action v = (r, w')" "slept = map (\<lambda>i. 100 * 2 ^ i) [0 ..< k]"
    "\<forall>e. r = Inl e \<longrightarrow> k = retries" by auto
  with run sum_backoff [of k] show ?thesis
    by (intro exI [of _ k] exI [of _ v] exI [of _ r] exI [of _ w']) (auto simp: isl_def)
qed

subsection \<open>The relay job\<close>

fun relay_jobs ::
  "('t, audit_outbox) repo \<Rightarrow> (string \<Rightarrow> json \<Rightarrow> ('w, unit) act) \<Rightarrow> nat \<Rightarrow> 't \<times> 'w \<Rightarrow> 't \<times> 'w" where
  "relay_jobs R rel 0 s = s"
| "relay_jobs R rel (Suc n) s = relay_jobs R rel n (snd (relay_handle R rel s))"

text \<open>An audit service that is up, or down, for the whole time.\<close>

definition service_is :: "bool \<Rightarrow> (string \<Rightarrow> json \<Rightarrow> ('w, unit) act) \<Rightarrow> bool" where
  "service_is up rel \<longleftrightarrow> (\<forall>ev p w. isl (fst (rel ev p w)) = (\<not> up))"

definition relayed :: "bool \<Rightarrow> audit_outbox \<Rightarrow> audit_outbox" where
  "relayed up d = (if ob_status d = ''PENDING'' then if up then mark_sent d else mark_failed d else d)"

locale reliable_outbox = outbox_repository R + reliable_repository R for R :: "('t, audit_outbox) repo"
begin

lemma row_turn:
  assumes "service_is up rel" and "e \<in> rows R t" and "ob_status (rdata e) = ''PENDING''"
  shows "\<exists>u v f. relay_row R rel e (t, w) = (Inr (), (u, v)) \<and> rid f = rid e \<and> rdata f = relayed up (rdata e)
     \<and> rows R u = insert f {x \<in> rows R t. rid x \<noteq> rid e}"
proof -
  have save: "\<exists>f u. saveR R (upd g e) t = (Inr f, u) \<and> rid f = rid e \<and> rdata f = g (rdata e)
      \<and> rows R u = insert f {x \<in> rows R t. rid x \<noteq> rid e}" for g
  proof -
    have k: "rid (upd g e) \<in> rid ` rows R t" using assms(2) by simp
    then obtain f u where s: "saveR R (upd g e) t = (Inr f, u)" using save_total by blast
    from save_ok [OF s k] s show ?thesis by auto
  qed
  obtain q v where rel: "rel (ob_eventType (rdata e)) (ob_payload (rdata e)) w = (q, v)" by fastforce
  then have q: "isl q = (\<not> up)" using assms(1) unfolding service_is_def by (metis fst_conv)
  show ?thesis
  proof (cases up)
    case True
    with q obtain x where "q = Inr x" by (cases q) auto
    with rel save [of mark_sent] True assms(3) show ?thesis
      by (auto simp: relay_row_def catch_def andThen_def onFst_def onSnd_def zoom_def relayed_def)
  next
    case False
    with q obtain x where "q = Inl x" by (cases q) auto
    with rel save [of mark_failed] False assms(3) show ?thesis
      by (auto simp: relay_row_def catch_def andThen_def onFst_def onSnd_def zoom_def relayed_def)
  qed
qed

text \<open>The rows a table should hold after a job: those of the list relayed, the others as before.\<close>

definition after_turns :: "bool \<Rightarrow> string set \<Rightarrow> 't \<Rightarrow> 't \<Rightarrow> bool" where
  "after_turns up ids t u \<longleftrightarrow> rid ` rows R u = rid ` rows R t \<and> (\<forall>e \<in> rows R t. \<exists>f \<in> rows R u. rid f = rid e
     \<and> rdata f = (if rid e \<in> ids then relayed up (rdata e) else rdata e))"

lemma rows_turns:
  assumes "service_is up rel" and "set es \<subseteq> rows R t" and "distinct (map rid es)"
    and "\<forall>e \<in> set es. ob_status (rdata e) = ''PENDING''"
  shows "\<exists>ys u v. forA es (relay_row R rel) (t, w) = (Inr ys, (u, v)) \<and> after_turns up (rid ` set es) t u"
  using assms(2-4)
proof (induction es arbitrary: t w)
  case Nil
  show ?case by (auto simp: after_turns_def)
next
  case (Cons e es)
  from row_turn [OF assms(1), of e t w] Cons.prems obtain u v f where
    1: "relay_row R rel e (t, w) = (Inr (), (u, v))" and f: "rid f = rid e" "rdata f = relayed up (rdata e)"
      "rows R u = insert f {x \<in> rows R t. rid x \<noteq> rid e}" by auto
  have other: "rid x \<noteq> rid e" if "x \<in> set es" for x
    using Cons.prems(2) that by (metis distinct.simps(2) imageI list.simps(9) set_map)
  then have "set es \<subseteq> rows R u" using Cons.prems(1) f(3) by auto
  with Cons.IH [of u v] Cons.prems obtain ys u' v' where
    2: "forA es (relay_row R rel) (u, v) = (Inr ys, (u', v'))" "after_turns up (rid ` set es) u u'" by auto
  have "after_turns up (rid ` set (e # es)) t u'"
    unfolding after_turns_def
  proof (intro conjI ballI)
    have "rid ` rows R u = rid ` rows R t" using f Cons.prems(1) by (auto simp: image_iff)
    with 2(2) show "rid ` rows R u' = rid ` rows R t" by (simp add: after_turns_def)
  next
    fix x
    assume x: "x \<in> rows R t"
    show "\<exists>y \<in> rows R u'. rid y = rid x
        \<and> rdata y = (if rid x \<in> rid ` set (e # es) then relayed up (rdata x) else rdata x)"
    proof (cases "rid x = rid e")
      case True
      with x Cons.prems(1) rid_inj have xe: "x = e" by simp
      have n: "rid f \<notin> rid ` set es" using other f(1) by force
      have "f \<in> rows R u" using f(3) by simp
      with 2(2) n obtain y where "y \<in> rows R u'" "rid y = rid f" "rdata y = rdata f"
        unfolding after_turns_def by (metis (full_types))
      with xe f(1,2) show ?thesis by (intro bexI [of _ y]) simp_all
    next
      case False
      with x f(3) have "x \<in> rows R u" by simp
      with 2(2) False show ?thesis unfolding after_turns_def by auto
    qed
  qed
  with 1 2(1) show ?case by auto
qed

lemma job_relays:
  assumes "service_is up rel"
  shows "\<exists>u v. relay_handle R rel (t, w) = (Inr (), (u, v)) \<and> rid ` rows R u = rid ` rows R t
     \<and> (\<forall>e \<in> rows R t. \<exists>f \<in> rows R u. rid f = rid e \<and> rdata f = relayed up (rdata e))"
proof -
  have p: "set (findPending R t) \<subseteq> rows R t" "distinct (map rid (findPending R t))"
    "\<forall>e \<in> set (findPending R t). ob_status (rdata e) = ''PENDING''"
    by (simp_all add: findPending_sat subset_iff) (simp add: findPending_def find_distinct)
  from rows_turns [OF assms p] obtain ys u v where
    1: "forA (findPending R t) (relay_row R rel) (t, w) = (Inr ys, (u, v))"
      "after_turns up (rid ` set (findPending R t)) t u" by blast
  have "(if rid e \<in> rid ` set (findPending R t) then relayed up (rdata e) else rdata e) = relayed up (rdata e)"
    if "e \<in> rows R t" for e
    using that rid_inj by (auto simp: findPending_sat relayed_def image_iff)
  with 1(2) have "rid ` rows R u = rid ` rows R t
     \<and> (\<forall>e \<in> rows R t. \<exists>f \<in> rows R u. rid f = rid e \<and> rdata f = relayed up (rdata e))"
    unfolding after_turns_def by metis
  moreover have "relay_handle R rel (t, w) = (Inr (), (u, v))"
    using 1(1) by (cases "findPending R t") (auto simp: relay_handle_def)
  ultimately show ?thesis by blast
qed

lemma jobs_relay:
  assumes "service_is up rel"
  shows "\<forall>e \<in> rows R t. \<exists>f \<in> rows R (fst (relay_jobs R rel n (t, w))). rid f = rid e
     \<and> rdata f = (relayed up ^^ n) (rdata e)"
proof (induction n arbitrary: t w)
  case (Suc n)
  from job_relays [OF assms, of t w] obtain u v where
    1: "relay_handle R rel (t, w) = (Inr (), (u, v))"
      "\<forall>e \<in> rows R t. \<exists>f \<in> rows R u. rid f = rid e \<and> rdata f = relayed up (rdata e)" by blast
  show ?case
  proof
    fix e
    assume "e \<in> rows R t"
    with 1(2) obtain f where f: "f \<in> rows R u" "rid f = rid e" "rdata f = relayed up (rdata e)" by blast
    from Suc.IH [of u v] f(1) obtain g where "g \<in> rows R (fst (relay_jobs R rel n (u, v)))" "rid g = rid f"
      "rdata g = (relayed up ^^ n) (rdata f)" by blast
    with 1(1) f show "\<exists>f \<in> rows R (fst (relay_jobs R rel (Suc n) (t, w))). rid f = rid e
        \<and> rdata f = (relayed up ^^ Suc n) (rdata e)"
      by (auto simp: funpow_Suc_right simp del: funpow.simps)
  qed
qed auto

end

interpretation mem_reliable_outbox: reliable_outbox "mem_repo no_conf"
  by unfold_locales




definition outbox_example :: "audit_outbox mem" where
  "outbox_example = snd (mem_insert no_conf \<lparr>ob_eventType = ''LOGIN'', ob_payload = JNull,
     ob_status = ''PENDING'', ob_attempts = 0\<rparr> mem_empty)"


text \<open>
  Whatever the audit service and the database do, a run of the job keeps every event
  in one of its three conditions: pending with tries left, sent, or failed with all used up.
\<close>

theorem outbox_wellformed:
  assumes "repository R" and "relay_handle R rel (t, w) = (r, (u, v))" and "\<forall>x \<in> rows R t. ob_wf (rdata x)"
  shows "\<forall>x \<in> rows R u. ob_wf (rdata x)"
  by (rule outbox_repository.relay_handle_wf [OF outbox_repository.intro [OF assms(1)] assms(2,3)])

theorem outbox_wellformed_witness:
  "list_all (\<lambda>x. ob_wf (rdata x)) (live (fst (snd (relay_handle (mem_repo no_conf)
       (relay (\<lambda>url ev p w. (Inr (), w)) (Some ''http://audit'')) (outbox_example, ())))))"
proof -
  have "list_all (\<lambda>x. ob_wf (rdata x)) (live outbox_example)" by code_simp
  then have 1: "\<forall>x \<in> rows (mem_repo no_conf) outbox_example. ob_wf (rdata x)" by (simp add: mem_rows list_all_iff)
  let ?rel = "relay (\<lambda>url ev p w. (Inr (), w)) (Some ''http://audit'') :: string \<Rightarrow> json \<Rightarrow> (unit, unit) act"
  obtain r u v where 2: "relay_handle (mem_repo no_conf) ?rel (outbox_example, ()) = (r, (u, v))" by (metis prod_cases3)
  from outbox_wellformed [OF mem.repository_axioms 2 1] 2 show ?thesis by (simp add: mem_rows list_all_iff)
qed

end
