(* ===== verification/Credential_Device.thy ===== *)
theory Credential_Device
  imports Keycloak Repository Mem_Table
begin

text \<open>
  \<open>modules/auth/credential\<close>, \<open>modules/auth/device\<close> and \<open>modules/auth/corporate-hierarchy\<close>.
  \<open>scrypt\<close> is \<open>scryptSync(mpin, salt, 64).toString('hex')\<close>, \<open>salt\<close> the text of the
  random bytes of the request and \<open>now\<close> its clock.
\<close>

subsection \<open>mpin-hash.util.ts\<close>

definition SCRYPT_PREFIX :: string where
  "SCRYPT_PREFIX = ''scrypt''"

definition hashMpin :: "(string \<Rightarrow> string \<Rightarrow> string) \<Rightarrow> string \<Rightarrow> string \<Rightarrow> string" where
  "hashMpin scrypt salt mpin = SCRYPT_PREFIX @ CHR '':'' # salt @ CHR '':'' # scrypt mpin salt"

text \<open>\<open>timingSafeEqual\<close> throws for buffers of different lengths.\<close>

definition timingSafeEqual :: "nat list \<Rightarrow> nat list \<Rightarrow> bool result" where
  "timingSafeEqual a b = (if length a \<noteq> length b
     then Inl (Failure ''Input buffers must have the same byte length'') else Inr (a = b))"

definition verifyMpin :: "(string \<Rightarrow> string \<Rightarrow> string) \<Rightarrow> string \<Rightarrow> string \<Rightarrow> bool result" where
  "verifyMpin scrypt mpin stored = (case split_on CHR '':'' stored of
      pre # salt # hash # _ \<Rightarrow>
        if pre \<noteq> SCRYPT_PREFIX \<or> salt = [] \<or> hash = [] then Inr False
        else timingSafeEqual (bufferFromHex hash) (bufferFromHex (scrypt mpin salt))
    | _ \<Rightarrow> Inr False)"

subsection \<open>credential.entity.ts, credential.service.ts\<close>

record credential =
  cr_keycloakUserId :: string
  cr_hashedMpin :: string
  cr_lastRotatedAt :: "int option"

record credential_view =
  cv_id :: string
  cv_keycloakUserId :: string
  cv_hasMpin :: bool
  cv_lastRotatedAt :: "int option"
  cv_createdAt :: int
  cv_updatedAt :: int

definition toPublicView :: "credential row \<Rightarrow> credential_view" where
  "toPublicView r = \<lparr>cv_id = rid r, cv_keycloakUserId = cr_keycloakUserId (rdata r), cv_hasMpin = True,
     cv_lastRotatedAt = cr_lastRotatedAt (rdata r), cv_createdAt = createdAt r, cv_updatedAt = updatedAt r\<rparr>"

definition cr_of_user :: "string \<Rightarrow> credential row \<Rightarrow> bool" where
  "cr_of_user uid r \<longleftrightarrow> cr_keycloakUserId (rdata r) = uid"

definition cr_findAll :: "('t, credential) repo \<Rightarrow> 't \<Rightarrow> credential_view list" where
  "cr_findAll R t = map toPublicView (findR R anyRow t)"

definition findByKeycloakUserId :: "('t, credential) repo \<Rightarrow> string \<Rightarrow> ('t, credential_view) act" where
  "findByKeycloakUserId R uid t = (case findOneR R (cr_of_user uid) t of
      None \<Rightarrow> (Inl (NotFoundException (Msg (''No MPIN credential found for Keycloak user '' @ uid
        @ ''. Login passwords are managed by Keycloak only '' @ em_dash
        @ '' create an MPIN via POST /auth/credential/create.''))), t)
    | Some r \<Rightarrow> (Inr (toPublicView r), t))"

text \<open>\<open>dto.userId ?? actorSub\<close>, then a test for the empty string.\<close>

definition resolveGet :: "('t, credential) repo \<Rightarrow> string option \<Rightarrow> string option \<Rightarrow> ('t, credential_view) act" where
  "resolveGet R userId actorSub =
     (let uid = (case userId of Some u \<Rightarrow> Some u | None \<Rightarrow> actorSub) in
      if \<not> truthy uid
      then throw (BadRequestException (Msg ''userId is required when no authenticated user is present in the Bearer token''))
      else findByKeycloakUserId R (orElse uid []))"

record credential_dto =
  cd_userId :: string
  cd_password :: "string option"
  cd_mpin :: "string option"

definition store_mpin ::
  "('t, credential) repo \<Rightarrow> string \<Rightarrow> int \<Rightarrow> string \<Rightarrow> ('t, credential row) act" where
  "store_mpin R hashed now uid t = (case findOneR R (cr_of_user uid) t of
      Some existing \<Rightarrow>
        saveR R (upd (\<lambda>d. d\<lparr>cr_hashedMpin := hashed, cr_lastRotatedAt := Some now\<rparr>) existing) t
    | None \<Rightarrow> insertR R \<lparr>cr_keycloakUserId = uid, cr_hashedMpin = hashed, cr_lastRotatedAt = Some now\<rparr> t)"

text \<open>Whether the password was updated, and the stored MPIN. \<open>reset\<close> is \<open>resetUserPassword\<close>.\<close>

definition cr_create ::
  "('t, credential) repo \<Rightarrow> (string \<Rightarrow> string \<Rightarrow> ('w, unit) act) \<Rightarrow> (string \<Rightarrow> string \<Rightarrow> string) \<Rightarrow> string \<Rightarrow> int
   \<Rightarrow> credential_dto \<Rightarrow> ('t \<times> 'w, bool \<times> credential_view option) act" where
  "cr_create R reset scrypt salt now dto =
     (if \<not> truthy (cd_password dto) \<and> \<not> truthy (cd_mpin dto)
      then throw (BadRequestException (Msg ''Provide either password (Keycloak) or mpin (local storage)''))
      else andThen (if truthy (cd_password dto)
               then andThen (onSnd (reset (cd_userId dto) (orElse (cd_password dto) []))) (\<lambda>_. ret True)
               else ret False) (\<lambda>passwordUpdated.
           andThen (if truthy (cd_mpin dto)
               then andThen (onFst (store_mpin R (hashMpin scrypt salt (orElse (cd_mpin dto) [])) now (cd_userId dto)))
                      (\<lambda>r. ret (Some (toPublicView r)))
               else ret None) (\<lambda>mpin.
           ret (passwordUpdated, mpin))))"

definition cr_verifyMpin ::
  "('t, credential) repo \<Rightarrow> (string \<Rightarrow> string \<Rightarrow> string) \<Rightarrow> string \<Rightarrow> string \<Rightarrow> 't \<Rightarrow> bool result" where
  "cr_verifyMpin R scrypt uid mpin t = (case findOneR R (cr_of_user uid) t of
      None \<Rightarrow> Inr False | Some r \<Rightarrow> verifyMpin scrypt mpin (cr_hashedMpin (rdata r)))"

definition softDeleteByKeycloakUserId :: "('t, credential) repo \<Rightarrow> string \<Rightarrow> ('t, string) act" where
  "softDeleteByKeycloakUserId R uid t = (case findOneR R (cr_of_user uid) t of
      None \<Rightarrow> (Inl (NotFoundException (Msg (''No MPIN credential found for Keycloak user '' @ uid))), t)
    | Some r \<Rightarrow> andThen (softDeleteR R (rid r)) (\<lambda>_. ret uid) t)"

subsection \<open>device-profile.entity.ts, device.service.ts\<close>

record device_profile =
  dp_userId :: string
  dp_deviceId :: string
  dp_deviceModel :: "string option"
  dp_trusted :: bool

record register_device_dto =
  rd_userId :: string
  rd_deviceId :: string
  rd_deviceModel :: "string option"

definition dp_findAll :: "('t, device_profile) repo \<Rightarrow> 't \<Rightarrow> device_profile row list" where
  "dp_findAll R t = findR R anyRow t"

definition dp_findOne :: "('t, device_profile) repo \<Rightarrow> string \<Rightarrow> ('t, device_profile row) act" where
  "dp_findOne R i t = (case findOneR R (byId i) t of
      None \<Rightarrow> (Inl (NotFoundException (Msg ''Device profile not found'')), t) | Some d \<Rightarrow> (Inr d, t))"

definition dp_create :: "('t, device_profile) repo \<Rightarrow> register_device_dto \<Rightarrow> ('t, device_profile row) act" where
  "dp_create R dto = insertR R \<lparr>dp_userId = rd_userId dto, dp_deviceId = rd_deviceId dto,
     dp_deviceModel = rd_deviceModel dto, dp_trusted = False\<rparr>"

definition dp_softDelete :: "('t, device_profile) repo \<Rightarrow> string \<Rightarrow> ('t, string) act" where
  "dp_softDelete R i = andThen (dp_findOne R i) (\<lambda>_. andThen (softDeleteR R i) (\<lambda>_. ret i))"

subsection \<open>corporate-hierarchy.entity.ts, corporate-hierarchy.service.ts\<close>

record corporate_hierarchy =
  ch_userId :: string
  ch_cif :: string
  ch_role :: string
  ch_approvalLimit :: "rat option"

record hierarchy_dto =
  hd_userId :: string
  hd_cif :: string
  hd_role :: string

definition ch_findAll :: "('t, corporate_hierarchy) repo \<Rightarrow> 't \<Rightarrow> corporate_hierarchy row list" where
  "ch_findAll R t = findR R anyRow t"

definition ch_findOne :: "('t, corporate_hierarchy) repo \<Rightarrow> string \<Rightarrow> ('t, corporate_hierarchy row) act" where
  "ch_findOne R i t = (case findOneR R (byId i) t of
      None \<Rightarrow> (Inl (NotFoundException (Msg ''Corporate hierarchy record not found'')), t) | Some d \<Rightarrow> (Inr d, t))"

definition ch_create :: "('t, corporate_hierarchy) repo \<Rightarrow> hierarchy_dto \<Rightarrow> ('t, corporate_hierarchy row) act" where
  "ch_create R dto = insertR R \<lparr>ch_userId = hd_userId dto, ch_cif = hd_cif dto, ch_role = hd_role dto,
     ch_approvalLimit = None\<rparr>"

definition ch_softDelete :: "('t, corporate_hierarchy) repo \<Rightarrow> string \<Rightarrow> ('t, string) act" where
  "ch_softDelete R i = andThen (ch_findOne R i) (\<lambda>_. andThen (softDeleteR R i) (\<lambda>_. ret i))"

subsection \<open>Facts\<close>

lemma verifyMpin_hashMpin:
  assumes "CHR '':'' \<notin> set salt" and "salt \<noteq> []" and "CHR '':'' \<notin> set (scrypt mpin salt)"
    and "scrypt mpin salt \<noteq> []"
  shows "verifyMpin scrypt m (hashMpin scrypt salt mpin)
    = timingSafeEqual (bufferFromHex (scrypt mpin salt)) (bufferFromHex (scrypt m salt))"
proof -
  have "CHR '':'' \<notin> set SCRYPT_PREFIX" by (simp add: SCRYPT_PREFIX_def)
  then have "split_on CHR '':'' (hashMpin scrypt salt mpin) = [SCRYPT_PREFIX, salt, scrypt mpin salt]"
    using assms by (simp add: hashMpin_def split_on_append split_on_none)
  then show ?thesis using assms by (simp add: verifyMpin_def)
qed

locale credential_repository = repository R for R :: "('t, credential) repo"
begin

lemma store_mpin_row:
  assumes "store_mpin R hashed now uid t = (Inr r, u)"
  shows "r \<in> rows R u \<and> cr_keycloakUserId (rdata r) = uid \<and> cr_hashedMpin (rdata r) = hashed"
proof (cases "findOneR R (cr_of_user uid) t")
  case None
  with assms show ?thesis by (auto simp: store_mpin_def dest!: insert_ok)
next
  case (Some e)
  with findOne_Some [OF Some] have "e \<in> rows R t" "cr_keycloakUserId (rdata e) = uid"
    by (auto simp: cr_of_user_def)
  with assms Some show ?thesis by (auto simp: store_mpin_def dest!: save_ok)
qed

text \<open>Storing an MPIN never makes a second credential row of a user.\<close>

definition one_per_user :: "'t \<Rightarrow> bool" where
  "one_per_user t \<longleftrightarrow> (\<forall>a \<in> rows R t. \<forall>b \<in> rows R t.
     cr_keycloakUserId (rdata a) = cr_keycloakUserId (rdata b) \<longrightarrow> a = b)"

lemma store_mpin_one_per_user:
  assumes "store_mpin R hashed now uid t = (r, u)" and "one_per_user t"
  shows "one_per_user u"
proof (cases "findOneR R (cr_of_user uid) t")
  case None
  then have none: "\<forall>a \<in> rows R t. cr_keycloakUserId (rdata a) \<noteq> uid"
    by (auto simp: findOne_None cr_of_user_def)
  show ?thesis
  proof (cases r)
    case (Inl x)
    with None assms have "rows R u = rows R t" by (auto simp: store_mpin_def dest: insert_err)
    with assms(2) show ?thesis by (simp add: one_per_user_def)
  next
    case (Inr x)
    with None assms(1) have "rows R u = insert x (rows R t)" "cr_keycloakUserId (rdata x) = uid"
      by (auto simp: store_mpin_def dest: insert_ok)
    with none assms(2) show ?thesis unfolding one_per_user_def by (metis insert_iff)
  qed
next
  case (Some e)
  with findOne_Some [OF Some] have e: "e \<in> rows R t" "cr_keycloakUserId (rdata e) = uid"
    by (auto simp: cr_of_user_def)
  show ?thesis
  proof (cases r)
    case (Inl x)
    with Some assms have "rows R u = rows R t" by (auto simp: store_mpin_def dest: save_err)
    with assms(2) show ?thesis by (simp add: one_per_user_def)
  next
    case (Inr x)
    have s: "saveR R (upd (\<lambda>d. d\<lparr>cr_hashedMpin := hashed, cr_lastRotatedAt := Some now\<rparr>) e) t = (Inr x, u)"
      using Some assms(1) Inr by (simp add: store_mpin_def)
    have x: "cr_keycloakUserId (rdata x) = uid" "rows R u = insert x {y \<in> rows R t. rid y \<noteq> rid e}"
      using save_ok [OF s] e by simp_all
    have other: "cr_keycloakUserId (rdata y) \<noteq> uid" if "y \<in> rows R t" "rid y \<noteq> rid e" for y
      using assms(2) e that unfolding one_per_user_def by metis
    show ?thesis
      unfolding one_per_user_def x(2)
      using other x(1) assms(2) unfolding one_per_user_def by (metis (mono_tags, lifting) insert_iff mem_Collect_eq)
  qed
qed

end

interpretation mem_credential: credential_repository "mem_repo conf"
  by unfold_locales

end
