(* ===== verification/Credential_Properties.thy ===== *)
theory Credential_Properties
  imports Credential_Device
begin

text \<open>
  What credential.service.ts and mpin-hash.util.ts give together: a stored MPIN verifies, a
  user has one credential, and the credentials of others are left alone.
\<close>

context credential_repository begin

lemma store_mpin_replaces:
  assumes "store_mpin R hashed now uid t = (Inr r, u)" and "one_per_user t"
  shows "rows R u = insert r {x \<in> rows R t. cr_keycloakUserId (rdata x) \<noteq> uid}"
proof (cases "findOneR R (cr_of_user uid) t")
  case None
  with assms(1) have "rows R u = insert r (rows R t)" by (auto simp: store_mpin_def dest: insert_ok)
  moreover have "\<forall>a \<in> rows R t. cr_keycloakUserId (rdata a) \<noteq> uid"
    using None by (auto simp: findOne_None cr_of_user_def)
  then have "{x \<in> rows R t. cr_keycloakUserId (rdata x) \<noteq> uid} = rows R t" by blast
  ultimately show ?thesis by simp
next
  case (Some e)
  with findOne_Some [OF Some] have e: "e \<in> rows R t" "cr_keycloakUserId (rdata e) = uid"
    by (auto simp: cr_of_user_def)
  from Some assms(1) have s: "saveR R (upd (\<lambda>d. d\<lparr>cr_hashedMpin := hashed, cr_lastRotatedAt := Some now\<rparr>) e) t = (Inr r, u)"
    by (simp add: store_mpin_def)
  have "rows R u = insert r {y \<in> rows R t. rid y \<noteq> rid e}" using save_ok [OF s] e(1) by simp
  moreover have "rid y \<noteq> rid e \<longleftrightarrow> cr_keycloakUserId (rdata y) \<noteq> uid" if "y \<in> rows R t" for y
  proof
    show "cr_keycloakUserId (rdata y) \<noteq> uid" if n: "rid y \<noteq> rid e"
    proof
      assume "cr_keycloakUserId (rdata y) = uid"
      with assms(2) e \<open>y \<in> rows R t\<close> have "y = e" by (simp add: one_per_user_def)
      with n show False by simp
    qed
    show "rid y \<noteq> rid e" if "cr_keycloakUserId (rdata y) \<noteq> uid"
      using rid_inj [OF \<open>y \<in> rows R t\<close> e(1)] e(2) that by metis
  qed
  then have "{y \<in> rows R t. rid y \<noteq> rid e} = {y \<in> rows R t. cr_keycloakUserId (rdata y) \<noteq> uid}" by blast
  ultimately show ?thesis by simp
qed

lemma findOne_of_user:
  assumes "one_per_user t"
  shows "findOneR R (cr_of_user uid) t = Some e \<longleftrightarrow> e \<in> rows R t \<and> cr_keycloakUserId (rdata e) = uid"
proof
  assume "findOneR R (cr_of_user uid) t = Some e"
  from findOne_Some [OF this] show "e \<in> rows R t \<and> cr_keycloakUserId (rdata e) = uid" by (simp add: cr_of_user_def)
next
  assume e: "e \<in> rows R t \<and> cr_keycloakUserId (rdata e) = uid"
  then have "findOneR R (cr_of_user uid) t \<noteq> None" by (auto simp: findOne_None cr_of_user_def)
  then obtain f where f: "findOneR R (cr_of_user uid) t = Some f" by blast
  from findOne_Some [OF f] e assms f show "findOneR R (cr_of_user uid) t = Some e"
    unfolding one_per_user_def cr_of_user_def by metis
qed

lemma findOne_other:
  assumes "one_per_user t" and "one_per_user u" and "uid' \<noteq> uid" and "cr_keycloakUserId (rdata r) = uid"
    and "rows R u = insert r {x \<in> rows R t. cr_keycloakUserId (rdata x) \<noteq> uid}"
  shows "findOneR R (cr_of_user uid') u = findOneR R (cr_of_user uid') t"
proof (cases "findOneR R (cr_of_user uid') t")
  case None
  with assms have "findOneR R (cr_of_user uid') u = None" by (auto simp: findOne_None cr_of_user_def)
  with None show ?thesis by simp
next
  case (Some e)
  then have "e \<in> rows R t \<and> cr_keycloakUserId (rdata e) = uid'" using findOne_of_user [OF assms(1)] by blast
  with assms(3,5) have "e \<in> rows R u \<and> cr_keycloakUserId (rdata e) = uid'" by auto
  with Some findOne_of_user [OF assms(2)] show ?thesis by metis
qed

end

subsection \<open>Properties\<close>

text \<open>
  C30: an MPIN that is stored verifies, and another one verifies exactly when it has the
  same scrypt bytes under the salt; the user keeps a single credential, and the MPINs of the
  other users verify as before.
\<close>

theorem mpin_roundtrip:
  assumes "repository R" and "cr_create R reset scrypt salt now dto (t, w) = (Inr r, (u, w'))"
    and "cd_mpin dto = Some mpin" and "mpin \<noteq> []"
    and "\<forall>a \<in> rows R t. \<forall>b \<in> rows R t. cr_keycloakUserId (rdata a) = cr_keycloakUserId (rdata b) \<longrightarrow> a = b"
    and "CHR '':'' \<notin> set salt" and "salt \<noteq> []"
    and "\<forall>p. CHR '':'' \<notin> set (scrypt p salt) \<and> length (bufferFromHex (scrypt p salt)) = 64"
  shows "cr_verifyMpin R scrypt (cd_userId dto) other u = Inr (bufferFromHex (scrypt mpin salt) = bufferFromHex (scrypt other salt))
     \<and> (\<forall>a \<in> rows R u. \<forall>b \<in> rows R u. cr_keycloakUserId (rdata a) = cr_keycloakUserId (rdata b) \<longrightarrow> a = b)
     \<and> (\<forall>uid. uid \<noteq> cd_userId dto \<longrightarrow> cr_verifyMpin R scrypt uid other u = cr_verifyMpin R scrypt uid other t)"
proof -
  have L: "credential_repository R" by (rule credential_repository.intro [OF assms(1)])
  note defs = credential_repository.one_per_user_def [OF L]
  have one: "credential_repository.one_per_user R t" using assms(5) by (simp add: defs)
  from assms(2-4) obtain x where s: "store_mpin R (hashMpin scrypt salt mpin) now (cd_userId dto) t = (Inr x, u)"
    by (auto simp: cr_create_def andThen_Inr onFst_eq onSnd_eq truthy_def split: if_splits)
  have one': "credential_repository.one_per_user R u"
    by (rule credential_repository.store_mpin_one_per_user [OF L s one])
  have x: "x \<in> rows R u" "cr_keycloakUserId (rdata x) = cd_userId dto" "cr_hashedMpin (rdata x) = hashMpin scrypt salt mpin"
    using credential_repository.store_mpin_row [OF L s] by simp_all
  have "scrypt mpin salt \<noteq> []" using assms(8) by (metis bufferFromHex.simps(2) list.size(3) zero_neq_numeral)
  with assms(6-8) have "verifyMpin scrypt other (hashMpin scrypt salt mpin)
      = Inr (bufferFromHex (scrypt mpin salt) = bufferFromHex (scrypt other salt))"
    by (simp add: verifyMpin_hashMpin timingSafeEqual_def)
  moreover have "findOneR R (cr_of_user (cd_userId dto)) u = Some x"
    using credential_repository.findOne_of_user [OF L one'] x by blast
  moreover have "cr_verifyMpin R scrypt uid other u = cr_verifyMpin R scrypt uid other t" if "uid \<noteq> cd_userId dto" for uid
    using credential_repository.findOne_other [OF L one one' that x(2)
        credential_repository.store_mpin_replaces [OF L s one]] by (simp add: cr_verifyMpin_def)
  ultimately show ?thesis using x(3) one' by (simp add: cr_verifyMpin_def defs)
qed

text \<open>The example: a toy key derivation of 64 bytes that depends on the first digit.\<close>

definition toy_scrypt :: "string \<Rightarrow> string \<Rightarrow> string" where
  "toy_scrypt p s = replicate 126 CHR ''0'' @ (if p = ''1234'' then ''a1'' else ''b2'')"

lemma toy_scrypt_hex: "length (bufferFromHex (toy_scrypt p s)) = 64" "CHR '':'' \<notin> set (toy_scrypt p s)"
proof -
  have "length (bufferFromHex (replicate 126 CHR ''0'' @ ''a1'')) = 64" "length (bufferFromHex (replicate 126 CHR ''0'' @ ''b2'')) = 64"
    by code_simp+
  then show "length (bufferFromHex (toy_scrypt p s)) = 64" by (simp add: toy_scrypt_def)
qed (simp add: toy_scrypt_def)

theorem mpin_roundtrip_witness:
  "cr_verifyMpin (mem_repo no_conf) toy_scrypt ''u1'' ''1234'' (fst (snd (cr_create (mem_repo no_conf) (\<lambda>_ _ w. (Inr (), w))
      toy_scrypt ''ab'' 1000 \<lparr>cd_userId = ''u1'', cd_password = None, cd_mpin = Some ''1234''\<rparr> (mem_empty, ())))) = Inr True"
proof -
  let ?dto = "\<lparr>cd_userId = ''u1'', cd_password = None, cd_mpin = Some ''1234''\<rparr>"
  let ?run = "cr_create (mem_repo no_conf) (\<lambda>_ _ w. (Inr (), w)) toy_scrypt ''ab'' 1000 ?dto (mem_empty, ())"
  have 0: "rows (mem_repo no_conf) (mem_empty :: credential mem) = {}" by (simp add: mem_rows live_def mem_empty_def)
  have "\<not> isl (fst ?run)" by code_simp
  then obtain r u w where run: "?run = (Inr r, (u, w))" by (metis isl_def prod_cases3 prod.sel(1) sum.exhaust_sel)
  from mpin_roundtrip [OF mem.repository_axioms run, of "''1234''" "''1234''"] 0 toy_scrypt_hex
  have "cr_verifyMpin (mem_repo no_conf) toy_scrypt ''u1'' ''1234'' u = Inr True" by simp
  with run show ?thesis by (simp only: prod.sel)
qed

end
