(* ===== verification/Registration.thy ===== *)
theory Registration
  imports Credential_Device Otp
begin

text \<open>
  \<open>modules/auth/registration\<close>: the saga of a customer registration. The state holds the
  four tables it writes and the outside world of the Keycloak calls; an attempt moves
  through the steps of \<open>STEP_ORDER\<close>, and a failed step is compensated.
\<close>

subsection \<open>registration-attempt.entity.ts\<close>

record attempt =
  at_mobileNumber :: string
  at_panOrCif :: string
  at_currentStep :: string
  at_failureReason :: "string option"
  at_keycloakUserId :: "string option"
  at_deviceProfileId :: "string option"

datatype registration_step =
  INIT | OTP_VERIFIED | CREDENTIALS_SET | DEVICE_REGISTERED | KEYCLOAK_USER_CREATED | COMPLETED

fun step_name :: "registration_step \<Rightarrow> string" where
  "step_name INIT = ''INIT''"
| "step_name OTP_VERIFIED = ''OTP_VERIFIED''"
| "step_name CREDENTIALS_SET = ''CREDENTIALS_SET''"
| "step_name DEVICE_REGISTERED = ''DEVICE_REGISTERED''"
| "step_name KEYCLOAK_USER_CREATED = ''KEYCLOAK_USER_CREATED''"
| "step_name COMPLETED = ''COMPLETED''"

definition STEP_ORDER :: "registration_step list" where
  "STEP_ORDER = [INIT, OTP_VERIFIED, CREDENTIALS_SET, KEYCLOAK_USER_CREATED, DEVICE_REGISTERED, COMPLETED]"

text \<open>\<open>STEP_ORDER.indexOf(step)\<close>, \<open>-1\<close> when there is none.\<close>

fun index_from :: "int \<Rightarrow> string \<Rightarrow> registration_step list \<Rightarrow> int" where
  "index_from n s [] = -1"
| "index_from n s (x # xs) = (if step_name x = s then n else index_from (n + 1) s xs)"

definition step_index :: "string \<Rightarrow> int" where
  "step_index s = index_from 0 s STEP_ORDER"

fun NEXT_ACTION :: "registration_step \<Rightarrow> string" where
  "NEXT_ACTION INIT = ''POST /auth/otp/create then /auth/registration/verify-otp''"
| "NEXT_ACTION OTP_VERIFIED = ''POST /auth/registration/create-credentials''"
| "NEXT_ACTION CREDENTIALS_SET =
     ''Keycloak user provisioning did not complete '' @ em_dash @ '' retry POST /auth/registration/create-credentials''"
| "NEXT_ACTION KEYCLOAK_USER_CREATED = ''POST /auth/registration/register-device''"
| "NEXT_ACTION DEVICE_REGISTERED = ''POST /auth/registration/complete''"
| "NEXT_ACTION COMPLETED = ''Registration already complete '' @ em_dash @ '' POST /auth/login''"

subsection \<open>State and environment\<close>

record ('a, 'o, 'd, 'c, 'w) reg_state =
  st_attempts :: 'a
  st_otps :: 'o
  st_devices :: 'd
  st_creds :: 'c
  st_world :: 'w

record ('a, 'o, 'd, 'c, 'w) reg_env =
  en_attempts :: "('a, attempt) repo"
  en_otps :: "('o, otp_challenge) repo"
  en_devices :: "('d, device_profile) repo"
  en_creds :: "('c, credential) repo"
  en_http :: "'w http"
  en_kc :: kc_config
  en_otp :: otp_config
  en_hash :: "string \<Rightarrow> string"

definition onAttempts :: "('a, 'x) act \<Rightarrow> (('a, 'o, 'd, 'c, 'w) reg_state, 'x) act" where
  "onAttempts = zoom st_attempts (\<lambda>x s. s\<lparr>st_attempts := x\<rparr>)"

definition onOtps :: "('o, 'x) act \<Rightarrow> (('a, 'o, 'd, 'c, 'w) reg_state, 'x) act" where
  "onOtps = zoom st_otps (\<lambda>x s. s\<lparr>st_otps := x\<rparr>)"

definition onDevices :: "('d, 'x) act \<Rightarrow> (('a, 'o, 'd, 'c, 'w) reg_state, 'x) act" where
  "onDevices = zoom st_devices (\<lambda>x s. s\<lparr>st_devices := x\<rparr>)"

definition onCreds :: "('c, 'x) act \<Rightarrow> (('a, 'o, 'd, 'c, 'w) reg_state, 'x) act" where
  "onCreds = zoom st_creds (\<lambda>x s. s\<lparr>st_creds := x\<rparr>)"

definition onWorld :: "('w, 'x) act \<Rightarrow> (('a, 'o, 'd, 'c, 'w) reg_state, 'x) act" where
  "onWorld = zoom st_world (\<lambda>x s. s\<lparr>st_world := x\<rparr>)"

subsection \<open>registration-compensation.service.ts\<close>

definition safely :: "('s, 'x) act \<Rightarrow> ('s, unit) act" where
  "safely action = catch (andThen action (\<lambda>_. ret ())) (\<lambda>_. ret ())"

definition rollback ::
  "('a, 'o, 'd, 'c, 'w) reg_env \<Rightarrow> string \<Rightarrow> registration_step
   \<Rightarrow> (('a, 'o, 'd, 'c, 'w) reg_state, unit) act" where
  "rollback E attemptId atStep s = (case findOneR (en_attempts E) (byId attemptId) (st_attempts s) of
      None \<Rightarrow> (Inr (), s)
    | Some attempt \<Rightarrow>
        let dev = at_deviceProfileId (rdata attempt); kcUser = at_keycloakUserId (rdata attempt) in
        (case atStep of
           DEVICE_REGISTERED \<Rightarrow>
             if truthy dev then safely (onDevices (dp_softDelete (en_devices E) (orElse dev []))) s
             else (Inr (), s)
         | KEYCLOAK_USER_CREATED \<Rightarrow>
             if truthy kcUser then safely (onWorld (disableUser (en_http E) (en_kc E) (orElse kcUser []))) s
             else (Inr (), s)
         | CREDENTIALS_SET \<Rightarrow>
             if truthy kcUser
             then safely (onCreds (softDeleteByKeycloakUserId (en_creds E) (orElse kcUser []))) s
             else (Inr (), s)
         | _ \<Rightarrow> (Inr (), s)))"

subsection \<open>registration-orchestrator.service.ts\<close>

record resume_result =
  rr_attemptId :: string
  rr_currentStep :: string
  rr_nextAction :: string

definition attempt_not_found :: exn where
  "attempt_not_found = NotFoundException (Msg ''Registration attempt not found'')"

definition at_findOne :: "('a, attempt) repo \<Rightarrow> string \<Rightarrow> ('a, attempt row) act" where
  "at_findOne R i t = (case findOneR R (byId i) t of
      None \<Rightarrow> (Inl attempt_not_found, t) | Some a \<Rightarrow> (Inr a, t))"

definition step_of :: "string \<Rightarrow> registration_step option" where
  "step_of s = find (\<lambda>x. step_name x = s) STEP_ORDER"

definition resume :: "('a, attempt) repo \<Rightarrow> string \<Rightarrow> ('a, resume_result) act" where
  "resume R attemptId = andThen (at_findOne R attemptId) (\<lambda>a. ret
     \<lparr>rr_attemptId = attemptId, rr_currentStep = at_currentStep (rdata a),
      rr_nextAction = (case step_of (at_currentStep (rdata a)) of
         Some st \<Rightarrow> NEXT_ACTION st | None \<Rightarrow> NEXT_ACTION INIT)\<rparr>)"

definition advance :: "('a, attempt) repo \<Rightarrow> string \<Rightarrow> registration_step \<Rightarrow> ('a, attempt row) act" where
  "advance R attemptId toStep = andThen (at_findOne R attemptId) (\<lambda>a.
     if step_index (step_name toStep) \<noteq> step_index (at_currentStep (rdata a)) + 1
     then throw (BadRequestException (Msg (''Cannot move attempt '' @ attemptId @ '' from ''
            @ at_currentStep (rdata a) @ '' to '' @ step_name toStep)))
     else saveR R (upd (\<lambda>d. d\<lparr>at_currentStep := step_name toStep\<rparr>) a))"

definition fail_attempt ::
  "('a, 'o, 'd, 'c, 'w) reg_env \<Rightarrow> string \<Rightarrow> registration_step \<Rightarrow> string
   \<Rightarrow> (('a, 'o, 'd, 'c, 'w) reg_state, unit) act" where
  "fail_attempt E attemptId atStep reason =
     andThen (onAttempts (\<lambda>t. case findOneR (en_attempts E) (byId attemptId) t of
          None \<Rightarrow> (Inr (), t)
        | Some a \<Rightarrow> andThen (saveR (en_attempts E) (upd (\<lambda>d. d\<lparr>at_failureReason := Some reason\<rparr>) a))
             (\<lambda>_. ret ()) t))
     (\<lambda>_. rollback E attemptId atStep)"

subsection \<open>registration.service.ts\<close>

definition at_findAll :: "('a, attempt) repo \<Rightarrow> 'a \<Rightarrow> attempt row list" where
  "at_findAll R t = findR R anyRow t"

definition at_create :: "('a, attempt) repo \<Rightarrow> string \<Rightarrow> string \<Rightarrow> ('a, attempt row) act" where
  "at_create R mobile panOrCif = insertR R \<lparr>at_mobileNumber = mobile, at_panOrCif = panOrCif,
     at_currentStep = step_name INIT, at_failureReason = None, at_keycloakUserId = None,
     at_deviceProfileId = None\<rparr>"

definition requireStep :: "attempt row \<Rightarrow> registration_step \<Rightarrow> ('s, unit) act" where
  "requireStep a expected = guardA (at_currentStep (rdata a) = step_name expected)
     (BadRequestException (Msg (''Registration attempt '' @ rid a @ '' is at '' @ at_currentStep (rdata a)
        @ '', expected '' @ step_name expected)))"

definition verifyOtp ::
  "('a, 'o, 'd, 'c, 'w) reg_env \<Rightarrow> int \<Rightarrow> string \<Rightarrow> string \<Rightarrow> string
   \<Rightarrow> (('a, 'o, 'd, 'c, 'w) reg_state, attempt row) act" where
  "verifyOtp E now attemptId challengeId otp =
     andThen (onAttempts (at_findOne (en_attempts E) attemptId)) (\<lambda>a.
     andThen (requireStep a INIT) (\<lambda>_.
     andThen (onOtps (otp_verify (en_otps E) (en_otp E) (en_hash E) now challengeId otp)) (\<lambda>_.
     onAttempts (advance (en_attempts E) attemptId OTP_VERIFIED))))"

definition customer_user :: "attempt \<Rightarrow> string \<Rightarrow> new_user" where
  "customer_user d password = \<lparr>nu_username = at_mobileNumber d,
     nu_email = at_mobileNumber d @ ''@customer.bharat-banking.local'',
     nu_firstName = ''Customer'', nu_lastName = at_mobileNumber d, nu_password = password,
     nu_enabled = None\<rparr>"

text \<open>The awaited part of the \<open>try\<close> of \<open>createCredentials\<close>.\<close>

definition provision ::
  "('a, 'o, 'd, 'c, 'w) reg_env \<Rightarrow> string \<Rightarrow> string \<Rightarrow> attempt
   \<Rightarrow> (('a, 'o, 'd, 'c, 'w) reg_state, unit) act" where
  "provision E attemptId password d =
     andThen (onWorld (createUser (en_http E) (en_kc E) (customer_user d password))) (\<lambda>userId.
     andThen (onWorld (assignRealmRoleToUser (en_http E) (en_kc E) userId ''RETAIL_CUSTOMER'')) (\<lambda>_.
     andThen (onAttempts (at_findOne (en_attempts E) attemptId)) (\<lambda>updated.
     andThen (onAttempts (saveR (en_attempts E) (upd (\<lambda>d. d\<lparr>at_keycloakUserId := Some userId\<rparr>) updated)))
     (\<lambda>_. ret ()))))"

text \<open>
  The \<open>return this.orchestrator.advance(...)\<close> of the \<open>try\<close> is not awaited, so its
  failure does not reach the \<open>catch\<close>.
\<close>

definition compensated ::
  "('a, 'o, 'd, 'c, 'w) reg_env \<Rightarrow> string \<Rightarrow> registration_step \<Rightarrow> (('a, 'o, 'd, 'c, 'w) reg_state, unit) act
   \<Rightarrow> (('a, 'o, 'd, 'c, 'w) reg_state, unit) act" where
  "compensated E attemptId atStep m = catch m
     (\<lambda>e. andThen (fail_attempt E attemptId atStep (exn_message e)) (\<lambda>_. throw e))"

definition createCredentials ::
  "('a, 'o, 'd, 'c, 'w) reg_env \<Rightarrow> string \<Rightarrow> string \<Rightarrow> (('a, 'o, 'd, 'c, 'w) reg_state, attempt row) act" where
  "createCredentials E attemptId password =
     andThen (onAttempts (at_findOne (en_attempts E) attemptId)) (\<lambda>a.
     andThen (guardA (at_currentStep (rdata a) = step_name OTP_VERIFIED
                \<or> at_currentStep (rdata a) = step_name CREDENTIALS_SET)
        (BadRequestException (Msg (''Registration attempt '' @ attemptId @ '' is at ''
          @ at_currentStep (rdata a)
          @ '', expected OTP_VERIFIED, or CREDENTIALS_SET to retry a previously failed attempt'')))) (\<lambda>_.
     andThen (if at_currentStep (rdata a) = step_name OTP_VERIFIED
              then andThen (onAttempts (advance (en_attempts E) attemptId CREDENTIALS_SET)) (\<lambda>_. ret ())
              else ret ()) (\<lambda>_.
     andThen (compensated E attemptId CREDENTIALS_SET (provision E attemptId password (rdata a))) (\<lambda>_.
     onAttempts (advance (en_attempts E) attemptId KEYCLOAK_USER_CREATED)))))"

definition link_device ::
  "('a, 'o, 'd, 'c, 'w) reg_env \<Rightarrow> string \<Rightarrow> register_device_dto
   \<Rightarrow> (('a, 'o, 'd, 'c, 'w) reg_state, unit) act" where
  "link_device E attemptId dto =
     andThen (onDevices (dp_create (en_devices E) dto)) (\<lambda>device.
     andThen (onAttempts (at_findOne (en_attempts E) attemptId)) (\<lambda>updated.
     andThen (onAttempts (saveR (en_attempts E) (upd (\<lambda>d. d\<lparr>at_deviceProfileId := Some (rid device)\<rparr>) updated)))
     (\<lambda>_. ret ())))"

definition registerDevice ::
  "('a, 'o, 'd, 'c, 'w) reg_env \<Rightarrow> string \<Rightarrow> string \<Rightarrow> string option
   \<Rightarrow> (('a, 'o, 'd, 'c, 'w) reg_state, attempt row) act" where
  "registerDevice E attemptId deviceId deviceModel =
     andThen (onAttempts (at_findOne (en_attempts E) attemptId)) (\<lambda>a.
     andThen (requireStep a KEYCLOAK_USER_CREATED) (\<lambda>_.
     andThen (guardA (truthy (at_keycloakUserId (rdata a)))
        (BadRequestException (Msg (''Attempt '' @ attemptId @ '' has no Keycloak user to link a device to'')))) (\<lambda>_.
     andThen (compensated E attemptId DEVICE_REGISTERED (link_device E attemptId
        \<lparr>rd_userId = orElse (at_keycloakUserId (rdata a)) [], rd_deviceId = deviceId,
         rd_deviceModel = deviceModel\<rparr>)) (\<lambda>_.
     onAttempts (advance (en_attempts E) attemptId DEVICE_REGISTERED)))))"

definition complete ::
  "('a, attempt) repo \<Rightarrow> string \<Rightarrow> ('a, string \<times> string option \<times> registration_step) act" where
  "complete R attemptId =
     andThen (at_findOne R attemptId) (\<lambda>a.
     andThen (requireStep a DEVICE_REGISTERED) (\<lambda>_.
     andThen (advance R attemptId COMPLETED) (\<lambda>_.
     ret (attemptId, at_keycloakUserId (rdata a), COMPLETED))))"

definition at_softDelete :: "('a, attempt) repo \<Rightarrow> string \<Rightarrow> ('a, string) act" where
  "at_softDelete R i = andThen (at_findOne R i) (\<lambda>_. andThen (softDeleteR R i) (\<lambda>_. ret i))"

subsection \<open>The requests of the saga\<close>

datatype reg_request =
    Create_attempt string string
  | Verify_otp int string string string
  | Create_credentials string string
  | Register_device string string "string option"
  | Complete_attempt string
  | Delete_attempt string

definition done_with :: "('s, 'x) act \<Rightarrow> ('s, unit) act" where
  "done_with m = andThen m (\<lambda>_. ret ())"

fun reg_run ::
  "('a, 'o, 'd, 'c, 'w) reg_env \<Rightarrow> reg_request \<Rightarrow> (('a, 'o, 'd, 'c, 'w) reg_state, unit) act" where
  "reg_run E (Create_attempt m p) = done_with (onAttempts (at_create (en_attempts E) m p))"
| "reg_run E (Verify_otp now a c otp) = done_with (verifyOtp E now a c otp)"
| "reg_run E (Create_credentials a pw) = done_with (createCredentials E a pw)"
| "reg_run E (Register_device a d m) = done_with (registerDevice E a d m)"
| "reg_run E (Complete_attempt a) = done_with (onAttempts (complete (en_attempts E) a))"
| "reg_run E (Delete_attempt a) = done_with (onAttempts (at_softDelete (en_attempts E) a))"

text \<open>
  One request, whether it returns or throws; the other users of the one-time-password,
  device and credential tables and of Keycloak may do anything to those in between.
\<close>

inductive reg_step ::
  "('a, 'o, 'd, 'c, 'w) reg_env \<Rightarrow> ('a, 'o, 'd, 'c, 'w) reg_state \<Rightarrow> ('a, 'o, 'd, 'c, 'w) reg_state \<Rightarrow> bool"
  for E where
  request: "reg_run E q s = (r, t) \<Longrightarrow> reg_step E s t"
| environment: "st_attempts t = st_attempts s \<Longrightarrow> reg_step E s t"

inductive reg_reachable ::
  "('a, 'o, 'd, 'c, 'w) reg_env \<Rightarrow> ('a, 'o, 'd, 'c, 'w) reg_state \<Rightarrow> bool" for E where
  start: "rows (en_attempts E) (st_attempts s) = {} \<Longrightarrow> reg_reachable E s"
| step: "reg_reachable E s \<Longrightarrow> reg_step E s t \<Longrightarrow> reg_reachable E t"

inductive_cases reg_stepE [consumes 1, case_names request environment]: "reg_step E s t"

subsection \<open>Invariant\<close>

text \<open>
  What the columns of an attempt promise: a known step, a Keycloak user from
  \<open>KEYCLOAK_USER_CREATED\<close> on and a device profile from \<open>DEVICE_REGISTERED\<close> on.
\<close>

definition attempt_ok :: "attempt \<Rightarrow> bool" where
  "attempt_ok d \<longleftrightarrow> 0 \<le> step_index (at_currentStep d)
     \<and> (3 \<le> step_index (at_currentStep d) \<longrightarrow> at_keycloakUserId d \<noteq> None)
     \<and> (4 \<le> step_index (at_currentStep d) \<longrightarrow> at_deviceProfileId d \<noteq> None)"

text \<open>What the code may do to an attempt: never a step back, the identity kept.\<close>

definition attempt_moves :: "attempt \<Rightarrow> attempt \<Rightarrow> bool" where
  "attempt_moves d d' \<longleftrightarrow> at_mobileNumber d' = at_mobileNumber d \<and> at_panOrCif d' = at_panOrCif d
     \<and> step_index (at_currentStep d) \<le> step_index (at_currentStep d')"

declare step_name.simps [simp del]

lemma step_index_names [simp]:
  "step_index (step_name INIT) = 0" "step_index (step_name OTP_VERIFIED) = 1"
  "step_index (step_name CREDENTIALS_SET) = 2" "step_index (step_name KEYCLOAK_USER_CREATED) = 3"
  "step_index (step_name DEVICE_REGISTERED) = 4" "step_index (step_name COMPLETED) = 5"
  by (simp_all add: step_index_def STEP_ORDER_def step_name.simps)

lemma step_index_bounds: "-1 \<le> step_index s \<and> step_index s \<le> 5"
  by (simp add: step_index_def STEP_ORDER_def)

lemma step_index_eq: "step_index (at_currentStep d) = step_index (step_name x) \<Longrightarrow> at_currentStep d = step_name x"
  by (cases x) (auto simp: step_index_def STEP_ORDER_def step_name.simps split: if_splits)

text \<open>The steps are ordered by \<open>STEP_ORDER\<close>, which is not the order of their declaration.\<close>

instantiation registration_step :: linorder
begin

definition less_eq_registration_step :: "registration_step \<Rightarrow> registration_step \<Rightarrow> bool" where
  "less_eq_registration_step x y \<longleftrightarrow> step_index (step_name x) \<le> step_index (step_name y)"

definition less_registration_step :: "registration_step \<Rightarrow> registration_step \<Rightarrow> bool" where
  "less_registration_step x y \<longleftrightarrow> step_index (step_name x) < step_index (step_name y)"

instance
proof
  fix x y z :: registration_step
  show "x < y \<longleftrightarrow> x \<le> y \<and> \<not> y \<le> x" "x \<le> x" "x \<le> y \<or> y \<le> x"
    by (auto simp: less_eq_registration_step_def less_registration_step_def)
  show "x \<le> z" if "x \<le> y" "y \<le> z" using that by (simp add: less_eq_registration_step_def)
  show "x = y" if "x \<le> y" "y \<le> x"
    using that by (cases x; cases y) (simp_all add: less_eq_registration_step_def)
qed

end

lemma sorted_STEP_ORDER: "sorted STEP_ORDER \<and> distinct STEP_ORDER \<and> set STEP_ORDER = UNIV"
  by (auto simp: STEP_ORDER_def less_eq_registration_step_def intro: registration_step.exhaust)

lemma step_index_known: "0 \<le> step_index s \<Longrightarrow> \<exists>x. s = step_name x"
  by (auto simp: step_index_def STEP_ORDER_def split: if_splits)

lemma attempt_ok_steps:
  "attempt_ok d \<longleftrightarrow> (\<exists>x. at_currentStep d = step_name x
     \<and> (KEYCLOAK_USER_CREATED \<le> x \<longrightarrow> at_keycloakUserId d \<noteq> None)
     \<and> (DEVICE_REGISTERED \<le> x \<longrightarrow> at_deviceProfileId d \<noteq> None))"
proof
  assume a: "attempt_ok d"
  then obtain x where "at_currentStep d = step_name x" using step_index_known by (auto simp: attempt_ok_def)
  with a show "\<exists>x. at_currentStep d = step_name x
     \<and> (KEYCLOAK_USER_CREATED \<le> x \<longrightarrow> at_keycloakUserId d \<noteq> None)
     \<and> (DEVICE_REGISTERED \<le> x \<longrightarrow> at_deviceProfileId d \<noteq> None)"
    by (auto simp: attempt_ok_def less_eq_registration_step_def)
next
  assume "\<exists>x. at_currentStep d = step_name x
     \<and> (KEYCLOAK_USER_CREATED \<le> x \<longrightarrow> at_keycloakUserId d \<noteq> None)
     \<and> (DEVICE_REGISTERED \<le> x \<longrightarrow> at_deviceProfileId d \<noteq> None)"
  then obtain x where "at_currentStep d = step_name x" and
    "(KEYCLOAK_USER_CREATED \<le> x \<longrightarrow> at_keycloakUserId d \<noteq> None)" "(DEVICE_REGISTERED \<le> x \<longrightarrow> at_deviceProfileId d \<noteq> None)" by blast
  then show "attempt_ok d" by (cases x) (simp_all add: attempt_ok_def less_eq_registration_step_def)
qed

definition table_inv :: "('a, attempt) repo \<Rightarrow> attempt row set \<Rightarrow> 'a \<Rightarrow> bool" where
  "table_inv R T t \<longleftrightarrow> (\<forall>x \<in> rows R t. attempt_ok (rdata x)
     \<and> (\<forall>y \<in> T. rid y = rid x \<longrightarrow> attempt_moves (rdata y) (rdata x)))"

definition has_row :: "('a, attempt) repo \<Rightarrow> string \<Rightarrow> (attempt \<Rightarrow> bool) \<Rightarrow> 'a \<Rightarrow> bool" where
  "has_row R i P t \<longleftrightarrow> (\<forall>x \<in> rows R t. rid x = i \<longrightarrow> P (rdata x))"

text \<open>What an attempt must have for a step to be reached.\<close>

definition ready :: "registration_step \<Rightarrow> attempt \<Rightarrow> bool" where
  "ready st d \<longleftrightarrow> (st = KEYCLOAK_USER_CREATED \<longrightarrow> at_keycloakUserId d \<noteq> None)
     \<and> (st = DEVICE_REGISTERED \<longrightarrow> at_deviceProfileId d \<noteq> None)"

locale attempt_repository = repository R for R :: "('a, attempt) repo"
begin

lemma save_triple:
  assumes "\<And>d. attempt_ok d \<Longrightarrow> P d \<Longrightarrow> attempt_ok (f d) \<and> attempt_moves d (f d)"
  shows "triple (table_inv R T) (\<lambda>t. e \<in> rows R t \<and> P (rdata e)) (saveR R (upd f e))
    (\<lambda>g t. rid g = rid e \<and> rdata g = f (rdata e) \<and> has_row R (rid e) (\<lambda>d. d = f (rdata e)) t)"
proof (rule tripleI)
  fix s r t
  assume I: "table_inv R T s" and P: "e \<in> rows R s \<and> P (rdata e)" and s: "saveR R (upd f e) s = (r, t)"
  have k: "rid (upd f e) \<in> rid ` rows R s" using P by auto
  show "table_inv R T t \<and> (\<forall>g. r = Inr g \<longrightarrow> rid g = rid e \<and> rdata g = f (rdata e)
      \<and> has_row R (rid e) (\<lambda>d. d = f (rdata e)) t)"
  proof (cases rule: save_cases [OF s k])
    case (1 x)
    with I show ?thesis by (simp add: table_inv_def)
  next
    case (2 g)
    have ok: "attempt_ok (rdata e)" using I P by (auto simp: table_inv_def)
    with assms P have f: "attempt_ok (f (rdata e))" "attempt_moves (rdata e) (f (rdata e))" by blast+
    have "attempt_moves (rdata y) (rdata g)" if "y \<in> T" "rid y = rid g" for y
    proof -
      have "attempt_moves (rdata y) (rdata e)" using I P that 2 by (auto simp: table_inv_def)
      with f 2 show ?thesis by (auto simp: attempt_moves_def)
    qed
    moreover have "attempt_ok (rdata g)" using f 2 by simp
    ultimately have "table_inv R T t"
      using I unfolding table_inv_def 2(4) by blast
    moreover have "has_row R (rid e) (\<lambda>d. d = f (rdata e)) t"
      using 2 by (auto simp: has_row_def)
    ultimately show ?thesis using 2 by simp
  qed
qed

lemma find_triple:
  "triple (table_inv R T) (has_row R i P) (at_findOne R i) (\<lambda>a t. rid a = i \<and> P (rdata a) \<and> a \<in> rows R t)"
  by (rule tripleI) (auto simp: at_findOne_def findOne_byId_iff has_row_def split: option.splits)

lemma find_triple_any:
  "triple (table_inv R T) (\<lambda>_. True) (at_findOne R i) (\<lambda>a t. rid a = i \<and> a \<in> rows R t)"
  by (rule tripleI) (auto simp: at_findOne_def findOne_byId_iff split: option.splits)

lemma advance_triple:
  "triple (table_inv R T) (has_row R i (ready st)) (advance R i st)
     (\<lambda>g t. rid g = i \<and> at_currentStep (rdata g) = step_name st)"
  unfolding advance_def
proof (rule triple_andThen [OF find_triple], rule triple_if, rule triple_throw, rule triple_pure, rule triple_pure)
  fix a :: "attempt row"
  assume n: "\<not> step_index (step_name st) \<noteq> step_index (at_currentStep (rdata a)) + 1"
    and a: "rid a = i" "ready st (rdata a)"
  define P where "P d \<longleftrightarrow> step_index (step_name st) = step_index (at_currentStep d) + 1 \<and> ready st d" for d
  have ok: "attempt_ok (d\<lparr>at_currentStep := step_name st\<rparr>) \<and> attempt_moves d (d\<lparr>at_currentStep := step_name st\<rparr>)"
    if "attempt_ok d" "P d" for d
    using that by (cases st) (auto simp: attempt_ok_def attempt_moves_def P_def ready_def)
  show "triple (table_inv R T) (\<lambda>t. a \<in> rows R t) (saveR R (upd (\<lambda>d. d\<lparr>at_currentStep := step_name st\<rparr>) a))
     (\<lambda>g t. rid g = i \<and> at_currentStep (rdata g) = step_name st)"
    by (rule triple_weaken [OF save_triple [of P, OF ok]]) (use a n in \<open>auto simp: P_def\<close>)
qed

end

interpretation mem_attempt: attempt_repository "mem_repo conf"
  by unfold_locales

subsection \<open>The saga keeps the invariant\<close>

lemma triple_onAttempts:
  "triple I P m Q \<Longrightarrow> triple (\<lambda>s. I (st_attempts s)) (\<lambda>s. P (st_attempts s)) (onAttempts m) (\<lambda>x s. Q x (st_attempts s))"
  by (auto simp: triple_def onAttempts_def zoom_eq)

lemma triple_elsewhere:
  "triple (\<lambda>s. I (st_attempts s)) (\<lambda>s. P (st_attempts s)) (onOtps m1) (\<lambda>_ s. P (st_attempts s))"
  "triple (\<lambda>s. I (st_attempts s)) (\<lambda>s. P (st_attempts s)) (onDevices m2) (\<lambda>_ s. P (st_attempts s))"
  "triple (\<lambda>s. I (st_attempts s)) (\<lambda>s. P (st_attempts s)) (onCreds m3) (\<lambda>_ s. P (st_attempts s))"
  "triple (\<lambda>s. I (st_attempts s)) (\<lambda>s. P (st_attempts s)) (onWorld m4) (\<lambda>_ s. P (st_attempts s))"
  unfolding onOtps_def onDevices_def onCreds_def onWorld_def by (rule triple_frame; simp)+

lemma safely_preserves: "preserves I m \<Longrightarrow> preserves I (safely m)"
  unfolding safely_def by (intro preserves_catch preserves_andThen) auto

lemma preserves_zoom: "(\<And>x s. I s \<Longrightarrow> I (put x s)) \<Longrightarrow> preserves I (zoom get put m)"
  by (auto simp: preserves_def zoom_def split: prod.splits)

text \<open>A compensation never touches the attempt itself.\<close>

lemma safely_elsewhere:
  "safely (onDevices m1) s = (r, t) \<Longrightarrow> st_attempts t = st_attempts s"
  "safely (onCreds m2) s = (r, t) \<Longrightarrow> st_attempts t = st_attempts s"
  "safely (onWorld m3) s = (r, t) \<Longrightarrow> st_attempts t = st_attempts s"
  unfolding onDevices_def onCreds_def onWorld_def
  by (rule preservesD [OF safely_preserves, OF preserves_zoom, of "\<lambda>u. st_attempts u = st_attempts s"]; simp)+

lemma rollback_attempts: "rollback E i st s = (r, t) \<Longrightarrow> st_attempts t = st_attempts s"
  unfolding rollback_def Let_def
  by (auto dest: safely_elsewhere split: option.splits registration_step.splits if_splits)

text \<open>
  No request stores an attempt that breaks \<open>attempt_ok\<close> or moves one backwards: the
  provider is the table of attempts, the client the whole saga.
\<close>

locale saga = attempt_repository "en_attempts E"
  for E :: "('a, 'o, 'd, 'c, 'w) reg_env"
begin

abbreviation inv :: "attempt row set \<Rightarrow> ('a, 'o, 'd, 'c, 'w) reg_state \<Rightarrow> bool" where
  "inv T s \<equiv> table_inv (en_attempts E) T (st_attempts s)"

abbreviation row_has :: "string \<Rightarrow> (attempt \<Rightarrow> bool) \<Rightarrow> ('a, 'o, 'd, 'c, 'w) reg_state \<Rightarrow> bool" where
  "row_has i P s \<equiv> has_row (en_attempts E) i P (st_attempts s)"

lemma fail_triple: "triple (inv T) (\<lambda>_. True) (fail_attempt E i st m) (\<lambda>_ _. True)"
  unfolding fail_attempt_def
proof (rule triple_andThen)
  have keep: "attempt_ok (d\<lparr>at_failureReason := Some m\<rparr>) \<and> attempt_moves d (d\<lparr>at_failureReason := Some m\<rparr>)"
    if "attempt_ok d" "True" for d
    using that by (auto simp: attempt_ok_def attempt_moves_def)
  have "triple (table_inv (en_attempts E) T) (\<lambda>_. True)
     (\<lambda>t. case findOneR (en_attempts E) (byId i) t of None \<Rightarrow> (Inr (), t)
        | Some a \<Rightarrow> andThen (saveR (en_attempts E) (upd (at_failureReason_update (\<lambda>_. Some m)) a)) (\<lambda>_. ret ()) t)
     (\<lambda>_ _. True)"
  proof (rule tripleI)
    fix s r t
    assume I: "table_inv (en_attempts E) T s"
      and e: "(case findOneR (en_attempts E) (byId i) s of None \<Rightarrow> (Inr (), s)
        | Some a \<Rightarrow> andThen (saveR (en_attempts E) (upd (at_failureReason_update (\<lambda>_. Some m)) a)) (\<lambda>_. ret ()) s) = (r, t)"
    show "table_inv (en_attempts E) T t \<and> (\<forall>x. r = Inr x \<longrightarrow> True)"
    proof (cases "findOneR (en_attempts E) (byId i) s")
      case None
      with I e show ?thesis by simp
    next
      case (Some a)
      obtain q u where s: "saveR (en_attempts E) (upd (at_failureReason_update (\<lambda>_. Some m)) a) s = (q, u)"
        by fastforce
      have "table_inv (en_attempts E) T u"
        using tripleD [OF save_triple [of "\<lambda>_. True", OF keep] I _ s] findOne_mem [OF Some] by simp
      moreover have "t = u" using e s Some by (cases q) auto
      ultimately show ?thesis by simp
    qed
  qed
  from triple_onAttempts [OF this]
  show "triple (inv T) (\<lambda>_. True) (onAttempts (\<lambda>t. case findOneR (en_attempts E) (byId i) t of None \<Rightarrow> (Inr (), t)
        | Some a \<Rightarrow> andThen (saveR (en_attempts E) (upd (at_failureReason_update (\<lambda>_. Some m)) a)) (\<lambda>_. ret ()) t))
     (\<lambda>_ _. True)" .
  show "triple (inv T) (\<lambda>_. True) (rollback E i st) (\<lambda>_ _. True)"
    by (rule tripleI) (simp add: rollback_attempts)
qed

lemma advance_inv:
  "triple (inv T) (row_has i (ready st)) (onAttempts (advance (en_attempts E) i st)) (\<lambda>_ _. True)"
  by (rule triple_weaken [OF triple_onAttempts [OF advance_triple]]) auto

lemma find_inv:
  "triple (inv T) (\<lambda>_. True) (onAttempts (at_findOne (en_attempts E) i))
     (\<lambda>a s. rid a = i \<and> a \<in> rows (en_attempts E) (st_attempts s))"
  using triple_onAttempts [OF find_triple_any] .

text \<open>Steps without a condition of their own.\<close>

lemma ready_free: "st \<notin> {KEYCLOAK_USER_CREATED, DEVICE_REGISTERED} \<Longrightarrow> has_row R' i (ready st) t"
  by (auto simp: ready_def has_row_def)

lemma advance_free:
  assumes "st \<notin> {KEYCLOAK_USER_CREATED, DEVICE_REGISTERED}"
  shows "triple (inv T) P (onAttempts (advance (en_attempts E) i st)) (\<lambda>_ _. True)"
  by (rule triple_weaken [OF advance_inv]) (auto intro: ready_free [OF assms])

lemma compensated_triple:
  "triple (inv T) P m Q \<Longrightarrow> triple (inv T) P (compensated E i st m) Q"
  unfolding compensated_def
  by (rule triple_catch, assumption, rule triple_andThen [OF fail_triple], rule triple_throw)

text \<open>Saving a field that no condition of the step depends on negatively.\<close>

lemma set_field_triple:
  assumes "\<And>d. attempt_ok d \<Longrightarrow> attempt_ok (f d) \<and> attempt_moves d (f d) \<and> ready st (f d)"
  shows "triple (inv T) P
     (andThen (onAttempts (at_findOne (en_attempts E) i)) (\<lambda>a.
      andThen (onAttempts (saveR (en_attempts E) (upd f a))) (\<lambda>_. ret ())))
     (\<lambda>_. row_has i (ready st))"
proof (rule triple_andThen)
  show "triple (inv T) P (onAttempts (at_findOne (en_attempts E) i))
      (\<lambda>a s. rid a = i \<and> attempt_ok (rdata a) \<and> a \<in> rows (en_attempts E) (st_attempts s))"
  proof (rule tripleI)
    fix s r t
    assume I: "inv T s" and e: "onAttempts (at_findOne (en_attempts E) i) s = (r, t)"
    have "t = s" using e by (auto simp: onAttempts_def zoom_def at_findOne_def split: option.splits prod.splits)
    moreover have "rid a = i \<and> a \<in> rows (en_attempts E) (st_attempts s)" if "r = Inr a" for a
      using tripleD_Inr [OF find_inv I TrueI] e that \<open>t = s\<close> by simp
    ultimately show "inv T t \<and> (\<forall>a. r = Inr a \<longrightarrow> rid a = i \<and> attempt_ok (rdata a)
        \<and> a \<in> rows (en_attempts E) (st_attempts t))"
      using I by (auto simp: table_inv_def)
  qed
  fix a :: "attempt row"
  show "triple (inv T) (\<lambda>s. rid a = i \<and> attempt_ok (rdata a) \<and> a \<in> rows (en_attempts E) (st_attempts s))
     (andThen (onAttempts (saveR (en_attempts E) (upd f a))) (\<lambda>_. ret ())) (\<lambda>_. row_has i (ready st))"
  proof (rule triple_pure, rule triple_pure, rule triple_andThen)
    assume a: "rid a = i" "attempt_ok (rdata a)"
    have ok: "attempt_ok (f d) \<and> attempt_moves d (f d)" if "attempt_ok d" "True" for d
      using assms [OF that(1)] by blast
    show "triple (inv T) (\<lambda>s. a \<in> rows (en_attempts E) (st_attempts s))
        (onAttempts (saveR (en_attempts E) (upd f a))) (\<lambda>_. row_has i (ready st))"
      by (rule triple_weaken [OF triple_onAttempts [OF save_triple [of "\<lambda>_. True", OF ok]]])
        (use a assms [OF a(2)] in \<open>auto simp: has_row_def\<close>)
  qed (auto intro: triple_ret)
qed

lemma verifyOtp_inv: "triple (inv T) (\<lambda>_. True) (verifyOtp E now i c otp) (\<lambda>_ _. True)"
  unfolding verifyOtp_def requireStep_def
  by (rule triple_andThen [OF find_inv], rule triple_andThen [OF triple_guard],
      rule triple_andThen [OF triple_elsewhere(1)], rule advance_free) simp

lemma provision_triple:
  "triple (inv T) P (provision E i pw d) (\<lambda>_. row_has i (ready KEYCLOAK_USER_CREATED))"
  unfolding provision_def
proof (rule triple_andThen)
  show "triple (inv T) P (onWorld (createUser (en_http E) (en_kc E) (customer_user d pw))) (\<lambda>_ _. True)"
    by (rule triple_weaken [OF triple_elsewhere(4) [of _ "\<lambda>_. True"]]) auto
  fix u
  show "triple (inv T) (\<lambda>_. True)
     (andThen (onWorld (assignRealmRoleToUser (en_http E) (en_kc E) u ''RETAIL_CUSTOMER'')) (\<lambda>_.
      andThen (onAttempts (at_findOne (en_attempts E) i)) (\<lambda>updated.
      andThen (onAttempts (saveR (en_attempts E) (upd (\<lambda>d. d\<lparr>at_keycloakUserId := Some u\<rparr>) updated)))
      (\<lambda>_. ret ())))) (\<lambda>_. row_has i (ready KEYCLOAK_USER_CREATED))"
    by (rule triple_andThen [OF triple_elsewhere(4)], rule set_field_triple)
      (auto simp: attempt_ok_def attempt_moves_def ready_def)
qed

lemma advance_then_ret:
  "triple (inv T) P (if b then andThen (onAttempts (advance (en_attempts E) i CREDENTIALS_SET)) (\<lambda>_. ret ())
     else ret ()) (\<lambda>_ _. True)"
  by (rule triple_if, rule triple_andThen [OF advance_free]) (auto intro: triple_ret)

lemma createCredentials_inv: "triple (inv T) (\<lambda>_. True) (createCredentials E i pw) (\<lambda>_ _. True)"
  unfolding createCredentials_def
  by (rule triple_andThen [OF find_inv], rule triple_andThen [OF triple_guard],
      rule triple_andThen [OF advance_then_ret],
      rule triple_andThen [OF compensated_triple [OF provision_triple]], rule advance_inv)

lemma registerDevice_inv: "triple (inv T) (\<lambda>_. True) (registerDevice E i dev mo) (\<lambda>_ _. True)"
  unfolding registerDevice_def requireStep_def
proof (rule triple_andThen [OF find_inv], rule triple_andThen [OF triple_guard],
    rule triple_andThen [OF triple_guard], rule triple_andThen [OF compensated_triple])
  fix a :: "attempt row" and dto
  show "triple (inv T) P (link_device E i dto) (\<lambda>_. row_has i (ready DEVICE_REGISTERED))" for P
    unfolding link_device_def
  proof (rule triple_andThen)
    show "triple (inv T) P (onDevices (dp_create (en_devices E) dto)) (\<lambda>_ _. True)"
      by (rule triple_weaken [OF triple_elsewhere(2) [of _ "\<lambda>_. True"]]) auto
    fix device :: "device_profile row"
    show "triple (inv T) (\<lambda>_. True)
       (andThen (onAttempts (at_findOne (en_attempts E) i)) (\<lambda>updated.
        andThen (onAttempts (saveR (en_attempts E) (upd (\<lambda>d. d\<lparr>at_deviceProfileId := Some (rid device)\<rparr>) updated)))
        (\<lambda>_. ret ()))) (\<lambda>_. row_has i (ready DEVICE_REGISTERED))"
      by (rule set_field_triple) (auto simp: attempt_ok_def attempt_moves_def ready_def)
  qed
qed (rule advance_inv)

lemma complete_inv:
  "triple (inv T) (\<lambda>_. True) (onAttempts (complete (en_attempts E) i)) (\<lambda>_ _. True)"
proof (rule triple_weaken [OF triple_onAttempts])
  show "triple (table_inv (en_attempts E) T) (\<lambda>_. True) (complete (en_attempts E) i) (\<lambda>_ _. True)"
    unfolding complete_def requireStep_def
    by (rule triple_andThen [OF find_triple_any], rule triple_andThen [OF triple_guard],
      rule triple_andThen [OF triple_weaken [OF advance_triple]])
      (auto intro: triple_ret ready_free)
qed auto

lemma delete_inv:
  "triple (inv T) (\<lambda>_. True) (onAttempts (at_softDelete (en_attempts E) i)) (\<lambda>_ _. True)"
proof (rule triple_weaken [OF triple_onAttempts])
  show "triple (table_inv (en_attempts E) T) (\<lambda>_. True) (at_softDelete (en_attempts E) i) (\<lambda>_ _. True)"
    unfolding at_softDelete_def
  proof (rule triple_andThen [OF find_triple_any], rule triple_andThen, rule tripleI)
    fix s r t
    assume I: "table_inv (en_attempts E) T s" and "softDeleteR (en_attempts E) i s = (r, t)"
    then have "rows (en_attempts E) t \<subseteq> rows (en_attempts E) s"
      by (cases r) (auto dest: softDelete_ok softDelete_err)
    with I show "table_inv (en_attempts E) T t \<and> (\<forall>x. r = Inr x \<longrightarrow> True)"
      unfolding table_inv_def by blast
  qed (auto intro: triple_ret)
qed auto

lemma create_inv:
  assumes "onAttempts (at_create (en_attempts E) m p) s = (r, t)" and "inv (rows (en_attempts E) (st_attempts s)) s"
  shows "inv (rows (en_attempts E) (st_attempts s)) t"
proof -
  let ?R = "en_attempts E"
  obtain u where u: "at_create ?R m p (st_attempts s) = (r, u)" "st_attempts t = u"
    using assms(1) by (auto simp: onAttempts_def zoom_eq)
  show ?thesis
  proof (cases r)
    case (Inl x)
    with u assms(2) show ?thesis by (auto simp: at_create_def table_inv_def dest: insert_err)
  next
    case (Inr e)
    with u have e: "attempt_ok (rdata e)" "rid e \<notin> rid ` rows ?R (st_attempts s)"
      "rows ?R u = insert e (rows ?R (st_attempts s))"
      by (auto simp: at_create_def attempt_ok_def dest!: insert_ok)
    then show ?thesis using assms(2) unfolding table_inv_def u(2) e(3) by (metis image_eqI insert_iff)
  qed
qed

lemma done_with_inv: "triple (inv T) P m (\<lambda>_ _. True) \<Longrightarrow> triple (inv T) P (done_with m) (\<lambda>_ _. True)"
  unfolding done_with_def by (erule triple_andThen) (auto intro: triple_ret)

lemma reg_run_inv:
  assumes "reg_run E q s = (r, t)" and "inv (rows (en_attempts E) (st_attempts s)) s"
  shows "inv (rows (en_attempts E) (st_attempts s)) t"
proof (cases q)
  case (Create_attempt m p)
  obtain q' u where c: "onAttempts (at_create (en_attempts E) m p) s = (q', u)" by fastforce
  with assms(1) Create_attempt have "t = u" by (cases q') (auto simp: done_with_def)
  with create_inv [OF c assms(2)] show ?thesis by simp
next
  case (Verify_otp now a c otp)
  with assms tripleD [OF done_with_inv [OF verifyOtp_inv]] show ?thesis by simp
next
  case (Create_credentials a pw)
  with assms tripleD [OF done_with_inv [OF createCredentials_inv]] show ?thesis by simp
next
  case (Register_device a d m)
  with assms tripleD [OF done_with_inv [OF registerDevice_inv]] show ?thesis by simp
next
  case (Complete_attempt a)
  with assms tripleD [OF done_with_inv [OF complete_inv]] show ?thesis by simp
next
  case (Delete_attempt a)
  with assms tripleD [OF done_with_inv [OF delete_inv]] show ?thesis by simp
qed

lemma start_inv:
  assumes "\<forall>x \<in> rows (en_attempts E) (st_attempts s). attempt_ok (rdata x)"
  shows "inv (rows (en_attempts E) (st_attempts s)) s"
  unfolding table_inv_def
proof (intro ballI conjI impI)
  fix x y
  assume a: "x \<in> rows (en_attempts E) (st_attempts s)" "y \<in> rows (en_attempts E) (st_attempts s)" "rid y = rid x"
  have "y = x" by (rule rid_inj [OF a(2,1,3)])
  then show "attempt_moves (rdata y) (rdata x)" by (simp add: attempt_moves_def)
qed (use assms in blast)

lemma reg_run_ok:
  assumes "reg_run E q s = (r, t)" and "\<forall>x \<in> rows (en_attempts E) (st_attempts s). attempt_ok (rdata x)"
    and "x \<in> rows (en_attempts E) (st_attempts t)"
  shows "attempt_ok (rdata x)"
    and "y \<in> rows (en_attempts E) (st_attempts s) \<Longrightarrow> rid y = rid x \<Longrightarrow> attempt_moves (rdata y) (rdata x)"
  using reg_run_inv [OF assms(1) start_inv [OF assms(2)]] assms(3) by (auto simp: table_inv_def)

lemma reachable_ok:
  "reg_reachable E s \<Longrightarrow> x \<in> rows (en_attempts E) (st_attempts s) \<Longrightarrow> attempt_ok (rdata x)"
proof (induction arbitrary: x rule: reg_reachable.induct)
  case (start s)
  then show ?case by simp
next
  case (step s t)
  from step(2) show ?case
  proof (cases rule: reg_stepE)
    case (request q)
    with reg_run_ok(1) [OF request] step show ?thesis by blast
  next
    case environment
    with step show ?thesis by simp
  qed
qed

end

text \<open>The saga over tables in memory.\<close>

definition mem_reg_env ::
  "'w http \<Rightarrow> kc_config \<Rightarrow> otp_config \<Rightarrow> (string \<Rightarrow> string)
   \<Rightarrow> (attempt mem, otp_challenge mem, device_profile mem, credential mem, 'w) reg_env" where
  "mem_reg_env http kc cfg hash = \<lparr>en_attempts = mem_repo no_conf, en_otps = mem_repo no_conf,
     en_devices = mem_repo no_conf, en_creds = mem_repo no_conf, en_http = http, en_kc = kc,
     en_otp = cfg, en_hash = hash\<rparr>"

lemma mem_reg_env_simps [simp]:
  "en_attempts (mem_reg_env http kc cfg hash) = mem_repo no_conf"
  "en_otps (mem_reg_env http kc cfg hash) = mem_repo no_conf"
  "en_devices (mem_reg_env http kc cfg hash) = mem_repo no_conf"
  "en_creds (mem_reg_env http kc cfg hash) = mem_repo no_conf"
  "en_http (mem_reg_env http kc cfg hash) = http" "en_kc (mem_reg_env http kc cfg hash) = kc"
  "en_otp (mem_reg_env http kc cfg hash) = cfg" "en_hash (mem_reg_env http kc cfg hash) = hash"
  by (simp_all add: mem_reg_env_def)

interpretation mem_saga: saga "mem_reg_env http kc cfg hash"
  unfolding saga_def attempt_repository_def mem_reg_env_simps by (rule mem.repository_axioms)

end
