(* ===== verification/Registration_Properties.thy ===== *)
theory Registration_Properties
  imports Registration
begin

text \<open>
  What the registration saga achieves: over reliable tables and a Keycloak that answers, a
  new attempt is completed (\<open>live_saga\<close>); when Keycloak refuses, the failure is recorded;
  and the properties of the saga over any repository that keeps its contract.
\<close>

subsection \<open>Progress\<close>

lemma step_update_last [simp]:
  "at_deviceProfileId_update f (at_currentStep_update g d) = at_currentStep_update g (at_deviceProfileId_update f d)"
  "at_keycloakUserId_update f (at_currentStep_update g d) = at_currentStep_update g (at_keycloakUserId_update f d)"
  by simp_all

definition at_row :: "('a, attempt) repo \<Rightarrow> string \<Rightarrow> attempt \<Rightarrow> 'a \<Rightarrow> bool" where
  "at_row R i d t \<longleftrightarrow> (\<exists>x \<in> rows R t. rid x = i \<and> rdata x = d)"

lemma at_rowI: "x \<in> rows R t \<Longrightarrow> at_row R (rid x) (rdata x) t"
  by (auto simp: at_row_def)

locale reliable_attempts = attempt_repository R + reliable_repository R for R :: "('a, attempt) repo"
begin

lemma find_succeeds:
  "succeeds (at_row R i d) (at_findOne R i) (\<lambda>a t. rid a = i \<and> rdata a = d \<and> a \<in> rows R t)"
  by (auto simp: succeeds_def at_row_def at_findOne_def findOne_byId)

lemma save_succeeds:
  "succeeds (\<lambda>t. a \<in> rows R t) (saveR R (upd f a)) (\<lambda>_. at_row R (rid a) (f (rdata a)))"
  unfolding succeeds_def
proof (intro allI impI)
  fix s
  assume "a \<in> rows R s"
  then have k: "rid (upd f a) \<in> rid ` rows R s" by auto
  with save_total obtain g u where s: "saveR R (upd f a) s = (Inr g, u)" by blast
  with save_ok [OF s k] show "\<exists>x t. saveR R (upd f a) s = (Inr x, t) \<and> at_row R (rid a) (f (rdata a)) t"
    by (auto simp: at_row_def)
qed

lemma advance_succeeds:
  assumes "step_index (step_name st) = step_index (at_currentStep d) + 1"
  shows "succeeds (at_row R i d) (advance R i st) (\<lambda>_. at_row R i (d\<lparr>at_currentStep := step_name st\<rparr>))"
  unfolding advance_def
proof (rule succeeds_andThen [OF find_succeeds], rule succeeds_pure, rule succeeds_pure)
  fix a :: "attempt row"
  assume "rid a = i" "rdata a = d"
  with assms save_succeeds [of a]
  show "succeeds (\<lambda>t. a \<in> rows R t)
      (if step_index (step_name st) \<noteq> step_index (at_currentStep (rdata a)) + 1
       then throw (BadRequestException (Msg (''Cannot move attempt '' @ i @ '' from ''
              @ at_currentStep (rdata a) @ '' to '' @ step_name st)))
       else saveR R (upd (\<lambda>d. d\<lparr>at_currentStep := step_name st\<rparr>) a))
      (\<lambda>_. at_row R i (d\<lparr>at_currentStep := step_name st\<rparr>))" by simp
qed

end

interpretation mem_reliable_attempts: reliable_attempts "mem_repo no_conf"
  by unfold_locales

lemma succeeds_onAttempts:
  "succeeds P m Q \<Longrightarrow> succeeds (\<lambda>s. P (st_attempts s)) (onAttempts m) (\<lambda>x s. Q x (st_attempts s))"
  unfolding onAttempts_def by (rule succeeds_zoom) auto

lemma succeeds_onWorld:
  "(\<And>w. \<exists>x w'. m w = (Inr x, w') \<and> Q x) \<Longrightarrow>
   succeeds (\<lambda>s. P (st_attempts s)) (onWorld m) (\<lambda>x s. Q x \<and> P (st_attempts s))"
  unfolding onWorld_def by (rule succeeds_zoom_frame) auto

lemma succeeds_onDevices:
  "(\<And>w. \<exists>x w'. m w = (Inr x, w') \<and> Q x) \<Longrightarrow>
   succeeds (\<lambda>s. P (st_attempts s)) (onDevices m) (\<lambda>x s. Q x \<and> P (st_attempts s))"
  unfolding onDevices_def by (rule succeeds_zoom_frame) auto

text \<open>
  The four requests that complete an attempt.
\<close>

locale live_saga = reliable_attempts "en_attempts E" + devices: reliable_repository "en_devices E"
    + otps: reliable_repository "en_otps E"
  for E :: "('a, 'o, 'd, 'c, 'w) reg_env" +
  fixes uid :: string
  assumes user_id: "uid \<noteq> []"
    and create_user: "\<exists>w'. createUser (en_http E) (en_kc E) p w = (Inr uid, w')"
    and assign_role: "\<exists>w'. assignRealmRoleToUser (en_http E) (en_kc E) uid ''RETAIL_CUSTOMER'' w = (Inr (), w')"
begin

abbreviation stands :: "string \<Rightarrow> attempt \<Rightarrow> ('a, 'o, 'd, 'c, 'w) reg_state \<Rightarrow> bool" where
  "stands i d s \<equiv> at_row (en_attempts E) i d (st_attempts s)"

lemma find_stands:
  "succeeds (stands i d) (onAttempts (at_findOne (en_attempts E) i))
     (\<lambda>a s. rid a = i \<and> rdata a = d \<and> stands i d s \<and> a \<in> rows (en_attempts E) (st_attempts s))"
  by (rule succeeds_weaken [OF succeeds_onAttempts [OF find_succeeds]]) (auto simp: at_row_def)

lemma advance_stands:
  "step_index (step_name st) = step_index (at_currentStep d) + 1 \<Longrightarrow>
   succeeds (stands i d) (onAttempts (advance (en_attempts E) i st))
     (\<lambda>_. stands i (d\<lparr>at_currentStep := step_name st\<rparr>))"
  by (rule succeeds_onAttempts [OF advance_succeeds])

lemma done_with_succeeds: "succeeds P m (\<lambda>_. Q) \<Longrightarrow> succeeds P (done_with m) (\<lambda>_. Q)"
  unfolding done_with_def by (rule succeeds_andThen) (auto intro: succeeds_ret)

text \<open>The read and the write of one field of the attempt.\<close>

lemma set_field_succeeds:
  "succeeds (stands i d)
     (andThen (onAttempts (at_findOne (en_attempts E) i)) (\<lambda>a.
      andThen (onAttempts (saveR (en_attempts E) (upd f a))) (\<lambda>_. ret ())))
     (\<lambda>_. stands i (f d))"
proof (rule succeeds_andThen [OF find_stands], rule succeeds_pure, rule succeeds_pure, rule succeeds_andThen)
  fix a :: "attempt row"
  assume "rid a = i" "rdata a = d"
  with succeeds_onAttempts [OF save_succeeds [of a f]]
  show "succeeds (\<lambda>s. stands i d s \<and> a \<in> rows (en_attempts E) (st_attempts s))
     (onAttempts (saveR (en_attempts E) (upd f a))) (\<lambda>_. stands i (f d))"
    by (auto intro: succeeds_weaken)
qed (auto intro: succeeds_ret)

lemma verify_succeeds:
  assumes "c \<in> rows (en_otps E) ot" and "en_hash E otp = oc_otpHash (rdata c)"
    and "\<not> otp_locked now (rdata c)" and "now \<le> oc_expiresAt (rdata c)"
    and "at_currentStep d = step_name INIT"
  shows "succeeds (\<lambda>s. st_otps s = ot \<and> stands i d s) (verifyOtp E now i (rid c) otp)
     (\<lambda>_. stands i (d\<lparr>at_currentStep := step_name OTP_VERIFIED\<rparr>))"
  unfolding verifyOtp_def requireStep_def
proof (rule succeeds_andThen [where Q = "\<lambda>a s. at_currentStep (rdata a) = step_name INIT \<and> st_otps s = ot \<and> stands i d s"])
  show "succeeds (\<lambda>s. st_otps s = ot \<and> stands i d s) (onAttempts (at_findOne (en_attempts E) i))
     (\<lambda>a s. at_currentStep (rdata a) = step_name INIT \<and> st_otps s = ot \<and> stands i d s)"
  proof (unfold succeeds_def, intro allI impI, elim conjE)
    fix s
    assume s: "st_otps s = ot" "stands i d s"
    with succeedsD [OF find_stands s(2)] assms(5)
    show "\<exists>a t. onAttempts (at_findOne (en_attempts E) i) s = (Inr a, t)
        \<and> at_currentStep (rdata a) = step_name INIT \<and> st_otps t = ot \<and> stands i d t"
      by (auto simp: onAttempts_def zoom_def split: prod.splits)
  qed
next
  fix a :: "attempt row"
  obtain u where u: "softDeleteR (en_otps E) (rid c) ot = (Inr (), u)"
    using otps.softDelete_total by blast
  have "succeeds (\<lambda>s. st_otps s = ot \<and> stands i d s)
      (onOtps (otp_verify (en_otps E) (en_otp E) (en_hash E) now (rid c) otp)) (\<lambda>_. stands i d)"
    unfolding succeeds_def using assms u
    by (auto simp: onOtps_def zoom_def otp_verify_def otps.findOne_byId isExpired_def)
  then show "succeeds (\<lambda>s. at_currentStep (rdata a) = step_name INIT \<and> st_otps s = ot \<and> stands i d s)
     (andThen (guardA (at_currentStep (rdata a) = step_name INIT)
        (BadRequestException (Msg (''Registration attempt '' @ rid a @ '' is at '' @ at_currentStep (rdata a)
          @ '', expected '' @ step_name INIT)))) (\<lambda>_.
      andThen (onOtps (otp_verify (en_otps E) (en_otp E) (en_hash E) now (rid c) otp)) (\<lambda>_.
      onAttempts (advance (en_attempts E) i OTP_VERIFIED))))
     (\<lambda>_. stands i (d\<lparr>at_currentStep := step_name OTP_VERIFIED\<rparr>))"
    using assms(5)
    by (intro succeeds_pure) (auto intro!: succeeds_andThen [OF succeeds_guardA] succeeds_andThen [OF _ advance_stands])
qed

lemma credentials_succeeds:
  assumes "at_currentStep d = step_name OTP_VERIFIED"
  shows "succeeds (stands i d) (createCredentials E i pw)
     (\<lambda>_. stands i (d\<lparr>at_currentStep := step_name KEYCLOAK_USER_CREATED, at_keycloakUserId := Some uid\<rparr>))"
proof -
  let ?d1 = "d\<lparr>at_currentStep := step_name CREDENTIALS_SET\<rparr>"
  let ?d2 = "?d1\<lparr>at_keycloakUserId := Some uid\<rparr>"
  have p: "succeeds (stands i ?d1) (provision E i pw d) (\<lambda>_. stands i ?d2)"
    unfolding provision_def
  proof (rule succeeds_andThen)
    show "succeeds (stands i ?d1) (onWorld (createUser (en_http E) (en_kc E) (customer_user d pw)))
        (\<lambda>x s. x = uid \<and> stands i ?d1 s)"
      by (rule succeeds_onWorld) (use create_user in blast)
    fix x
    show "succeeds (\<lambda>s. x = uid \<and> stands i ?d1 s)
       (andThen (onWorld (assignRealmRoleToUser (en_http E) (en_kc E) x ''RETAIL_CUSTOMER'')) (\<lambda>_.
        andThen (onAttempts (at_findOne (en_attempts E) i)) (\<lambda>updated.
        andThen (onAttempts (saveR (en_attempts E) (upd (\<lambda>d. d\<lparr>at_keycloakUserId := Some x\<rparr>) updated)))
        (\<lambda>_. ret ())))) (\<lambda>_. stands i ?d2)"
    proof (rule succeeds_pure)
      assume x: "x = uid"
      have a: "succeeds (stands i ?d1)
          (onWorld (assignRealmRoleToUser (en_http E) (en_kc E) x ''RETAIL_CUSTOMER'')) (\<lambda>_. stands i ?d1)"
        by (rule succeeds_weaken [OF succeeds_onWorld [where Q = "\<lambda>_. True"]]) (use assign_role x in auto)
      show "succeeds (stands i ?d1)
         (andThen (onWorld (assignRealmRoleToUser (en_http E) (en_kc E) x ''RETAIL_CUSTOMER'')) (\<lambda>_.
          andThen (onAttempts (at_findOne (en_attempts E) i)) (\<lambda>updated.
          andThen (onAttempts (saveR (en_attempts E) (upd (\<lambda>d. d\<lparr>at_keycloakUserId := Some x\<rparr>) updated)))
          (\<lambda>_. ret ())))) (\<lambda>_. stands i ?d2)"
        unfolding x by (rule succeeds_andThen [OF a [unfolded x] set_field_succeeds])
    qed
  qed
  have adv: "succeeds (stands i d) (andThen (onAttempts (advance (en_attempts E) i CREDENTIALS_SET)) (\<lambda>_. ret ()))
      (\<lambda>_. stands i ?d1)"
    by (rule succeeds_andThen [OF advance_stands]) (auto simp: assms intro: succeeds_ret)
  have fin: "succeeds (stands i ?d2) (onAttempts (advance (en_attempts E) i KEYCLOAK_USER_CREATED))
      (\<lambda>_. stands i (?d2\<lparr>at_currentStep := step_name KEYCLOAK_USER_CREATED\<rparr>))"
    by (rule advance_stands) simp
  have "?d2\<lparr>at_currentStep := step_name KEYCLOAK_USER_CREATED\<rparr>
      = d\<lparr>at_currentStep := step_name KEYCLOAK_USER_CREATED, at_keycloakUserId := Some uid\<rparr>" by simp
  with fin have fin': "succeeds (stands i ?d2) (onAttempts (advance (en_attempts E) i KEYCLOAK_USER_CREATED))
      (\<lambda>_. stands i (d\<lparr>at_currentStep := step_name KEYCLOAK_USER_CREATED, at_keycloakUserId := Some uid\<rparr>))"
    by simp
  have find: "succeeds (stands i d) (onAttempts (at_findOne (en_attempts E) i))
      (\<lambda>a s. rdata a = d \<and> stands i d s)"
    by (rule succeeds_weaken [OF find_stands]) auto
  show ?thesis
    unfolding createCredentials_def
  proof (rule succeeds_andThen [OF find], rule succeeds_pure)
    fix a :: "attempt row"
    assume a: "rdata a = d"
    show "succeeds (stands i d)
       (andThen (guardA (at_currentStep (rdata a) = step_name OTP_VERIFIED
                \<or> at_currentStep (rdata a) = step_name CREDENTIALS_SET)
          (BadRequestException (Msg (''Registration attempt '' @ i @ '' is at ''
            @ at_currentStep (rdata a)
            @ '', expected OTP_VERIFIED, or CREDENTIALS_SET to retry a previously failed attempt'')))) (\<lambda>_.
        andThen (if at_currentStep (rdata a) = step_name OTP_VERIFIED
              then andThen (onAttempts (advance (en_attempts E) i CREDENTIALS_SET)) (\<lambda>_. ret ())
              else ret ()) (\<lambda>_.
        andThen (compensated E i CREDENTIALS_SET (provision E i pw (rdata a))) (\<lambda>_.
        onAttempts (advance (en_attempts E) i KEYCLOAK_USER_CREATED)))))
       (\<lambda>_. stands i (d\<lparr>at_currentStep := step_name KEYCLOAK_USER_CREATED, at_keycloakUserId := Some uid\<rparr>))"
      using a assms succeeds_andThen [OF adv succeeds_andThen [OF succeeds_catch [OF p] fin']]
      by (auto simp: compensated_def guardA_def)
  qed
qed

lemma link_succeeds:
  "succeeds (stands i d) (link_device E i dto) (\<lambda>_ s. \<exists>dev. stands i (d\<lparr>at_deviceProfileId := Some dev\<rparr>) s)"
  unfolding link_device_def
proof (rule succeeds_andThen)
  show "succeeds (stands i d) (onDevices (dp_create (en_devices E) dto)) (\<lambda>_. stands i d)"
    by (rule succeeds_weaken [OF succeeds_onDevices [where Q = "\<lambda>_. True"]])
      (use devices.insert_total in \<open>auto simp: dp_create_def\<close>)
  fix dev :: "device_profile row"
  show "succeeds (stands i d)
     (andThen (onAttempts (at_findOne (en_attempts E) i)) (\<lambda>updated.
      andThen (onAttempts (saveR (en_attempts E) (upd (\<lambda>d. d\<lparr>at_deviceProfileId := Some (rid dev)\<rparr>) updated)))
      (\<lambda>_. ret ()))) (\<lambda>_ s. \<exists>dev. stands i (d\<lparr>at_deviceProfileId := Some dev\<rparr>) s)"
    by (rule succeeds_weaken [OF set_field_succeeds]) auto
qed

lemma device_succeeds:
  assumes "at_currentStep d = step_name KEYCLOAK_USER_CREATED" and "at_keycloakUserId d = Some u" "u \<noteq> []"
  shows "succeeds (stands i d) (registerDevice E i dev mo)
     (\<lambda>_ s. \<exists>p. stands i (d\<lparr>at_currentStep := step_name DEVICE_REGISTERED, at_deviceProfileId := Some p\<rparr>) s)"
proof -
  have find: "succeeds (stands i d) (onAttempts (at_findOne (en_attempts E) i))
      (\<lambda>a s. rdata a = d \<and> stands i d s)"
    by (rule succeeds_weaken [OF find_stands]) auto
  have fin: "succeeds (\<lambda>s. \<exists>p. stands i (d\<lparr>at_deviceProfileId := Some p\<rparr>) s)
      (onAttempts (advance (en_attempts E) i DEVICE_REGISTERED))
      (\<lambda>_ s. \<exists>p. stands i (d\<lparr>at_currentStep := step_name DEVICE_REGISTERED, at_deviceProfileId := Some p\<rparr>) s)"
    unfolding succeeds_def
  proof (intro allI impI, elim exE)
    fix s p
    assume s: "stands i (d\<lparr>at_deviceProfileId := Some p\<rparr>) s"
    have n: "step_index (step_name DEVICE_REGISTERED)
        = step_index (at_currentStep (d\<lparr>at_deviceProfileId := Some p\<rparr>)) + 1" using assms(1) by simp
    from succeedsD [OF advance_stands [OF n] s]
    show "\<exists>x t. onAttempts (advance (en_attempts E) i DEVICE_REGISTERED) s = (Inr x, t)
        \<and> (\<exists>p. stands i (d\<lparr>at_currentStep := step_name DEVICE_REGISTERED, at_deviceProfileId := Some p\<rparr>) t)"
      by auto
  qed
  show ?thesis
    unfolding registerDevice_def requireStep_def
  proof (rule succeeds_andThen [OF find], rule succeeds_pure)
    fix a :: "attempt row"
    assume "rdata a = d"
    then show "succeeds (stands i d)
       (andThen (guardA (at_currentStep (rdata a) = step_name KEYCLOAK_USER_CREATED)
          (BadRequestException (Msg (''Registration attempt '' @ rid a @ '' is at '' @ at_currentStep (rdata a)
            @ '', expected '' @ step_name KEYCLOAK_USER_CREATED)))) (\<lambda>_.
        andThen (guardA (truthy (at_keycloakUserId (rdata a)))
          (BadRequestException (Msg (''Attempt '' @ i @ '' has no Keycloak user to link a device to'')))) (\<lambda>_.
        andThen (compensated E i DEVICE_REGISTERED (link_device E i
          \<lparr>rd_userId = orElse (at_keycloakUserId (rdata a)) [], rd_deviceId = dev, rd_deviceModel = mo\<rparr>)) (\<lambda>_.
        onAttempts (advance (en_attempts E) i DEVICE_REGISTERED)))))
       (\<lambda>_ s. \<exists>p. stands i (d\<lparr>at_currentStep := step_name DEVICE_REGISTERED, at_deviceProfileId := Some p\<rparr>) s)"
      using assms succeeds_andThen [OF succeeds_catch [OF link_succeeds] fin]
      by (auto simp: compensated_def guardA_def)
  qed
qed

lemma complete_succeeds:
  assumes "at_currentStep d = step_name DEVICE_REGISTERED"
  shows "succeeds (stands i d) (onAttempts (complete (en_attempts E) i))
     (\<lambda>_. stands i (d\<lparr>at_currentStep := step_name COMPLETED\<rparr>))"
proof -
  have fin: "succeeds (at_row (en_attempts E) i d) (advance (en_attempts E) i COMPLETED)
      (\<lambda>_. at_row (en_attempts E) i (d\<lparr>at_currentStep := step_name COMPLETED\<rparr>))"
    by (rule advance_succeeds) (simp add: assms)
  have find: "succeeds (at_row (en_attempts E) i d) (at_findOne (en_attempts E) i)
      (\<lambda>a t. rdata a = d \<and> at_row (en_attempts E) i d t)"
    by (rule succeeds_weaken [OF find_succeeds]) (auto simp: at_row_def)
  have "succeeds (at_row (en_attempts E) i d) (complete (en_attempts E) i)
     (\<lambda>_. at_row (en_attempts E) i (d\<lparr>at_currentStep := step_name COMPLETED\<rparr>))"
    unfolding complete_def requireStep_def
  proof (rule succeeds_andThen [OF find], rule succeeds_pure)
    fix a :: "attempt row"
    assume "rdata a = d"
    then show "succeeds (at_row (en_attempts E) i d)
       (andThen (guardA (at_currentStep (rdata a) = step_name DEVICE_REGISTERED)
          (BadRequestException (Msg (''Registration attempt '' @ rid a @ '' is at '' @ at_currentStep (rdata a)
            @ '', expected '' @ step_name DEVICE_REGISTERED)))) (\<lambda>_.
        andThen (advance (en_attempts E) i COMPLETED) (\<lambda>_. ret (i, at_keycloakUserId (rdata a), COMPLETED))))
       (\<lambda>_. at_row (en_attempts E) i (d\<lparr>at_currentStep := step_name COMPLETED\<rparr>))"
      using assms succeeds_andThen [OF fin succeeds_ret] by (auto simp: guardA_def)
  qed
  from succeeds_onAttempts [OF this] show ?thesis .
qed

text \<open>From \<open>INIT\<close> to \<open>COMPLETED\<close>.\<close>

lemma saga_completes:
  assumes "a \<in> rows (en_attempts E) (st_attempts s)" and "at_currentStep (rdata a) = step_name INIT"
    and "c \<in> rows (en_otps E) (st_otps s)" and "en_hash E otp = oc_otpHash (rdata c)"
    and "\<not> otp_locked now (rdata c)" and "now \<le> oc_expiresAt (rdata c)"
  shows "\<exists>t p. forA [Verify_otp now (rid a) (rid c) otp, Create_credentials (rid a) pw,
       Register_device (rid a) dev mo, Complete_attempt (rid a)] (reg_run E) s = (Inr [(), (), (), ()], t)
     \<and> stands (rid a) ((rdata a)\<lparr>at_currentStep := step_name COMPLETED, at_keycloakUserId := Some uid,
         at_deviceProfileId := Some p\<rparr>) t"
proof -
  let ?i = "rid a" and ?d = "rdata a"
  have 1: "succeeds (\<lambda>x. st_otps x = st_otps s \<and> stands ?i ?d x) (reg_run E (Verify_otp now ?i (rid c) otp))
     (\<lambda>_. stands ?i (?d\<lparr>at_currentStep := step_name OTP_VERIFIED\<rparr>))"
    using done_with_succeeds [OF verify_succeeds [OF assms(3-6) assms(2)]] by simp
  have 2: "succeeds (stands ?i (?d\<lparr>at_currentStep := step_name OTP_VERIFIED\<rparr>)) (reg_run E (Create_credentials ?i pw))
     (\<lambda>_. stands ?i (?d\<lparr>at_currentStep := step_name KEYCLOAK_USER_CREATED, at_keycloakUserId := Some uid\<rparr>))"
    using done_with_succeeds [OF credentials_succeeds [of "?d\<lparr>at_currentStep := step_name OTP_VERIFIED\<rparr>"]] by simp
  have 3: "succeeds (stands ?i (?d\<lparr>at_currentStep := step_name KEYCLOAK_USER_CREATED, at_keycloakUserId := Some uid\<rparr>))
     (reg_run E (Register_device ?i dev mo))
     (\<lambda>_ s. \<exists>p. stands ?i (?d\<lparr>at_currentStep := step_name DEVICE_REGISTERED, at_keycloakUserId := Some uid,
        at_deviceProfileId := Some p\<rparr>) s)"
    using done_with_succeeds [OF device_succeeds
      [of "?d\<lparr>at_currentStep := step_name KEYCLOAK_USER_CREATED, at_keycloakUserId := Some uid\<rparr>" uid]] user_id by simp
  have 4: "succeeds (\<lambda>s. \<exists>p. stands ?i (?d\<lparr>at_currentStep := step_name DEVICE_REGISTERED, at_keycloakUserId := Some uid,
        at_deviceProfileId := Some p\<rparr>) s) (reg_run E (Complete_attempt ?i))
     (\<lambda>_ s. \<exists>p. stands ?i (?d\<lparr>at_currentStep := step_name COMPLETED, at_keycloakUserId := Some uid,
        at_deviceProfileId := Some p\<rparr>) s)"
    unfolding succeeds_def
  proof (intro allI impI, elim exE)
    fix x p
    assume x: "stands ?i (?d\<lparr>at_currentStep := step_name DEVICE_REGISTERED, at_keycloakUserId := Some uid,
        at_deviceProfileId := Some p\<rparr>) x"
    from succeedsD [OF done_with_succeeds [OF complete_succeeds] x]
    show "\<exists>y t. reg_run E (Complete_attempt ?i) x = (Inr y, t)
       \<and> (\<exists>p. stands ?i (?d\<lparr>at_currentStep := step_name COMPLETED, at_keycloakUserId := Some uid,
            at_deviceProfileId := Some p\<rparr>) t)" by auto
  qed
  have "succeeds (\<lambda>x. st_otps x = st_otps s \<and> stands ?i ?d x)
     (forA [Verify_otp now ?i (rid c) otp, Create_credentials ?i pw, Register_device ?i dev mo, Complete_attempt ?i]
        (reg_run E))
     (\<lambda>_ s. \<exists>p. stands ?i (?d\<lparr>at_currentStep := step_name COMPLETED, at_keycloakUserId := Some uid,
        at_deviceProfileId := Some p\<rparr>) s)"
    by (rule succeeds_forA_Cons, rule 1, rule succeeds_forA_Cons, rule 2, rule succeeds_forA_Cons, rule 3,
        rule succeeds_forA_Cons, rule 4) (auto intro: succeeds_ret)
  moreover have "st_otps s = st_otps s \<and> stands ?i ?d s" using assms(1) by (auto simp: at_row_def)
  ultimately obtain us t p where r: "forA [Verify_otp now ?i (rid c) otp, Create_credentials ?i pw,
        Register_device ?i dev mo, Complete_attempt ?i] (reg_run E) s = (Inr us, t)"
      and t: "stands ?i (?d\<lparr>at_currentStep := step_name COMPLETED, at_keycloakUserId := Some uid,
        at_deviceProfileId := Some p\<rparr>) t"
    unfolding succeeds_def by blast
  have "length us = length [Verify_otp now ?i (rid c) otp, Create_credentials ?i pw,
        Register_device ?i dev mo, Complete_attempt ?i]"
    by (rule forA_length [OF r])
  then have "us = [(), (), (), ()]" by (auto simp: length_Suc_conv numeral_eq_Suc)
  with r t show ?thesis by blast
qed

end

interpretation mem_live_saga: live_saga "mem_reg_env (sim_http us) kc cfg hash" "''u1''"
  unfolding live_saga_def live_saga_axioms_def mem_reg_env_simps
  by (intro conjI allI mem_reliable_attempts.reliable_attempts_axioms mem_reliable.reliable_repository_axioms
      sim_createUser sim_assign) simp

subsection \<open>Failures and the guards of the steps\<close>

lemma onAttempts_step:
  "onAttempts m s = (r, t) \<longleftrightarrow> (\<exists>u. m (st_attempts s) = (r, u) \<and> t = s\<lparr>st_attempts := u\<rparr>)"
  by (auto simp: onAttempts_def zoom_eq)

lemma onOtps_step:
  "onOtps m s = (r, t) \<longleftrightarrow> (\<exists>u. m (st_otps s) = (r, u) \<and> t = s\<lparr>st_otps := u\<rparr>)"
  by (auto simp: onOtps_def zoom_eq)

context saga begin

lemma verifyOtp_Inr:
  assumes o: "otp_repository (en_otps E)" and v: "verifyOtp E now i ch otp s = (Inr x, t)"
  shows "(\<exists>a \<in> rows (en_attempts E) (st_attempts s). rid a = i \<and> at_currentStep (rdata a) = step_name INIT)
    \<and> (\<exists>c \<in> rows (en_otps E) (st_otps s). rid c = ch \<and> en_hash E otp = oc_otpHash (rdata c)
         \<and> \<not> otp_locked now (rdata c) \<and> now \<le> oc_expiresAt (rdata c))
    \<and> ch \<notin> rid ` rows (en_otps E) (st_otps t)
    \<and> rid x = i \<and> at_currentStep (rdata x) = step_name OTP_VERIFIED \<and> x \<in> rows (en_attempts E) (st_attempts t)"
proof -
  from v obtain a m u u2 where a: "at_findOne (en_attempts E) i (st_attempts s) = (Inr a, st_attempts s)"
      and init: "at_currentStep (rdata a) = step_name INIT"
      and m: "otp_verify (en_otps E) (en_otp E) (en_hash E) now ch otp (st_otps s) = (Inr m, u)"
      and adv: "advance (en_attempts E) i OTP_VERIFIED (st_attempts s) = (Inr x, u2)"
      and t: "st_otps t = u" "st_attempts t = u2"
    by (auto simp: verifyOtp_def requireStep_def act_simps onAttempts_step onOtps_step at_findOne_def
        split: option.splits)
  have 1: "a \<in> rows (en_attempts E) (st_attempts s)" "rid a = i"
    using a by (auto simp: at_findOne_def findOne_byId_iff split: option.splits)
  have 2: "x \<in> rows (en_attempts E) u2 \<and> rid x = i \<and> at_currentStep (rdata x) = step_name OTP_VERIFIED"
  proof -
    from adv a have s: "saveR (en_attempts E) (upd (\<lambda>d. d\<lparr>at_currentStep := step_name OTP_VERIFIED\<rparr>) a) (st_attempts s) = (Inr x, u2)"
      by (auto simp: advance_def act_simps split: if_splits)
    from save_ok [OF s] 1 show ?thesis by auto
  qed
  from otp_repository.verify_success [OF o m] 1 2 init t show ?thesis by fastforce
qed

end

context reliable_attempts begin

lemma advance_total:
  assumes "at_row R i d u" and "step_index (step_name st) = step_index (at_currentStep d) + 1"
  obtains x v where "advance R i st u = (Inr x, v)" "at_row R i (d\<lparr>at_currentStep := step_name st\<rparr>) v"
  using succeedsD [OF advance_succeeds [OF assms(2)] assms(1)] by blast

end



subsection \<open>Properties\<close>

text \<open>A run of requests is reachable.\<close>

lemma reg_runs_reachable: "reg_reachable E s \<Longrightarrow> reg_reachable E (snd (forA qs (reg_run E) s))"
proof (induction qs arbitrary: s)
  case Nil
  then show ?case by simp
next
  case (Cons q qs)
  obtain r t where q: "reg_run E q s = (r, t)" by fastforce
  then have t: "reg_reachable E t" using Cons.prems reg_reachable.step reg_step.request by metis
  show ?case
  proof (cases r)
    case (Inl e)
    with q t show ?thesis by simp
  next
    case (Inr x)
    obtain r2 u where u: "forA qs (reg_run E) t = (r2, u)" by fastforce
    with Cons.IH [OF t] have "reg_reachable E u" by simp
    with q u Inr show ?thesis by (cases r2) simp_all
  qed
qed

text \<open>The examples: one challenge is waiting, and a customer registers.\<close>

definition sim_env where
  "sim_env = mem_reg_env (sim_http []) sim_config otp_defaults (\<lambda>s. s)"

definition sim_start :: "(attempt mem, otp_challenge mem, device_profile mem, credential mem, http_req list) reg_state" where
  "sim_start = \<lparr>st_attempts = mem_empty, st_otps = snd (mem_insert no_conf
       \<lparr>oc_mobileNumber = ''9876543210'', oc_otpHash = ''123456'', oc_attemptCount = 0,
        oc_lockedUntil = None, oc_expiresAt = 300000\<rparr> mem_empty),
     st_devices = mem_empty, st_creds = mem_empty, st_world = []\<rparr>"

definition sim_requests :: "reg_request list" where
  "sim_requests = [Create_attempt ''9876543210'' ''ABCDE1234F'',
     Verify_otp 1000 (row_id 0) (row_id 0) ''123456'', Create_credentials (row_id 0) ''Secret@1'',
     Register_device (row_id 0) ''dev'' None, Complete_attempt (row_id 0)]"

definition sim_after :: "nat \<Rightarrow> (attempt mem, otp_challenge mem, device_profile mem, credential mem, http_req list) reg_state" where
  "sim_after n = snd (forA (take n sim_requests) (reg_run sim_env) sim_start)"

lemma sim_reachable: "reg_reachable sim_env (sim_after n)"
  unfolding sim_after_def
  by (rule reg_runs_reachable, rule reg_reachable.start)
    (simp add: sim_env_def sim_start_def mem_rows live_def mem_empty_def)

lemma sim_rows: "rows (en_attempts sim_env) t = set (live t)"
  by (simp add: sim_env_def mem_rows)

text \<open>
  C1: in every reachable state of the registration saga, whatever the requests and
  whichever of them failed, an attempt that is past the provisioning step has its Keycloak
  user and one that is past the device step also its device.
\<close>

theorem registration_reachable_ok:
  assumes "repository (en_attempts E)" and "reg_reachable E s"
    and "a \<in> rows (en_attempts E) (st_attempts s)"
  shows "attempt_ok (rdata a)"
  using saga.reachable_ok [OF saga.intro [OF attempt_repository.intro [OF assms(1)]] assms(2,3)] .

theorem registration_reachable_ok_witness:
  "live (st_attempts (sim_after 5)) \<noteq> [] \<and> at_currentStep (rdata (hd (live (st_attempts (sim_after 5))))) = ''COMPLETED''
   \<and> attempt_ok (rdata (hd (live (st_attempts (sim_after 5)))))"
proof -
  have 1: "live (st_attempts (sim_after 5)) \<noteq> []" by code_simp
  have 2: "at_currentStep (rdata (hd (live (st_attempts (sim_after 5))))) = ''COMPLETED''" by code_simp
  have "repository (en_attempts sim_env)" by (simp add: sim_env_def mem.repository_axioms)
  from registration_reachable_ok [OF this sim_reachable, of "hd (live (st_attempts (sim_after 5)))" 5] 1 2
  show ?thesis by (simp add: sim_rows)
qed

text \<open>
  C8: no request of the saga, whether it returns or throws, takes an attempt a step back
  or changes whose attempt it is.
\<close>

theorem registration_never_backwards:
  assumes "repository (en_attempts E)" and "reg_run E q s = (r, t)"
    and "\<forall>x \<in> rows (en_attempts E) (st_attempts s). attempt_ok (rdata x)"
    and "x \<in> rows (en_attempts E) (st_attempts s)" and "y \<in> rows (en_attempts E) (st_attempts t)"
    and "rid x = rid y"
  shows "at_mobileNumber (rdata y) = at_mobileNumber (rdata x) \<and> at_panOrCif (rdata y) = at_panOrCif (rdata x)
     \<and> step_index (at_currentStep (rdata x)) \<le> step_index (at_currentStep (rdata y))"
  using saga.reg_run_ok(2) [OF saga.intro [OF attempt_repository.intro [OF assms(1)]] assms(2,3,5,4,6)]
  by (simp add: attempt_moves_def)

theorem registration_never_backwards_witness:
  "step_index (at_currentStep (rdata (hd (live (st_attempts (sim_after 1))))))
   \<le> step_index (at_currentStep (rdata (hd (live (st_attempts (sim_after 2))))))
   \<and> at_currentStep (rdata (hd (live (st_attempts (sim_after 1))))) = ''INIT''"
proof -
  let ?q = "Verify_otp 1000 (row_id 0) (row_id 0) ''123456''"
  let ?x = "hd (live (st_attempts (sim_after 1)))" and ?y = "hd (live (st_attempts (sim_after 2)))"
  have 1: "live (st_attempts (sim_after 1)) = [?x]" "at_currentStep (rdata ?x) = ''INIT''" by code_simp+
  have 2: "live (st_attempts (sim_after 2)) = [?y]" "rid ?x = rid ?y" by code_simp+
  have 3: "reg_run sim_env ?q (sim_after 1) = (Inr (), sim_after 2)"
    by code_simp
  have R: "repository (en_attempts sim_env)" by (simp add: sim_env_def mem.repository_axioms)
  have m1: "?x \<in> rows (en_attempts sim_env) (st_attempts (sim_after 1))"
    and m2: "?y \<in> rows (en_attempts sim_env) (st_attempts (sim_after 2))"
    using 1 2 by (metis list.set_intros(1) sim_rows)+
  have a: "\<forall>x \<in> rows (en_attempts sim_env) (st_attempts (sim_after 1)). attempt_ok (rdata x)"
  proof
    fix x
    assume "x \<in> rows (en_attempts sim_env) (st_attempts (sim_after 1))"
    then have "x = ?x" using 1 by (metis empty_iff empty_set set_ConsD sim_rows)
    moreover have "attempt_ok (rdata ?x)" by code_simp
    ultimately show "attempt_ok (rdata x)" by simp
  qed
  from registration_never_backwards [OF R 3 a m1 m2] 1 2 show ?thesis by simp
qed



text \<open>
  C7: over tables whose writes succeed and a Keycloak that creates the user, the four
  requests with a valid code complete a new attempt: it ends at \<open>COMPLETED\<close> with the
  Keycloak user and a device, and keeps its identity.
\<close>

theorem registration_completes:
  assumes "reliable_repository (en_attempts E)" and "reliable_repository (en_devices E)"
    and "reliable_repository (en_otps E)" and "uid \<noteq> []"
    and "\<And>p w. \<exists>w'. createUser (en_http E) (en_kc E) p w = (Inr uid, w')"
    and "\<And>w. \<exists>w'. assignRealmRoleToUser (en_http E) (en_kc E) uid ''RETAIL_CUSTOMER'' w = (Inr (), w')"
    and "a \<in> rows (en_attempts E) (st_attempts s)" and "at_currentStep (rdata a) = step_name INIT"
    and "c \<in> rows (en_otps E) (st_otps s)" and "en_hash E otp = oc_otpHash (rdata c)"
    and "\<not> otp_locked now (rdata c)" and "now \<le> oc_expiresAt (rdata c)"
  shows "\<exists>t p. forA [Verify_otp now (rid a) (rid c) otp, Create_credentials (rid a) pw,
       Register_device (rid a) dev mo, Complete_attempt (rid a)] (reg_run E) s = (Inr [(), (), (), ()], t)
     \<and> at_row (en_attempts E) (rid a) ((rdata a)\<lparr>at_currentStep := step_name COMPLETED,
         at_keycloakUserId := Some uid, at_deviceProfileId := Some p\<rparr>) (st_attempts t)"
proof -
  have "live_saga E uid"
    unfolding live_saga_def live_saga_axioms_def
    by (intro conjI allI reliable_attempts.intro attempt_repository.intro
        reliable_repository.axioms(1) [OF assms(1)] assms(1-6))
  from live_saga.saga_completes [OF this assms(7-12)] show ?thesis .
qed

theorem registration_completes_witness:
  "fst (forA [Verify_otp 1000 (row_id 0) (row_id 0) ''123456'', Create_credentials (row_id 0) ''Secret@1'',
       Register_device (row_id 0) ''dev'' None, Complete_attempt (row_id 0)] (reg_run sim_env) (sim_after 1))
     = Inr [(), (), (), ()]"
proof -
  let ?a = "hd (live (st_attempts (sim_after 1)))" and ?c = "hd (live (st_otps (sim_after 1)))"
  have a: "live (st_attempts (sim_after 1)) = [?a]" "at_currentStep (rdata ?a) = step_name INIT" "rid ?a = row_id 0"
    by code_simp+
  have c: "live (st_otps (sim_after 1)) = [?c]" "en_hash sim_env ''123456'' = oc_otpHash (rdata ?c)"
      "\<not> otp_locked 1000 (rdata ?c)" "1000 \<le> oc_expiresAt (rdata ?c)" "rid ?c = row_id 0"
    by code_simp+
  have m: "?a \<in> rows (en_attempts sim_env) (st_attempts (sim_after 1))"
    using a(1) by (metis list.set_intros(1) sim_rows)
  have "rows (en_otps sim_env) (st_otps (sim_after 1)) = set (live (st_otps (sim_after 1)))"
    by (simp add: sim_env_def mem_rows)
  with c(1) have n: "?c \<in> rows (en_otps sim_env) (st_otps (sim_after 1))"
    by (metis list.set_intros(1))
  have R: "reliable_repository (en_attempts sim_env)" "reliable_repository (en_devices sim_env)"
      "reliable_repository (en_otps sim_env)"
    by (simp_all add: sim_env_def mem_reliable.reliable_repository_axioms)
  have k: "\<exists>w'. createUser (en_http sim_env) (en_kc sim_env) p w = (Inr ''u1'', w')"
      "\<exists>w'. assignRealmRoleToUser (en_http sim_env) (en_kc sim_env) ''u1'' ''RETAIL_CUSTOMER'' w = (Inr (), w')" for p w
    by (simp_all add: sim_env_def sim_createUser sim_assign)
  from registration_completes [OF R _ k m a(2) n c(2-4), of "''Secret@1''" "''dev''" None]
  obtain t where "forA [Verify_otp 1000 (row_id 0) (row_id 0) ''123456'', Create_credentials (row_id 0) ''Secret@1'',
       Register_device (row_id 0) ''dev'' None, Complete_attempt (row_id 0)] (reg_run sim_env) (sim_after 1)
     = (Inr [(), (), (), ()], t)" unfolding a(3) c(5) by blast
  then show ?thesis by (simp only: fst_conv)
qed




end
