(* ===== verification/Rbac_Services.thy ===== *)
theory Rbac_Services
  imports Rbac_Constants Keycloak Repository Mem_Table
begin

text \<open>
  \<open>modules/rbac/services\<close> and the entities of \<open>modules/rbac/entities\<close>: roles and their
  delegations, permissions, employees and the query of access details. The state holds
  the six tables, the events published so far and the outside world of the Keycloak calls.
\<close>

subsection \<open>Entities\<close>

record role =
  ro_name :: string
  ro_displayName :: string
  ro_description :: "string option"
  ro_keycloakRoleId :: "string option"
  ro_keycloakRoleName :: "string option"
  ro_dutyType :: roleDutyType
  ro_isActive :: bool

record permission =
  pe_code :: string
  pe_name :: string
  pe_description :: "string option"
  pe_module :: string
  pe_action :: string
  pe_isActive :: bool

record role_permission =
  rp_roleId :: string
  rp_permissionId :: string
  rp_mappedBy :: "string option"

record delegated_role =
  dr_delegate :: string
  dr_roleId :: string
  dr_grantedBy :: "string option"

record employee =
  em_keycloakUserId :: string
  em_username :: string
  em_email :: string
  em_firstName :: string
  em_lastName :: string
  em_employeeCode :: "string option"
  em_createdBy :: "string option"
  em_isActive :: bool

text \<open>\<open>assignedAt\<close> is the creation time of the row.\<close>

record employee_role =
  er_employeeId :: string
  er_roleId :: string
  er_assignedBy :: "string option"

text \<open>The unique indexes of the entities.\<close>

definition same_role_name :: "role \<Rightarrow> role \<Rightarrow> bool" where
  "same_role_name a b \<longleftrightarrow> ro_name a = ro_name b"

definition same_permission :: "permission \<Rightarrow> permission \<Rightarrow> bool" where
  "same_permission a b \<longleftrightarrow> pe_code a = pe_code b"

definition same_mapping :: "role_permission \<Rightarrow> role_permission \<Rightarrow> bool" where
  "same_mapping a b \<longleftrightarrow> rp_roleId a = rp_roleId b \<and> rp_permissionId a = rp_permissionId b"

definition same_delegation :: "delegated_role \<Rightarrow> delegated_role \<Rightarrow> bool" where
  "same_delegation a b \<longleftrightarrow> dr_delegate a = dr_delegate b \<and> dr_roleId a = dr_roleId b"

definition same_employee :: "employee \<Rightarrow> employee \<Rightarrow> bool" where
  "same_employee a b \<longleftrightarrow> em_keycloakUserId a = em_keycloakUserId b \<or> em_username a = em_username b"

definition same_assignment :: "employee_role \<Rightarrow> employee_role \<Rightarrow> bool" where
  "same_assignment a b \<longleftrightarrow> er_employeeId a = er_employeeId b \<and> er_roleId a = er_roleId b"

subsection \<open>State\<close>

record account_synced_event =
  ev_employeeId :: string
  ev_keycloakUserId :: string
  ev_username :: string
  ev_email :: string
  ev_firstName :: string
  ev_lastName :: string
  ev_roleId :: string
  ev_roleName :: string
  ev_isActive :: bool

record ('r, 'p, 'm, 'g, 'e, 'a, 'w) rbac_state =
  rb_roles :: 'r
  rb_permissions :: 'p
  rb_mappings :: 'm
  rb_delegations :: 'g
  rb_employees :: 'e
  rb_assignments :: 'a
  rb_events :: "account_synced_event list"
  rb_world :: 'w

record ('r, 'p, 'm, 'g, 'e, 'a, 'w) rbac_env =
  rbe_roles :: "('r, role) repo"
  rbe_permissions :: "('p, permission) repo"
  rbe_mappings :: "('m, role_permission) repo"
  rbe_delegations :: "('g, delegated_role) repo"
  rbe_employees :: "('e, employee) repo"
  rbe_assignments :: "('a, employee_role) repo"
  rbe_http :: "'w http"
  rbe_kc :: kc_config

definition onRoles :: "('r, 'x) act \<Rightarrow> (('r, 'p, 'm, 'g, 'e, 'a, 'w) rbac_state, 'x) act" where
  "onRoles = zoom rb_roles (\<lambda>x s. s\<lparr>rb_roles := x\<rparr>)"

definition onMappings :: "('m, 'x) act \<Rightarrow> (('r, 'p, 'm, 'g, 'e, 'a, 'w) rbac_state, 'x) act" where
  "onMappings = zoom rb_mappings (\<lambda>x s. s\<lparr>rb_mappings := x\<rparr>)"

definition onDelegations :: "('g, 'x) act \<Rightarrow> (('r, 'p, 'm, 'g, 'e, 'a, 'w) rbac_state, 'x) act" where
  "onDelegations = zoom rb_delegations (\<lambda>x s. s\<lparr>rb_delegations := x\<rparr>)"

definition onEmployees :: "('e, 'x) act \<Rightarrow> (('r, 'p, 'm, 'g, 'e, 'a, 'w) rbac_state, 'x) act" where
  "onEmployees = zoom rb_employees (\<lambda>x s. s\<lparr>rb_employees := x\<rparr>)"

definition onAssignments :: "('a, 'x) act \<Rightarrow> (('r, 'p, 'm, 'g, 'e, 'a, 'w) rbac_state, 'x) act" where
  "onAssignments = zoom rb_assignments (\<lambda>x s. s\<lparr>rb_assignments := x\<rparr>)"

definition onKeycloak :: "('w, 'x) act \<Rightarrow> (('r, 'p, 'm, 'g, 'e, 'a, 'w) rbac_state, 'x) act" where
  "onKeycloak = zoom rb_world (\<lambda>x s. s\<lparr>rb_world := x\<rparr>)"

definition publish :: "account_synced_event \<Rightarrow> (('r, 'p, 'm, 'g, 'e, 'a, 'w) rbac_state, unit) act" where
  "publish e s = (Inr (), s\<lparr>rb_events := rb_events s @ [e]\<rparr>)"

subsection \<open>permissions.service.ts\<close>

record permission_dto =
  pd_code :: string
  pd_name :: string
  pd_description :: "string option"
  pd_module :: string
  pd_action :: string

definition pe_create :: "('p, permission) repo \<Rightarrow> permission_dto \<Rightarrow> ('p, permission row) act" where
  "pe_create R dto t = (case findOneR R (\<lambda>e. pe_code (rdata e) = pd_code dto) t of
      Some _ \<Rightarrow> (Inl (ConflictException (Msg (''Permission '' @ pd_code dto @ '' already exists''))), t)
    | None \<Rightarrow> insertR R \<lparr>pe_code = pd_code dto, pe_name = pd_name dto, pe_description = pd_description dto,
        pe_module = pd_module dto, pe_action = pd_action dto, pe_isActive = True\<rparr> t)"

subsection \<open>roles.service.ts\<close>

record permission_view =
  pv_id :: string
  pv_code :: string
  pv_name :: string
  pv_module :: string
  pv_action :: string

record role_view =
  rv_id :: string
  rv_role :: role
  rv_permissions :: "permission_view list"
  rv_delegates :: "string list"
  rv_createdAt :: int
  rv_updatedAt :: int

definition view_permission :: "permission row \<Rightarrow> permission_view" where
  "view_permission p = \<lparr>pv_id = rid p, pv_code = pe_code (rdata p), pv_name = pe_name (rdata p),
     pv_module = pe_module (rdata p), pv_action = pe_action (rdata p)\<rparr>"

definition null_permission :: exn where
  "null_permission = Failure ''Cannot read properties of null (reading 'id')''"

text \<open>\<open>relations: ['permission']\<close>: the joined permission, \<open>null\<close> when it is deleted.\<close>

definition joined_permissions ::
  "('p, permission) repo \<Rightarrow> 'p \<Rightarrow> role_permission row list \<Rightarrow> permission_view list result" where
  "joined_permissions P p ms = fst (forA ms (\<lambda>m t. case findOneR P (byId (rp_permissionId (rdata m))) t of
      None \<Rightarrow> (Inl null_permission, t) | Some e \<Rightarrow> (Inr (view_permission e), t)) p)"

definition role_not_found :: exn where
  "role_not_found = NotFoundException (Msg ''Role not found'')"

definition findRoleWithPermissions ::
  "('r, 'p, 'm, 'g, 'e, 'a, 'w) rbac_env \<Rightarrow> string
   \<Rightarrow> (('r, 'p, 'm, 'g, 'e, 'a, 'w) rbac_state, role_view) act" where
  "findRoleWithPermissions E roleId s = (case findOneR (rbe_roles E) (byId roleId) (rb_roles s) of
      None \<Rightarrow> (Inl role_not_found, s)
    | Some role \<Rightarrow>
        (let mappings = findR (rbe_mappings E) (\<lambda>m. rp_roleId (rdata m) = roleId) (rb_mappings s);
             delegations = findR (rbe_delegations E) (\<lambda>d. dr_roleId (rdata d) = roleId) (rb_delegations s)
         in case joined_permissions (rbe_permissions E) (rb_permissions s) mappings of
              Inl e \<Rightarrow> (Inl e, s)
            | Inr ps \<Rightarrow> (Inr \<lparr>rv_id = rid role, rv_role = rdata role, rv_permissions = ps,
                rv_delegates = map (\<lambda>d. dr_delegate (rdata d)) delegations,
                rv_createdAt = createdAt role, rv_updatedAt = updatedAt role\<rparr>, s)))"

definition replaceDelegations ::
  "('g, delegated_role) repo \<Rightarrow> string \<Rightarrow> string list \<Rightarrow> string option \<Rightarrow> ('g, unit) act" where
  "replaceDelegations R roleId delegateIds grantedBy =
     andThen (deleteR R (\<lambda>d. dr_roleId (rdata d) = roleId)) (\<lambda>_.
     if delegateIds = [] then ret ()
     else andThen (insertAllR R (map (\<lambda>d. \<lparr>dr_delegate = d, dr_roleId = roleId, dr_grantedBy = grantedBy\<rparr>)
            delegateIds)) (\<lambda>_. ret ()))"

record role_dto =
  rl_name :: string
  rl_displayName :: string
  rl_description :: "string option"
  rl_delegates :: "string list option"

definition ro_create ::
  "('r, 'p, 'm, 'g, 'e, 'a, 'w) rbac_env \<Rightarrow> role_dto \<Rightarrow> string option
   \<Rightarrow> (('r, 'p, 'm, 'g, 'e, 'a, 'w) rbac_state, role_view) act" where
  "ro_create E dto actorId s =
     (if findOneR (rbe_roles E) (\<lambda>r. ro_name (rdata r) = rl_name dto) (rb_roles s) \<noteq> None
      then (Inl (ConflictException (Msg (''Role '' @ rl_name dto @ '' already exists''))), s)
      else andThen (onKeycloak (createRealmRole (rbe_http E) (rbe_kc E) (rl_name dto) (rl_description dto))) (\<lambda>kr.
           andThen (onRoles (insertR (rbe_roles E) \<lparr>ro_name = rl_name dto, ro_displayName = rl_displayName dto,
               ro_description = rl_description dto, ro_keycloakRoleId = kr_id kr,
               ro_keycloakRoleName = kr_name kr, ro_dutyType = resolveRoleDutyType (rl_name dto),
               ro_isActive = True\<rparr>)) (\<lambda>role.
           andThen (if orElse (rl_delegates dto) [] \<noteq> []
                    then onDelegations (replaceDelegations (rbe_delegations E) (rid role)
                           (orElse (rl_delegates dto) []) actorId)
                    else ret ()) (\<lambda>_.
           findRoleWithPermissions E (rid role)))) s)"

record role_update_dto =
  ru_roleId :: string
  ru_displayName :: "string option"
  ru_description :: "string option"
  ru_isActive :: "bool option"
  ru_delegates :: "string list option"

definition apply_role_update :: "role_update_dto \<Rightarrow> role \<Rightarrow> role" where
  "apply_role_update dto r =
     r\<lparr>ro_description := (case ru_description dto of None \<Rightarrow> ro_description r | Some d \<Rightarrow> Some d),
       ro_displayName := orElse (ru_displayName dto) (ro_displayName r),
       ro_isActive := orElse (ru_isActive dto) (ro_isActive r)\<rparr>"

definition ro_update ::
  "('r, 'p, 'm, 'g, 'e, 'a, 'w) rbac_env \<Rightarrow> role_update_dto \<Rightarrow> string option
   \<Rightarrow> (('r, 'p, 'm, 'g, 'e, 'a, 'w) rbac_state, role_view) act" where
  "ro_update E dto actorId s = (case findOneR (rbe_roles E) (byId (ru_roleId dto)) (rb_roles s) of
      None \<Rightarrow> (Inl role_not_found, s)
    | Some role \<Rightarrow>
        andThen (case ru_description dto of None \<Rightarrow> ret ()
           | Some d \<Rightarrow> onKeycloak (updateRealmRole (rbe_http E) (rbe_kc E)
                         (tmpl (ro_keycloakRoleName (rdata role))) (Some d))) (\<lambda>_.
        andThen (onRoles (saveR (rbe_roles E) (upd (apply_role_update dto) role))) (\<lambda>_.
        andThen (case ru_delegates dto of None \<Rightarrow> ret ()
           | Some ds \<Rightarrow> onDelegations (replaceDelegations (rbe_delegations E) (rid role) ds actorId)) (\<lambda>_.
        findRoleWithPermissions E (rid role)))) s)"

definition mapPermissions ::
  "('r, 'p, 'm, 'g, 'e, 'a, 'w) rbac_env \<Rightarrow> string \<Rightarrow> string list \<Rightarrow> string option
   \<Rightarrow> (('r, 'p, 'm, 'g, 'e, 'a, 'w) rbac_state, role_view) act" where
  "mapPermissions E roleId permissionIds actorId s =
     (case findOneR (rbe_roles E) (byId roleId) (rb_roles s) of
        None \<Rightarrow> (Inl role_not_found, s)
      | Some role \<Rightarrow>
          (let found = findR (rbe_permissions E) (\<lambda>p. rid p \<in> set permissionIds \<and> pe_isActive (rdata p))
                         (rb_permissions s)
           in if length found \<noteq> length permissionIds
              then (Inl (BadRequestException (Msg ''One or more permission IDs are invalid or inactive'')), s)
              else andThen (onMappings (deleteR (rbe_mappings E) (\<lambda>m. rp_roleId (rdata m) = rid role))) (\<lambda>_.
                   andThen (onMappings (insertAllR (rbe_mappings E)
                     (map (\<lambda>p. \<lparr>rp_roleId = rid role, rp_permissionId = p, rp_mappedBy = actorId\<rparr>)
                        permissionIds))) (\<lambda>_.
                   findRoleWithPermissions E (rid role))) s))"

definition assertMakerCheckerCompatibility ::
  "('r, role) repo \<Rightarrow> string list \<Rightarrow> ('r, unit) act" where
  "assertMakerCheckerCompatibility R roleIds t =
     (let roles = findR R (\<lambda>r. rid r \<in> set roleIds) t;
          hasMaker = list_ex (\<lambda>r. ro_dutyType (rdata r) = MAKER) roles;
          hasChecker = list_ex (\<lambda>r. ro_dutyType (rdata r) = CHECKER) roles
      in if hasMaker \<and> hasChecker
         then (Inl (BadRequestException (Msg
           ''Maker-Checker segregation violated: a user cannot hold both Maker and Checker roles'')), t)
         else (Inr (), t))"

definition ASSIGN_ANY_ROLES :: "string list" where
  "ASSIGN_ANY_ROLES = [''BANK_SUPER_ADMIN'', ''SUPERADMIN'', ''superadmin'']"

definition assertCanAssignRole ::
  "('r, 'p, 'm, 'g, 'e, 'a, 'w) rbac_env \<Rightarrow> actor \<Rightarrow> string
   \<Rightarrow> (('r, 'p, 'm, 'g, 'e, 'a, 'w) rbac_state, role row) act" where
  "assertCanAssignRole E actor roleId s =
     (case findOneR (rbe_roles E) (\<lambda>r. rid r = roleId \<and> ro_isActive (rdata r)) (rb_roles s) of
        None \<Rightarrow> (Inl role_not_found, s)
      | Some role \<Rightarrow>
          if list_ex (\<lambda>r. r \<in> set ASSIGN_ANY_ROLES) (orElse (act_realm_roles actor) [])
          then (Inr role, s)
          else (case findOneR (rbe_delegations E)
                  (\<lambda>d. dr_roleId (rdata d) = roleId \<and> dr_delegate (rdata d) = orElse (act_sub actor) [])
                  (rb_delegations s) of
                None \<Rightarrow> (Inl (ForbiddenException (Msg
                  ''You are not authorized to assign this role. Superadmin delegation is required.'')), s)
              | Some _ \<Rightarrow> (Inr role, s)))"

subsection \<open>employees.service.ts\<close>

record employee_dto =
  ed_username :: string
  ed_email :: string
  ed_firstName :: string
  ed_lastName :: string
  ed_password :: string
  ed_roleId :: string
  ed_employeeCode :: "string option"

record employee_result =
  es_employee :: "employee row"
  es_assignment :: "employee_role row"
  es_role :: role_view
  es_realmRoles :: "kc_role list"

definition assertCanManageEmployees :: "actor \<Rightarrow> ('s, unit) act" where
  "assertCanManageEmployees actor = guardA (isEmployeeManager (Some actor))
     (ForbiddenException (Msg ''Only superadmin or bank admin users can manage employee roles''))"

definition assertActorCanManageEmployee :: "actor \<Rightarrow> string \<Rightarrow> ('s, unit) act" where
  "assertActorCanManageEmployee actor roleName = guardA (canManageEmployeeWithRole (Some actor) roleName)
     (ForbiddenException (Msg
       ''You cannot change the role of an employee at your level or higher in the hierarchy''))"

definition assertActorCanAssignRole :: "actor \<Rightarrow> string \<Rightarrow> ('s, unit) act" where
  "assertActorCanAssignRole actor roleName = guardA (canAssignRoleToEmployee (Some actor) roleName)
     (ForbiddenException (Msg ''You cannot assign a role at your level or higher in the hierarchy''))"

definition synced_event :: "employee row \<Rightarrow> role row \<Rightarrow> account_synced_event" where
  "synced_event e r = \<lparr>ev_employeeId = rid e, ev_keycloakUserId = em_keycloakUserId (rdata e),
     ev_username = em_username (rdata e), ev_email = em_email (rdata e),
     ev_firstName = em_firstName (rdata e), ev_lastName = em_lastName (rdata e),
     ev_roleId = rid r, ev_roleName = ro_name (rdata r), ev_isActive = em_isActive (rdata e)\<rparr>"

text \<open>The checks on the role to assign, in the order of both operations.\<close>

definition assignable_role ::
  "('r, 'p, 'm, 'g, 'e, 'a, 'w) rbac_env \<Rightarrow> actor \<Rightarrow> string
   \<Rightarrow> (('r, 'p, 'm, 'g, 'e, 'a, 'w) rbac_state, role row) act" where
  "assignable_role E actor roleId =
     andThen (assertCanAssignRole E actor roleId) (\<lambda>role.
     andThen (onRoles (assertMakerCheckerCompatibility (rbe_roles E) [roleId])) (\<lambda>_.
     andThen (assertActorCanAssignRole actor (ro_name (rdata role))) (\<lambda>_. ret role)))"

definition employee_of_dto :: "employee_dto \<Rightarrow> string \<Rightarrow> string option \<Rightarrow> employee" where
  "employee_of_dto dto kcId actorId = \<lparr>em_keycloakUserId = kcId, em_username = ed_username dto,
     em_email = ed_email dto, em_firstName = ed_firstName dto, em_lastName = ed_lastName dto,
     em_employeeCode = ed_employeeCode dto, em_createdBy = actorId, em_isActive = True\<rparr>"

definition em_create ::
  "('r, 'p, 'm, 'g, 'e, 'a, 'w) rbac_env \<Rightarrow> employee_dto \<Rightarrow> actor
   \<Rightarrow> (('r, 'p, 'm, 'g, 'e, 'a, 'w) rbac_state, employee_result) act" where
  "em_create E dto actor =
     andThen (assertCanManageEmployees actor) (\<lambda>_.
     andThen (assignable_role E actor (ed_roleId dto)) (\<lambda>role.
     andThen (\<lambda>s. case findOneR (rbe_employees E) (\<lambda>e. em_username (rdata e) = ed_username dto)
                   (rb_employees s) of
          Some _ \<Rightarrow> (Inl (ConflictException (Msg (''Employee username '' @ ed_username dto @ '' already exists''))), s)
        | None \<Rightarrow> (Inr (), s)) (\<lambda>_.
     andThen (onKeycloak (createUser (rbe_http E) (rbe_kc E) \<lparr>nu_username = ed_username dto,
        nu_email = ed_email dto, nu_firstName = ed_firstName dto, nu_lastName = ed_lastName dto,
        nu_password = ed_password dto, nu_enabled = Some True\<rparr>)) (\<lambda>kcId.
     andThen (onKeycloak (assignRealmRoleToUser (rbe_http E) (rbe_kc E) kcId
        (tmpl (ro_keycloakRoleName (rdata role))))) (\<lambda>_.
     andThen (onEmployees (insertR (rbe_employees E) (employee_of_dto dto kcId (act_sub actor)))) (\<lambda>employee.
     andThen (onAssignments (insertR (rbe_assignments E) \<lparr>er_employeeId = rid employee,
        er_roleId = rid role, er_assignedBy = act_sub actor\<rparr>)) (\<lambda>assignment.
     andThen (findRoleWithPermissions E (rid role)) (\<lambda>details.
     andThen (publish (synced_event employee role)) (\<lambda>_.
     andThen (onKeycloak (getUserRealmRoles (rbe_http E) (rbe_kc E) kcId)) (\<lambda>realmRoles.
     ret \<lparr>es_employee = employee, es_assignment = assignment, es_role = details,
          es_realmRoles = realmRoles\<rparr>))))))))))"

text \<open>The role of the current assignment, when it is still there.\<close>

definition current_role ::
  "('r, role) repo \<Rightarrow> 'r \<Rightarrow> employee_role row option \<Rightarrow> role row option" where
  "current_role R r current = (case current of None \<Rightarrow> None
     | Some a \<Rightarrow> findOneR R (byId (er_roleId (rdata a))) r)"

definition reassign ::
  "('a, employee_role) repo \<Rightarrow> employee_role row option \<Rightarrow> string \<Rightarrow> string \<Rightarrow> string option
   \<Rightarrow> ('a, employee_role row) act" where
  "reassign R current employeeId roleId actorId = (case current of
      Some a \<Rightarrow> saveR R (upd (\<lambda>d. d\<lparr>er_roleId := roleId, er_assignedBy := actorId\<rparr>) a)
    | None \<Rightarrow> insertR R \<lparr>er_employeeId = employeeId, er_roleId = roleId, er_assignedBy = actorId\<rparr>)"

definition updateRole ::
  "('r, 'p, 'm, 'g, 'e, 'a, 'w) rbac_env \<Rightarrow> string \<Rightarrow> string \<Rightarrow> actor
   \<Rightarrow> (('r, 'p, 'm, 'g, 'e, 'a, 'w) rbac_state, employee_result) act" where
  "updateRole E employeeId roleId actor =
     andThen (assertCanManageEmployees actor) (\<lambda>_.
     andThen (\<lambda>s. case findOneR (rbe_employees E) (\<lambda>e. rid e = employeeId \<and> em_isActive (rdata e))
                   (rb_employees s) of
          None \<Rightarrow> (Inl (NotFoundException (Msg ''Employee not found'')), s)
        | Some e \<Rightarrow> (Inr e, s)) (\<lambda>employee.
     andThen (assignable_role E actor roleId) (\<lambda>newRole.
     andThen (\<lambda>s. (Inr (findOneR (rbe_assignments E) (\<lambda>a. er_employeeId (rdata a) = rid employee)
                   (rb_assignments s)), s)) (\<lambda>current.
     andThen (\<lambda>s. (Inr (current_role (rbe_roles E) (rb_roles s) current), s)) (\<lambda>oldRole.
     andThen (case oldRole of None \<Rightarrow> ret ()
        | Some r \<Rightarrow> assertActorCanManageEmployee actor (ro_name (rdata r))) (\<lambda>_.
     andThen (guardA (map_option (\<lambda>a. er_roleId (rdata a)) current \<noteq> Some (rid newRole))
        (ConflictException (Msg ''Employee already has this role assigned''))) (\<lambda>_.
     andThen (case oldRole of None \<Rightarrow> ret ()
        | Some r \<Rightarrow> onKeycloak (removeRealmRoleFromUser (rbe_http E) (rbe_kc E)
            (em_keycloakUserId (rdata employee)) (tmpl (ro_keycloakRoleName (rdata r))))) (\<lambda>_.
     andThen (onKeycloak (assignRealmRoleToUser (rbe_http E) (rbe_kc E)
        (em_keycloakUserId (rdata employee)) (tmpl (ro_keycloakRoleName (rdata newRole))))) (\<lambda>_.
     andThen (onAssignments (reassign (rbe_assignments E) current (rid employee) (rid newRole)
        (act_sub actor))) (\<lambda>assignment.
     andThen (findRoleWithPermissions E (rid newRole)) (\<lambda>details.
     andThen (publish (synced_event employee newRole)) (\<lambda>_.
     andThen (onKeycloak (getUserRealmRoles (rbe_http E) (rbe_kc E)
        (em_keycloakUserId (rdata employee)))) (\<lambda>realmRoles.
     ret \<lparr>es_employee = employee, es_assignment = assignment, es_role = details,
          es_realmRoles = realmRoles\<rparr>)))))))))))))"

subsection \<open>users-access.service.ts\<close>

record access_filters =
  af_keycloakUserId :: "string option"
  af_employeeId :: "string option"
  af_username :: "string option"
  af_email :: "string option"
  af_roleId :: "string option"

record access_details =
  ad_employee :: "employee row option"
  ad_profile :: "kc_user option"
  ad_realmRoles :: "kc_role list"
  ad_roles :: "role row list"
  ad_permissions :: "(permission_view \<times> string) list"

definition at_most_one :: "'x option \<Rightarrow> 'x list" where
  "at_most_one v = (case v of None \<Rightarrow> [] | Some x \<Rightarrow> [x])"

definition resolveEmployees ::
  "('r, 'p, 'm, 'g, 'e, 'a, 'w) rbac_env \<Rightarrow> access_filters
   \<Rightarrow> ('r, 'p, 'm, 'g, 'e, 'a, 'w) rbac_state \<Rightarrow> employee row list" where
  "resolveEmployees E f s =
     (let R = rbe_employees E; t = rb_employees s in
      if truthy (af_employeeId f) then at_most_one (findOneR R (byId (orElse (af_employeeId f) [])) t)
      else if truthy (af_roleId f)
      then (let ms = findR (rbe_assignments E) (\<lambda>a. er_roleId (rdata a) = orElse (af_roleId f) [])
                       (rb_assignments s)
            in if ms = [] then []
               else findR R (\<lambda>e. rid e \<in> set (map (\<lambda>m. er_employeeId (rdata m)) ms)) t)
      else if truthy (af_keycloakUserId f)
      then at_most_one (findOneR R (\<lambda>e. em_keycloakUserId (rdata e) = orElse (af_keycloakUserId f) []) t)
      else if truthy (af_username f)
      then at_most_one (findOneR R (\<lambda>e. em_username (rdata e) = orElse (af_username f) []) t)
      else if truthy (af_email f)
      then at_most_one (findOneR R (\<lambda>e. em_email (rdata e) = orElse (af_email f) []) t)
      else take 100 (findOrdR R (\<lambda>e. - createdAt e) anyRow t))"

text \<open>The permissions of a list of roles, each with the role it comes from.\<close>

definition access_permissions ::
  "('r, 'p, 'm, 'g, 'e, 'a, 'w) rbac_env \<Rightarrow> string list
   \<Rightarrow> (('r, 'p, 'm, 'g, 'e, 'a, 'w) rbac_state, (permission_view \<times> string) list) act" where
  "access_permissions E roleIds s =
     (if roleIds = [] then (Inr [], s)
      else (let ms = findR (rbe_mappings E) (\<lambda>m. rp_roleId (rdata m) \<in> set roleIds) (rb_mappings s)
            in case joined_permissions (rbe_permissions E) (rb_permissions s) ms of
                 Inl e \<Rightarrow> (Inl e, s)
               | Inr ps \<Rightarrow> (Inr (zip ps (map (\<lambda>m. rp_roleId (rdata m)) ms)), s)))"

definition access_of_employee ::
  "('r, 'p, 'm, 'g, 'e, 'a, 'w) rbac_env \<Rightarrow> employee row
   \<Rightarrow> (('r, 'p, 'm, 'g, 'e, 'a, 'w) rbac_state, access_details) act" where
  "access_of_employee E e =
     andThen (onKeycloak (findUsers (rbe_http E) (rbe_kc E) \<lparr>uf_username = None, uf_email = None,
        uf_keycloakUserId = Some (em_keycloakUserId (rdata e))\<rparr>)) (\<lambda>users.
     andThen (case users of [] \<Rightarrow> ret []
        | u # _ \<Rightarrow> onKeycloak (getUserRealmRoles (rbe_http E) (rbe_kc E) (ku_id u))) (\<lambda>realmRoles.
     andThen (\<lambda>s. (Inr (map (\<lambda>a. er_roleId (rdata a))
          (findR (rbe_assignments E) (\<lambda>a. er_employeeId (rdata a) = rid e) (rb_assignments s))), s)) (\<lambda>roleIds.
     andThen (\<lambda>s. (Inr (if roleIds = [] then []
          else findR (rbe_roles E) (\<lambda>r. rid r \<in> set roleIds) (rb_roles s)), s)) (\<lambda>localRoles.
     andThen (access_permissions E roleIds) (\<lambda>permissions.
     ret \<lparr>ad_employee = Some e, ad_profile = (case users of [] \<Rightarrow> None | u # _ \<Rightarrow> Some u),
          ad_realmRoles = realmRoles, ad_roles = localRoles, ad_permissions = permissions\<rparr>)))))"

definition access_of_keycloak_user ::
  "('r, 'p, 'm, 'g, 'e, 'a, 'w) rbac_env \<Rightarrow> kc_user
   \<Rightarrow> (('r, 'p, 'm, 'g, 'e, 'a, 'w) rbac_state, access_details) act" where
  "access_of_keycloak_user E u =
     andThen (onKeycloak (getUserRealmRoles (rbe_http E) (rbe_kc E) (ku_id u))) (\<lambda>realmRoles.
     andThen (\<lambda>s. (Inr (if realmRoles = [] then []
          else findR (rbe_roles E) (\<lambda>r. Some (ro_name (rdata r)) \<in> set (map kr_name realmRoles))
                 (rb_roles s)), s)) (\<lambda>localRoles.
     andThen (access_permissions E (map rid localRoles)) (\<lambda>permissions.
     ret \<lparr>ad_employee = None, ad_profile = Some u, ad_realmRoles = realmRoles,
          ad_roles = localRoles, ad_permissions = permissions\<rparr>)))"

definition fetchAccessDetails ::
  "('r, 'p, 'm, 'g, 'e, 'a, 'w) rbac_env \<Rightarrow> access_filters
   \<Rightarrow> (('r, 'p, 'm, 'g, 'e, 'a, 'w) rbac_state, nat \<times> access_details list) act" where
  "fetchAccessDetails E f s =
     (let employees = resolveEmployees E f s in
      andThen (forA employees (access_of_employee E)) (\<lambda>results.
      andThen (if employees = [] \<and> (truthy (af_username f) \<or> truthy (af_email f) \<or> truthy (af_keycloakUserId f))
        then andThen (onKeycloak (findUsers (rbe_http E) (rbe_kc E) \<lparr>uf_username = af_username f,
                uf_email = af_email f, uf_keycloakUserId = af_keycloakUserId f\<rparr>)) (\<lambda>users.
             forA users (access_of_keycloak_user E))
        else ret []) (\<lambda>more.
      ret (length (results @ more), results @ more))) s)"

subsection \<open>Facts\<close>

lemma assertMakerCheckerCompatibility_same: "assertMakerCheckerCompatibility R is t = (r, u) \<Longrightarrow> u = t"
  by (auto simp: assertMakerCheckerCompatibility_def Let_def split: if_splits)

text \<open>The services rely on the contracts of their six tables.\<close>

locale rbac =
  roles: repository "rbe_roles E" + permissions: repository "rbe_permissions E"
  + mappings: repository "rbe_mappings E" + delegations: repository "rbe_delegations E"
  + employees: repository "rbe_employees E" + assignments: repository "rbe_assignments E"
  for E :: "('r, 'p, 'm, 'g, 'e, 'a, 'w) rbac_env"
begin

abbreviation may_assign :: "actor \<Rightarrow> string \<Rightarrow> ('r, 'p, 'm, 'g, 'e, 'a, 'w) rbac_state \<Rightarrow> bool" where
  "may_assign actor roleId s \<equiv>
     (\<exists>r \<in> set (orElse (act_realm_roles actor) []). r \<in> set SUPERADMIN_ROLES)
     \<or> (\<exists>d \<in> rows (rbe_delegations E) (rb_delegations s).
          dr_roleId (rdata d) = roleId \<and> dr_delegate (rdata d) = orElse (act_sub actor) [])"

lemma assertCanAssignRole_ok:
  assumes "assertCanAssignRole E actor roleId s = (Inr role, t)"
  shows "t = s \<and> role \<in> rows (rbe_roles E) (rb_roles s) \<and> rid role = roleId \<and> ro_isActive (rdata role)
    \<and> may_assign actor roleId s"
proof -
  obtain r where f: "findOneR (rbe_roles E) (\<lambda>r. rid r = roleId \<and> ro_isActive (rdata r)) (rb_roles s) = Some r"
    using assms by (auto simp: assertCanAssignRole_def split: option.splits)
  have sup: "ASSIGN_ANY_ROLES = SUPERADMIN_ROLES" by (simp add: ASSIGN_ANY_ROLES_def SUPERADMIN_ROLES_def)
  have "t = s \<and> r = role"
    using assms f by (auto simp: assertCanAssignRole_def split: option.splits if_splits)
  moreover have "may_assign actor roleId s"
  proof (cases "list_ex (\<lambda>r. r \<in> set ASSIGN_ANY_ROLES) (orElse (act_realm_roles actor) [])")
    case True
    then show ?thesis by (auto simp: list_ex_iff sup)
  next
    case False
    then obtain d where "findOneR (rbe_delegations E) (\<lambda>d. dr_roleId (rdata d) = roleId
        \<and> dr_delegate (rdata d) = orElse (act_sub actor) []) (rb_delegations s) = Some d"
      using assms f by (auto simp: assertCanAssignRole_def split: option.splits)
    from delegations.findOne_Some [OF this] show ?thesis by blast
  qed
  ultimately show ?thesis using roles.findOne_Some [OF f] by simp
qed

lemma assignable_role_ok:
  assumes "assignable_role E actor roleId s = (Inr role, t)"
  shows "t = s \<and> role \<in> rows (rbe_roles E) (rb_roles s) \<and> rid role = roleId \<and> ro_isActive (rdata role)
    \<and> may_assign actor roleId s \<and> canAssignRoleToEmployee (Some actor) (ro_name (rdata role))"
proof -
  from assms obtain r1 u where a: "assertCanAssignRole E actor roleId s = (Inr r1, u)"
    and b: "andThen (onRoles (assertMakerCheckerCompatibility (rbe_roles E) [roleId])) (\<lambda>_.
       andThen (assertActorCanAssignRole actor (ro_name (rdata r1))) (\<lambda>_. ret r1)) u = (Inr role, t)"
    by (auto simp: assignable_role_def andThen_Inr)
  from b have "t = u \<and> r1 = role \<and> canAssignRoleToEmployee (Some actor) (ro_name (rdata r1))"
    by (auto simp: andThen_Inr onRoles_def zoom_eq assertActorCanAssignRole_def guardA_iff
        dest!: assertMakerCheckerCompatibility_same)
  with assertCanAssignRole_ok [OF a] show ?thesis by auto
qed

text \<open>An assignment that is updated or made leaves at most one assignment per employee.\<close>

definition single_role :: "'a \<Rightarrow> bool" where
  "single_role t \<longleftrightarrow> (\<forall>x \<in> rows (rbe_assignments E) t. \<forall>y \<in> rows (rbe_assignments E) t.
     er_employeeId (rdata x) = er_employeeId (rdata y) \<longrightarrow> x = y)"

lemma reassign_single:
  assumes "reassign (rbe_assignments E)
      (findOneR (rbe_assignments E) (\<lambda>a. er_employeeId (rdata a) = i) t) i roleId actorId t = (Inr x, u)"
    and "single_role t"
  shows "single_role u \<and> x \<in> rows (rbe_assignments E) u \<and> er_employeeId (rdata x) = i
    \<and> er_roleId (rdata x) = roleId"
proof (cases "findOneR (rbe_assignments E) (\<lambda>a. er_employeeId (rdata a) = i) t")
  case None
  then have none: "\<forall>a \<in> rows (rbe_assignments E) t. er_employeeId (rdata a) \<noteq> i"
    by (simp add: assignments.findOne_None)
  from None assms(1) have x: "er_employeeId (rdata x) = i" "er_roleId (rdata x) = roleId"
    "rows (rbe_assignments E) u = insert x (rows (rbe_assignments E) t)"
    by (auto simp: reassign_def dest: assignments.insert_ok)
  with none assms(2) have "single_role u" unfolding single_role_def by (metis insert_iff)
  with x show ?thesis by simp
next
  case (Some a)
  with assignments.findOne_Some [OF Some] have a: "a \<in> rows (rbe_assignments E) t" "er_employeeId (rdata a) = i"
    by auto
  from Some assms(1) have s: "saveR (rbe_assignments E)
      (upd (\<lambda>d. d\<lparr>er_roleId := roleId, er_assignedBy := actorId\<rparr>) a) t = (Inr x, u)"
    by (simp add: reassign_def)
  have x: "er_employeeId (rdata x) = i" "er_roleId (rdata x) = roleId"
    "rows (rbe_assignments E) u = insert x {y \<in> rows (rbe_assignments E) t. rid y \<noteq> rid a}"
    using assignments.save_ok [OF s] a by simp_all
  have other: "er_employeeId (rdata y) \<noteq> i" if "y \<in> rows (rbe_assignments E) t" "rid y \<noteq> rid a" for y
    using assms(2) a that unfolding single_role_def by metis
  have "single_role u"
    unfolding single_role_def x(3)
    using other x(1) assms(2) unfolding single_role_def by (metis (mono_tags, lifting) insert_iff mem_Collect_eq)
  with x show ?thesis by simp
qed

text \<open>The new mappings of a role are exactly the requested ones; other roles keep theirs.\<close>

lemma replace_mappings:
  assumes "deleteR (rbe_mappings E) (\<lambda>m. rp_roleId (rdata m) = i) t = (Inr (), u)"
    and "insertAllR (rbe_mappings E) (map (\<lambda>p. \<lparr>rp_roleId = i, rp_permissionId = p, rp_mappedBy = actorId\<rparr>) ps) u
      = (Inr ms, v)"
  shows "{rp_permissionId (rdata m) | m. m \<in> rows (rbe_mappings E) v \<and> rp_roleId (rdata m) = i} = set ps"
    and "m \<in> rows (rbe_mappings E) v \<and> rp_roleId (rdata m) \<noteq> i \<longleftrightarrow>
      m \<in> rows (rbe_mappings E) t \<and> rp_roleId (rdata m) \<noteq> i"
proof -
  have d: "rows (rbe_mappings E) u = {x \<in> rows (rbe_mappings E) t. rp_roleId (rdata x) \<noteq> i}"
    using mappings.delete_ok [OF assms(1)] by simp
  have ms: "map rdata ms = map (\<lambda>p. \<lparr>rp_roleId = i, rp_permissionId = p, rp_mappedBy = actorId\<rparr>) ps"
    "rows (rbe_mappings E) v = set ms \<union> rows (rbe_mappings E) u"
    using mappings.insertAll_ok [OF assms(2)] by simp_all
  have "rdata ` set ms = (\<lambda>p. \<lparr>rp_roleId = i, rp_permissionId = p, rp_mappedBy = actorId\<rparr>) ` set ps"
    using arg_cong [OF ms(1), of set] by simp
  then have new: "rp_permissionId ` rdata ` set ms = set ps" "\<forall>m \<in> set ms. rp_roleId (rdata m) = i"
    by (simp_all add: image_image) (metis (no_types, lifting) imageE image_eqI role_permission.select_convs(1))
  show "{rp_permissionId (rdata m) | m. m \<in> rows (rbe_mappings E) v \<and> rp_roleId (rdata m) = i} = set ps"
    unfolding new(1) [symmetric] ms(2) using new(2) d by (auto simp: image_iff)
  show "m \<in> rows (rbe_mappings E) v \<and> rp_roleId (rdata m) \<noteq> i \<longleftrightarrow>
      m \<in> rows (rbe_mappings E) t \<and> rp_roleId (rdata m) \<noteq> i"
    using new(2) d ms(2) by auto
qed

end

definition mem_rbac_env ::
  "'w http \<Rightarrow> kc_config \<Rightarrow> (role mem, permission mem, role_permission mem, delegated_role mem,
     employee mem, employee_role mem, 'w) rbac_env" where
  "mem_rbac_env http kc = \<lparr>rbe_roles = mem_repo same_role_name, rbe_permissions = mem_repo same_permission,
     rbe_mappings = mem_repo same_mapping, rbe_delegations = mem_repo same_delegation,
     rbe_employees = mem_repo same_employee, rbe_assignments = mem_repo same_assignment,
     rbe_http = http, rbe_kc = kc\<rparr>"

lemma mem_rbac_env_simps [simp]:
  "rbe_roles (mem_rbac_env http kc) = mem_repo same_role_name"
  "rbe_permissions (mem_rbac_env http kc) = mem_repo same_permission"
  "rbe_mappings (mem_rbac_env http kc) = mem_repo same_mapping"
  "rbe_delegations (mem_rbac_env http kc) = mem_repo same_delegation"
  "rbe_employees (mem_rbac_env http kc) = mem_repo same_employee"
  "rbe_assignments (mem_rbac_env http kc) = mem_repo same_assignment"
  "rbe_http (mem_rbac_env http kc) = http" "rbe_kc (mem_rbac_env http kc) = kc"
  by (simp_all add: mem_rbac_env_def)

interpretation mem_rbac: rbac "mem_rbac_env http kc"
  unfolding rbac_def mem_rbac_env_simps by (intro conjI mem.repository_axioms)

end
