(* ===== verification/Admin_Users.thy ===== *)
theory Admin_Users
  imports Rbac_Services
begin

text \<open>
  \<open>modules/admin/admin-user\<close>: the read model of the admin portal accounts and the listener
  that keeps it in step with the employees; and \<open>common/templates\<close>. \<open>like\<close> is the
  \<open>LIKE\<close> of the database (pattern, text).
\<close>

subsection \<open>admin-user.entity.ts\<close>

record admin_user =
  au_employeeId :: string
  au_keycloakUserId :: string
  au_username :: string
  au_email :: string
  au_firstName :: string
  au_lastName :: string
  au_roleId :: string
  au_roleName :: string
  au_isActive :: bool
  au_lastSyncedAt :: int

definition same_account :: "admin_user \<Rightarrow> admin_user \<Rightarrow> bool" where
  "same_account a b \<longleftrightarrow> au_keycloakUserId a = au_keycloakUserId b"

subsection \<open>admin-user.service.ts\<close>

record list_admin_dto =
  la_role :: "string option"
  la_search :: "string option"

definition ADMIN_VIEW_ROLES :: "string list" where
  "ADMIN_VIEW_ROLES = [''BANK_SUPER_ADMIN'', ''BANK_ADMIN'']"

definition assertCanViewAdmins :: "actor \<Rightarrow> ('s, unit) act" where
  "assertCanViewAdmins actor = guardA (list_ex (\<lambda>r. r \<in> set ADMIN_VIEW_ROLES) (extractRealmRoles (Some actor)))
     (ForbiddenException (Msg ''Only bank admin or bank super admin users can view admin users''))"

definition admin_matches :: "(string \<Rightarrow> string \<Rightarrow> bool) \<Rightarrow> list_admin_dto \<Rightarrow> admin_user row \<Rightarrow> bool" where
  "admin_matches like q e \<longleftrightarrow>
     (truthy (la_role q) \<longrightarrow> au_roleName (rdata e) = orElse (la_role q) [])
     \<and> (truthy (la_search q) \<longrightarrow> (let p = ''%'' @ orElse (la_search q) [] @ ''%'' in
          like p (au_username (rdata e)) \<or> like p (au_email (rdata e))))"

definition au_findAll ::
  "(string \<Rightarrow> string \<Rightarrow> bool) \<Rightarrow> ('t, admin_user) repo \<Rightarrow> list_admin_dto \<Rightarrow> actor
   \<Rightarrow> ('t, admin_user row list) act" where
  "au_findAll like R q actor = andThen (assertCanViewAdmins actor) (\<lambda>_.
     \<lambda>t. (Inr (findOrdR R (\<lambda>e. - createdAt e) (admin_matches like q) t), t))"

definition au_findOne :: "('t, admin_user) repo \<Rightarrow> string \<Rightarrow> actor \<Rightarrow> ('t, admin_user row) act" where
  "au_findOne R i actor = andThen (assertCanViewAdmins actor) (\<lambda>_. \<lambda>t. case findOneR R (byId i) t of
      None \<Rightarrow> (Inl (NotFoundException (Msg ''Admin user not found'')), t) | Some u \<Rightarrow> (Inr u, t))"

subsection \<open>admin-user-sync.listener.ts\<close>

definition ADMIN_PORTAL_ROLES :: "string list" where
  "ADMIN_PORTAL_ROLES = [''BANK_SUPER_ADMIN'', ''BANK_ADMIN'', ''BANK_MAKER'', ''BANK_CHECKER'']"

definition admin_of_event :: "int \<Rightarrow> account_synced_event \<Rightarrow> admin_user" where
  "admin_of_event now e = \<lparr>au_employeeId = ev_employeeId e, au_keycloakUserId = ev_keycloakUserId e,
     au_username = ev_username e, au_email = ev_email e, au_firstName = ev_firstName e,
     au_lastName = ev_lastName e, au_roleId = ev_roleId e, au_roleName = ev_roleName e,
     au_isActive = ev_isActive e, au_lastSyncedAt = now\<rparr>"

definition au_of_keycloak :: "string \<Rightarrow> admin_user row \<Rightarrow> bool" where
  "au_of_keycloak uid r \<longleftrightarrow> au_keycloakUserId (rdata r) = uid"

definition au_handle :: "('t, admin_user) repo \<Rightarrow> int \<Rightarrow> account_synced_event \<Rightarrow> ('t, unit) act" where
  "au_handle R now e =
     (if ev_roleName e \<notin> set ADMIN_PORTAL_ROLES then ret ()
      else (\<lambda>t. case findOneR R (au_of_keycloak (ev_keycloakUserId e)) t of
          Some existing \<Rightarrow> andThen (saveR R (upd (\<lambda>_. admin_of_event now e) existing)) (\<lambda>_. ret ()) t
        | None \<Rightarrow> andThen (insertR R (admin_of_event now e)) (\<lambda>_. ret ()) t))"

text \<open>The subscription: a failing handler is logged, the bus goes on.\<close>

definition au_listen :: "('t, admin_user) repo \<Rightarrow> int \<Rightarrow> account_synced_event \<Rightarrow> ('t, unit) act" where
  "au_listen R now e = catch (au_handle R now e) (\<lambda>_. ret ())"

fun au_sync :: "('t, admin_user) repo \<Rightarrow> int \<Rightarrow> account_synced_event list \<Rightarrow> ('t, unit) act" where
  "au_sync R now [] = ret ()"
| "au_sync R now (e # es) = andThen (au_listen R now e) (\<lambda>_. au_sync R now es)"

subsection \<open>templates.service.ts\<close>

record notification_template =
  nt_key :: string
  nt_channel :: string
  nt_subject :: "string option"
  nt_body :: string
  nt_version :: int

definition nt_findAll :: "('t, notification_template) repo \<Rightarrow> 't \<Rightarrow> notification_template row list" where
  "nt_findAll R t = findR R anyRow t"

definition nt_findOne :: "('t, notification_template) repo \<Rightarrow> string \<Rightarrow> 't \<Rightarrow> notification_template row option" where
  "nt_findOne R i t = findOneR R (byId i) t"

definition nt_create ::
  "('t, notification_template) repo \<Rightarrow> string \<Rightarrow> string \<Rightarrow> string \<Rightarrow> ('t, notification_template row) act" where
  "nt_create R k channel body = insertR R \<lparr>nt_key = k, nt_channel = channel, nt_subject = None,
     nt_body = body, nt_version = 1\<rparr>"

subsection \<open>Facts\<close>

locale admin_repository = repository R for R :: "('t, admin_user) repo"
begin

text \<open>At most one row per Keycloak account.\<close>

definition one_row :: "'t \<Rightarrow> bool" where
  "one_row t \<longleftrightarrow> (\<forall>a \<in> rows R t. \<forall>b \<in> rows R t.
     au_keycloakUserId (rdata a) = au_keycloakUserId (rdata b) \<longrightarrow> a = b)"

lemma handle_ok:
  assumes "au_handle R now e t = (Inr (), u)" and "ev_roleName e \<in> set ADMIN_PORTAL_ROLES"
  shows "\<exists>r \<in> rows R u. rdata r = admin_of_event now e"
proof (cases "findOneR R (au_of_keycloak (ev_keycloakUserId e)) t")
  case None
  with assms obtain r where "insertR R (admin_of_event now e) t = (Inr r, u)"
    by (auto simp: au_handle_def andThen_Inr)
  from insert_ok [OF this] show ?thesis by auto
next
  case (Some x)
  with assms obtain r where s: "saveR R (upd (\<lambda>_. admin_of_event now e) x) t = (Inr r, u)"
    by (auto simp: au_handle_def andThen_Inr)
  from save_ok [OF s] imageI [OF findOne_mem [OF Some], of rid] show ?thesis by auto
qed

lemma handle_one_row:
  assumes "au_handle R now e t = (q, u)" and "one_row t"
  shows "one_row u"
proof (cases "ev_roleName e \<in> set ADMIN_PORTAL_ROLES")
  case False
  with assms show ?thesis by (simp add: au_handle_def)
next
  case True
  show ?thesis
  proof (cases "findOneR R (au_of_keycloak (ev_keycloakUserId e)) t")
    case None
    then have none: "\<forall>a \<in> rows R t. au_keycloakUserId (rdata a) \<noteq> ev_keycloakUserId e"
      by (auto simp: findOne_None au_of_keycloak_def)
    obtain y v where i: "insertR R (admin_of_event now e) t = (y, v)" by fastforce
    have "u = v" using assms(1) True None i by (cases y) (auto simp: au_handle_def)
    moreover have "rows R v = rows R t \<or> (\<exists>r. au_keycloakUserId (rdata r) = ev_keycloakUserId e
        \<and> rows R v = insert r (rows R t))"
    proof (cases y)
      case (Inl x)
      with i insert_err show ?thesis by blast
    next
      case (Inr r)
      with insert_ok [of "admin_of_event now e" t r v] i have "rdata r = admin_of_event now e"
        "rows R v = insert r (rows R t)" by simp_all
      then show ?thesis by (intro disjI2 exI [of _ r]) (simp add: admin_of_event_def)
    qed
    ultimately show ?thesis using none assms(2) unfolding one_row_def by (metis insert_iff)
  next
    case (Some x)
    with findOne_Some [OF Some] have x: "x \<in> rows R t" "au_keycloakUserId (rdata x) = ev_keycloakUserId e"
      by (auto simp: au_of_keycloak_def)
    obtain y v where s: "saveR R (upd (\<lambda>_. admin_of_event now e) x) t = (y, v)" by fastforce
    have uv: "u = v" using assms(1) True Some s by (cases y) (auto simp: au_handle_def)
    have other: "au_keycloakUserId (rdata z) \<noteq> ev_keycloakUserId e" if "z \<in> rows R t" "rid z \<noteq> rid x" for z
      using assms(2) x that unfolding one_row_def by metis
    have k: "rid (upd (\<lambda>_. admin_of_event now e) x) \<in> rid ` rows R t" using x(1) by simp
    show ?thesis unfolding uv
    proof (cases rule: save_cases [OF s k])
      case (1 err)
      with assms(2) show "one_row v" by (simp add: one_row_def)
    next
      case (2 f)
      then have "au_keycloakUserId (rdata f) = ev_keycloakUserId e" by (simp add: admin_of_event_def)
      with other assms(2) show "one_row v"
        unfolding one_row_def 2(4) by (metis (mono_tags, lifting) insert_iff mem_Collect_eq upd_simps(1))
    qed
  qed
qed

end

interpretation mem_admin: admin_repository "mem_repo conf"
  by unfold_locales

end
