(* ===== verification/Rbac_Properties.thy ===== *)
theory Rbac_Properties
  imports Admin_Users
begin

text \<open>
  What the services of modules/rbac give: who may hire and change roles, what a change does
  to the tables and to the read model of the admin portal, and what a refusal leaves alone.
\<close>

subsection \<open>Steps on one part of the state\<close>

lemma onKeycloak_eq:
  "onKeycloak m s = (r, t) \<longleftrightarrow> (\<exists>w. m (rb_world s) = (r, w) \<and> t = s\<lparr>rb_world := w\<rparr>)"
  by (auto simp: onKeycloak_def zoom_eq)

lemma onAssignments_eq:
  "onAssignments m s = (r, t) \<longleftrightarrow> (\<exists>a. m (rb_assignments s) = (r, a) \<and> t = s\<lparr>rb_assignments := a\<rparr>)"
  by (auto simp: onAssignments_def zoom_eq)

lemma onEmployees_eq:
  "onEmployees m s = (r, t) \<longleftrightarrow> (\<exists>a. m (rb_employees s) = (r, a) \<and> t = s\<lparr>rb_employees := a\<rparr>)"
  by (auto simp: onEmployees_def zoom_eq)

lemma onMappings_eq:
  "onMappings m s = (r, t) \<longleftrightarrow> (\<exists>a. m (rb_mappings s) = (r, a) \<and> t = s\<lparr>rb_mappings := a\<rparr>)"
  by (auto simp: onMappings_def zoom_eq)

lemma findRoleWithPermissions_same: "findRoleWithPermissions E i s = (r, t) \<Longrightarrow> t = s"
  by (auto simp: findRoleWithPermissions_def Let_def split: option.splits sum.splits)

lemma publish_eq: "publish e s = (r, t) \<longleftrightarrow> r = Inr () \<and> t = s\<lparr>rb_events := rb_events s @ [e]\<rparr>"
  by (auto simp: publish_def)

lemmas rbac_steps = andThen_Inr onKeycloak_eq onAssignments_eq onEmployees_eq onMappings_eq publish_eq guardA_iff
  assertCanManageEmployees_def assertActorCanManageEmployee_def

lemma returned: "\<not> isl (fst p) \<Longrightarrow> \<exists>x t. p = (Inr x, t)"
  by (cases p; cases "fst p") auto

context rbac begin

text \<open>The permissions of a role after a mapping.\<close>

lemma mapPermissions_effect:
  assumes "mapPermissions E i ps actorId s = (Inr v, t)"
  shows "distinct ps \<and> i \<in> rid ` rows (rbe_roles E) (rb_roles s)
    \<and> (\<forall>p \<in> set ps. \<exists>x \<in> rows (rbe_permissions E) (rb_permissions s). rid x = p \<and> pe_isActive (rdata x))
    \<and> {rp_permissionId (rdata m) | m. m \<in> rows (rbe_mappings E) (rb_mappings t) \<and> rp_roleId (rdata m) = i} = set ps
    \<and> {m \<in> rows (rbe_mappings E) (rb_mappings t). rp_roleId (rdata m) \<noteq> i}
      = {m \<in> rows (rbe_mappings E) (rb_mappings s). rp_roleId (rdata m) \<noteq> i}"
proof -
  define found where "found = findR (rbe_permissions E) (\<lambda>p. rid p \<in> set ps \<and> pe_isActive (rdata p)) (rb_permissions s)"
  from assms obtain role where f: "findOneR (rbe_roles E) (byId i) (rb_roles s) = Some role"
    by (auto simp: mapPermissions_def split: option.splits)
  then have role: "role \<in> rows (rbe_roles E) (rb_roles s)" "rid role = i" by (simp_all add: roles.findOne_byId_iff)
  have len: "length found = length ps"
    using assms f by (auto simp: mapPermissions_def found_def Let_def split: if_splits)
  have run: "andThen (onMappings (deleteR (rbe_mappings E) (\<lambda>m. rp_roleId (rdata m) = i))) (\<lambda>_.
      andThen (onMappings (insertAllR (rbe_mappings E)
        (map (\<lambda>p. \<lparr>rp_roleId = i, rp_permissionId = p, rp_mappedBy = actorId\<rparr>) ps))) (\<lambda>_.
      findRoleWithPermissions E i)) s = (Inr v, t)"
    using assms f len role(2) by (simp add: mapPermissions_def found_def)
  then obtain m1 ms m2 where
    d: "deleteR (rbe_mappings E) (\<lambda>m. rp_roleId (rdata m) = i) (rb_mappings s) = (Inr (), m1)"
    and ins: "insertAllR (rbe_mappings E) (map (\<lambda>p. \<lparr>rp_roleId = i, rp_permissionId = p, rp_mappedBy = actorId\<rparr>) ps) m1
      = (Inr ms, m2)" and t: "findRoleWithPermissions E i (s\<lparr>rb_mappings := m2\<rparr>) = (Inr v, t)"
    by (auto simp: rbac_steps)
  have t: "rb_mappings t = m2" using findRoleWithPermissions_same [OF t] by simp
  have sub: "rid ` set found \<subseteq> set ps" by (auto simp: found_def permissions.find_set)
  have "distinct (map rid found)" unfolding found_def by (rule permissions.find_distinct)
  from distinct_card [OF this] len have card: "length ps = card (rid ` set found)" by simp
  with sub have "length ps \<le> card (set ps)" by (metis card_mono finite_set)
  then have dist: "distinct ps" by (metis card_distinct card_length le_antisym)
  with sub card have all: "rid ` set found = set ps"
    by (metis card_subset_eq distinct_card finite_set)
  have "\<exists>x \<in> rows (rbe_permissions E) (rb_permissions s). rid x = p \<and> pe_isActive (rdata x)" if "p \<in> set ps" for p
  proof -
    obtain x where "x \<in> set found" "rid x = p" using \<open>p \<in> set ps\<close> unfolding all [symmetric] by auto
    then show ?thesis by (auto simp: found_def permissions.find_set)
  qed
  moreover have "{m \<in> rows (rbe_mappings E) m2. rp_roleId (rdata m) \<noteq> i}
      = {m \<in> rows (rbe_mappings E) (rb_mappings s). rp_roleId (rdata m) \<noteq> i}"
    using replace_mappings(2) [OF d ins] by blast
  ultimately show ?thesis using dist role replace_mappings(1) [OF d ins] t by auto
qed

text \<open>What a role change that returns has checked and done.\<close>

lemma updateRole_effect:
  assumes "updateRole E i roleId actor s = (Inr r, t)"
  shows "\<exists>e role. e \<in> rows (rbe_employees E) (rb_employees s) \<and> rid e = i \<and> em_isActive (rdata e)
    \<and> role \<in> rows (rbe_roles E) (rb_roles s) \<and> rid role = roleId \<and> ro_isActive (rdata role)
    \<and> isEmployeeManager (Some actor) \<and> may_assign actor roleId s \<and> canAssignRoleToEmployee (Some actor) (ro_name (rdata role))
    \<and> rb_events t = rb_events s @ [synced_event e role]
    \<and> reassign (rbe_assignments E) (findOneR (rbe_assignments E) (\<lambda>a. er_employeeId (rdata a) = i) (rb_assignments s))
        i roleId (act_sub actor) (rb_assignments s) = (Inr (es_assignment r), rb_assignments t)"
proof -
  from assms obtain e where e: "findOneR (rbe_employees E) (\<lambda>e. rid e = i \<and> em_isActive (rdata e)) (rb_employees s) = Some e"
    by (auto simp: updateRole_def rbac_steps split: option.splits)
  from employees.findOne_Some [OF this] have e1: "e \<in> rows (rbe_employees E) (rb_employees s)" "rid e = i" "em_isActive (rdata e)"
    by auto
  from assms e obtain role u where a: "assignable_role E actor roleId s = (Inr role, u)"
    by (auto simp: updateRole_def rbac_steps)
  from assignable_role_ok [OF a] have role: "u = s" "role \<in> rows (rbe_roles E) (rb_roles s)" "rid role = roleId"
    "ro_isActive (rdata role)" "may_assign actor roleId s" "canAssignRoleToEmployee (Some actor) (ro_name (rdata role))"
    by simp_all
  have "isEmployeeManager (Some actor) \<and> rb_events t = rb_events s @ [synced_event e role]
    \<and> reassign (rbe_assignments E) (findOneR (rbe_assignments E) (\<lambda>a. er_employeeId (rdata a) = i) (rb_assignments s))
        i roleId (act_sub actor) (rb_assignments s) = (Inr (es_assignment r), rb_assignments t)"
    using assms e e1(2) a role(1,3)
    by (auto simp: updateRole_def rbac_steps split: option.splits dest!: findRoleWithPermissions_same)
  with e1 role show ?thesis by blast
qed

lemma reassign_others:
  assumes "reassign (rbe_assignments E) (findOneR (rbe_assignments E) (\<lambda>a. er_employeeId (rdata a) = i) t)
      i roleId actorId t = (Inr x, u)" and "single_role t"
  shows "{x \<in> rows (rbe_assignments E) u. er_employeeId (rdata x) \<noteq> i}
    = {x \<in> rows (rbe_assignments E) t. er_employeeId (rdata x) \<noteq> i}"
proof (cases "findOneR (rbe_assignments E) (\<lambda>a. er_employeeId (rdata a) = i) t")
  case None
  with assms(1) have n: "insertR (rbe_assignments E) \<lparr>er_employeeId = i, er_roleId = roleId, er_assignedBy = actorId\<rparr> t = (Inr x, u)"
    by (simp add: reassign_def)
  show ?thesis using assignments.insert_ok [OF n] by auto
next
  case (Some a)
  with assignments.findOne_Some [OF Some] have a: "a \<in> rows (rbe_assignments E) t" "er_employeeId (rdata a) = i"
    by auto
  from Some assms(1) have s: "saveR (rbe_assignments E)
      (upd (\<lambda>d. d\<lparr>er_roleId := roleId, er_assignedBy := actorId\<rparr>) a) t = (Inr x, u)"
    by (simp add: reassign_def)
  have x: "er_employeeId (rdata x) = i" "rows (rbe_assignments E) u = insert x {y \<in> rows (rbe_assignments E) t. rid y \<noteq> rid a}"
    using assignments.save_ok [OF s] a by simp_all
  have "rid y \<noteq> rid a" if "y \<in> rows (rbe_assignments E) t" "er_employeeId (rdata y) \<noteq> i" for y
    using assignments.rid_inj [OF that(1) a(1)] that(2) a(2) by auto
  with x show ?thesis by auto
qed

text \<open>A refused role change or creation has done nothing, outside or inside.\<close>

lemma assignable_role_refused:
  assumes "\<not> may_assign actor roleId s"
  shows "\<exists>e. assignable_role E actor roleId s = (Inl e, s)"
proof -
  obtain q u where a: "assignable_role E actor roleId s = (q, u)" by fastforce
  show ?thesis
  proof (cases q)
    case (Inr role)
    from assignable_role_ok [OF a [unfolded Inr]] assms show ?thesis by simp
  next
    case (Inl e)
    have "u = s"
      using a Inl by (auto simp: assignable_role_def andThen_Inl andThen_Inr assertCanAssignRole_def onRoles_def zoom_eq
          assertActorCanAssignRole_def guardA_iff split: option.splits if_splits
          dest!: assertMakerCheckerCompatibility_same)
    with a Inl show ?thesis by simp
  qed
qed

end

subsection \<open>Properties\<close>


text \<open>The example: two roles, and an employee with the first of them.\<close>

type_synonym rbac_mem = "(role mem, permission mem, role_permission mem, delegated_role mem, employee mem, employee_role mem, http_req list) rbac_state"

definition rb_env :: "(role mem, permission mem, role_permission mem, delegated_role mem, employee mem, employee_role mem, http_req list) rbac_env" where
  "rb_env = mem_rbac_env (sim_http []) sim_config"

definition rb_super :: actor where
  "rb_super = \<lparr>act_sub = Some ''s1'', act_realm_roles = Some [''BANK_SUPER_ADMIN''], act_roles = None\<rparr>"

definition rb_clerk :: actor where
  "rb_clerk = \<lparr>act_sub = Some ''c1'', act_realm_roles = Some [''BANK_MAKER''], act_roles = None\<rparr>"

definition rb_row :: "nat \<Rightarrow> 'd \<Rightarrow> 'd row" where
  "rb_row k d = \<lparr>rid = row_id k, createdAt = 0, updatedAt = 0, deletedAt = None, rdata = d\<rparr>"

definition rb_role :: "string \<Rightarrow> roleDutyType \<Rightarrow> role" where
  "rb_role n duty = \<lparr>ro_name = n, ro_displayName = n, ro_description = None, ro_keycloakRoleId = None,
     ro_keycloakRoleName = Some n, ro_dutyType = duty, ro_isActive = True\<rparr>"

definition rb_employee :: "employee row" where
  "rb_employee = rb_row 0 \<lparr>em_keycloakUserId = ''k1'', em_username = ''meera'', em_email = ''m@b'', em_firstName = ''M'',
     em_lastName = ''R'', em_employeeCode = None, em_createdBy = Some ''s1'', em_isActive = True\<rparr>"

definition rb_assignment :: "employee_role row" where
  "rb_assignment = rb_row 0 \<lparr>er_employeeId = row_id 0, er_roleId = row_id 0, er_assignedBy = Some ''s1''\<rparr>"

definition rb_with :: "role row list \<Rightarrow> 'w
    \<Rightarrow> (role mem, permission mem, role_permission mem, delegated_role mem, employee mem, employee_role mem, 'w) rbac_state" where
  "rb_with roles w = \<lparr>rb_roles = \<lparr>slots = map Some roles, clock = 0\<rparr>, rb_permissions = mem_empty, rb_mappings = mem_empty,
     rb_delegations = mem_empty, rb_employees = \<lparr>slots = [Some rb_employee], clock = 0\<rparr>,
     rb_assignments = \<lparr>slots = [Some rb_assignment], clock = 0\<rparr>, rb_events = [], rb_world = w\<rparr>"

definition rb_hired :: rbac_mem where
  "rb_hired = rb_with [rb_row 0 (rb_role ''BANK_MAKER'' MAKER), rb_row 1 (rb_role ''BANK_CHECKER'' CHECKER)] []"

lemma rb_env_rbac: "rbac rb_env"
  unfolding rb_env_def by (rule mem_rbac.rbac_axioms)


lemma rb_change:
  obtains r t b where "updateRole rb_env (row_id 0) (row_id 1) rb_super rb_hired = (Inr r, t)"
    and "ev_roleName (last (rb_events t)) \<in> set ADMIN_PORTAL_ROLES"
    and "au_handle (mem_repo same_account) 7 (last (rb_events t)) mem_empty = (Inr (), b)"
proof -
  let ?h = "\<lambda>t :: rbac_mem. au_handle (mem_repo same_account) 7 (last (rb_events t)) mem_empty"
  let ?u = "updateRole rb_env (row_id 0) (row_id 1) rb_super rb_hired"
  have c: "case ?u of (q, t) \<Rightarrow> \<not> isl q \<and> ev_roleName (last (rb_events t)) \<in> set ADMIN_PORTAL_ROLES \<and> \<not> isl (fst (?h t))"
    by code_simp
  obtain q t where u: "?u = (q, t)" by (cases ?u)
  then obtain r where 1: "?u = (Inr r, t)" using c unfolding u prod.case by (cases q) simp_all
  have 2: "ev_roleName (last (rb_events t)) \<in> set ADMIN_PORTAL_ROLES" "\<not> isl (fst (?h t))" using c unfolding u prod.case by blast+
  note 1 2(1)
  moreover obtain b where "?h t = (Inr (), b)" using returned [OF 2(2)] by auto
  ultimately show thesis by (rule that)
qed


text \<open>
  An actor who is no employee manager, or who may not assign the role, changes nothing:
  hiring and changing a role throw before Keycloak, a table or the event bus is touched.
\<close>

theorem role_assignment_refused:
  assumes "rbac E" and "\<not> isEmployeeManager (Some actor)
    \<or> \<not> ((\<exists>q \<in> set (orElse (act_realm_roles actor) []). q \<in> set SUPERADMIN_ROLES)
       \<or> (\<exists>d \<in> rows (rbe_delegations E) (rb_delegations s). dr_roleId (rdata d) = roleId
            \<and> dr_delegate (rdata d) = orElse (act_sub actor) []))"
  shows "(\<exists>e. updateRole E i roleId actor s = (Inl e, s)) \<and> (ed_roleId dto = roleId \<longrightarrow> (\<exists>e. em_create E dto actor s = (Inl e, s)))"
proof (cases "isEmployeeManager (Some actor)")
  case False
  then show ?thesis by (simp add: updateRole_def em_create_def assertCanManageEmployees_def guardA_def)
next
  case True
  with assms(2) rbac.assignable_role_refused [OF assms(1)] obtain e where e: "assignable_role E actor roleId s = (Inl e, s)"
    by blast
  then show ?thesis using True
    by (cases "findOneR (rbe_employees E) (\<lambda>e. rid e = i \<and> em_isActive (rdata e)) (rb_employees s)")
      (auto simp: updateRole_def em_create_def assertCanManageEmployees_def guardA_def andThen_def)
qed

theorem role_assignment_refused_witness:
  "\<exists>e. updateRole rb_env (row_id 0) (row_id 1) rb_clerk rb_hired = (Inl e, rb_hired)"
proof -
  have "\<not> isEmployeeManager (Some rb_clerk)" by code_simp
  then show ?thesis using role_assignment_refused [OF rb_env_rbac, of rb_clerk rb_hired "row_id 1" "row_id 0"] by blast
qed

text \<open>
  A mapping of permissions that returns gives the role exactly the listed permissions,
  each of them stored and active and listed once, and leaves every other role as it was.
\<close>

theorem permissions_mapped_exactly:
  assumes "rbac E" and "mapPermissions E i ps actorId s = (Inr v, t)"
  shows "distinct ps \<and> i \<in> rid ` rows (rbe_roles E) (rb_roles s)
    \<and> (\<forall>p \<in> set ps. \<exists>x \<in> rows (rbe_permissions E) (rb_permissions s). rid x = p \<and> pe_isActive (rdata x))
    \<and> {rp_permissionId (rdata m) | m. m \<in> rows (rbe_mappings E) (rb_mappings t) \<and> rp_roleId (rdata m) = i} = set ps
    \<and> {m \<in> rows (rbe_mappings E) (rb_mappings t). rp_roleId (rdata m) \<noteq> i}
      = {m \<in> rows (rbe_mappings E) (rb_mappings s). rp_roleId (rdata m) \<noteq> i}"
  by (rule rbac.mapPermissions_effect [OF assms])

theorem permissions_mapped_exactly_witness:
  "\<exists>t :: rbac_mem. {rp_permissionId (rdata m) | m. m \<in> rows (rbe_mappings rb_env) (rb_mappings t) \<and> rp_roleId (rdata m) = row_id 0} = {row_id 0}"
proof -
  let ?p = "\<lparr>pd_code = ''PAY_READ'', pd_name = ''Read'', pd_description = None, pd_module = ''PAY'', pd_action = ''READ''\<rparr>"
  let ?s = "rb_hired\<lparr>rb_permissions := snd (pe_create (rbe_permissions rb_env) ?p (rb_permissions rb_hired))\<rparr>"
  have "\<not> isl (fst (mapPermissions rb_env (row_id 0) [row_id 0] None ?s))" by code_simp
  then obtain v t where "mapPermissions rb_env (row_id 0) [row_id 0] None ?s = (Inr v, t)"
    using returned by blast
  from permissions_mapped_exactly [OF rb_env_rbac this]
  have "{rp_permissionId (rdata m) | m. m \<in> rows (rbe_mappings rb_env) (rb_mappings t)
      \<and> rp_roleId (rdata m) = row_id 0} = set [row_id 0]" by (elim conjE)
  then show ?thesis by (intro exI [of _ t]) simp
qed

text \<open>
  C34: from the role change to the admin portal: once the event of a change to a portal role
  has been handled, the account of the employee has one row in the read model, and it shows
  the new role.
\<close>

theorem role_change_reaches_portal:
  assumes "rbac E" and "updateRole E i roleId actor s = (Inr r, t)" and "repository A"
    and "\<forall>x \<in> rows A a. \<forall>y \<in> rows A a. au_keycloakUserId (rdata x) = au_keycloakUserId (rdata y) \<longrightarrow> x = y"
    and "ev_roleName (last (rb_events t)) \<in> set ADMIN_PORTAL_ROLES"
    and "au_handle A now (last (rb_events t)) a = (Inr (), b)"
  shows "\<exists>e \<in> rows (rbe_employees E) (rb_employees s). rid e = i
    \<and> (\<exists>!x. x \<in> rows A b \<and> au_keycloakUserId (rdata x) = em_keycloakUserId (rdata e))
    \<and> (\<forall>x \<in> rows A b. au_keycloakUserId (rdata x) = em_keycloakUserId (rdata e)
        \<longrightarrow> au_employeeId (rdata x) = i \<and> au_roleId (rdata x) = roleId)"
proof -
  have L: "admin_repository A" by (rule admin_repository.intro [OF assms(3)])
  note one_def = admin_repository.one_row_def [OF L]
  from rbac.updateRole_effect [OF assms(1,2)] obtain e role where
    e: "e \<in> rows (rbe_employees E) (rb_employees s)" "rid e = i" "rid role = roleId"
      "rb_events t = rb_events s @ [synced_event e role]" by blast
  then have ev: "last (rb_events t) = synced_event e role" by simp
  from admin_repository.handle_ok [OF L assms(6,5)] obtain x where
    x: "x \<in> rows A b" "rdata x = admin_of_event now (synced_event e role)" unfolding ev by blast
  have "admin_repository.one_row A a" using assms(4) by (simp add: one_def)
  from admin_repository.handle_one_row [OF L assms(6) this]
  have one: "\<forall>x \<in> rows A b. \<forall>y \<in> rows A b. au_keycloakUserId (rdata x) = au_keycloakUserId (rdata y) \<longrightarrow> x = y"
    by (simp add: one_def)
  have xu: "au_keycloakUserId (rdata x) = em_keycloakUserId (rdata e)" "au_employeeId (rdata x) = i" "au_roleId (rdata x) = roleId"
    using x(2) e(2,3) by (simp_all add: admin_of_event_def synced_event_def)
  have uniq: "y = x" if "y \<in> rows A b" "au_keycloakUserId (rdata y) = em_keycloakUserId (rdata e)" for y
    using one x(1) xu(1) that by simp
  have "\<exists>!x. x \<in> rows A b \<and> au_keycloakUserId (rdata x) = em_keycloakUserId (rdata e)"
  proof (rule ex1I)
    show "x \<in> rows A b \<and> au_keycloakUserId (rdata x) = em_keycloakUserId (rdata e)" using x(1) xu(1) by (rule conjI)
  next
    fix y
    assume "y \<in> rows A b \<and> au_keycloakUserId (rdata y) = em_keycloakUserId (rdata e)"
    then show "y = x" by (elim conjE) (rule uniq)
  qed
  moreover have "au_employeeId (rdata y) = i \<and> au_roleId (rdata y) = roleId"
    if "y \<in> rows A b" "au_keycloakUserId (rdata y) = em_keycloakUserId (rdata e)" for y
    using uniq [OF that] xu(2,3) by simp
  ultimately show ?thesis using e(1,2) by blast
qed

theorem role_change_reaches_portal_witness:
  "\<exists>b. \<exists>x \<in> rows (mem_repo same_account) b. au_roleId (rdata x) = row_id 1"
proof -
  obtain r t b where 1: "updateRole rb_env (row_id 0) (row_id 1) rb_super rb_hired = (Inr r, t)"
    and 2: "ev_roleName (last (rb_events t)) \<in> set ADMIN_PORTAL_ROLES"
    and 3: "au_handle (mem_repo same_account) 7 (last (rb_events t)) mem_empty = (Inr (), b)" by (rule rb_change)
  have 0: "rows (mem_repo same_account) (mem_empty :: admin_user mem) = {}" by (simp add: mem_rows live_def mem_empty_def)
  from role_change_reaches_portal [OF rb_env_rbac 1 mem.repository_axioms _ 2 3] 0 show ?thesis by blast
qed

text \<open>
  The replacement of delegations deletes before it inserts: an update with the same
  delegate twice fails on the unique index and leaves the role without any delegate.
\<close>

theorem role_update_loses_delegates:
  "let E = rb_env; upd = \<lambda>ds. ro_update E \<lparr>ru_roleId = row_id 0, ru_displayName = None, ru_description = None,
         ru_isActive = None, ru_delegates = Some ds\<rparr> (Some ''s1'');
       s = snd (upd [''d1''] rb_hired); (r, t) = upd [''d2'', ''d2''] s
   in (length (live (rb_delegations s)), isl r, live (rb_delegations t)) = (1, True, [])"
  by code_simp

end
