(* ===== verification/Payment_Properties.thy ===== *)
theory Payment_Properties
  imports Payment
begin

text \<open>
  The requests that write payments, what is true in every state they reach, and the
  properties of paying, replaying, retrying and reading.
\<close>

subsection \<open>Requests\<close>

text \<open>
  The two operations of the controller that write. Between two requests the seeder and the
  other writers may do anything to the bills and the world, but nobody else writes payments.
\<close>

datatype pay_request = Pay payment_dto "actor option" | Retry string "actor option"

fun pay_run ::
  "('p, 'm, 'd, 'w) pay_env \<Rightarrow> pay_request \<Rightarrow> (('p, 'm, 'd, 'w) pay_state, unit) act" where
  "pay_run E (Pay dto actor) = andThen (py_create E dto actor) (\<lambda>_. ret ())"
| "pay_run E (Retry i actor) = andThen (retry_payment E i actor) (\<lambda>_. ret ())"

inductive pay_reachable ::
  "('p, 'm, 'd, 'w) pay_env \<Rightarrow> ('p, 'm, 'd, 'w) pay_state \<Rightarrow> bool" for E where
  start: "rows (pe_payments E) (ps_payments s) = {} \<Longrightarrow> pay_reachable E s"
| request: "pay_reachable E s \<Longrightarrow> pay_run E q s = (r, t) \<Longrightarrow> pay_reachable E t"
| elsewhere: "pay_reachable E s \<Longrightarrow> ps_payments t = ps_payments s \<Longrightarrow> pay_reachable E t"

lemma retry_payment_state:
  "retry_payment E i actor s = (r, t) \<Longrightarrow> \<exists>r'. payViaBbps E i actor s = (r', t) \<and> (\<forall>x. r = Inr x \<longrightarrow> r' = Inr ())"
  by (auto simp: retry_payment_def andThen_def onPayments_def zoom_def py_findOne_def
      split: sum.splits prod.splits option.splits)

lemma pay_run_Pay: "pay_run E (Pay dto actor) s = (r, t) \<Longrightarrow> \<exists>r'. py_create E dto actor s = (r', t)"
  by (auto simp: andThen_def split: sum.splits prod.splits)

lemma pay_run_Pay_Inr: "pay_run E (Pay dto actor) s = (Inr u, t) \<Longrightarrow> \<exists>x. py_create E dto actor s = (Inr x, t)"
  by (auto simp: andThen_Inr)

lemma pay_run_Retry: "pay_run E (Retry i actor) s = (r, t) \<Longrightarrow> \<exists>r'. payViaBbps E i actor s = (r', t)"
  by (auto simp: andThen_def dest!: retry_payment_state split: sum.splits prod.splits)

lemma pay_run_Retry_Inr: "pay_run E (Retry i actor) s = (Inr u, t) \<Longrightarrow> payViaBbps E i actor s = (Inr (), t)"
  by (auto simp: andThen_Inr dest!: retry_payment_state)

context payments begin

lemma pay_run_keys:
  assumes "pay_run E q s = (r, t)" and "unique_keys (pe_payments E) (ps_payments s)"
  shows "unique_keys (pe_payments E) (ps_payments t)"
proof (cases q)
  case (Pay dto actor)
  obtain r' where "py_create E dto actor s = (r', t)" using pay_run_Pay [OF assms(1) [unfolded Pay]] by blast
  from py_create_keys [OF this assms(2)] show ?thesis .
next
  case (Retry i actor)
  obtain r' where "payViaBbps E i actor s = (r', t)" using pay_run_Retry [OF assms(1) [unfolded Retry]] by blast
  from payViaBbps_keys [OF this assms(2)] show ?thesis .
qed

lemma reachable_keys: "pay_reachable E s \<Longrightarrow> unique_keys (pe_payments E) (ps_payments s)"
proof (induction rule: pay_reachable.induct)
  case (start s)
  then show ?case by (simp add: unique_keys_def)
next
  case (request s q r t)
  then show ?case using pay_run_keys by blast
qed simp

lemma pay_run_settled:
  assumes "pay_run E q s = (Inr u, t)" and "settled E s"
  shows "settled E t"
proof (cases q)
  case (Pay dto actor)
  obtain x where "py_create E dto actor s = (Inr x, t)" using pay_run_Pay_Inr [OF assms(1) [unfolded Pay]] by blast
  from py_create_settled [OF this assms(2)] show ?thesis .
next
  case (Retry i actor)
  have "payViaBbps E i actor s = (Inr (), t)" by (rule pay_run_Retry_Inr [OF assms(1) [unfolded Retry]])
  from payViaBbps_settled [OF this assms(2)] show ?thesis .
qed

lemma create_effect:
  assumes "py_create E dto actor s = (Inr r, t)" and "\<not> pr_duplicate r"
  shows "\<exists>owner found resp p w. requireActorSub actor = Inr owner \<and> in_tables E found s
     \<and> mb_status (record_bill found) = ''UNPAID''
     \<and> requested_amount dto (column_number (mb_amount (record_bill found)))
         = Num (column_number (mb_amount (record_bill found)))
     \<and> (\<forall>x \<in> rows (pe_payments E) (ps_payments s). py_idempotencyKey (rdata x) \<noteq> pm_idempotencyKey dto)
     \<and> pe_adapter E \<lparr>bq_billerCode = mb_billerCode (record_bill found),
         bq_consumerNumber = mb_consumerNumber (record_bill found),
         bq_amount = column_number (mb_amount (record_bill found))\<rparr> (ps_world s) = (Inr resp, w)
     \<and> ps_world t = w
     \<and> rdata p = new_payment (record_bill found) resp (pm_idempotencyKey dto) owner
     \<and> rows (pe_payments E) (ps_payments t) = insert p (rows (pe_payments E) (ps_payments s))
     \<and> pr_paymentId r = rid p \<and> pr_status r = bbps_status_text (bs_status resp)
     \<and> (if bs_status resp = SUCCESS then mark_paid (record_bill found) \<in> all_bills E t
        else all_bills E t = all_bills E s)"
proof -
  from py_create_executes [OF assms(1)] assms(2) obtain owner found where
    o: "requireActorSub actor = Inr owner" "payable E dto s = Inr found"
      "findOneR (pe_payments E) (\<lambda>p. py_idempotencyKey (rdata p) = pm_idempotencyKey dto) (ps_payments s) = None"
      "execute_payment E (pm_idempotencyKey dto) owner found s = (Inr r, t)" by blast
  from execute_payment_ok [OF o(4)] obtain resp p u where e:
      "pe_adapter E \<lparr>bq_billerCode = mb_billerCode (record_bill found),
         bq_consumerNumber = mb_consumerNumber (record_bill found),
         bq_amount = column_number (mb_amount (record_bill found))\<rparr> (ps_world s) = (Inr resp, ps_world u)"
      "rdata p = new_payment (record_bill found) resp (pm_idempotencyKey dto) owner"
      "rows (pe_payments E) (ps_payments u) = insert p (rows (pe_payments E) (ps_payments s))"
      "ps_mock u = ps_mock s" "ps_demo u = ps_demo s"
      "pr_paymentId r = rid p" "pr_status r = bbps_status_text (bs_status resp)"
      "if bs_status resp = SUCCESS then save_paid E found u = (Inr (), t) else t = u" by blast
  have f: "in_tables E found s" "in_tables E found u"
    using payable_in_tables [OF o(2)] e(4,5) by (auto simp: in_tables_def split: billing_record.splits)
  have "ps_payments t = ps_payments u \<and> ps_world t = ps_world u
      \<and> (if bs_status resp = SUCCESS then mark_paid (record_bill found) \<in> all_bills E t
        else all_bills E t = all_bills E s)"
  proof (cases "bs_status resp = SUCCESS")
    case True
    with e(8) save_paid_ok [OF _ f(2)] show ?thesis by simp
  next
    case False
    with e(4,5,8) show ?thesis by (simp add: all_bills_def)
  qed
  moreover have "\<forall>x \<in> rows (pe_payments E) (ps_payments s). py_idempotencyKey (rdata x) \<noteq> pm_idempotencyKey dto"
    using o(3) by (simp add: pays.findOne_None)
  ultimately show ?thesis using e(3)
    by (intro exI [of _ owner] exI [of _ found] exI [of _ resp] exI [of _ p] exI [of _ "ps_world u"] conjI
        o(1) f(1) payable_ok [OF o(2), THEN conjunct1] payable_ok [OF o(2), THEN conjunct2] e(1,2,6,7)) simp_all
qed

end


subsection \<open>Properties\<close>

text \<open>
  The examples: one water bill, a customer, and an adapter that answers the listed statuses
  one after the other.
\<close>

fun scripted_adapter :: "bbps_status list bbps_adapter" where
  "scripted_adapter q [] = (Inl (Failure ''no answer''), [])"
| "scripted_adapter q (x # xs) = (Inr \<lparr>bs_status = x, bs_referenceId = Some ''BBPS-1''\<rparr>, xs)"

definition ex_env where
  "ex_env = mem_pay_env scripted_adapter"

definition ex_bill :: mock_bill where
  "ex_bill = seed_mock (BBPS_CATALOG ! 4) ''UNPAID''"

definition ex_state :: "bbps_status list \<Rightarrow> (payment mem, mock_bill mem, demo_bill mem, bbps_status list) pay_state" where
  "ex_state script = \<lparr>ps_payments = mem_empty, ps_mock = snd (mem_insert same_bill ex_bill mem_empty),
     ps_demo = mem_empty, ps_world = script\<rparr>"

definition ex_customer :: "actor option" where
  "ex_customer = Some \<lparr>act_sub = Some ''u1'', act_realm_roles = Some [''RETAIL_CUSTOMER''], act_roles = None\<rparr>"

definition ex_dto :: "string \<Rightarrow> payment_dto" where
  "ex_dto key = \<lparr>pm_billNumber = Some ''BBPS-WATER-001'', pm_billerCode = None, pm_consumerNumber = None,
     pm_amount = None, pm_idempotencyKey = key\<rparr>"

definition ex_after :: "pay_request list \<Rightarrow> bbps_status list \<Rightarrow> (payment mem, mock_bill mem, demo_bill mem, bbps_status list) pay_state" where
  "ex_after qs script = snd (forA qs (pay_run ex_env) (ex_state script))"

lemma pay_runs_reachable: "pay_reachable E s \<Longrightarrow> pay_reachable E (snd (forA qs (pay_run E) s))"
proof (induction qs arbitrary: s)
  case (Cons q qs)
  obtain r t where q: "pay_run E q s = (r, t)" by fastforce
  have t: "pay_reachable E t" by (rule pay_reachable.request [OF Cons.prems q])
  show ?case
  proof (cases r)
    case (Inl e)
    with q t show ?thesis by simp
  next
    case (Inr x)
    obtain r2 u where u: "forA qs (pay_run E) t = (r2, u)" by fastforce
    with Cons.IH [OF t] have "pay_reachable E u" by simp
    with q u Inr show ?thesis by (cases r2) simp_all
  qed
qed simp

lemma ex_reachable: "pay_reachable ex_env (ex_after qs script)"
  unfolding ex_after_def
  by (rule pay_runs_reachable, rule pay_reachable.start)
    (simp add: ex_env_def ex_state_def mem_rows live_def mem_empty_def)

lemma ex_tables: "repository (pe_payments ex_env)" "repository (pe_mock ex_env)" "repository (pe_demo ex_env)"
  by (simp_all add: ex_env_def mem.repository_axioms)

lemma ex_rows: "rows (pe_payments ex_env) t = set (live t)"
  by (simp add: ex_env_def mem_rows)

text \<open>
  C3: in every reachable state, after any requests and retries, failed ones included, no
  two payments have the same idempotency key.
\<close>

theorem payment_keys_unique:
  assumes "repository (pe_payments E)" and "repository (pe_mock E)" and "repository (pe_demo E)"
    and "pay_reachable E s"
    and "a \<in> rows (pe_payments E) (ps_payments s)" and "b \<in> rows (pe_payments E) (ps_payments s)"
    and "py_idempotencyKey (rdata a) = py_idempotencyKey (rdata b)"
  shows "a = b"
  using payments.reachable_keys [OF payments.intro [OF assms(1-3)] assms(4)] assms(5-7)
  by (simp add: unique_keys_def)

theorem payment_keys_unique_witness:
  "let s = ex_after [Pay (ex_dto ''k1'') ex_customer, Pay (ex_dto ''k1'') ex_customer] [TIMEOUT, FAILED]
   in live (ps_payments s) \<noteq> [] \<and> hd (live (ps_payments s)) = last (live (ps_payments s))"
proof -
  let ?s = "ex_after [Pay (ex_dto ''k1'') ex_customer, Pay (ex_dto ''k1'') ex_customer] [TIMEOUT, FAILED]"
  have 1: "live (ps_payments ?s) \<noteq> []" by code_simp
  have 2: "py_idempotencyKey (rdata (hd (live (ps_payments ?s)))) = py_idempotencyKey (rdata (last (live (ps_payments ?s))))"
    by code_simp
  have m: "hd (live (ps_payments ?s)) \<in> rows (pe_payments ex_env) (ps_payments ?s)"
    "last (live (ps_payments ?s)) \<in> rows (pe_payments ex_env) (ps_payments ?s)" using 1 by (simp_all add: ex_rows)
  from payment_keys_unique [OF ex_tables ex_reachable m 2] 1 show ?thesis by simp
qed





text \<open>
  C6: a payment or retry that returns keeps the books settled: every payment belongs to a
  bill, and a payment with status \<open>SUCCESS\<close> to a bill that is paid.
\<close>

theorem payment_settled:
  assumes "repository (pe_payments E)" and "repository (pe_mock E)" and "repository (pe_demo E)"
    and "pay_run E q s = (Inr u, t)" and "settled E s"
  shows "settled E t"
  by (rule payments.pay_run_settled [OF payments.intro [OF assms(1-3)] assms(4,5)])

theorem payment_settled_witness:
  "settled ex_env (ex_after [Pay (ex_dto ''k1'') ex_customer] [SUCCESS])
   \<and> live (ps_payments (ex_after [Pay (ex_dto ''k1'') ex_customer] [SUCCESS])) \<noteq> []"
proof -
  let ?q = "Pay (ex_dto ''k1'') ex_customer"
  have 1: "pay_run ex_env ?q (ex_state [SUCCESS]) = (Inr (), ex_after [?q] [SUCCESS])" by code_simp
  have "settled ex_env (ex_state [SUCCESS])"
    by (simp add: settled_def ex_env_def ex_state_def mem_rows live_def mem_empty_def)
  from payment_settled [OF ex_tables 1 this] show ?thesis by (intro conjI) (assumption, code_simp)
qed

text \<open>
  C12: a retry changes something only for a payment that has not succeeded and that the
  actor owns or may see as a bank administrator; it then stores the new status in that row,
  and every other payment stays.
\<close>

theorem payment_retry_guarded:
  assumes "repository (pe_payments E)" and "repository (pe_mock E)" and "repository (pe_demo E)"
    and "payViaBbps E i actor s = (r, t)" and "t \<noteq> s"
  shows "\<exists>p \<in> rows (pe_payments E) (ps_payments s). rid p = i \<and> py_status (rdata p) \<noteq> ''SUCCESS''
     \<and> (canViewAllBillPayments actor \<or> Inr (orElse (py_keycloakUserId (rdata p)) []) = requireActorSub actor)"
proof -
  from payments.payViaBbps_cases [OF payments.intro [OF assms(1-3)] assms(4)] assms(5)
  obtain p where p: "p \<in> rows (pe_payments E) (ps_payments s)" "rid p = i" "py_status (rdata p) \<noteq> ''SUCCESS''"
    "assertPaymentOwnedByActor (py_keycloakUserId (rdata p)) actor = Inr ()" by blast
  from p(4) have "canViewAllBillPayments actor \<or> Inr (orElse (py_keycloakUserId (rdata p)) []) = requireActorSub actor"
    by (auto simp: assertPaymentOwnedByActor_def owned_by_actor_ok split: if_splits)
  with p show ?thesis by blast
qed

theorem payment_retry_guarded_witness:
  "\<exists>p \<in> rows (pe_payments ex_env) (ps_payments (ex_after [Pay (ex_dto ''k1'') ex_customer] [TIMEOUT, SUCCESS])).
     py_status (rdata p) \<noteq> ''SUCCESS''"
proof -
  let ?s = "ex_after [Pay (ex_dto ''k1'') ex_customer] [TIMEOUT, SUCCESS]"
  obtain r t where c: "payViaBbps ex_env (row_id 0) ex_customer ?s = (r, t)" by fastforce
  have "ps_world (snd (payViaBbps ex_env (row_id 0) ex_customer ?s)) = []" "ps_world ?s = [SUCCESS]" by code_simp+
  with c have "t \<noteq> ?s" by auto
  from payment_retry_guarded [OF ex_tables c this] show ?thesis by blast
qed


text \<open>
  C13: reading payments shows an actor without a bank role only his own.
\<close>

theorem payment_read_own:
  assumes "repository R" and "\<not> canViewAllBillPayments actor"
    and "p \<in> (case py_findAll R actor t of Inl _ \<Rightarrow> {} | Inr ps \<Rightarrow> set ps) \<or> py_findOne R i actor t = (Inr p, t')"
  shows "p \<in> rows R t \<and> (\<exists>a u. actor = Some a \<and> act_sub a = Some u \<and> u \<noteq> [] \<and> py_keycloakUserId (rdata p) = Some u)"
  using assms(3)
proof
  assume "p \<in> (case py_findAll R actor t of Inl _ \<Rightarrow> {} | Inr ps \<Rightarrow> set ps)"
  with assms(2) show ?thesis
    by (auto simp: py_findAll_def repository.find_set [OF assms(1)] requireActorSub_ok split: sum.splits if_splits)
next
  assume "py_findOne R i actor t = (Inr p, t')"
  with assms(2) show ?thesis
    by (auto simp: py_findOne_def assertPaymentOwnedByActor_def owned_by_actor_ok requireActorSub_ok
        repository.findOne_byId_iff [OF assms(1)] split: option.splits sum.splits if_splits)
qed

theorem payment_read_own_witness:
  "\<exists>p \<in> rows (pe_payments ex_env) (ps_payments (ex_after [Pay (ex_dto ''k1'') ex_customer] [TIMEOUT])).
     py_keycloakUserId (rdata p) = Some ''u1''"
proof -
  let ?t = "ps_payments (ex_after [Pay (ex_dto ''k1'') ex_customer] [TIMEOUT])"
  let ?ps = "case py_findAll (pe_payments ex_env) ex_customer ?t of Inl _ \<Rightarrow> [] | Inr ps \<Rightarrow> ps"
  have 1: "\<not> canViewAllBillPayments ex_customer" by code_simp
  have "?ps \<noteq> []" by code_simp
  then have "hd ?ps \<in> (case py_findAll (pe_payments ex_env) ex_customer ?t of Inl _ \<Rightarrow> {} | Inr ps \<Rightarrow> set ps)"
    by (auto split: sum.splits)
  from payment_read_own [OF ex_tables(1) 1 disjI1 [OF this]] show ?thesis
    by (auto simp: ex_customer_def)
qed



end
