(* ===== verification/Schedule.thy ===== *)
theory Schedule
  imports Bill_Catalog
begin

text \<open>
  \<open>modules/bill-payment/scheduling\<close>: the schedules of a customer as a state machine over
  \<open>ScheduleStatus\<close>, and their executions. \<open>parseDate\<close> is \<open>new Date(s)\<close>, whose result
  depends on the time zone of the process.
\<close>

subsection \<open>schedule-status.constant.ts, entities\<close>

datatype schedule_status = S_ACTIVE | S_PAUSED | S_CANCELLED | S_EXPIRED | S_COMPLETED

fun schedule_status_text :: "schedule_status \<Rightarrow> string" where
  "schedule_status_text S_ACTIVE = ''ACTIVE''"
| "schedule_status_text S_PAUSED = ''PAUSED''"
| "schedule_status_text S_CANCELLED = ''CANCELLED''"
| "schedule_status_text S_EXPIRED = ''EXPIRED''"
| "schedule_status_text S_COMPLETED = ''COMPLETED''"

definition TERMINAL_SCHEDULE_STATUSES :: "schedule_status list" where
  "TERMINAL_SCHEDULE_STATUSES = [S_CANCELLED, S_EXPIRED, S_COMPLETED]"

record bill_schedule =
  sc_billerCode :: string
  sc_consumerNumber :: string
  sc_scheduleType :: string
  sc_frequency :: "string option"
  sc_nextRunAt :: int
  sc_maximumAmount :: rat
  sc_active :: bool
  sc_status :: schedule_status
  sc_keycloakUserId :: "string option"

record schedule_execution =
  sx_scheduleId :: string
  sx_billNumber :: "string option"
  sx_billAmount :: "rat option"
  sx_maximumAmount :: "rat option"
  sx_idempotencyKey :: "string option"
  sx_status :: string
  sx_attemptCount :: int
  sx_failureReason :: "string option"
  sx_paymentId :: "string option"
  sx_startedAt :: "int option"
  sx_completedAt :: "int option"

subsection \<open>bill-schedule.service.ts\<close>

record schedule_dto =
  sd_billerCode :: string
  sd_consumerNumber :: string
  sd_scheduleType :: string
  sd_frequency :: "string option"
  sd_nextRunAt :: string
  sd_maximumAmount :: rat

definition sc_findAll ::
  "('t, bill_schedule) repo \<Rightarrow> actor option \<Rightarrow> 't \<Rightarrow> bill_schedule row list result" where
  "sc_findAll R actor t = (case requireActorSub actor of
      Inl e \<Rightarrow> Inl e
    | Inr sub \<Rightarrow> Inr (findR R (\<lambda>r. sc_keycloakUserId (rdata r) = Some sub) t))"

definition getOwnedSchedule ::
  "('t, bill_schedule) repo \<Rightarrow> string \<Rightarrow> actor option \<Rightarrow> ('t, bill_schedule row) act" where
  "getOwnedSchedule R i actor t = (case findOneR R (byId i) t of
      None \<Rightarrow> (Inl schedule_not_found, t)
    | Some r \<Rightarrow> (case assertScheduleOwnedByActor (sc_keycloakUserId (rdata r)) actor of
        Inl e \<Rightarrow> (Inl e, t) | Inr _ \<Rightarrow> (Inr r, t)))"

definition sc_findOne ::
  "('t, bill_schedule) repo \<Rightarrow> string \<Rightarrow> actor option \<Rightarrow> ('t, bill_schedule row) act" where
  "sc_findOne R i actor = getOwnedSchedule R i actor"

definition new_schedule :: "(string \<Rightarrow> int) \<Rightarrow> schedule_dto \<Rightarrow> string \<Rightarrow> bill_schedule" where
  "new_schedule parseDate dto owner = \<lparr>sc_billerCode = sd_billerCode dto,
     sc_consumerNumber = sd_consumerNumber dto, sc_scheduleType = sd_scheduleType dto,
     sc_frequency = sd_frequency dto, sc_nextRunAt = parseDate (sd_nextRunAt dto),
     sc_maximumAmount = dec2 (sd_maximumAmount dto), sc_active = True, sc_status = S_ACTIVE,
     sc_keycloakUserId = Some owner\<rparr>"

definition sc_create ::
  "('t, bill_schedule) repo \<Rightarrow> (string \<Rightarrow> int) \<Rightarrow> schedule_dto \<Rightarrow> actor option
   \<Rightarrow> ('t, bill_schedule row) act" where
  "sc_create R parseDate dto actor = (case requireActorSub actor of
      Inl e \<Rightarrow> throw e
    | Inr keycloakUserId \<Rightarrow>
        if sd_scheduleType dto = ''RECURRING'' \<and> \<not> truthy (sd_frequency dto)
        then throw (BadRequestException (Msg ''Frequency is required for recurring schedule''))
        else if sd_scheduleType dto = ''ONE_TIME'' \<and> truthy (sd_frequency dto)
        then throw (BadRequestException (Msg ''Frequency should not be provided for one-time schedule''))
        else insertR R (new_schedule parseDate dto keycloakUserId))"

definition set_status :: "schedule_status \<Rightarrow> bool \<Rightarrow> bill_schedule \<Rightarrow> bill_schedule" where
  "set_status st act d = d\<lparr>sc_status := st, sc_active := act\<rparr>"

definition cannot :: "string \<Rightarrow> string \<Rightarrow> schedule_status \<Rightarrow> exn" where
  "cannot cd verb st = BadRequestException (Coded cd
     (''Cannot '' @ verb @ '' a schedule in '' @ schedule_status_text st @ '' state''))"

definition pauseSchedule ::
  "('t, bill_schedule) repo \<Rightarrow> string \<Rightarrow> actor option \<Rightarrow> ('t, bill_schedule row) act" where
  "pauseSchedule R i actor = andThen (getOwnedSchedule R i actor) (\<lambda>r.
     if sc_status (rdata r) = S_PAUSED
     then throw (BadRequestException (Coded ''SCHEDULE_ALREADY_PAUSED'' ''Schedule is already paused''))
     else if sc_status (rdata r) \<noteq> S_ACTIVE
     then throw (cannot ''SCHEDULE_CANNOT_PAUSE'' ''pause'' (sc_status (rdata r)))
     else saveR R (upd (set_status S_PAUSED False) r))"

definition resumeSchedule ::
  "('t, bill_schedule) repo \<Rightarrow> string \<Rightarrow> actor option \<Rightarrow> ('t, bill_schedule row) act" where
  "resumeSchedule R i actor = andThen (getOwnedSchedule R i actor) (\<lambda>r.
     if sc_status (rdata r) = S_ACTIVE
     then throw (BadRequestException (Coded ''SCHEDULE_ALREADY_ACTIVE'' ''Schedule is already active''))
     else if sc_status (rdata r) \<noteq> S_PAUSED
     then throw (cannot ''SCHEDULE_CANNOT_RESUME'' ''resume'' (sc_status (rdata r)))
     else saveR R (upd (set_status S_ACTIVE True) r))"

definition cancelSchedule ::
  "('t, bill_schedule) repo \<Rightarrow> string \<Rightarrow> actor option \<Rightarrow> ('t, bill_schedule row) act" where
  "cancelSchedule R i actor = andThen (getOwnedSchedule R i actor) (\<lambda>r.
     if sc_status (rdata r) = S_CANCELLED
     then throw (BadRequestException (Coded ''SCHEDULE_ALREADY_CANCELLED'' ''Schedule is already cancelled''))
     else if sc_status (rdata r) \<in> set TERMINAL_SCHEDULE_STATUSES
     then throw (cannot ''SCHEDULE_CANNOT_CANCEL'' ''cancel'' (sc_status (rdata r)))
     else if sc_status (rdata r) \<noteq> S_ACTIVE \<and> sc_status (rdata r) \<noteq> S_PAUSED
     then throw (cannot ''SCHEDULE_CANNOT_CANCEL'' ''cancel'' (sc_status (rdata r)))
     else saveR R (upd (set_status S_CANCELLED False) r))"

text \<open>\<open>order: { createdAt: 'DESC' }\<close> and \<open>'ASC'\<close> as sort keys.\<close>

definition getScheduleExecutions ::
  "('t, bill_schedule) repo \<Rightarrow> ('x, schedule_execution) repo \<Rightarrow> string \<Rightarrow> actor option \<Rightarrow> 't \<Rightarrow> 'x
   \<Rightarrow> schedule_execution row list result" where
  "getScheduleExecutions R X i actor t x = (case fst (getOwnedSchedule R i actor t) of
      Inl e \<Rightarrow> Inl e
    | Inr _ \<Rightarrow> Inr (findOrdR X (\<lambda>e. - createdAt e) (\<lambda>e. sx_scheduleId (rdata e) = i) x))"

definition upcoming :: "string \<Rightarrow> int \<Rightarrow> bill_schedule row \<Rightarrow> bool" where
  "upcoming sub now r \<longleftrightarrow> sc_keycloakUserId (rdata r) = Some sub \<and> sc_status (rdata r) = S_ACTIVE
     \<and> now \<le> sc_nextRunAt (rdata r)"

definition getUpcomingSchedules ::
  "('t, bill_schedule) repo \<Rightarrow> int \<Rightarrow> actor option \<Rightarrow> 't \<Rightarrow> bill_schedule row list result" where
  "getUpcomingSchedules R now actor t = (case requireActorSub actor of
      Inl e \<Rightarrow> Inl e
    | Inr sub \<Rightarrow> Inr (findOrdR R (\<lambda>r. sc_nextRunAt (rdata r)) (upcoming sub now) t))"

subsection \<open>The state machine\<close>

inductive schedule_move :: "schedule_status \<Rightarrow> schedule_status \<Rightarrow> bool" where
  pause: "schedule_move S_ACTIVE S_PAUSED"
| resume: "schedule_move S_PAUSED S_ACTIVE"
| cancel: "st = S_ACTIVE \<or> st = S_PAUSED \<Longrightarrow> schedule_move st S_CANCELLED"

inductive_simps schedule_move_simps: "schedule_move a b"
inductive_cases schedule_move_terminal: "schedule_move S_CANCELLED b"

text \<open>The columns agree: a schedule is active exactly when its status says so.\<close>

definition schedule_ok :: "bill_schedule \<Rightarrow> bool" where
  "schedule_ok d \<longleftrightarrow> (sc_active d \<longleftrightarrow> sc_status d = S_ACTIVE) \<and> truthy (sc_keycloakUserId d)"

datatype schedule_request =
  Create_schedule schedule_dto | Pause string | Resume string | Cancel string

fun schedule_run ::
  "('t, bill_schedule) repo \<Rightarrow> (string \<Rightarrow> int) \<Rightarrow> actor option \<Rightarrow> schedule_request
   \<Rightarrow> ('t, bill_schedule row) act" where
  "schedule_run R pd actor (Create_schedule dto) = sc_create R pd dto actor"
| "schedule_run R pd actor (Pause i) = pauseSchedule R i actor"
| "schedule_run R pd actor (Resume i) = resumeSchedule R i actor"
| "schedule_run R pd actor (Cancel i) = cancelSchedule R i actor"

inductive schedules_reachable :: "('t, bill_schedule) repo \<Rightarrow> (string \<Rightarrow> int) \<Rightarrow> 't \<Rightarrow> bool" for R pd where
  empty: "rows R t = {} \<Longrightarrow> schedules_reachable R pd t"
| step: "schedules_reachable R pd t \<Longrightarrow> schedule_run R pd actor q t = (r, u) \<Longrightarrow> schedules_reachable R pd u"

locale schedule_repository = repository R for R :: "('t, bill_schedule) repo"
begin

lemma owned:
  assumes "getOwnedSchedule R i actor t = (Inr r, u)"
  shows "r \<in> rows R t \<and> rid r = i
     \<and> (\<exists>sub. requireActorSub actor = Inr sub \<and> sc_keycloakUserId (rdata r) = Some sub)"
proof -
  from assms have f: "findOneR R (byId i) t = Some r"
    and o: "owned_by_actor schedule_not_found (sc_keycloakUserId (rdata r)) actor = Inr ()"
    by (auto simp: getOwnedSchedule_def assertScheduleOwnedByActor_def split: option.splits sum.splits)
  from f have "r \<in> rows R t \<and> rid r = i" by (simp add: findOne_byId_iff)
  with o show ?thesis by (simp add: owned_by_actor_ok)
qed

lemma owned_same: "getOwnedSchedule R i actor t = (r, u) \<Longrightarrow> u = t"
  by (auto simp: getOwnedSchedule_def split: option.splits sum.splits)

text \<open>A change of status is a move of the machine on an own schedule; nothing else changes.\<close>

definition moved :: "string \<Rightarrow> actor option \<Rightarrow> 't \<Rightarrow> 't \<Rightarrow> bool" where
  "moved i actor t u \<longleftrightarrow> rows R u = rows R t \<or> (\<exists>r f st sub. r \<in> rows R t \<and> rid r = i
     \<and> requireActorSub actor = Inr sub \<and> sc_keycloakUserId (rdata r) = Some sub
     \<and> schedule_move (sc_status (rdata r)) st \<and> rid f = i \<and> rdata f = set_status st (st = S_ACTIVE) (rdata r)
     \<and> rows R u = insert f {x \<in> rows R t. rid x \<noteq> i})"

lemma save_moved:
  assumes "saveR R (upd (set_status st (st = S_ACTIVE)) r) t = (q, u)" and "getOwnedSchedule R i actor t = (Inr r, t)"
    and "schedule_move (sc_status (rdata r)) st"
  shows "moved i actor t u"
proof -
  obtain sub where r: "r \<in> rows R t" "rid r = i" "requireActorSub actor = Inr sub"
      "sc_keycloakUserId (rdata r) = Some sub"
    using owned [OF assms(2)] by blast
  have k: "rid (upd (set_status st (st = S_ACTIVE)) r) \<in> rid ` rows R t" using r(1) by simp
  show ?thesis
  proof (cases rule: save_cases [OF assms(1) k])
    case (1 x)
    then show ?thesis by (simp add: moved_def)
  next
    case (2 f)
    with r assms(3) show ?thesis unfolding moved_def
      by (intro disjI2 exI [of _ r] exI [of _ f] exI [of _ st] exI [of _ sub]) simp
  qed
qed

lemma change_moved:
  assumes "andThen (getOwnedSchedule R i actor) k t = (q, u)"
    and "\<And>r. getOwnedSchedule R i actor t = (Inr r, t) \<Longrightarrow> k r t = (q, u) \<Longrightarrow> moved i actor t u"
  shows "moved i actor t u"
proof -
  obtain q1 v where o: "getOwnedSchedule R i actor t = (q1, v)" by fastforce
  have v: "v = t" using owned_same [OF o] .
  show ?thesis
  proof (cases q1)
    case (Inl e)
    with assms(1) o v show ?thesis by (simp add: moved_def)
  next
    case (Inr r)
    with assms(1) o v have "k r t = (q, u)" by simp
    with assms(2) [of r] o v Inr show ?thesis by simp
  qed
qed

lemma moved_refl: "moved i actor t t"
  by (simp add: moved_def)

lemma pause_moved: "pauseSchedule R i actor t = (q, u) \<Longrightarrow> moved i actor t u"
  unfolding pauseSchedule_def
  by (erule change_moved)
    (auto simp: moved_refl intro!: schedule_move.pause save_moved [where st = S_PAUSED] split: if_splits)

lemma resume_moved: "resumeSchedule R i actor t = (q, u) \<Longrightarrow> moved i actor t u"
  unfolding resumeSchedule_def
  by (erule change_moved)
    (auto simp: moved_refl intro!: schedule_move.resume save_moved [where st = S_ACTIVE] split: if_splits)

lemma cancel_moved: "cancelSchedule R i actor t = (q, u) \<Longrightarrow> moved i actor t u"
  unfolding cancelSchedule_def
  by (erule change_moved)
    (auto simp: moved_refl intro!: schedule_move.cancel save_moved [where st = S_CANCELLED] split: if_splits)

lemma moved_ok:
  assumes "moved i actor t u" and "\<forall>x \<in> rows R t. schedule_ok (rdata x)"
  shows "\<forall>x \<in> rows R u. schedule_ok (rdata x)"
  using assms by (auto simp: moved_def schedule_ok_def set_status_def requireActorSub_ok)

lemma create_ok:
  assumes "sc_create R pd dto actor t = (q, u)" and "\<forall>x \<in> rows R t. schedule_ok (rdata x)"
  shows "\<forall>x \<in> rows R u. schedule_ok (rdata x)"
proof (cases "requireActorSub actor")
  case (Inl e)
  with assms show ?thesis by (simp add: sc_create_def)
next
  case (Inr sub)
  then have "schedule_ok (new_schedule pd dto sub)"
    by (simp add: schedule_ok_def new_schedule_def requireActorSub_ok)
  from all_insert [of "new_schedule pd dto sub" t _ _ schedule_ok, OF _ this assms(2)] assms Inr show ?thesis
    by (auto simp: sc_create_def split: if_splits)
qed

lemma run_ok:
  assumes "schedule_run R pd actor rq t = (q, u)" and "\<forall>x \<in> rows R t. schedule_ok (rdata x)"
  shows "\<forall>x \<in> rows R u. schedule_ok (rdata x)"
proof (cases rq)
  case (Create_schedule dto)
  with assms create_ok show ?thesis by simp
next
  case (Pause i)
  with assms moved_ok [OF pause_moved] show ?thesis by simp
next
  case (Resume i)
  with assms moved_ok [OF resume_moved] show ?thesis by simp
next
  case (Cancel i)
  with assms moved_ok [OF cancel_moved] show ?thesis by simp
qed

lemma reachable_ok: "schedules_reachable R pd t \<Longrightarrow> \<forall>x \<in> rows R t. schedule_ok (rdata x)"
  by (induction rule: schedules_reachable.induct) (simp, rule run_ok)

lemma run_moved:
  assumes "schedule_run R pd actor rq t = (q, u)" and "x \<in> rows R t" and "y \<in> rows R u" and "rid x = rid y"
  shows "rdata y = rdata x \<or> (\<exists>st. schedule_move (sc_status (rdata x)) st
     \<and> rdata y = set_status st (st = S_ACTIVE) (rdata x)
     \<and> (\<exists>sub. requireActorSub actor = Inr sub \<and> sc_keycloakUserId (rdata x) = Some sub))"
proof -
  have m: ?thesis if mv: "moved i actor t u" for i
  proof (cases "rows R u = rows R t")
    case True
    with rid_inj [of x t y] assms(2-4) show ?thesis by simp
  next
    case False
    with mv obtain r f st sub where r: "r \<in> rows R t" "rid r = i" "requireActorSub actor = Inr sub"
      "sc_keycloakUserId (rdata r) = Some sub" "schedule_move (sc_status (rdata r)) st" "rid f = i"
      "rdata f = set_status st (st = S_ACTIVE) (rdata r)" "rows R u = insert f {x \<in> rows R t. rid x \<noteq> i}"
      unfolding moved_def by blast
    show ?thesis
    proof (cases "y = f")
      case True
      with r assms(2,4) rid_inj [of x t r] have "x = r" by simp
      with r True show ?thesis by blast
    next
      case False
      with r(8) assms(3) have "y \<in> rows R t" by simp
      with assms(2,4) rid_inj [of x t y] show ?thesis by simp
    qed
  qed
  show ?thesis
  proof (cases rq)
    case (Create_schedule dto)
    have "rows R u = rows R t \<or> (\<exists>e. rid e \<notin> rid ` rows R t \<and> rows R u = insert e (rows R t))"
    proof (cases "u = t")
      case False
      with assms(1) Create_schedule obtain d where i: "insertR R d t = (q, u)"
        by (auto simp: sc_create_def split: sum.splits if_splits)
      then show ?thesis using insert_err [of d t _ u] insert_ok [of d t _ u] by (cases q) blast+
    qed simp
    with assms(2-4) rid_inj [of x t y] imageI [OF assms(2), of rid] show ?thesis by auto
  next
    case (Pause i)
    with assms(1) m [OF pause_moved] show ?thesis by simp
  next
    case (Resume i)
    with assms(1) m [OF resume_moved] show ?thesis by simp
  next
    case (Cancel i)
    with assms(1) m [OF cancel_moved] show ?thesis by simp
  qed
qed

end

interpretation mem_schedule: schedule_repository "mem_repo conf"
  by unfold_locales

end
