(* ===== verification/Schedule_Properties.thy ===== *)
theory Schedule_Properties
  imports Schedule
begin

text \<open>
  What bill-schedule.service.ts promises, as an abstract machine over the owner and the
  status of every schedule, and the proof that the service implements it request by request.
\<close>

subsection \<open>The specification of a schedule\<close>

text \<open>What a customer sees of the schedules: the owner and the status, by id.\<close>

type_synonym schedules = "string \<rightharpoonup> string option \<times> schedule_status"

definition schedule_view :: "('t, bill_schedule) repo \<Rightarrow> 't \<Rightarrow> schedules" where
  "schedule_view R t i = map_option (\<lambda>r. (sc_keycloakUserId (rdata r), sc_status (rdata r))) (findOneR R (byId i) t)"

fun schedule_target :: "schedule_request \<Rightarrow> (string \<times> schedule_status) option" where
  "schedule_target (Pause i) = Some (i, S_PAUSED)"
| "schedule_target (Resume i) = Some (i, S_ACTIVE)"
| "schedule_target (Cancel i) = Some (i, S_CANCELLED)"
| "schedule_target (Create_schedule dto) = None"

definition frequency_ok :: "schedule_dto \<Rightarrow> bool" where
  "frequency_ok dto \<longleftrightarrow> (sd_scheduleType dto = ''RECURRING'' \<longrightarrow> truthy (sd_frequency dto))
     \<and> (sd_scheduleType dto = ''ONE_TIME'' \<longrightarrow> \<not> truthy (sd_frequency dto))"

text \<open>Who may move a schedule and where to: its owner, along the machine.\<close>

definition schedule_allowed :: "actor option \<Rightarrow> string \<Rightarrow> schedule_status \<Rightarrow> schedules \<Rightarrow> bool" where
  "schedule_allowed actor i st m \<longleftrightarrow>
     (\<exists>sub s. m i = Some (Some sub, s) \<and> requireActorSub actor = Inr sub \<and> schedule_move s st)"

lemma terminal_final: "schedule_move s st \<Longrightarrow> s \<notin> set TERMINAL_SCHEDULE_STATUSES"
  by (auto simp: schedule_move_simps TERMINAL_SCHEDULE_STATUSES_def)

inductive schedule_spec :: "actor option \<Rightarrow> schedule_request \<Rightarrow> schedules \<Rightarrow> bool \<Rightarrow> schedules \<Rightarrow> bool" where
  move: "schedule_target q = Some (i, st) \<Longrightarrow> schedule_allowed actor i st m \<Longrightarrow>
    schedule_spec actor q m True (m(i := map_option (\<lambda>(owner, _). (owner, st)) (m i)))"
| refuse: "schedule_target q = Some (i, st) \<Longrightarrow> \<not> schedule_allowed actor i st m \<Longrightarrow> schedule_spec actor q m False m"
| create: "requireActorSub actor = Inr sub \<Longrightarrow> frequency_ok dto \<Longrightarrow> m i = None \<Longrightarrow>
    schedule_spec actor (Create_schedule dto) m True (m(i \<mapsto> (Some sub, S_ACTIVE)))"
| reject: "\<not> frequency_ok dto \<or> (\<exists>e. requireActorSub actor = Inl e) \<Longrightarrow> schedule_spec actor (Create_schedule dto) m False m"

text \<open>A sequence of requests, each with its actor, and the outcomes.\<close>

fun schedule_trace ::
  "('t, bill_schedule) repo \<Rightarrow> (string \<Rightarrow> int) \<Rightarrow> (actor option \<times> schedule_request) list \<Rightarrow> 't \<Rightarrow> bool list \<times> 't" where
  "schedule_trace R pd [] t = ([], t)"
| "schedule_trace R pd ((actor, q) # qs) t = (case schedule_run R pd actor q t of
     (r, u) \<Rightarrow> apfst ((#) (\<not> isl r)) (schedule_trace R pd qs u))"

inductive schedule_spec_trace ::
  "(actor option \<times> schedule_request) list \<Rightarrow> schedules \<Rightarrow> bool list \<Rightarrow> schedules \<Rightarrow> bool" where
  Nil: "schedule_spec_trace [] m [] m"
| Cons: "schedule_spec actor q m b m' \<Longrightarrow> schedule_spec_trace qs m' bs m'' \<Longrightarrow>
    schedule_spec_trace ((actor, q) # qs) m (b # bs) m''"

locale reliable_schedules = schedule_repository R + reliable_repository R for R :: "('t, bill_schedule) repo"
begin

lemma view_some: "r \<in> rows R t \<Longrightarrow> schedule_view R t (rid r) = Some (sc_keycloakUserId (rdata r), sc_status (rdata r))"
  by (simp add: schedule_view_def findOne_byId)

lemma view_none: "i \<notin> rid ` rows R t \<Longrightarrow> schedule_view R t i = None"
  by (simp add: schedule_view_def findOne_byId_None)

lemma view_cong: "{x \<in> rows R u. rid x = i} = {x \<in> rows R t. rid x = i} \<Longrightarrow> schedule_view R u i = schedule_view R t i"
proof -
  assume a: "{x \<in> rows R u. rid x = i} = {x \<in> rows R t. rid x = i}"
  show ?thesis
  proof (cases "i \<in> rid ` rows R t")
    case True
    then obtain r where r: "r \<in> rows R t" "rid r = i" by auto
    with a have "r \<in> rows R u" by auto
    from view_some [OF this] view_some [OF r(1)] r(2) show ?thesis by simp
  next
    case False
    with a have "i \<notin> rid ` rows R u" by auto
    with False show ?thesis by (simp add: view_none)
  qed
qed

lemma view_insert:
  assumes "rows R u = insert f {x \<in> rows R t. rid x \<noteq> rid f}"
  shows "schedule_view R u = (schedule_view R t)(rid f \<mapsto> (sc_keycloakUserId (rdata f), sc_status (rdata f)))"
proof
  fix i
  show "schedule_view R u i = ((schedule_view R t)(rid f \<mapsto> (sc_keycloakUserId (rdata f), sc_status (rdata f)))) i"
  proof (cases "i = rid f")
    case True
    have "f \<in> rows R u" using assms by simp
    from view_some [OF this] True show ?thesis by simp
  next
    case False
    then have "{x \<in> rows R u. rid x = i} = {x \<in> rows R t. rid x = i}" using assms by auto
    from view_cong [OF this] False show ?thesis by simp
  qed
qed

text \<open>
  One scheme for the three changes: the own row is loaded, the status is checked and the new
  one saved.
\<close>

lemma change_refines:
  assumes run: "andThen (getOwnedSchedule R i actor) k t = (r, u)"
    and target: "schedule_target q = Some (i, st)"
    and good: "\<And>x. schedule_move (sc_status (rdata x)) st \<Longrightarrow> k x = saveR R (upd (set_status st (st = S_ACTIVE)) x)"
    and bad: "\<And>x. \<not> schedule_move (sc_status (rdata x)) st \<Longrightarrow> \<exists>e. k x = throw e"
  shows "schedule_spec actor q (schedule_view R t) (\<not> isl r) (schedule_view R u)"
proof -
  obtain q1 v where o: "getOwnedSchedule R i actor t = (q1, v)" by fastforce
  have v: "v = t" using owned_same [OF o] .
  show ?thesis
  proof (cases q1)
    case (Inl e)
    have "\<not> schedule_allowed actor i st (schedule_view R t)"
    proof
      assume "schedule_allowed actor i st (schedule_view R t)"
      then obtain x sub where "findOneR R (byId i) t = Some x" "sc_keycloakUserId (rdata x) = Some sub"
        "requireActorSub actor = Inr sub" by (auto simp: schedule_allowed_def schedule_view_def)
      moreover from this have "owned_by_actor schedule_not_found (Some sub) actor = Inr ()" by (simp add: owned_by_actor_ok)
      ultimately have "getOwnedSchedule R i actor t = (Inr x, t)"
        by (simp add: getOwnedSchedule_def assertScheduleOwnedByActor_def)
      with o Inl show False by simp
    qed
    with Inl o v run target show ?thesis by (auto intro: schedule_spec.refuse)
  next
    case (Inr x)
    with owned [of i actor t x v] o obtain sub where x: "x \<in> rows R t" "rid x = i" "requireActorSub actor = Inr sub"
      "sc_keycloakUserId (rdata x) = Some sub" by blast
    have w: "schedule_view R t i = Some (Some sub, sc_status (rdata x))" using view_some [OF x(1)] x(2,4) by simp
    have k: "k x t = (r, u)" using run o v Inr by simp
    show ?thesis
    proof (cases "schedule_move (sc_status (rdata x)) st")
      case False
      with w have "\<not> schedule_allowed actor i st (schedule_view R t)" by (simp add: schedule_allowed_def)
      moreover obtain e where "k x = throw e" using bad [OF False] by blast
      ultimately show ?thesis using k target by (auto intro: schedule_spec.refuse)
    next
      case True
      have a: "schedule_allowed actor i st (schedule_view R t)" using w x(3) True by (auto simp: schedule_allowed_def)
      have "rid (upd (set_status st (st = S_ACTIVE)) x) \<in> rid ` rows R t" using x(1) by simp
      note id = this
      from save_total [OF id] k good [OF True] obtain f where r: "r = Inr f" by auto
      with k good [OF True] have "saveR R (upd (set_status st (st = S_ACTIVE)) x) t = (Inr f, u)" by simp
      from save_ok [OF this id] r x(2)
      have f: "r = Inr f" "rid f = i" "rdata f = set_status st (st = S_ACTIVE) (rdata x)"
        "rows R u = insert f {y \<in> rows R t. rid y \<noteq> i}" by simp_all
      have "schedule_view R u = (schedule_view R t)(i \<mapsto> (Some sub, st))"
        using view_insert [of u f t] f x(4) by (simp add: set_status_def)
      with schedule_spec.move [OF target a] w f(1) show ?thesis by simp
    qed
  qed
qed

lemma create_refines:
  assumes "sc_create R pd dto actor t = (r, u)"
  shows "schedule_spec actor (Create_schedule dto) (schedule_view R t) (\<not> isl r) (schedule_view R u)"
proof (cases "frequency_ok dto \<and> (\<exists>sub. requireActorSub actor = Inr sub)")
  case True
  then obtain sub where s: "requireActorSub actor = Inr sub" by blast
  with True assms have "insertR R (new_schedule pd dto sub) t = (r, u)"
    by (auto simp: sc_create_def frequency_ok_def split: if_splits)
  with insert_total [of "new_schedule pd dto sub" t] insert_ok [of "new_schedule pd dto sub" t _ u]
  obtain e where e: "r = Inr e" "rdata e = new_schedule pd dto sub" "rid e \<notin> rid ` rows R t" "rows R u = insert e (rows R t)"
    by force
  have "\<And>x. x \<in> rows R t \<Longrightarrow> rid x \<noteq> rid e" using e(3) by (metis imageI)
  then have "{x \<in> rows R t. rid x \<noteq> rid e} = rows R t" by blast
  with view_insert [of u e t] e(2,4)
  have "schedule_view R u = (schedule_view R t)(rid e \<mapsto> (Some sub, S_ACTIVE))" by (simp add: new_schedule_def)
  with schedule_spec.create [of actor sub dto "schedule_view R t" "rid e", OF s _ view_none [OF e(3)]] True e(1)
  show ?thesis by simp
next
  case False
  then have "(\<not> isl r) = False \<and> u = t"
    using assms by (auto simp: sc_create_def frequency_ok_def split: sum.splits if_splits)
  moreover from False have "\<not> frequency_ok dto \<or> (\<exists>e. requireActorSub actor = Inl e)"
    by (cases "requireActorSub actor") auto
  ultimately show ?thesis by (auto intro: schedule_spec.reject)
qed

lemma pause_refines:
  "pauseSchedule R i actor t = (r, u) \<Longrightarrow>
   schedule_spec actor (Pause i) (schedule_view R t) (\<not> isl r) (schedule_view R u)"
  unfolding pauseSchedule_def
  by (erule change_refines [where i = i and st = S_PAUSED])
    (auto simp: schedule_move_simps TERMINAL_SCHEDULE_STATUSES_def)

lemma resume_refines:
  "resumeSchedule R i actor t = (r, u) \<Longrightarrow>
   schedule_spec actor (Resume i) (schedule_view R t) (\<not> isl r) (schedule_view R u)"
  unfolding resumeSchedule_def
  by (erule change_refines [where i = i and st = S_ACTIVE])
    (auto simp: schedule_move_simps TERMINAL_SCHEDULE_STATUSES_def)

lemma cancel_refines:
  "cancelSchedule R i actor t = (r, u) \<Longrightarrow>
   schedule_spec actor (Cancel i) (schedule_view R t) (\<not> isl r) (schedule_view R u)"
  unfolding cancelSchedule_def
  by (erule change_refines [where i = i and st = S_CANCELLED])
    (auto simp: schedule_move_simps TERMINAL_SCHEDULE_STATUSES_def)

lemma run_refines:
  assumes "schedule_run R pd actor q t = (r, u)"
  shows "schedule_spec actor q (schedule_view R t) (\<not> isl r) (schedule_view R u)"
proof (cases q)
  case (Create_schedule dto)
  with assms create_refines show ?thesis by simp
next
  case (Pause i)
  with assms pause_refines show ?thesis by simp
next
  case (Resume i)
  with assms resume_refines show ?thesis by simp
next
  case (Cancel i)
  with assms cancel_refines show ?thesis by simp
qed

lemma trace_refines: "schedule_trace R pd qs t = (bs, u) \<Longrightarrow> schedule_spec_trace qs (schedule_view R t) bs (schedule_view R u)"
proof (induction qs arbitrary: t bs)
  case Nil
  then show ?case by (auto intro: schedule_spec_trace.Nil)
next
  case (Cons a qs)
  obtain actor q where a: "a = (actor, q)" by fastforce
  obtain r v where r: "schedule_run R pd actor q t = (r, v)" by fastforce
  with Cons.prems a obtain cs where c: "schedule_trace R pd qs v = (cs, u)" "bs = (\<not> isl r) # cs"
    by (auto simp: apfst_def map_prod_def split: prod.splits)
  from schedule_spec_trace.Cons [OF run_refines [OF r] Cons.IH [OF c(1)]] a c(2) show ?case by simp
qed

end

interpretation mem_reliable_schedules: reliable_schedules "mem_repo no_conf"
  by unfold_locales

context schedule_repository begin

lemma run_keeps:
  assumes "schedule_run R pd actor rq t = (q, u)" and "x \<in> rows R t"
  shows "rid x \<in> rid ` rows R u"
proof -
  have m: "rid x \<in> rid ` rows R u" if "moved i actor t u" for i
    using that assms(2) unfolding moved_def by (cases "rid x = i") auto
  show ?thesis
  proof (cases rq)
    case (Create_schedule dto)
    show ?thesis
    proof (cases "u = t")
      case False
      with assms(1) Create_schedule obtain d where i: "insertR R d t = (q, u)"
        by (auto simp: sc_create_def split: sum.splits if_splits)
      then show ?thesis using insert_err [of d t _ u] insert_ok [of d t _ u] assms(2) by (cases q) auto
    qed (use assms(2) in simp)
  next
    case (Pause i)
    with assms(1) m [OF pause_moved] show ?thesis by simp
  next
    case (Resume i)
    with assms(1) m [OF resume_moved] show ?thesis by simp
  next
    case (Cancel i)
    with assms(1) m [OF cancel_moved] show ?thesis by simp
  qed
qed

end

subsection \<open>Properties\<close>

text \<open>The examples: a schedule that its owner pauses, somebody else tries to resume, and its owner cancels.\<close>

definition sched_actor :: "string \<Rightarrow> actor option" where
  "sched_actor u = Some \<lparr>act_sub = Some u, act_realm_roles = Some [''RETAIL_CUSTOMER''], act_roles = None\<rparr>"

definition sched_dto :: schedule_dto where
  "sched_dto = \<lparr>sd_billerCode = ''WATER-DJB-01'', sd_consumerNumber = ''100000000021'', sd_scheduleType = ''RECURRING'',
     sd_frequency = Some ''MONTHLY'', sd_nextRunAt = ''2026-01-01'', sd_maximumAmount = 1000\<rparr>"

definition sched_story :: "(actor option \<times> schedule_request) list" where
  "sched_story = [(sched_actor ''u1'', Create_schedule sched_dto), (sched_actor ''u1'', Pause (row_id 0)),
     (sched_actor ''u2'', Resume (row_id 0)), (sched_actor ''u1'', Cancel (row_id 0)), (sched_actor ''u1'', Resume (row_id 0))]"

text \<open>
  C22: the schedule service implements its specification: over an empty table, any sequence
  of requests has the outcomes and leaves the owners and statuses that the machine allows,
  where only the owner of a schedule moves it and a cancelled one stays cancelled.
\<close>

theorem schedule_refines_spec:
  assumes "reliable_repository R" and "rows R t = {}" and "schedule_trace R parseDate qs t = (outcomes, u)"
  shows "schedule_spec_trace qs Map.empty outcomes (schedule_view R u)"
proof -
  have L: "reliable_schedules R"
    by (intro reliable_schedules.intro schedule_repository.intro reliable_repository.axioms(1) [OF assms(1)] assms(1))
  have "schedule_view R t = Map.empty" using reliable_schedules.view_none [OF L] assms(2) by (auto simp: fun_eq_iff)
  with reliable_schedules.trace_refines [OF L assms(3)] show ?thesis by simp
qed

theorem schedule_refines_spec_witness:
  "schedule_spec_trace sched_story Map.empty [True, True, False, True, False]
     (schedule_view (mem_repo no_conf) (snd (schedule_trace (mem_repo no_conf) (\<lambda>_. 0) sched_story mem_empty)))"
proof -
  have 1: "rows (mem_repo no_conf) mem_empty = {}" by (simp add: mem_rows live_def mem_empty_def)
  have 2: "fst (schedule_trace (mem_repo no_conf) (\<lambda>_. 0) sched_story mem_empty) = [True, True, False, True, False]"
    by code_simp
  show ?thesis
    by (rule schedule_refines_spec [where parseDate = "\<lambda>_. 0", OF mem_reliable.reliable_repository_axioms 1])
      (simp add: prod_eq_iff 2)
qed

text \<open>
  C23: in every reachable state a request keeps every schedule of the table, with its
  active flag in step with its status; a schedule it changes is moved along the machine by
  its owner and only in these two columns, and a terminal one never changes.
\<close>

theorem schedule_lifecycle:
  assumes "repository R" and "schedules_reachable R parseDate t" and "schedule_run R parseDate actor rq t = (q, u)"
    and "x \<in> rows R t"
  shows "\<exists>y \<in> rows R u. rid y = rid x \<and> schedule_ok (rdata y)
    \<and> (sc_status (rdata x) \<in> set TERMINAL_SCHEDULE_STATUSES \<longrightarrow> rdata y = rdata x)
    \<and> (rdata y = rdata x \<or> (\<exists>st sub. schedule_move (sc_status (rdata x)) st
         \<and> rdata y = set_status st (st = S_ACTIVE) (rdata x)
         \<and> requireActorSub actor = Inr sub \<and> sc_keycloakUserId (rdata x) = Some sub))"
proof -
  have L: "schedule_repository R" by (rule schedule_repository.intro [OF assms(1)])
  obtain y where y: "y \<in> rows R u" "rid y = rid x"
    using schedule_repository.run_keeps [OF L assms(3,4)] by force
  have "schedule_ok (rdata y)"
    using schedule_repository.reachable_ok [OF L schedules_reachable.step [OF assms(2,3)]] y(1) by blast
  with y schedule_repository.run_moved [OF L assms(3,4) y(1)] terminal_final show ?thesis
    by (intro bexI [of _ y]) (auto)
qed

theorem schedule_lifecycle_witness:
  "\<exists>y \<in> rows (mem_repo no_conf) (snd (schedule_run (mem_repo no_conf) (\<lambda>_. 0) (sched_actor ''u1'') (Pause (row_id 0))
       (snd (schedule_run (mem_repo no_conf) (\<lambda>_. 0) (sched_actor ''u1'') (Create_schedule sched_dto) mem_empty)))).
     schedule_ok (rdata y)"
proof -
  let ?t = "snd (schedule_run (mem_repo no_conf) (\<lambda>_. 0) (sched_actor ''u1'') (Create_schedule sched_dto) mem_empty)"
  have 0: "rows (mem_repo no_conf) mem_empty = {}" by (simp add: mem_rows live_def mem_empty_def)
  have 1: "schedules_reachable (mem_repo no_conf) (\<lambda>_. 0) ?t"
    by (rule schedules_reachable.step [OF schedules_reachable.empty [OF 0] surjective_pairing])
  have 2: "live ?t \<noteq> []" by code_simp
  then have "hd (live ?t) \<in> rows (mem_repo no_conf) ?t" by (simp add: mem_rows)
  from schedule_lifecycle [OF mem.repository_axioms 1 surjective_pairing this] show ?thesis by blast
qed

end
