(* ===== verification/Catalog_Properties.thy ===== *)
theory Catalog_Properties
  imports Bill_Catalog
begin

text \<open>
  The start of the service over tables that are already in use: the seeder of the catalog.
\<close>

subsection \<open>Seeding the catalog\<close>

abbreviation paid_rows :: "('t, 'z mock_bill_scheme) repo \<Rightarrow> 't \<Rightarrow> string set" where
  "paid_rows R t \<equiv> rid ` {x \<in> rows R t. mb_status (rdata x) = ''PAID''}"

lemma seed_step_paid:
  assumes "repository R" and "upsert_bill R seed c t = (r, u)" and "\<And>st. mb_status (seed c st) = st"
  shows "paid_rows R t \<subseteq> paid_rows R u"
  using bill_repository.upsert_bill_paid [OF bill_repository.intro [OF assms(1)] assms(2,3)]
  by (simp add: bill_repository.paid_def [OF bill_repository.intro [OF assms(1)]])

text \<open>
  Seeding the catalog at start, however it ends, keeps every paid bill of both tables
  paid, under its id.
\<close>

theorem seeding_keeps_paid:
  assumes "repository (be_mock E)" and "repository (be_demo E)" and "onModuleInit E s = (q, t)"
  shows "rid ` {x \<in> rows (be_mock E) (bt_mock s). mb_status (rdata x) = ''PAID''}
      \<subseteq> rid ` {x \<in> rows (be_mock E) (bt_mock t). mb_status (rdata x) = ''PAID''}
    \<and> rid ` {x \<in> rows (be_demo E) (bt_demo s). mb_status (rdata x) = ''PAID''}
      \<subseteq> rid ` {x \<in> rows (be_demo E) (bt_demo t). mb_status (rdata x) = ''PAID''}"
proof -
  let ?I = "\<lambda>u. paid_rows (be_mock E) (bt_mock s) \<subseteq> paid_rows (be_mock E) (bt_mock u)
    \<and> paid_rows (be_demo E) (bt_demo s) \<subseteq> paid_rows (be_demo E) (bt_demo u)"
  have 1: "preserves ?I (onBillers m)" for m
    by (rule preservesI) (auto simp: onBillers_def zoom_eq)
  have 2: "preserves ?I (onMock (upsertMockBill (be_mock E) c))" for c
  proof (rule preservesI)
    fix u r v
    assume i: "?I u" and "onMock (upsertMockBill (be_mock E) c) u = (r, v)"
    then obtain y where y: "upsert_bill (be_mock E) seed_mock c (bt_mock u) = (r, y)" "v = u\<lparr>bt_mock := y\<rparr>"
      by (auto simp: onMock_def zoom_eq upsertMockBill_def)
    from seed_step_paid [OF assms(1) y(1)] have "paid_rows (be_mock E) (bt_mock u) \<subseteq> paid_rows (be_mock E) y"
      by (simp add: seed_mock_def)
    from subset_trans [OF conjunct1 [OF i] this] conjunct2 [OF i] y(2) show "?I v" by simp
  qed
  have 3: "preserves ?I (onDemo (upsertDemo (be_demo E) c))" for c
  proof (rule preservesI)
    fix u r v
    assume i: "?I u" and "onDemo (upsertDemo (be_demo E) c) u = (r, v)"
    then obtain y where y: "upsert_bill (be_demo E) seed_demo c (bt_demo u) = (r, y)" "v = u\<lparr>bt_demo := y\<rparr>"
      by (auto simp: onDemo_def zoom_eq upsertDemo_def)
    from seed_step_paid [OF assms(2) y(1)] have "paid_rows (be_demo E) (bt_demo u) \<subseteq> paid_rows (be_demo E) y"
      by (simp add: seed_demo_def)
    from subset_trans [OF conjunct2 [OF i] this] conjunct1 [OF i] y(2) show "?I v" by simp
  qed
  have "preserves ?I (onModuleInit E)"
    unfolding onModuleInit_def by (intro preserves_andThen preserves_forA 1 2 3 preserves_ret)
  from preservesD [OF this _ assms(3)] show ?thesis by blast
qed

text \<open>The example: a table whose bill was paid before the service started again.\<close>

definition seed_env :: "(biller mem, mock_bill mem, demo_bill mem) bill_env" where
  "seed_env = \<lparr>be_billers = mem_repo no_conf, be_mock = mem_repo same_bill, be_demo = mem_repo same_bill\<rparr>"

definition seed_start :: "(biller mem, mock_bill mem, demo_bill mem) bill_tables" where
  "seed_start = \<lparr>bt_billers = mem_empty, bt_mock = snd (mem_insert same_bill (seed_mock (hd BBPS_CATALOG) ''PAID'') mem_empty),
     bt_demo = mem_empty\<rparr>"

theorem seeding_keeps_paid_witness:
  "row_id 0 \<in> rid ` {x \<in> rows (be_mock seed_env) (bt_mock (snd (onModuleInit seed_env seed_start))). mb_status (rdata x) = ''PAID''}"
proof -
  have 1: "repository (be_mock seed_env)" "repository (be_demo seed_env)"
    unfolding seed_env_def by (simp_all add: mem.repository_axioms)
  have "map (\<lambda>x. (rid x, mb_status (rdata x))) (live (bt_mock seed_start)) = [(row_id 0, ''PAID'')]" by code_simp
  then have "row_id 0 \<in> rid ` {x \<in> set (live (bt_mock seed_start)). mb_status (rdata x) = ''PAID''}" by auto
  then have "row_id 0 \<in> rid ` {x \<in> rows (be_mock seed_env) (bt_mock seed_start). mb_status (rdata x) = ''PAID''}"
    by (simp add: seed_env_def mem_rows)
  with seeding_keeps_paid [OF 1 surjective_pairing] show ?thesis by blast
qed

end
