(* ===== verification/Authorization_Rules.thy ===== *)
theory Authorization_Rules
  imports Rbac_Constants Repository Mem_Table
begin

text \<open>
  \<open>modules/admin/authorization-rules\<close>: versioned rules and the history of their versions.
  The threshold is the text of a \<open>decimal(18, 2)\<close> column.
\<close>

subsection \<open>Entities\<close>

record auth_rule =
  ar_ruleName :: string
  ar_cif :: string
  ar_threshold :: string
  ar_version :: int
  ar_createdBy :: "string option"
  ar_updatedBy :: "string option"

record rule_snapshot =
  sn_ruleName :: string
  sn_cif :: string
  sn_threshold :: string
  sn_changeReason :: "string option"
  sn_deactivated :: bool

record rule_history =
  rh_ruleId :: string
  rh_snapshot :: rule_snapshot
  rh_version :: int
  rh_changedBy :: "string option"

text \<open>The text the decimal column gives back for \<open>\d+(\.\d{1,2})?\<close>: two places, no leading zeros.\<close>

definition decimal_text :: "string \<Rightarrow> string" where
  "decimal_text s =
     (let ip = takeWhile (\<lambda>c. c \<noteq> CHR ''.'') s; fp = drop (Suc (length ip)) s;
          stripped = dropWhile (\<lambda>c. c = CHR ''0'') ip
      in (if stripped = [] then ''0'' else stripped) @ CHR ''.'' # take 2 (fp @ ''00''))"

subsection \<open>authorization-rules.service.ts\<close>

definition RULE_VIEW_ROLES :: "string list" where
  "RULE_VIEW_ROLES = [''BANK_SUPER_ADMIN'', ''BANK_ADMIN'']"

definition assertCanViewRules :: "actor \<Rightarrow> ('s, unit) act" where
  "assertCanViewRules actor = guardA (list_ex (\<lambda>r. r \<in> set RULE_VIEW_ROLES) (extractRealmRoles (Some actor)))
     (ForbiddenException (Msg ''Only bank admin or bank super admin users can view authorization rules''))"

definition assertIsSuperAdmin :: "actor \<Rightarrow> ('s, unit) act" where
  "assertIsSuperAdmin actor = guardA (isSuperadmin (Some actor))
     (ForbiddenException (Msg ''Only bank super admin users can configure authorization rules''))"

definition rule_not_found :: exn where
  "rule_not_found = NotFoundException (Msg ''Authorization rule not found'')"

definition ar_findAll :: "('r, auth_rule) repo \<Rightarrow> actor \<Rightarrow> ('r, auth_rule row list) act" where
  "ar_findAll R actor = andThen (assertCanViewRules actor) (\<lambda>_.
     \<lambda>t. (Inr (findOrdR R (\<lambda>e. - createdAt e) anyRow t), t))"

definition find_rule :: "('r, auth_rule) repo \<Rightarrow> string \<Rightarrow> ('r, auth_rule row) act" where
  "find_rule R i t = (case findOneR R (byId i) t of
      None \<Rightarrow> (Inl rule_not_found, t) | Some r \<Rightarrow> (Inr r, t))"

definition ar_findOne :: "('r, auth_rule) repo \<Rightarrow> string \<Rightarrow> actor \<Rightarrow> ('r, auth_rule row) act" where
  "ar_findOne R i actor = andThen (assertCanViewRules actor) (\<lambda>_. find_rule R i)"

text \<open>The state is the pair of the two tables.\<close>

definition ar_findHistory ::
  "('r, auth_rule) repo \<Rightarrow> ('h, rule_history) repo \<Rightarrow> string \<Rightarrow> actor
   \<Rightarrow> ('r \<times> 'h, rule_history row list) act" where
  "ar_findHistory R H i actor = andThen (assertCanViewRules actor) (\<lambda>_.
     andThen (onFst (ar_findOne R i actor)) (\<lambda>_.
     \<lambda>s. (Inr (findOrdR H (\<lambda>e. - rh_version (rdata e)) (\<lambda>e. rh_ruleId (rdata e) = i) (snd s)), s)))"

definition snapshot_of :: "auth_rule \<Rightarrow> string \<Rightarrow> string option \<Rightarrow> bool \<Rightarrow> rule_snapshot" where
  "snapshot_of d threshold reason off = \<lparr>sn_ruleName = ar_ruleName d, sn_cif = ar_cif d,
     sn_threshold = threshold, sn_changeReason = reason, sn_deactivated = off\<rparr>"

definition ar_create ::
  "('r, auth_rule) repo \<Rightarrow> ('h, rule_history) repo \<Rightarrow> string \<Rightarrow> string \<Rightarrow> string \<Rightarrow> actor
   \<Rightarrow> ('r \<times> 'h, auth_rule row) act" where
  "ar_create R H ruleName cif threshold actor =
     andThen (assertIsSuperAdmin actor) (\<lambda>_.
     andThen (onFst (insertR R \<lparr>ar_ruleName = ruleName, ar_cif = cif, ar_threshold = decimal_text threshold,
        ar_version = 1, ar_createdBy = act_sub actor, ar_updatedBy = None\<rparr>)) (\<lambda>rule.
     andThen (onSnd (insertR H \<lparr>rh_ruleId = rid rule,
        rh_snapshot = snapshot_of (rdata rule) threshold None False,
        rh_version = ar_version (rdata rule), rh_changedBy = act_sub actor\<rparr>)) (\<lambda>_.
     ret (upd (\<lambda>d. d\<lparr>ar_threshold := threshold\<rparr>) rule))))"

record rule_update_dto =
  rd_id :: string
  rd_ruleName :: "string option"
  rd_threshold :: "string option"
  rd_changeReason :: "string option"

definition apply_rule_update :: "rule_update_dto \<Rightarrow> actor \<Rightarrow> auth_rule \<Rightarrow> auth_rule" where
  "apply_rule_update dto actor d = d\<lparr>ar_ruleName := orElse (rd_ruleName dto) (ar_ruleName d),
     ar_threshold := (case rd_threshold dto of None \<Rightarrow> ar_threshold d | Some t \<Rightarrow> decimal_text t),
     ar_version := ar_version d + 1, ar_updatedBy := act_sub actor\<rparr>"

definition ar_update ::
  "('r, auth_rule) repo \<Rightarrow> ('h, rule_history) repo \<Rightarrow> rule_update_dto \<Rightarrow> actor
   \<Rightarrow> ('r \<times> 'h, auth_rule row) act" where
  "ar_update R H dto actor =
     andThen (assertIsSuperAdmin actor) (\<lambda>_.
     andThen (onFst (find_rule R (rd_id dto))) (\<lambda>rule.
     let threshold = orElse (rd_threshold dto) (ar_threshold (rdata rule)) in
     andThen (onFst (saveR R (upd (apply_rule_update dto actor) rule))) (\<lambda>saved.
     andThen (onSnd (insertR H \<lparr>rh_ruleId = rid rule,
        rh_snapshot = snapshot_of (rdata saved) threshold (rd_changeReason dto) False,
        rh_version = ar_version (rdata saved), rh_changedBy = act_sub actor\<rparr>)) (\<lambda>_.
     ret (upd (\<lambda>d. d\<lparr>ar_threshold := threshold\<rparr>) saved)))))"

definition ar_deactivate ::
  "('r, auth_rule) repo \<Rightarrow> ('h, rule_history) repo \<Rightarrow> string \<Rightarrow> actor \<Rightarrow> ('r \<times> 'h, string) act" where
  "ar_deactivate R H i actor =
     andThen (assertIsSuperAdmin actor) (\<lambda>_.
     andThen (onFst (find_rule R i)) (\<lambda>rule.
     andThen (onSnd (insertR H \<lparr>rh_ruleId = rid rule,
        rh_snapshot = snapshot_of (rdata rule) (ar_threshold (rdata rule)) None True,
        rh_version = ar_version (rdata rule) + 1, rh_changedBy = act_sub actor\<rparr>)) (\<lambda>_.
     andThen (onFst (softDeleteR R i)) (\<lambda>_. ret i))))"

subsection \<open>Versions\<close>

text \<open>The versions in the history of a rule; each at most once.\<close>

definition versions :: "('h, rule_history) repo \<Rightarrow> string \<Rightarrow> 'h \<Rightarrow> int set" where
  "versions H i h = {rh_version (rdata e) | e. e \<in> rows H h \<and> rh_ruleId (rdata e) = i}"

definition history_ok :: "('r, auth_rule) repo \<Rightarrow> ('h, rule_history) repo \<Rightarrow> 'r \<times> 'h \<Rightarrow> bool" where
  "history_ok R H s \<longleftrightarrow> (\<forall>r \<in> rows R (fst s). versions H (rid r) (snd s) = {1 .. ar_version (rdata r)})
     \<and> (\<forall>a \<in> rows H (snd s). \<forall>b \<in> rows H (snd s).
          rh_ruleId (rdata a) = rh_ruleId (rdata b) \<and> rh_version (rdata a) = rh_version (rdata b)
          \<longrightarrow> a = b)
     \<and> (\<forall>r \<in> rows R (fst s). 1 \<le> ar_version (rdata r))"

locale rules =
  rules: repository R + history: repository H
  for R :: "('r, auth_rule) repo" and H :: "('h, rule_history) repo"
begin

lemma versions_insert:
  assumes "insertR H d h = (Inr e, k)"
  shows "versions H i k = (if rh_ruleId d = i then insert (rh_version d) (versions H i h) else versions H i h)"
  using history.insert_ok [OF assms] by (auto simp: versions_def)

lemma update_history:
  assumes "ar_update R H dto actor s = (Inr r, t)" and "history_ok R H s"
  shows "history_ok R H t \<and> (\<exists>q \<in> rows R (fst s). rid q = rd_id dto \<and> ar_version (rdata r) = ar_version (rdata q) + 1
     \<and> (\<forall>x \<in> rows R (fst t). rid x = rd_id dto \<longrightarrow> ar_version (rdata x) = ar_version (rdata r)))"
proof -
  obtain t0 h0 where s: "s = (t0, h0)" by fastforce
  from assms(1) obtain rule saved t1 e h1 where f: "find_rule R (rd_id dto) t0 = (Inr rule, t0)"
    and sv: "saveR R (upd (apply_rule_update dto actor) rule) t0 = (Inr saved, t1)"
    and ins: "insertR H \<lparr>rh_ruleId = rid rule,
        rh_snapshot = snapshot_of (rdata saved) (orElse (rd_threshold dto) (ar_threshold (rdata rule)))
          (rd_changeReason dto) False,
        rh_version = ar_version (rdata saved), rh_changedBy = act_sub actor\<rparr> h0 = (Inr e, h1)"
    and t: "t = (t1, h1)" "rdata r = (rdata saved)\<lparr>ar_threshold := orElse (rd_threshold dto) (ar_threshold (rdata rule))\<rparr>"
    by (auto simp: ar_update_def s andThen_Inr onFst_eq onSnd_eq assertIsSuperAdmin_def guardA_iff Let_def
        find_rule_def split: option.splits)
  have rule: "rule \<in> rows R t0" "rid rule = rd_id dto"
    using f by (auto simp: find_rule_def rules.findOne_byId_iff split: option.splits)
  have saved: "rid saved = rid rule" "ar_version (rdata saved) = ar_version (rdata rule) + 1"
    "rows R t1 = insert saved {x \<in> rows R t0. rid x \<noteq> rid rule}"
    using rules.save_ok [OF sv] imageI [OF rule(1), of rid] by (simp_all add: apply_rule_update_def)
  have e: "rh_ruleId (rdata e) = rid rule" "rh_version (rdata e) = ar_version (rdata rule) + 1"
    "rows H h1 = insert e (rows H h0)"
    using history.insert_ok [OF ins] saved(2) by simp_all
  have old: "versions H (rid x) h0 = {1 .. ar_version (rdata x)}" "1 \<le> ar_version (rdata x)" if "x \<in> rows R t0" for x
    using assms(2) that by (auto simp: history_ok_def s)
  have "versions H (rid x) h1 = {1 .. ar_version (rdata x)} \<and> 1 \<le> ar_version (rdata x)" if "x \<in> rows R t1" for x
  proof (cases "x = saved")
    case True
    have "versions H (rid rule) h1 = insert (ar_version (rdata rule) + 1) {1 .. ar_version (rdata rule)}"
      using versions_insert [OF ins, of "rid rule"] old [OF rule(1)] saved(2) by simp
    with True saved old [OF rule(1)] show ?thesis by auto
  next
    case False
    with that saved(3) have x: "x \<in> rows R t0" "rid x \<noteq> rid rule" by auto
    with versions_insert [OF ins, of "rid x"] old [OF x(1)] show ?thesis by simp
  qed
  moreover have "a = b" if "a \<in> rows H h1" "b \<in> rows H h1" "rh_ruleId (rdata a) = rh_ruleId (rdata b)"
    "rh_version (rdata a) = rh_version (rdata b)" for a b
  proof -
    have fresh: "\<not> (x \<in> rows H h0 \<and> rh_ruleId (rdata x) = rid rule \<and> rh_version (rdata x) = ar_version (rdata rule) + 1)" for x
    proof
      assume x: "x \<in> rows H h0 \<and> rh_ruleId (rdata x) = rid rule \<and> rh_version (rdata x) = ar_version (rdata rule) + 1"
      then have "ar_version (rdata rule) + 1 \<in> versions H (rid rule) h0" unfolding versions_def by (metis (mono_tags, lifting) mem_Collect_eq)
      with old [OF rule(1)] show False by simp
    qed
    have "\<forall>a \<in> rows H h0. \<forall>b \<in> rows H h0. rh_ruleId (rdata a) = rh_ruleId (rdata b)
        \<and> rh_version (rdata a) = rh_version (rdata b) \<longrightarrow> a = b"
      using assms(2) by (simp add: history_ok_def s)
    with that e fresh [of a] fresh [of b] show ?thesis by auto
  qed
  ultimately have "history_ok R H t" by (simp add: history_ok_def t(1))
  moreover have "ar_version (rdata x) = ar_version (rdata r)" if "x \<in> rows R t1" "rid x = rd_id dto" for x
    using that saved rule(2) t(2) by auto
  ultimately show ?thesis using rule saved(2) t s by auto
qed

lemma deactivate_history:
  assumes "ar_deactivate R H i actor s = (Inr j, t)" and "history_ok R H s"
  shows "\<exists>q \<in> rows R (fst s). rid q = i \<and> rows R (fst t) = {x \<in> rows R (fst s). rid x \<noteq> i}
     \<and> versions H i (snd t) = {1 .. ar_version (rdata q) + 1}"
proof -
  obtain t0 h0 where s: "s = (t0, h0)" by fastforce
  from assms(1) obtain rule e h1 t1 where f: "find_rule R i t0 = (Inr rule, t0)"
    and ins: "insertR H \<lparr>rh_ruleId = rid rule,
        rh_snapshot = snapshot_of (rdata rule) (ar_threshold (rdata rule)) None True,
        rh_version = ar_version (rdata rule) + 1, rh_changedBy = act_sub actor\<rparr> h0 = (Inr e, h1)"
    and d: "softDeleteR R i t0 = (Inr (), t1)" and t: "t = (t1, h1)"
    by (auto simp: ar_deactivate_def s andThen_Inr onFst_eq onSnd_eq assertIsSuperAdmin_def guardA_iff
        find_rule_def split: option.splits)
  have rule: "rule \<in> rows R t0" "rid rule = i"
    using f by (auto simp: find_rule_def rules.findOne_byId_iff split: option.splits)
  have "versions H i h0 = {1 .. ar_version (rdata rule)}" "1 \<le> ar_version (rdata rule)"
    using assms(2) rule by (auto simp: history_ok_def s)
  then have "versions H i h1 = {1 .. ar_version (rdata rule) + 1}"
    using versions_insert [OF ins, of i] rule(2) by auto
  with rule rules.softDelete_ok [OF d] s t show ?thesis by auto
qed

end

interpretation mem_rules: rules "mem_repo conf" "mem_repo conf'"
  by unfold_locales

end
