(* ===== verification/Rule_Properties.thy ===== *)
theory Rule_Properties
  imports Authorization_Rules
begin

text \<open>
  The versions of an authorization rule over an update and a deactivation.
\<close>

subsection \<open>Authorization rules\<close>






end
