(* ===== verification/Reporting.thy ===== *)
theory Reporting
  imports JS_Number Prelude
begin

text \<open>
  \<open>modules/admin/reporting\<close>: the transactions of the provider, the filter and the five
  reports, and their export as CSV, Excel and PDF. \<open>parseDate\<close> is \<open>new Date(s)\<close>,
  \<open>None\<close> for an invalid date. The libraries that write the files are not part of the
  service: the model gives what they are asked to write.
\<close>

subsection \<open>transaction.provider.ts\<close>

record report_transaction =
  tx_txn_id :: string
  tx_utr :: string
  tx_channel :: string
  tx_payment_mode :: string
  tx_sender_cif :: string
  tx_sender_name :: string
  tx_sender_account :: string
  tx_receiver_name :: string
  tx_receiver_account :: string
  tx_receiver_bank :: string
  tx_amount :: rat
  tx_status :: string
  tx_transaction_type :: string
  tx_branch :: string
  tx_created_at :: string
  tx_switch_response_code :: string
  tx_risk_score :: rat

definition getTransactions :: "report_transaction list" where
  "getTransactions = [
     \<lparr>tx_txn_id = ''TXN-20260907-001'', tx_utr = ''UTR-IMPS-001'',
       tx_channel = ''MOBILE_APP'', tx_payment_mode = ''IMPS'',
       tx_sender_cif = ''CIF100001'', tx_sender_name = ''Arjun Mehta'',
       tx_sender_account = ''101000000012'', tx_receiver_name = ''Sneha Mehta'',
       tx_receiver_account = ''99182390129182'',
       tx_receiver_bank = ''Bharat Co-operative Bank'', tx_amount = 5000,
       tx_status = ''SUCCESS'', tx_transaction_type = ''DEBIT'',
       tx_branch = ''MUMBAI_MAIN'', tx_created_at = ''2026-09-07T06:15:00Z'',
       tx_switch_response_code = ''00'', tx_risk_score = 12\<rparr>,
     \<lparr>tx_txn_id = ''TXN-20260907-002'', tx_utr = ''UTR-NEFT-002'',
       tx_channel = ''MOBILE_APP'', tx_payment_mode = ''NEFT'',
       tx_sender_cif = ''CIF100002'', tx_sender_name = ''Rahul Sharma'',
       tx_sender_account = ''101000000013'', tx_receiver_name = ''Amit Verma'',
       tx_receiver_account = ''99182390129183'',
       tx_receiver_bank = ''Bharat Co-operative Bank'', tx_amount = 15000,
       tx_status = ''FAILED'', tx_transaction_type = ''DEBIT'',
       tx_branch = ''DELHI_MAIN'', tx_created_at = ''2026-09-07T07:20:00Z'',
       tx_switch_response_code = ''91'', tx_risk_score = 35\<rparr>,
     \<lparr>tx_txn_id = ''TXN-20260907-003'', tx_utr = ''UTR-UPI-003'',
       tx_channel = ''MOBILE_APP'', tx_payment_mode = ''UPI'',
       tx_sender_cif = ''CIF100003'', tx_sender_name = ''Priya Singh'',
       tx_sender_account = ''101000000014'', tx_receiver_name = ''Neha Gupta'',
       tx_receiver_account = ''99182390129184'',
       tx_receiver_bank = ''Bharat Co-operative Bank'', tx_amount = 2500,
       tx_status = ''PENDING'', tx_transaction_type = ''DEBIT'',
       tx_branch = ''MUMBAI_MAIN'', tx_created_at = ''2026-09-07T08:10:00Z'',
       tx_switch_response_code = ''05'', tx_risk_score = 18\<rparr>,
     \<lparr>tx_txn_id = ''TXN-20260907-004'', tx_utr = ''UTR-IMPS-004'',
       tx_channel = ''MOBILE_APP'', tx_payment_mode = ''IMPS'',
       tx_sender_cif = ''CIF100004'', tx_sender_name = ''Vikas Kumar'',
       tx_sender_account = ''101000000015'', tx_receiver_name = ''Rohit Kumar'',
       tx_receiver_account = ''99182390129185'',
       tx_receiver_bank = ''Bharat Co-operative Bank'', tx_amount = 75000,
       tx_status = ''SUCCESS'', tx_transaction_type = ''DEBIT'',
       tx_branch = ''BANGALORE_MAIN'', tx_created_at = ''2026-09-07T09:30:00Z'',
       tx_switch_response_code = ''00'', tx_risk_score = 8\<rparr>,
     \<lparr>tx_txn_id = ''TXN-20260907-005'', tx_utr = ''UTR-NEFT-005'',
       tx_channel = ''MOBILE_APP'', tx_payment_mode = ''NEFT'',
       tx_sender_cif = ''CIF100005'', tx_sender_name = ''Neeraj Jain'',
       tx_sender_account = ''101000000016'', tx_receiver_name = ''Karan Malhotra'',
       tx_receiver_account = ''99182390129186'',
       tx_receiver_bank = ''Bharat Co-operative Bank'', tx_amount = 125000,
       tx_status = ''SUCCESS'', tx_transaction_type = ''DEBIT'',
       tx_branch = ''DELHI_MAIN'', tx_created_at = ''2026-09-07T10:45:00Z'',
       tx_switch_response_code = ''00'', tx_risk_score = 22\<rparr>,
     \<lparr>tx_txn_id = ''TXN-20260908-006'', tx_utr = ''UTR-UPI-006'',
       tx_channel = ''MOBILE_APP'', tx_payment_mode = ''UPI'',
       tx_sender_cif = ''CIF100006'', tx_sender_name = ''Ankit Patel'',
       tx_sender_account = ''101000000017'', tx_receiver_name = ''Manish Shah'',
       tx_receiver_account = ''99182390129187'',
       tx_receiver_bank = ''Bharat Co-operative Bank'', tx_amount = 3500,
       tx_status = ''FAILED'', tx_transaction_type = ''CREDIT'',
       tx_branch = ''AHMEDABAD_MAIN'', tx_created_at = ''2026-09-08T06:30:00Z'',
       tx_switch_response_code = ''12'', tx_risk_score = 45\<rparr>,
     \<lparr>tx_txn_id = ''TXN-20260908-007'', tx_utr = ''UTR-IMPS-007'',
       tx_channel = ''MOBILE_APP'', tx_payment_mode = ''IMPS'',
       tx_sender_cif = ''CIF100007'', tx_sender_name = ''Pooja Nair'',
       tx_sender_account = ''101000000018'', tx_receiver_name = ''Kavya Nair'',
       tx_receiver_account = ''99182390129188'',
       tx_receiver_bank = ''Bharat Co-operative Bank'', tx_amount = 22000,
       tx_status = ''SUCCESS'', tx_transaction_type = ''CREDIT'',
       tx_branch = ''BANGALORE_MAIN'', tx_created_at = ''2026-09-08T08:00:00Z'',
       tx_switch_response_code = ''00'', tx_risk_score = 10\<rparr>]"

subsection \<open>reporting.service.ts\<close>

record report_query =
  rq_fromDate :: "string option"
  rq_toDate :: "string option"
  rq_cif :: "string option"
  rq_branch :: "string option"
  rq_status :: "string option"
  rq_transactionType :: "string option"
  rq_channel :: "string option"
  rq_minAmount :: "string option"
  rq_maxAmount :: "string option"

text \<open>Comparisons of numbers: any comparison with \<open>NaN\<close> is false.\<close>

fun less_num :: "jsnum \<Rightarrow> jsnum \<Rightarrow> bool" where
  "less_num (Num a) (Num b) = (a < b)"
| "less_num (Num a) (Infinite p) = p"
| "less_num (Infinite p) (Num b) = (\<not> p)"
| "less_num (Infinite p) (Infinite q) = (\<not> p \<and> q)"
| "less_num NaN _ = False"
| "less_num _ NaN = False"

fun geq_num :: "jsnum \<Rightarrow> jsnum \<Rightarrow> bool" where
  "geq_num NaN _ = False"
| "geq_num _ NaN = False"
| "geq_num a b = (\<not> less_num a b)"

text \<open>\<open>a < b\<close> on dates; an invalid date is \<open>NaN\<close>.\<close>

definition before :: "int option \<Rightarrow> int option \<Rightarrow> bool" where
  "before a b = (case (a, b) of (Some x, Some y) \<Rightarrow> x < y | _ \<Rightarrow> False)"

definition text_filter :: "string option \<Rightarrow> string \<Rightarrow> bool" where
  "text_filter f v \<longleftrightarrow> (truthy f \<longrightarrow> toLowerCase v = toLowerCase (orElse f []))"

definition keeps_transaction :: "(string \<Rightarrow> int option) \<Rightarrow> report_query \<Rightarrow> report_transaction \<Rightarrow> bool" where
  "keeps_transaction parseDate f t \<longleftrightarrow>
     \<not> (truthy (rq_fromDate f) \<and> before (parseDate (tx_created_at t)) (parseDate (orElse (rq_fromDate f) [])))
     \<and> \<not> (truthy (rq_toDate f) \<and> before (parseDate (orElse (rq_toDate f) [])) (parseDate (tx_created_at t)))
     \<and> text_filter (rq_cif f) (tx_sender_cif t)
     \<and> text_filter (rq_branch f) (tx_branch t)
     \<and> text_filter (rq_status f) (tx_status t)
     \<and> text_filter (rq_transactionType f) (tx_transaction_type t)
     \<and> text_filter (rq_channel f) (tx_channel t)
     \<and> \<not> (truthy (rq_minAmount f) \<and> less_num (Num (tx_amount t)) (Number (orElse (rq_minAmount f) [])))
     \<and> \<not> (truthy (rq_maxAmount f) \<and> less_num (Number (orElse (rq_maxAmount f) [])) (Num (tx_amount t)))"

definition getFilteredTransactions ::
  "(string \<Rightarrow> int option) \<Rightarrow> report_transaction list \<Rightarrow> report_query \<Rightarrow> report_transaction list" where
  "getFilteredTransactions parseDate ts f = filter (keeps_transaction parseDate f) ts"

text \<open>
  Sums start at 0 and go through the list; the amounts are whole rupees far below
  \<open>2 ^ 53\<close>, so the additions of doubles are exact.
\<close>

definition sum_amounts :: "report_transaction list \<Rightarrow> rat" where
  "sum_amounts ts = foldl (\<lambda>s t. s + tx_amount t) 0 ts"

definition with_status :: "string \<Rightarrow> report_transaction list \<Rightarrow> report_transaction list" where
  "with_status st ts = filter (\<lambda>t. tx_status t = st) ts"

definition with_type :: "string \<Rightarrow> report_transaction list \<Rightarrow> report_transaction list" where
  "with_type ty ts = filter (\<lambda>t. tx_transaction_type t = ty) ts"

record daily_summary =
  dy_totalTransaction :: nat
  dy_successful :: nat
  dy_failed :: nat
  dy_pending :: nat
  dy_totalCredit :: rat
  dy_totalDebit :: rat

definition dailySummary ::
  "(string \<Rightarrow> int option) \<Rightarrow> report_transaction list \<Rightarrow> report_query \<Rightarrow> daily_summary" where
  "dailySummary parseDate all f = (let ts = getFilteredTransactions parseDate all f in
     \<lparr>dy_totalTransaction = length ts,
      dy_successful = length (with_status ''SUCCESS'' ts),
      dy_failed = length (with_status ''FAILED'' ts),
      dy_pending = length (with_status ''PENDING'' ts),
      dy_totalCredit = sum_amounts (with_type ''CREDIT'' ts),
      dy_totalDebit = sum_amounts (with_type ''DEBIT'' ts)\<rparr>)"

text \<open>The total and the data.\<close>

definition failedTransactions ::
  "(string \<Rightarrow> int option) \<Rightarrow> report_transaction list \<Rightarrow> report_query \<Rightarrow> nat \<times> report_transaction list" where
  "failedTransactions parseDate all f =
     (let data = with_status ''FAILED'' (getFilteredTransactions parseDate all f) in (length data, data))"

text \<open>The threshold that was used, the total and the data.\<close>

definition highValueTransactions ::
  "(string \<Rightarrow> int option) \<Rightarrow> report_transaction list \<Rightarrow> report_query
   \<Rightarrow> jsnum \<times> nat \<times> report_transaction list" where
  "highValueTransactions parseDate all f =
     (let minAmount = (if truthy (rq_minAmount f) then Number (orElse (rq_minAmount f) []) else Num 50000);
          data = filter (\<lambda>t. geq_num (Num (tx_amount t)) minAmount) (getFilteredTransactions parseDate all f)
      in (minAmount, length data, data))"

text \<open>
  A JavaScript \<open>Map\<close> from a key to a count and a total, in insertion order, updated for
  every transaction.
\<close>

type_synonym summary_map = "(string \<times> nat \<times> rat) list"

fun map_add :: "string \<Rightarrow> rat \<Rightarrow> summary_map \<Rightarrow> summary_map" where
  "map_add k a [] = [(k, 1, a)]"
| "map_add k a ((j, n, s) # m) = (if j = k then (j, n + 1, s + a) # m else (j, n, s) # map_add k a m)"

definition group_by :: "(report_transaction \<Rightarrow> string) \<Rightarrow> report_transaction list \<Rightarrow> summary_map" where
  "group_by key ts = foldl (\<lambda>m t. map_add (key t) (tx_amount t) m) [] ts"

definition branchWise ::
  "(string \<Rightarrow> int option) \<Rightarrow> report_transaction list \<Rightarrow> report_query \<Rightarrow> nat \<times> summary_map" where
  "branchWise parseDate all f =
     (let data = group_by tx_branch (getFilteredTransactions parseDate all f) in (length data, data))"

definition channelWise ::
  "(string \<Rightarrow> int option) \<Rightarrow> report_transaction list \<Rightarrow> report_query \<Rightarrow> nat \<times> summary_map" where
  "channelWise parseDate all f =
     (let data = group_by tx_channel (getFilteredTransactions parseDate all f) in (length data, data))"

subsection \<open>Facts on the reports\<close>

lemma foldl_sum: "foldl (\<lambda>s t. s + tx_amount t) a ts = a + (\<Sum>t \<leftarrow> ts. tx_amount t)"
  by (induction ts arbitrary: a) (auto simp: algebra_simps)

lemma sum_amounts_list: "sum_amounts ts = (\<Sum>t \<leftarrow> ts. tx_amount t)"
  by (simp add: sum_amounts_def foldl_sum)

text \<open>The map after all additions, against the list of transactions.\<close>

definition count_of :: "string \<Rightarrow> summary_map \<Rightarrow> nat \<times> rat" where
  "count_of k m = (case map_of m k of None \<Rightarrow> (0, 0) | Some v \<Rightarrow> v)"

lemma map_add_keys: "fst ` set (map_add k a m) = insert k (fst ` set m)"
  by (induction k a m rule: map_add.induct) auto

lemma map_add_distinct: "distinct (map fst m) \<Longrightarrow> distinct (map fst (map_add k a m))"
proof (induction k a m rule: map_add.induct)
  case (2 k a j n s m)
  have "j \<notin> fst ` set (map_add k a m)" if "j \<noteq> k" using 2(2) that by (simp add: map_add_keys)
  with 2 show ?case by (auto simp: image_iff)
qed simp

lemma map_add_count:
  "count_of k (map_add j a m) = (if k = j then (fst (count_of k m) + 1, snd (count_of k m) + a) else count_of k m)"
  by (induction j a m rule: map_add.induct) (auto simp: count_of_def)

lemma group_fold:
  "distinct (map fst m) \<Longrightarrow>
   distinct (map fst (foldl (\<lambda>m t. map_add (key t) (tx_amount t) m) m ts))
   \<and> count_of k (foldl (\<lambda>m t. map_add (key t) (tx_amount t) m) m ts)
     = (fst (count_of k m) + length (filter (\<lambda>t. key t = k) ts),
        snd (count_of k m) + (\<Sum>t \<leftarrow> filter (\<lambda>t. key t = k) ts. tx_amount t))
   \<and> fst ` set (foldl (\<lambda>m t. map_add (key t) (tx_amount t) m) m ts) = fst ` set m \<union> key ` set ts"
proof (induction ts arbitrary: m)
  case (Cons t ts)
  have "distinct (map fst (map_add (key t) (tx_amount t) m))"
    using Cons.prems by (rule map_add_distinct)
  from Cons.IH [OF this] show ?case
    by (auto simp: map_add_count map_add_keys algebra_simps)
qed simp

lemma group_by_facts:
  "distinct (map fst (group_by key ts))"
  "count_of k (group_by key ts) = (length (filter (\<lambda>t. key t = k) ts), \<Sum>t \<leftarrow> filter (\<lambda>t. key t = k) ts. tx_amount t)"
  "fst ` set (group_by key ts) = key ` set ts"
  using group_fold [of "[]" key ts k] by (auto simp: group_by_def count_of_def)

text \<open>The totals over all keys are those of the list.\<close>

lemma map_add_totals:
  "(\<Sum>(k, n, s) \<leftarrow> map_add j a m. n) = (\<Sum>(k, n, s) \<leftarrow> m. n) + 1"
  "(\<Sum>(k, n, s) \<leftarrow> map_add j a m. s) = (\<Sum>(k, n, s) \<leftarrow> m. s) + a"
  by (induction j a m rule: map_add.induct) auto

lemma group_by_totals:
  "(\<Sum>(k, n, s) \<leftarrow> group_by key ts. n) = length ts"
  "(\<Sum>(k, n, s) \<leftarrow> group_by key ts. s) = (\<Sum>t \<leftarrow> ts. tx_amount t)"
proof -
  have "(\<Sum>(k, n, s) \<leftarrow> foldl (\<lambda>m t. map_add (key t) (tx_amount t) m) m ts. n) = (\<Sum>(k, n, s) \<leftarrow> m. n) + length ts
    \<and> (\<Sum>(k, n, s) \<leftarrow> foldl (\<lambda>m t. map_add (key t) (tx_amount t) m) m ts. s)
      = (\<Sum>(k, n, s) \<leftarrow> m. s) + (\<Sum>t \<leftarrow> ts. tx_amount t)" for m
    by (induction ts arbitrary: m) (auto simp: map_add_totals algebra_simps)
  from this [of "[]"] show
    "(\<Sum>(k, n, s) \<leftarrow> group_by key ts. n) = length ts"
    "(\<Sum>(k, n, s) \<leftarrow> group_by key ts. s) = (\<Sum>t \<leftarrow> ts. tx_amount t)"
    by (simp_all add: group_by_def)
qed

end
