(* ===== verification/Report_Export.thy ===== *)
theory Report_Export
  imports Reporting
begin

text \<open>
  \<open>modules/admin/reporting/exporters\<close> and the export handler of the controller. A row is
  the property list of an object. The CSV, workbook and PDF libraries are given what the
  service asks them to write: the titles and records, the worksheet, and the texts with
  their page and position.
\<close>

type_synonym json_row = "(string \<times> json) list"

subsection \<open>flattenData and the names of a report\<close>

definition flatten_value :: "json \<Rightarrow> json" where
  "flatten_value v = (case v of JArr xs \<Rightarrow> JStr (stringify v) | JObj ps \<Rightarrow> JStr (stringify v) | _ \<Rightarrow> v)"

definition flattenData :: "json_row list \<Rightarrow> json_row list" where
  "flattenData data = map (map (\<lambda>(k, v). (k, flatten_value v))) data"

definition getSheetName :: "string \<Rightarrow> string" where
  "getSheetName reportType =
     (if reportType = ''daily-summary'' then ''Daily Summary''
      else if reportType = ''failed'' then ''Failed Transactions''
      else if reportType = ''high-value'' then ''High Value''
      else if reportType = ''branch-wise'' then ''Branch Wise''
      else if reportType = ''channel-wise'' then ''Channel Wise'' else ''Transaction Report'')"

definition getReportTitle :: "string \<Rightarrow> string" where
  "getReportTitle reportType =
     (if reportType = ''daily-summary'' then ''Daily Transaction Summary''
      else if reportType = ''failed'' then ''Failed Transaction Report''
      else if reportType = ''high-value'' then ''High Value Transaction Report''
      else if reportType = ''branch-wise'' then ''Branch-wise Transaction Report''
      else if reportType = ''channel-wise'' then ''Channel-wise Transaction Report''
      else ''Transaction Report'')"

function letters_from :: "nat \<Rightarrow> string \<Rightarrow> string" where
  "letters_from number result = (if 0 < number
     then letters_from ((number - 1) div 26) (char_of (65 + (number - 1) mod 26) # result) else result)"
  by pat_completeness auto
termination
  by (relation "measure fst") auto

declare letters_from.simps [simp del]

definition getColumnLetter :: "nat \<Rightarrow> string" where
  "getColumnLetter columnNumber = letters_from columnNumber []"

subsection \<open>CSV\<close>

record http_file =
  hf_headers :: "(string \<times> string) list"
  hf_body :: string

definition disposition :: "string \<Rightarrow> string \<Rightarrow> string \<times> string" where
  "disposition reportType ext = (''Content-Disposition'',
     ''attachment; filename='' @ [CHR 0x22] @ reportType @ CHR ''.'' # ext @ [CHR 0x22])"

text \<open>The CSV writer is given the columns (id and title), then the rows.\<close>

type_synonym csv_writer = "(string \<times> string) list \<Rightarrow> json_row list \<Rightarrow> string"

definition exportCsv :: "csv_writer \<Rightarrow> string \<Rightarrow> json_row list \<Rightarrow> http_file" where
  "exportCsv csv reportType data =
     (let rows = flattenData data;
          headers = [(''Content-Type'', ''text/csv''), disposition reportType ''csv'']
      in case rows of
           [] \<Rightarrow> \<lparr>hf_headers = headers, hf_body = []\<rparr>
         | r # _ \<Rightarrow> \<lparr>hf_headers = headers,
             hf_body = csv (map (\<lambda>(k, _). (k, toUpperCase k)) r) rows\<rparr>)"

subsection \<open>Excel\<close>

record worksheet =
  ws_name :: string
  ws_columns :: "(string \<times> string \<times> nat) list"
  ws_rows :: "json_row list"
  ws_boldRow :: "nat option"
  ws_autoFilter :: "(string \<times> string) option"

definition exportExcel :: "string \<Rightarrow> json_row list \<Rightarrow> (string \<times> string) list \<times> worksheet" where
  "exportExcel reportType data =
     ([(''Content-Type'', ''application/vnd.openxmlformats-officedocument.spreadsheetml.sheet''),
       disposition reportType ''xlsx''],
      (case flattenData data of
         [] \<Rightarrow> \<lparr>ws_name = getSheetName reportType, ws_columns = [], ws_rows = [], ws_boldRow = None,
                ws_autoFilter = None\<rparr>
       | r # rs \<Rightarrow> \<lparr>ws_name = getSheetName reportType,
                ws_columns = map (\<lambda>(k, _). (toUpperCase k, k, 22)) r, ws_rows = r # rs, ws_boldRow = Some 1,
                ws_autoFilter = Some (''A1'', getColumnLetter (length r) @ ''1'')\<rparr>))"

subsection \<open>PDF\<close>

record pdf_text =
  pt_page :: nat
  pt_x :: rat
  pt_y :: rat
  pt_text :: string
  pt_bold :: bool

text \<open>\<open>String(v ?? '')\<close> for a flattened value.\<close>

definition cell_text :: "json option \<Rightarrow> string" where
  "cell_text v = (case v of None \<Rightarrow> [] | Some JNull \<Rightarrow> [] | Some (JStr s) \<Rightarrow> s | Some j \<Rightarrow> stringify j)"

fun pdf_line :: "nat \<Rightarrow> rat \<Rightarrow> rat \<Rightarrow> nat \<Rightarrow> bool \<Rightarrow> string list \<Rightarrow> pdf_text list" where
  "pdf_line page width y index bold [] = []"
| "pdf_line page width y index bold (c # cs) =
     \<lparr>pt_page = page, pt_x = 30 + of_nat index * width, pt_y = y, pt_text = c, pt_bold = bold\<rparr>
     # pdf_line page width y (Suc index) bold cs"

fun pdf_rows :: "nat \<Rightarrow> rat \<Rightarrow> rat \<Rightarrow> string list \<Rightarrow> json_row list \<Rightarrow> pdf_text list" where
  "pdf_rows page width y headers [] = []"
| "pdf_rows page width y headers (r # rs) =
     (let page' = (if 550 < y then Suc page else page); y' = (if 550 < y then 30 else y)
      in pdf_line page' width y' 0 False (map (\<lambda>h. cell_text (map_of r h)) headers)
         @ pdf_rows page' width (y' + 18) headers rs)"

text \<open>\<open>y0\<close> is \<open>document.y\<close> after the title; pages count from 1.\<close>

definition exportPdf :: "rat \<Rightarrow> string \<Rightarrow> json_row list \<Rightarrow> (string \<times> string) list \<times> string \<times> pdf_text list option" where
  "exportPdf y0 reportType data =
     ([(''Content-Type'', ''application/pdf''), disposition reportType ''pdf''],
      getReportTitle reportType,
      (case flattenData data of
         [] \<Rightarrow> None
       | r # rs \<Rightarrow>
           (let headers = map fst r; width = 750 / of_nat (length headers)
            in Some (pdf_line 1 width y0 0 True (map toUpperCase headers)
                     @ pdf_rows 1 width (y0 + 20) headers (r # rs)))))"

subsection \<open>reporting.controller.ts\<close>

definition transaction_row :: "report_transaction \<Rightarrow> json_row" where
  "transaction_row t = [(''txn_id'', JStr (tx_txn_id t)), (''utr'', JStr (tx_utr t)),
     (''channel'', JStr (tx_channel t)), (''payment_mode'', JStr (tx_payment_mode t)),
     (''sender_cif'', JStr (tx_sender_cif t)), (''sender_name'', JStr (tx_sender_name t)),
     (''sender_account'', JStr (tx_sender_account t)), (''receiver_name'', JStr (tx_receiver_name t)),
     (''receiver_account'', JStr (tx_receiver_account t)), (''receiver_bank'', JStr (tx_receiver_bank t)),
     (''amount'', JNum (tx_amount t)), (''status'', JStr (tx_status t)),
     (''transaction_type'', JStr (tx_transaction_type t)), (''branch'', JStr (tx_branch t)),
     (''created_at'', JStr (tx_created_at t)), (''switch_response_code'', JStr (tx_switch_response_code t)),
     (''risk_score'', JNum (tx_risk_score t))]"

definition summary_row :: "string \<Rightarrow> string \<times> nat \<times> rat \<Rightarrow> json_row" where
  "summary_row key e = (case e of (k, n, s) \<Rightarrow>
     [(key, JStr k), (''transactionCount'', JNum (of_nat n)), (''totalAmount'', JNum s)])"

text \<open>\<open>filters\<close> is the query object itself.\<close>

definition daily_row :: "json \<Rightarrow> daily_summary \<Rightarrow> json_row" where
  "daily_row filters d = [(''report'', JStr ''Daily Transaction Summary''), (''filters'', filters),
     (''totalTransaction'', JNum (of_nat (dy_totalTransaction d))),
     (''successfulTransaction'', JNum (of_nat (dy_successful d))),
     (''failedTransaction'', JNum (of_nat (dy_failed d))),
     (''pendingTransaction'', JNum (of_nat (dy_pending d))),
     (''totalCreditAmount'', JNum (dy_totalCredit d)), (''totalDebitAmount'', JNum (dy_totalDebit d))]"

definition getReportData ::
  "(string \<Rightarrow> int option) \<Rightarrow> report_transaction list \<Rightarrow> string \<Rightarrow> json \<Rightarrow> report_query \<Rightarrow> json_row list" where
  "getReportData pd all reportType filters q =
     (if reportType = ''daily-summary'' then [daily_row filters (dailySummary pd all q)]
      else if reportType = ''failed'' then map transaction_row (snd (failedTransactions pd all q))
      else if reportType = ''high-value'' then map transaction_row (snd (snd (highValueTransactions pd all q)))
      else if reportType = ''branch-wise'' then map (summary_row ''branch'') (snd (branchWise pd all q))
      else if reportType = ''channel-wise'' then map (summary_row ''channel'') (snd (channelWise pd all q))
      else [])"

datatype export_result =
    Csv_file http_file
  | Excel_file "(string \<times> string) list" worksheet
  | Pdf_file "(string \<times> string) list" string "pdf_text list option"
  | Unsupported string

definition exportReport ::
  "csv_writer \<Rightarrow> rat \<Rightarrow> (string \<Rightarrow> int option) \<Rightarrow> report_transaction list \<Rightarrow> string \<Rightarrow> string option \<Rightarrow> json
   \<Rightarrow> report_query \<Rightarrow> export_result" where
  "exportReport csv y0 pd all reportType format filters q =
     (let data = getReportData pd all reportType filters q; f = orElse format ''csv'' in
      if f = ''csv'' then Csv_file (exportCsv csv reportType data)
      else if f = ''excel'' then (case exportExcel reportType data of (h, w) \<Rightarrow> Excel_file h w)
      else if f = ''pdf'' then (case exportPdf y0 reportType data of (h, t, p) \<Rightarrow> Pdf_file h t p)
      else Unsupported ''Unsupported export format'')"

subsection \<open>Facts\<close>

text \<open>The number a column name stands for: a bijective numeral in base 26.\<close>

fun letters_value :: "nat \<Rightarrow> string \<Rightarrow> nat" where
  "letters_value a [] = a"
| "letters_value a (c # cs) = letters_value (a * 26 + (code c - 64)) cs"

lemma letters_value_from: "letters_value 0 (letters_from n r) = letters_value n r"
proof (induction n r rule: letters_from.induct)
  case (1 n r)
  show ?case
  proof (cases "0 < n")
    case True
    have m: "65 + (n - 1) mod 26 < 256" by (simp add: less_trans [OF mod_less_divisor])
    have "code (char_of (65 + (n - 1) mod 26)) - 64 = (n - 1) mod 26 + 1"
      using m by (simp add: code_def)
    moreover have "(n - 1) div 26 * 26 + ((n - 1) mod 26 + 1) = n"
      using True by (metis One_nat_def Suc_pred add_Suc_right div_mult_mod_eq plus_1_eq_Suc add.commute)
    ultimately show ?thesis using 1 True by (simp add: letters_from.simps [of n])
  next
    case False
    then show ?thesis by (simp add: letters_from.simps [of 0])
  qed
qed

lemma letters_from_upper: "list_all is_upper r \<Longrightarrow> list_all is_upper (letters_from n r)"
proof (induction n r rule: letters_from.induct)
  case (1 n r)
  have "65 + (n - 1) mod 26 \<le> 90" using mod_less_divisor [of 26 "n - 1"] by linarith
  then have "is_upper (char_of (65 + (n - 1) mod 26))" by (simp add: is_upper_def code_def)
  with 1 show ?case by (simp add: letters_from.simps [of n])
qed

text \<open>The layout: every text of a row within the page, rows on a page apart.\<close>

lemma pdf_line_at:
  "t \<in> set (pdf_line page width y i bold cs) \<Longrightarrow> pt_page t = page \<and> pt_y t = y \<and> pt_bold t = bold
     \<and> 30 + of_nat i * width \<le> pt_x t \<and> pt_x t < 30 + of_nat (i + length cs) * width" if "0 < width"
proof (induction cs arbitrary: i)
  case (Cons c cs)
  have s: "30 + of_nat i * width < 30 + of_nat (Suc i) * width" using that by (simp add: algebra_simps)
  have l: "30 + of_nat i * width < 30 + of_nat (i + length (c # cs)) * width"
    using that by (simp add: algebra_simps add_pos_nonneg)
  show ?case
  proof (cases "t \<in> set (pdf_line page width y (Suc i) bold cs)")
    case True
    from Cons.IH [OF True] s show ?thesis by auto
  next
    case False
    with Cons.prems l show ?thesis by auto
  qed
qed simp

lemma pdf_rows_bound:
  assumes "30 \<le> y" and "0 < width" and "t \<in> set (pdf_rows page width y headers rs)"
  shows "30 \<le> pt_y t \<and> pt_y t \<le> 550 \<and> page \<le> pt_page t"
  using assms
proof (induction page width y headers rs rule: pdf_rows.induct)
  case (2 page width y headers r rs)
  define page' where "page' = (if 550 < y then Suc page else page)"
  define y' where "y' = (if 550 < y then 30 else y)"
  have y': "30 \<le> y'" "y' \<le> 550" using 2(2) by (auto simp: y'_def)
  from 2(4) consider
      "t \<in> set (pdf_line page' width y' 0 False (map (\<lambda>h. cell_text (map_of r h)) headers))"
    | "t \<in> set (pdf_rows page' width (y' + 18) headers rs)"
    by (auto simp: page'_def y'_def Let_def)
  then show ?case
  proof cases
    case line: 1
    have "pt_page t = page' \<and> pt_y t = y'" using pdf_line_at [OF 2(3) line] by simp
    with y' show ?thesis by (auto simp: page'_def)
  next
    case rest: 2
    with "2.IH" [OF page'_def y'_def] y' 2(3) show ?thesis by (auto simp: page'_def split: if_splits)
  qed
qed simp

end
