(* ===== verification/Report_Properties.thy ===== *)
theory Report_Properties
  imports Report_Export
begin

text \<open>
  The grouped reports against the list of transactions, and the layout of the spreadsheet and
  of the PDF.
\<close>

subsection \<open>Reports\<close>

text \<open>
  C37: the branch and the channel report are the grouping of the filtered transactions:
  every key that occurs appears once, with the number and the sum of the transactions that
  have it, and the rows add up to all of them.
\<close>

theorem grouped_reports_exact:
  "let ts = getFilteredTransactions parseDate all q; (n, rows) = branchWise parseDate all q; (m, channels) = channelWise parseDate all q
   in (distinct (map fst rows) \<and> fst ` set rows = tx_branch ` set ts \<and> n = length rows
       \<and> map (\<lambda>(k, c, a). (c, a)) rows
         = map (\<lambda>(k, _). (length (filter (\<lambda>t. tx_branch t = k) ts), \<Sum>t \<leftarrow> filter (\<lambda>t. tx_branch t = k) ts. tx_amount t)) rows
       \<and> (\<Sum>(k, c, a) \<leftarrow> rows. c) = length ts \<and> (\<Sum>(k, c, a) \<leftarrow> rows. a) = sum_amounts ts)
     \<and> (distinct (map fst channels) \<and> fst ` set channels = tx_channel ` set ts \<and> m = length channels
       \<and> map (\<lambda>(k, c, a). (c, a)) channels
         = map (\<lambda>(k, _). (length (filter (\<lambda>t. tx_channel t = k) ts), \<Sum>t \<leftarrow> filter (\<lambda>t. tx_channel t = k) ts. tx_amount t)) channels
       \<and> (\<Sum>(k, c, a) \<leftarrow> channels. c) = length ts \<and> (\<Sum>(k, c, a) \<leftarrow> channels. a) = sum_amounts ts)"
proof -
  have g: "distinct (map fst (group_by key ts)) \<and> fst ` set (group_by key ts) = key ` set ts
       \<and> map (\<lambda>(k, c, a). (c, a)) (group_by key ts)
         = map (\<lambda>(k, _). (length (filter (\<lambda>t. key t = k) ts), \<Sum>t \<leftarrow> filter (\<lambda>t. key t = k) ts. tx_amount t)) (group_by key ts)
       \<and> (\<Sum>(k, c, a) \<leftarrow> group_by key ts. c) = length ts \<and> (\<Sum>(k, c, a) \<leftarrow> group_by key ts. a) = sum_amounts ts" for key ts
  proof -
    have "(c, a) = (length (filter (\<lambda>t. key t = k) ts), \<Sum>t \<leftarrow> filter (\<lambda>t. key t = k) ts. tx_amount t)"
      if "(k, c, a) \<in> set (group_by key ts)" for k c a
    proof -
      have "map_of (group_by key ts) k = Some (c, a)"
        using that group_by_facts(1) [of key ts] by (metis map_of_eq_Some_iff)
      then show ?thesis using group_by_facts(2) [of k key ts] by (simp add: count_of_def)
    qed
    then show ?thesis using group_by_facts(1,3) [of key ts] group_by_totals [of key ts] by (auto simp: sum_amounts_list)
  qed
  show ?thesis
    using g [of tx_branch "getFilteredTransactions parseDate all q"] g [of tx_channel "getFilteredTransactions parseDate all q"]
    by (simp add: branchWise_def channelWise_def Let_def)
qed

text \<open>
  The column letters of the spreadsheet are a bijective numeral: upper-case letters that
  read back as the number of the column, so no two columns share a name.
\<close>

theorem column_letters_roundtrip:
  "letters_value 0 (getColumnLetter n) = n \<and> list_all is_upper (getColumnLetter n)
   \<and> (getColumnLetter n = getColumnLetter m \<longleftrightarrow> n = m)"
proof -
  have v: "letters_value 0 (getColumnLetter n) = n" for n
    by (simp add: getColumnLetter_def letters_value_from)
  moreover have "list_all is_upper (getColumnLetter n)"
    unfolding getColumnLetter_def by (rule letters_from_upper) simp
  ultimately show ?thesis by metis
qed

lemma pdf_rows_x:
  assumes "0 < width" and "t \<in> set (pdf_rows page width y headers rs)"
  shows "30 \<le> pt_x t \<and> pt_x t < 30 + of_nat (length headers) * width"
  using assms(2)
proof (induction rs arbitrary: page y)
  case (Cons r rs)
  define page' where "page' = (if 550 < y then Suc page else page)"
  define y' where "y' = (if 550 < y then 30 else y)"
  from Cons.prems consider
      "t \<in> set (pdf_line page' width y' 0 False (map (\<lambda>h. cell_text (map_of r h)) headers))"
    | "t \<in> set (pdf_rows page' width (y' + 18) headers rs)"
    by (auto simp: page'_def y'_def Let_def)
  then show ?case
  proof cases
    case 1
    with pdf_line_at [OF assms(1) 1] show ?thesis by simp
  next
    case 2
    with Cons.IH show ?thesis by blast
  qed
qed simp

text \<open>
  Every cell of the PDF report lies on the page: between the left margin and 780 points
  across, and the rows between 30 and 550 points down; a row below that starts a new page.
\<close>

theorem pdf_cells_on_page:
  assumes "data \<noteq> []" and "hd data \<noteq> []" and "30 \<le> y0" and "y0 \<le> 550"
  shows "\<exists>texts. snd (snd (exportPdf y0 reportType data)) = Some texts
     \<and> (\<forall>t \<in> set texts. 30 \<le> pt_x t \<and> pt_x t < 780 \<and> 30 \<le> pt_y t \<and> pt_y t \<le> 550 \<and> 1 \<le> pt_page t)"
proof -
  obtain r rs where f: "flattenData data = r # rs" "length r = length (hd data)"
    using assms(1) by (cases data) (auto simp: flattenData_def)
  then have r: "r \<noteq> []" using assms(2) by auto
  define width where "width = (750 :: rat) / of_nat (length (map fst r))"
  have w: "0 < width" "of_nat (length (map fst r)) * width = 750" using r by (simp_all add: width_def)
  let ?texts = "pdf_line 1 width y0 0 True (map toUpperCase (map fst r)) @ pdf_rows 1 width (y0 + 20) (map fst r) (r # rs)"
  have "snd (snd (exportPdf y0 reportType data)) = Some ?texts"
    by (simp add: exportPdf_def f(1) width_def Let_def)
  moreover have "30 \<le> pt_x t \<and> pt_x t < 780 \<and> 30 \<le> pt_y t \<and> pt_y t \<le> 550 \<and> 1 \<le> pt_page t" if "t \<in> set ?texts" for t
  proof -
    from that consider "t \<in> set (pdf_line 1 width y0 0 True (map toUpperCase (map fst r)))"
      | "t \<in> set (pdf_rows 1 width (y0 + 20) (map fst r) (r # rs))" by auto
    then show ?thesis
    proof cases
      case 1
      with pdf_line_at [OF w(1) 1] w(2) assms(3,4) show ?thesis by simp
    next
      case 2
      have "30 \<le> y0 + 20" using assms(3) by simp
      from pdf_rows_bound [OF this w(1) 2] pdf_rows_x [OF w(1) 2] w(2) show ?thesis by simp
    qed
  qed
  ultimately show ?thesis by blast
qed

theorem pdf_cells_on_page_witness:
  "\<exists>texts. snd (snd (exportPdf 72 ''failed'' [[(''txn_id'', JStr ''T1'')]])) = Some texts"
  using pdf_cells_on_page [of "[[(''txn_id'', JStr ''T1'')]]" 72 "''failed''"] by auto

end
