(* ===== verification/Async.thy ===== *)
theory Async
  imports Prelude
begin

text \<open>
  Requests that are in progress at the same time. A handler is a task: it has ended with a
  result, or it is at an \<open>await\<close>. Resuming it runs the awaited call (a statement of a table,
  an HTTP call) and then the code up to the next \<open>await\<close>, which nothing can interrupt. The
  actions of the other theories are tasks run alone (\<open>run\<close>).
\<close>

subsection \<open>Tasks\<close>

datatype ('s, 'a) task = Done "'a result" | Await "'s \<Rightarrow> 's \<times> ('s, 'a) task"

text \<open>A call whose exception ends the task, and a read, which changes nothing.\<close>

definition call :: "('s, 'x) act \<Rightarrow> ('x \<Rightarrow> ('s, 'a) task) \<Rightarrow> ('s, 'a) task" where
  "call m f = Await (\<lambda>s. case m s of (Inl e, t) \<Rightarrow> (t, Done (Inl e)) | (Inr x, t) \<Rightarrow> (t, f x))"

definition look :: "('s \<Rightarrow> 'x) \<Rightarrow> ('x \<Rightarrow> ('s, 'a) task) \<Rightarrow> ('s, 'a) task" where
  "look g f = Await (\<lambda>s. (s, f (g s)))"

primrec run :: "('s, 'a) task \<Rightarrow> ('s, 'a) act" where
  "run (Done r) = (\<lambda>s. (r, s))"
| "run (Await k) = (\<lambda>s. case map_prod id run (k s) of (t, m) \<Rightarrow> m t)"

declare run.simps(1) [simp del]

lemma run_Done [simp]: "run (Done (Inr x)) = ret x" "run (Done (Inl e)) = throw e" "run (Done r) s = (r, s)"
  by (auto simp: ret_def throw_def run.simps(1))

lemma run_call [simp]: "run (call m f) = andThen m (\<lambda>x. run (f x))"
  by (auto simp: call_def andThen_def fun_eq_iff split: prod.splits sum.splits)

lemma run_look: "run (look g f) s = run (f (g s)) s"
  by (simp add: look_def)

lemma run_map_task: "run (map_task f p) s = (case run p s of (r, t) \<Rightarrow> (map_sum id f r, t))"
proof (induction p arbitrary: s)
  case (Await k)
  obtain t q where k: "k s = (t, q)" by fastforce
  then have "(t, q) \<in> range k" "q \<in> Basic_BNFs.snds (t, q)" by (metis rangeI, simp add: Basic_BNFs.prod_set_defs)
  from Await.IH [OF this, of t] k show ?case by simp
qed simp

subsection \<open>Interleaving\<close>

text \<open>One step of the task at a position; \<open>interleave\<close> follows a schedule of positions.\<close>

definition advance_task :: "nat \<Rightarrow> ('s, 'a) task list \<times> 's \<Rightarrow> ('s, 'a) task list \<times> 's" where
  "advance_task i c = (case c of (ps, s) \<Rightarrow>
     if i < length ps
     then (case ps ! i of Done _ \<Rightarrow> (ps, s) | Await k \<Rightarrow> (case k s of (t, p) \<Rightarrow> (ps[i := p], t)))
     else (ps, s))"

definition interleave :: "nat list \<Rightarrow> ('s, 'a) task list \<times> 's \<Rightarrow> ('s, 'a) task list \<times> 's" where
  "interleave sched c = fold advance_task sched c"

lemma interleave_simps [simp]:
  "interleave [] c = c" "interleave (i # is) c = interleave is (advance_task i c)"
  "interleave (is @ js) c = interleave js (interleave is c)"
  by (simp_all add: interleave_def)

text \<open>A task that is the only one in the pool does what its run does.\<close>

lemma interleave_done: "interleave sched ([Done r], s) = ([Done r], s)"
  by (induction sched) (auto simp: advance_task_def)

lemma interleave_alone: "\<exists>n. interleave (replicate n 0) ([p], s) = ([Done (fst (run p s))], snd (run p s))"
proof (induction p arbitrary: s)
  case (Done r)
  then show ?case by (intro exI [of _ 0]) simp
next
  case (Await k)
  obtain t q where k: "k s = (t, q)" by fastforce
  have "(t, q) \<in> range k" "q \<in> Basic_BNFs.snds (t, q)" using k by (metis rangeI, simp add: Basic_BNFs.prod_set_defs)
  from Await.IH [OF this, of t] obtain n
    where "interleave (replicate n 0) ([q], t) = ([Done (fst (run q t))], snd (run q t))" by blast
  with k show ?case by (intro exI [of _ "Suc n"]) (simp add: advance_task_def)
qed

text \<open>A round of equal tasks: each of them takes the same step.\<close>

lemma advance_task_Await [simp]:
  "i < length ps \<Longrightarrow> ps ! i = Await k \<Longrightarrow> advance_task i (ps, s) = (ps[i := snd (k s)], fst (k s))"
  by (simp add: advance_task_def case_prod_beta)

lemma interleave_Suc:
  "interleave (map Suc is) (p # ps, s) = (case interleave is (ps, s) of (qs, t) \<Rightarrow> (p # qs, t))"
proof (induction "is" arbitrary: ps s)
  case (Cons i "is")
  have "advance_task (Suc i) (p # ps, s) = (case advance_task i (ps, s) of (qs, t) \<Rightarrow> (p # qs, t))"
    by (auto simp: advance_task_def split: task.splits prod.splits)
  with Cons.IH show ?case by (simp split: prod.splits)
qed simp

lemma interleave_round:
  assumes "\<And>i. i < n \<Longrightarrow> k ((h ^^ i) s) = (h ((h ^^ i) s), q)"
  shows "interleave [0..<n] (replicate n (Await k), s) = (replicate n q, (h ^^ n) s)"
  using assms
proof (induction n arbitrary: s)
  case (Suc n)
  from Suc.prems [of 0] have k: "k s = (h s, q)" by simp
  have "interleave [0..<n] (replicate n (Await k), h s) = (replicate n q, (h ^^ n) (h s))"
    using Suc.prems [of "Suc i" for i] by (intro Suc.IH) (simp add: funpow_swap1)
  moreover have "[0..<Suc n] = 0 # map Suc [0..<n]" by (simp add: upt_conv_Cons map_Suc_upt del: upt_Suc)
  ultimately show ?case
    using k by (simp add: interleave_Suc funpow_swap1 del: upt_Suc)
qed simp

lemma interleave_round_look:
  "interleave [0..<n] (replicate n (look g f), s) = (replicate n (f (g s)), s)"
proof -
  have "(id ^^ n) s = s" for n by (induction n) simp_all
  with interleave_round [of n "\<lambda>s. (s, f (g s))" id s "f (g s)"] show ?thesis by (simp add: look_def)
qed

lemma interleave_round_looks:
  "interleave [0..<length xs] (map (\<lambda>x. look g (f x)) xs, s) = (map (\<lambda>x. f x (g s)) xs, s)"
proof (induction xs)
  case (Cons x xs)
  have "[0..<length (x # xs)] = 0 # map Suc [0..<length xs]" by (simp add: upt_conv_Cons map_Suc_upt del: upt_Suc)
  moreover have "advance_task 0 (map (\<lambda>x. look g (f x)) (x # xs), s) = (f x (g s) # map (\<lambda>x. look g (f x)) xs, s)"
    by (simp add: advance_task_def look_def)
  ultimately show ?case using Cons.IH by (simp add: interleave_Suc del: upt_Suc)
qed simp

lemma interleave_round_call:
  assumes "\<And>i. i < n \<Longrightarrow> m ((h ^^ i) s) = (Inr x, h ((h ^^ i) s))"
  shows "interleave [0..<n] (replicate n (call m f), s) = (replicate n (f x), (h ^^ n) s)"
  unfolding call_def using assms by (intro interleave_round) simp

lemma interleave_round_fail:
  assumes "m s = (Inl e, s)"
  shows "interleave [0..<n] (replicate n (call m f), s) = (replicate n (Done (Inl e)), s)"
proof -
  have "(id ^^ n) s = s" for n by (induction n) simp_all
  with assms interleave_round [of n "\<lambda>s. case m s of (Inl e, t) \<Rightarrow> (t, Done (Inl e)) | (Inr x, t) \<Rightarrow> (t, f x)" id s "Done (Inl e)"]
  show ?thesis by (simp add: call_def)
qed

subsection \<open>Invariants under interference\<close>

text \<open>
  \<open>guar I R Q p s\<close>: from \<open>s\<close> on, whatever the other requests do within \<open>R\<close>, every step of \<open>p\<close>
  keeps \<open>I\<close> and stays within \<open>R\<close>, and its result satisfies \<open>Q\<close>.
\<close>

primrec guar ::
  "('s \<Rightarrow> bool) \<Rightarrow> ('s \<Rightarrow> 's \<Rightarrow> bool) \<Rightarrow> ('a result \<Rightarrow> 's \<Rightarrow> bool) \<Rightarrow> ('s, 'a) task \<Rightarrow> 's \<Rightarrow> bool" where
  "guar I R Q (Done r) = (\<lambda>s. \<forall>t. R s t \<and> I t \<longrightarrow> Q r t)"
| "guar I R Q (Await k) = (\<lambda>s. \<forall>t. R s t \<and> I t \<longrightarrow>
     (case map_prod id (guar I R Q) (k t) of (u, g) \<Rightarrow> I u \<and> R t u \<and> g u))"

lemma guar_Await:
  "guar I R Q (Await k) s \<longleftrightarrow>
     (\<forall>t. R s t \<and> I t \<longrightarrow> I (fst (k t)) \<and> R t (fst (k t)) \<and> guar I R Q (snd (k t)) (fst (k t)))"
  by (simp add: case_prod_beta)

declare guar.simps(2) [simp del]

lemma guar_map_task: "guar I R (\<lambda>r. Q (map_sum id f r)) p s \<Longrightarrow> guar I R Q (map_task f p) s"
proof (induction p arbitrary: s)
  case (Await k)
  have "guar I R Q (map_task f (snd (k t))) (fst (k t))" if "R s t" "I t" for t
  proof -
    have "k t \<in> range k" "snd (k t) \<in> Basic_BNFs.snds (k t)" by (simp_all add: Basic_BNFs.prod_set_defs)
    from Await.IH [OF this] Await.prems that show ?thesis by (auto simp: guar_Await)
  qed
  with Await.prems show ?case by (auto simp: guar_Await)
qed simp

text \<open>The interference between the requests on one store.\<close>

locale interference =
  fixes R :: "'s \<Rightarrow> 's \<Rightarrow> bool"
  assumes R_refl: "R s s" and R_trans: "R s t \<Longrightarrow> R t u \<Longrightarrow> R s u"
begin

lemma guar_stable: "guar I R Q p s \<Longrightarrow> R s t \<Longrightarrow> guar I R Q p t"
  by (cases p) (auto simp: guar_Await dest: R_trans)

lemma guar_call:
  assumes "\<And>t r u. R s t \<Longrightarrow> I t \<Longrightarrow> m t = (r, u) \<Longrightarrow> I u \<and> R t u
     \<and> (case r of Inl e \<Rightarrow> guar I R Q (Done (Inl e)) u | Inr x \<Rightarrow> guar I R Q (f x) u)"
  shows "guar I R Q (call m f) s"
  unfolding call_def guar_Await
proof (intro allI impI, elim conjE)
  fix t assume "R s t" "I t"
  from assms [OF this, of "fst (m t)" "snd (m t)"]
  show "I (fst (case m t of (Inl e, u) \<Rightarrow> (u, Done (Inl e)) | (Inr x, u) \<Rightarrow> (u, f x)))
    \<and> R t (fst (case m t of (Inl e, u) \<Rightarrow> (u, Done (Inl e)) | (Inr x, u) \<Rightarrow> (u, f x)))
    \<and> guar I R Q (snd (case m t of (Inl e, u) \<Rightarrow> (u, Done (Inl e)) | (Inr x, u) \<Rightarrow> (u, f x)))
        (fst (case m t of (Inl e, u) \<Rightarrow> (u, Done (Inl e)) | (Inr x, u) \<Rightarrow> (u, f x)))"
    by (cases "m t") (auto split: sum.splits)
qed

lemma guar_look:
  assumes "\<And>t. R s t \<Longrightarrow> I t \<Longrightarrow> guar I R Q (f (g t)) t"
  shows "guar I R Q (look g f) s"
  unfolding look_def guar_Await using assms R_refl by auto

text \<open>Task \<open>j\<close> of the pool answers with \<open>Q j\<close>.\<close>

lemma guar_advance:
  assumes "advance_task i (ps, s) = (qs, t)" and "I s" and "\<forall>j < length ps. guar I R (Q j) (ps ! j) s"
  shows "I t \<and> R s t \<and> (\<forall>j < length qs. guar I R (Q j) (qs ! j) t) \<and> length qs = length ps"
proof (cases "i < length ps \<and> (\<exists>k. ps ! i = Await k)")
  case False
  with assms show ?thesis by (auto simp: advance_task_def R_refl split: task.splits if_splits)
next
  case True
  then obtain k where i: "i < length ps" "ps ! i = Await k" by blast
  with assms(1) have q: "qs = ps[i := snd (k s)]" "t = fst (k s)"
    by (auto simp: advance_task_def split: prod.splits)
  have "guar I R (Q i) (Await k) s" using assms(3) i by metis
  with assms(2) R_refl have k: "I t" "R s t" "guar I R (Q i) (snd (k s)) t" by (auto simp: guar_Await q)
  moreover have "guar I R (Q j) (qs ! j) t" if "j < length qs" for j
    using that k(3) assms(3) guar_stable [OF _ k(2)] i(1) by (cases "j = i") (auto simp: q(1))
  ultimately show ?thesis using q(1) by simp
qed

theorem guar_interleave:
  assumes "interleave sched (ps, s) = (qs, t)" and "I s" and "\<forall>j < length ps. guar I R (Q j) (ps ! j) s"
  shows "I t \<and> R s t \<and> (\<forall>j < length qs. guar I R (Q j) (qs ! j) t) \<and> length qs = length ps"
  using assms
proof (induction sched arbitrary: ps s)
  case Nil
  then show ?case by (auto simp: R_refl)
next
  case (Cons i sched)
  obtain ps' s' where a: "advance_task i (ps, s) = (ps', s')" by fastforce
  from guar_advance [where I = I and Q = Q, OF a Cons.prems(2,3)]
  have b: "I s'" "R s s'" "\<forall>j < length ps'. guar I R (Q j) (ps' ! j) s'" "length ps' = length ps" by auto
  from Cons.prems(1) a have "interleave sched (ps', s') = (qs, t)" by simp
  from Cons.IH [OF this b(1,3)] b(2,4) R_trans show ?case by auto
qed

text \<open>What has been answered in an interleaving.\<close>

lemma guar_results:
  assumes "interleave sched (ps, s) = (qs, t)" and "I s" and "\<forall>j < length ps. guar I R (Q j) (ps ! j) s"
    and "j < length ps" and "qs ! j = Done r"
  shows "Q j r t"
proof -
  from guar_interleave [where I = I and Q = Q, OF assms(1-3)] assms(4,5)
  have "guar I R (Q j) (Done r) t" "I t" by metis+
  then show ?thesis using R_refl by simp
qed

end

end
