(* ===== verification/Async_Payment.thy ===== *)
theory Async_Payment
  imports Async Payment_Properties
begin

text \<open>
  The requests of payment.service.ts as tasks, with an \<open>await\<close> at every call of a table and
  of the network, and what remains true when any number of them is in progress at once.
\<close>

subsection \<open>Tasks\<close>

definition billing_task ::
  "('p, 'm, 'd, 'w) pay_env \<Rightarrow> (mock_bill row \<Rightarrow> bool) \<Rightarrow> (demo_bill row \<Rightarrow> bool)
   \<Rightarrow> (billing_record option \<Rightarrow> (('p, 'm, 'd, 'w) pay_state, 'x) task) \<Rightarrow> (('p, 'm, 'd, 'w) pay_state, 'x) task" where
  "billing_task E P Q f = look (\<lambda>s. findOneR (pe_mock E) P (ps_mock s)) (\<lambda>mock. case mock of
      Some m \<Rightarrow> f (Some (Mock_record m))
    | None \<Rightarrow> look (\<lambda>s. findOneR (pe_demo E) Q (ps_demo s)) (\<lambda>demo. f (map_option Demo_record demo)))"

definition by_number_task ::
  "('p, 'm, 'd, 'w) pay_env \<Rightarrow> string
   \<Rightarrow> (billing_record option \<Rightarrow> (('p, 'm, 'd, 'w) pay_state, 'x) task) \<Rightarrow> (('p, 'm, 'd, 'w) pay_state, 'x) task" where
  "by_number_task E n = billing_task E (of_number n) (of_number n)"

definition by_consumer_task ::
  "('p, 'm, 'd, 'w) pay_env \<Rightarrow> string \<Rightarrow> string
   \<Rightarrow> (billing_record option \<Rightarrow> (('p, 'm, 'd, 'w) pay_state, 'x) task) \<Rightarrow> (('p, 'm, 'd, 'w) pay_state, 'x) task" where
  "by_consumer_task E b c = billing_task E (of_consumer b c) (of_consumer b c)"

definition duplicate_of :: "payment row \<Rightarrow> payment_result" where
  "duplicate_of p = \<lparr>pr_paymentId = rid p, pr_billNumber = None, pr_billerCode = py_billerCode (rdata p),
     pr_consumerNumber = py_consumerNumber (rdata p), pr_amount = py_amount (rdata p),
     pr_status = py_status (rdata p), pr_bbpsReferenceId = py_bbpsReferenceId (rdata p), pr_duplicate = True\<rparr>"

definition answer_replay :: "payment row \<Rightarrow> bool \<Rightarrow> ('s, payment_result) task" where
  "answer_replay p same = Done (if same then Inr (duplicate_of p) else Inl idempotency_key_reused)"

definition replay_task ::
  "('p, 'm, 'd, 'w) pay_env \<Rightarrow> payment_dto \<Rightarrow> actor option \<Rightarrow> payment row
   \<Rightarrow> (('p, 'm, 'd, 'w) pay_state, payment_result) task" where
  "replay_task E dto actor p =
     (case assertIdempotentPaymentOwnedByActor (py_keycloakUserId (rdata p)) actor of
        Inl e \<Rightarrow> Done (Inl e)
      | Inr _ \<Rightarrow> if truthy (pm_billNumber dto)
          then by_number_task E (orElse (pm_billNumber dto) []) (\<lambda>found. answer_replay p (case found of
              None \<Rightarrow> False
            | Some f \<Rightarrow> (let bill = record_bill f in
                py_billerCode (rdata p) = mb_billerCode bill \<and> py_consumerNumber (rdata p) = mb_consumerNumber bill
                \<and> column_number (py_amount (rdata p)) = column_number (mb_amount bill))))
          else answer_replay p (Some (py_billerCode (rdata p)) = pm_billerCode dto
            \<and> Some (py_consumerNumber (rdata p)) = pm_consumerNumber dto
            \<and> Num (column_number (py_amount (rdata p)))
              = (case pm_amount dto of None \<Rightarrow> NaN | Some a \<Rightarrow> Number a)))"

definition bbps_request_of :: "mock_bill \<Rightarrow> bbps_request" where
  "bbps_request_of bill = \<lparr>bq_billerCode = mb_billerCode bill, bq_consumerNumber = mb_consumerNumber bill,
     bq_amount = column_number (mb_amount bill)\<rparr>"

definition paid_result :: "mock_bill \<Rightarrow> payment row \<Rightarrow> payment_result" where
  "paid_result bill saved = \<lparr>pr_paymentId = rid saved, pr_billNumber = Some (mb_billNumber bill),
     pr_billerCode = py_billerCode (rdata saved), pr_consumerNumber = py_consumerNumber (rdata saved),
     pr_amount = column_number (mb_amount bill), pr_status = py_status (rdata saved),
     pr_bbpsReferenceId = py_bbpsReferenceId (rdata saved), pr_duplicate = False\<rparr>"

definition execute_task ::
  "('p, 'm, 'd, 'w) pay_env \<Rightarrow> string \<Rightarrow> string \<Rightarrow> billing_record
   \<Rightarrow> (('p, 'm, 'd, 'w) pay_state, payment_result) task" where
  "execute_task E key owner found = (let bill = record_bill found in
     call (onAdapter (pe_adapter E (bbps_request_of bill))) (\<lambda>resp.
     call (onPayments (insertR (pe_payments E) (new_payment bill resp key owner))) (\<lambda>saved.
     if bs_status resp = SUCCESS then call (save_paid E found) (\<lambda>_. Done (Inr (paid_result bill saved)))
     else Done (Inr (paid_result bill saved)))))"

text \<open>The checks on the bill, and the request when its key is new.\<close>

definition check_task ::
  "('p, 'm, 'd, 'w) pay_env \<Rightarrow> payment_dto \<Rightarrow> string \<Rightarrow> billing_record option
   \<Rightarrow> (('p, 'm, 'd, 'w) pay_state, payment_result) task" where
  "check_task E dto owner found = (case found of
      None \<Rightarrow> Done (Inl bill_not_found)
    | Some f \<Rightarrow> (let bill = record_bill f; billAmount = column_number (mb_amount bill) in
        if mb_status bill \<noteq> ''UNPAID'' then Done (Inl bill_not_payable)
        else if requested_amount dto billAmount \<noteq> Num billAmount then Done (Inl amount_mismatch)
        else execute_task E (pm_idempotencyKey dto) owner f))"

definition fresh_task ::
  "('p, 'm, 'd, 'w) pay_env \<Rightarrow> payment_dto \<Rightarrow> string \<Rightarrow> (('p, 'm, 'd, 'w) pay_state, payment_result) task" where
  "fresh_task E dto owner = (if truthy (pm_billNumber dto)
     then by_number_task E (orElse (pm_billNumber dto) []) (check_task E dto owner)
     else by_consumer_task E (orElse (pm_billerCode dto) []) (orElse (pm_consumerNumber dto) []) (check_task E dto owner))"

definition create_task ::
  "('p, 'm, 'd, 'w) pay_env \<Rightarrow> payment_dto \<Rightarrow> actor option
   \<Rightarrow> (('p, 'm, 'd, 'w) pay_state, payment_result) task" where
  "create_task E dto actor = (case requireActorSub actor of
      Inl e \<Rightarrow> Done (Inl e)
    | Inr keycloakUserId \<Rightarrow>
        if \<not> truthy (pm_billNumber dto) \<and>
           (\<not> truthy (pm_billerCode dto) \<or> \<not> truthy (pm_consumerNumber dto) \<or> \<not> truthy (pm_amount dto))
        then Done (Inl invalid_payment_request)
        else look (\<lambda>s. findOneR (pe_payments E) (\<lambda>p. py_idempotencyKey (rdata p) = pm_idempotencyKey dto) (ps_payments s))
          (\<lambda>existing. case existing of
             Some p \<Rightarrow> replay_task E dto actor p | None \<Rightarrow> fresh_task E dto keycloakUserId))"

text \<open>The end of the retry handler: the payment is read again.\<close>

definition read_back ::
  "('p, 'm, 'd, 'w) pay_env \<Rightarrow> string \<Rightarrow> actor option \<Rightarrow> (('p, 'm, 'd, 'w) pay_state, payment row) task" where
  "read_back E i actor = call (onPayments (py_findOne (pe_payments E) i actor)) (\<lambda>p. Done (Inr p))"

definition redispatch_task ::
  "('p, 'm, 'd, 'w) pay_env \<Rightarrow> payment row \<Rightarrow> (('p, 'm, 'd, 'w) pay_state, payment row) task
   \<Rightarrow> (('p, 'm, 'd, 'w) pay_state, payment row) task" where
  "redispatch_task E p k =
     call (onAdapter (pe_adapter E \<lparr>bq_billerCode = py_billerCode (rdata p),
         bq_consumerNumber = py_consumerNumber (rdata p), bq_amount = column_number (py_amount (rdata p))\<rparr>)) (\<lambda>resp.
     call (onPayments (saveR (pe_payments E) (upd (retried resp) p))) (\<lambda>_.
     if bs_status resp = SUCCESS
     then by_consumer_task E (py_billerCode (rdata p)) (py_consumerNumber (rdata p)) (\<lambda>found. case found of
         None \<Rightarrow> k | Some f \<Rightarrow> call (save_paid E f) (\<lambda>_. k))
     else k))"

definition retry_task ::
  "('p, 'm, 'd, 'w) pay_env \<Rightarrow> string \<Rightarrow> actor option \<Rightarrow> (('p, 'm, 'd, 'w) pay_state, payment row) task" where
  "retry_task E i actor = look (\<lambda>s. findOneR (pe_payments E) (byId i) (ps_payments s)) (\<lambda>found. case found of
      None \<Rightarrow> Done (Inl payment_not_found)
    | Some p \<Rightarrow> (case assertPaymentOwnedByActor (py_keycloakUserId (rdata p)) actor of
        Inl e \<Rightarrow> Done (Inl e)
      | Inr _ \<Rightarrow> if py_status (rdata p) = ''SUCCESS'' then read_back E i actor
          else redispatch_task E p (read_back E i actor)))"

text \<open>A request as a task that answers with the id of the payment.\<close>

fun pay_task ::
  "('p, 'm, 'd, 'w) pay_env \<Rightarrow> pay_request \<Rightarrow> (('p, 'm, 'd, 'w) pay_state, string) task" where
  "pay_task E (Pay dto actor) = map_task pr_paymentId (create_task E dto actor)"
| "pay_task E (Retry i actor) = map_task rid (retry_task E i actor)"

subsection \<open>The tasks run alone\<close>

lemma run_billing_task: "run (billing_task E P Q f) s = run (f (find_billing E P Q s)) s"
  by (simp add: billing_task_def find_billing_def run_look split: option.splits)

lemma run_by_number: "run (by_number_task E n f) s = run (f (findBillingRecordByBillNumber E n s)) s"
  by (simp add: by_number_task_def findBillingRecordByBillNumber_def run_billing_task)

lemma run_by_consumer: "run (by_consumer_task E b c f) s = run (f (findBillingRecord E b c s)) s"
  by (simp add: by_consumer_task_def findBillingRecord_def run_billing_task)

lemma run_answer: "run (answer_replay p same) s = (if same then Inr (duplicate_of p) else Inl idempotency_key_reused, s)"
  by (simp add: answer_replay_def)

lemma run_replay_task: "run (replay_task E dto actor p) s = (replay E dto actor p s, s)"
  by (simp add: replay_task_def replay_def isSamePaymentRequest_def run_by_number run_answer duplicate_of_def Let_def
      split: sum.splits option.splits)

lemma run_execute_task: "run (execute_task E key owner found) = execute_payment E key owner found"
proof -
  have "(\<lambda>saved. run (if b then call (save_paid E found) (\<lambda>_. Done (Inr (paid_result bill saved)))
       else Done (Inr (paid_result bill saved))))
     = (\<lambda>saved. andThen (if b then save_paid E found else ret ()) (\<lambda>_. ret (paid_result bill saved)))" for b bill
    by (auto simp: fun_eq_iff)
  then show ?thesis
    unfolding execute_task_def execute_payment_def Let_def run_call bbps_request_of_def
    by (simp add: paid_result_def)
qed

lemma run_create_task: "run (create_task E dto actor) = py_create E dto actor"
  by (rule ext) (simp add: create_task_def fresh_task_def check_task_def py_create_def payable_def Let_def run_look run_replay_task run_by_number
      run_by_consumer run_execute_task split: sum.splits option.splits)

lemma run_read_back: "run (read_back E i actor) = onPayments (py_findOne (pe_payments E) i actor)"
  by (auto simp: read_back_def andThen_def ret_def fun_eq_iff split: prod.splits sum.splits)

lemma run_redispatch_task: "run (redispatch_task E p k) = andThen (redispatch E p) (\<lambda>_. run k)"
  by (rule ext) (auto simp: redispatch_task_def redispatch_def andThen_def run_by_consumer ret_def
      split: prod.splits sum.splits option.splits)

lemma run_retry_task: "run (retry_task E i actor) = retry_payment E i actor"
  by (rule ext) (auto simp: retry_task_def retry_payment_def payViaBbps_def run_look run_read_back run_redispatch_task
      andThen_def split: prod.splits sum.splits option.splits)

subsection \<open>What concurrent requests keep\<close>

text \<open>
  What the other requests may do: no payment disappears, and each keeps its key and owner.
  The unique index of the column \<open>idempotency_key\<close> is a law of the table.
\<close>

definition pay_rely :: "('p, 'm, 'd, 'w) pay_env \<Rightarrow> ('p, 'm, 'd, 'w) pay_state \<Rightarrow> ('p, 'm, 'd, 'w) pay_state \<Rightarrow> bool" where
  "pay_rely E s t \<longleftrightarrow> (\<forall>x \<in> rows (pe_payments E) (ps_payments s). \<exists>y \<in> rows (pe_payments E) (ps_payments t).
     rid y = rid x \<and> py_idempotencyKey (rdata y) = py_idempotencyKey (rdata x)
     \<and> py_keycloakUserId (rdata y) = py_keycloakUserId (rdata x))"

definition keys_ok :: "('p, 'm, 'd, 'w) pay_env \<Rightarrow> ('p, 'm, 'd, 'w) pay_state \<Rightarrow> bool" where
  "keys_ok E s \<longleftrightarrow> unique_keys (pe_payments E) (ps_payments s)"

definition stored :: "('p, 'm, 'd, 'w) pay_env \<Rightarrow> string \<Rightarrow> (payment \<Rightarrow> bool) \<Rightarrow> ('p, 'm, 'd, 'w) pay_state \<Rightarrow> bool" where
  "stored E i P s \<longleftrightarrow> (\<exists>p \<in> rows (pe_payments E) (ps_payments s). rid p = i \<and> P (rdata p))"

text \<open>What an answer promises: the payment it names is stored, for a creation under its key.\<close>

fun pay_answer :: "('p, 'm, 'd, 'w) pay_env \<Rightarrow> pay_request \<Rightarrow> string result \<Rightarrow> ('p, 'm, 'd, 'w) pay_state \<Rightarrow> bool" where
  "pay_answer E (Pay dto actor) (Inr i) s = stored E i (\<lambda>d. py_idempotencyKey d = pm_idempotencyKey dto) s"
| "pay_answer E (Retry j actor) (Inr i) s = (i = j \<and> stored E i (\<lambda>d. True) s)"
| "pay_answer E q (Inl e) s = True"

locale indexed_payments = payments E for E :: "('p, 'm, 'd, 'w) pay_env" +
  assumes key_index: "insertR (pe_payments E) d t = (Inr e, u) \<Longrightarrow> x \<in> rows (pe_payments E) t
     \<Longrightarrow> py_idempotencyKey (rdata x) \<noteq> py_idempotencyKey d"
begin

sublocale rely: interference "pay_rely E"
  by unfold_locales (auto simp: pay_rely_def, metis)

lemma rely_same: "ps_payments t = ps_payments s \<Longrightarrow> pay_rely E s t \<and> (keys_ok E t \<longleftrightarrow> keys_ok E s)"
  by (auto simp: pay_rely_def keys_ok_def)

lemma stored_key_stable:
  "stored E i (\<lambda>d. py_idempotencyKey d = k) s \<Longrightarrow> pay_rely E s t \<Longrightarrow> stored E i (\<lambda>d. py_idempotencyKey d = k) t"
  unfolding stored_def pay_rely_def by metis

lemma stored_stable: "stored E i (\<lambda>d. True) s \<Longrightarrow> pay_rely E s t \<Longrightarrow> stored E i (\<lambda>d. True) t"
  unfolding stored_def pay_rely_def by metis

lemma insert_step:
  assumes "insertR (pe_payments E) d (ps_payments s) = (r, v)" and "keys_ok E s"
  shows "keys_ok E (s\<lparr>ps_payments := v\<rparr>) \<and> pay_rely E s (s\<lparr>ps_payments := v\<rparr>)
    \<and> (\<forall>e. r = Inr e \<longrightarrow> stored E (rid e) (\<lambda>x. x = d) (s\<lparr>ps_payments := v\<rparr>))"
proof (cases r)
  case (Inl e)
  with assms have "rows (pe_payments E) v = rows (pe_payments E) (ps_payments s)" by (auto dest: pays.insert_err)
  with assms(2) Inl show ?thesis by (auto simp: keys_ok_def unique_keys_def pay_rely_def)
next
  case (Inr e)
  from pays.insert_ok [OF assms(1) [unfolded Inr]] have e: "rdata e = d"
    "rows (pe_payments E) v = insert e (rows (pe_payments E) (ps_payments s))" by auto
  have "keys_ok E (s\<lparr>ps_payments := v\<rparr>)"
    using assms(2) key_index [OF assms(1) [unfolded Inr]] e by (auto simp: keys_ok_def unique_keys_def; metis)
  with e Inr show ?thesis by (auto simp: pay_rely_def stored_def)
qed

lemma save_step:
  assumes "saveR (pe_payments E) (upd (retried resp) p) (ps_payments t) = (r, v)" and "keys_ok E t"
    and "p \<in> rows (pe_payments E) (ps_payments s)" and "pay_rely E s t"
  shows "keys_ok E (t\<lparr>ps_payments := v\<rparr>) \<and> pay_rely E t (t\<lparr>ps_payments := v\<rparr>)"
proof -
  let ?T = "rows (pe_payments E) (ps_payments t)"
  obtain q where q: "q \<in> ?T" "rid q = rid p" "py_idempotencyKey (rdata q) = py_idempotencyKey (rdata p)"
    "py_keycloakUserId (rdata q) = py_keycloakUserId (rdata p)"
    using assms(3,4) unfolding pay_rely_def by blast
  have k: "rid (upd (retried resp) p) \<in> rid ` ?T" using q(1,2) by (metis imageI upd_simps(1))
  have only: "x = q" if "x \<in> ?T" "rid x = rid p" for x using pays.rid_inj [OF that(1) q(1)] that(2) q(2) by simp
  show ?thesis
  proof (cases rule: pays.save_cases [OF assms(1) k])
    case (1 e)
    with assms(2) show ?thesis by (auto simp: keys_ok_def unique_keys_def pay_rely_def)
  next
    case (2 f)
    have f: "py_idempotencyKey (rdata f) = py_idempotencyKey (rdata q)" "py_keycloakUserId (rdata f) = py_keycloakUserId (rdata q)"
      "rid f = rid q" using 2(2,3) q by (simp_all add: retried_def)
    have rows: "rows (pe_payments E) v = insert f {x \<in> ?T. x \<noteq> q}" using 2(4) only q(2) by auto
    have u: "x = y" if "x \<in> ?T" "y \<in> ?T" "py_idempotencyKey (rdata x) = py_idempotencyKey (rdata y)" for x y
      using assms(2) that unfolding keys_ok_def unique_keys_def by blast
    have "keys_ok E (t\<lparr>ps_payments := v\<rparr>)"
      unfolding keys_ok_def unique_keys_def using rows f(1) u q(1) by (auto; metis)
    moreover have "pay_rely E t (t\<lparr>ps_payments := v\<rparr>)" unfolding pay_rely_def using rows f by auto
    ultimately show ?thesis by simp
  qed
qed

lemma guar_billing:
  assumes "\<And>t b. pay_rely E s t \<Longrightarrow> keys_ok E t \<Longrightarrow> guar (keys_ok E) (pay_rely E) Q (f b) t"
  shows "guar (keys_ok E) (pay_rely E) Q (billing_task E P P' f) s"
  unfolding billing_task_def
proof (rule rely.guar_look)
  fix t assume t: "pay_rely E s t" "keys_ok E t"
  show "guar (keys_ok E) (pay_rely E) Q (case findOneR (pe_mock E) P (ps_mock t) of
      Some m \<Rightarrow> f (Some (Mock_record m))
    | None \<Rightarrow> look (\<lambda>s. findOneR (pe_demo E) P' (ps_demo s)) (\<lambda>demo. f (map_option Demo_record demo))) t"
    using assms t rely.R_trans [OF t(1)] by (auto intro!: rely.guar_look split: option.splits)
qed

lemma guar_world:
  assumes "\<And>t x. pay_rely E s t \<Longrightarrow> keys_ok E t \<Longrightarrow> guar (keys_ok E) (pay_rely E) Q (f x) t"
    and "\<And>e t. Q (Inl e) t"
  shows "guar (keys_ok E) (pay_rely E) Q (call (onAdapter m) f) s"
proof (rule rely.guar_call)
  fix t r u assume a: "pay_rely E s t" "keys_ok E t" "onAdapter m t = (r, u)"
  then have "ps_payments u = ps_payments t" by (auto simp: onAdapter_def zoom_def split: prod.splits)
  from rely_same [OF this] a(1,2) rely.R_trans assms
  show "keys_ok E u \<and> pay_rely E t u \<and> (case r of Inl e \<Rightarrow> guar (keys_ok E) (pay_rely E) Q (Done (Inl e)) u
    | Inr x \<Rightarrow> guar (keys_ok E) (pay_rely E) Q (f x) u)" by (auto split: sum.splits; blast)
qed

lemma save_paid_payments: "save_paid E found s = (r, t) \<Longrightarrow> ps_payments t = ps_payments s"
  by (cases found) (auto simp: onMockBills_def onDemoBills_def zoom_def andThen_def split: prod.splits sum.splits)

lemma guar_save_paid:
  assumes "\<And>t x. pay_rely E s t \<Longrightarrow> keys_ok E t \<Longrightarrow> guar (keys_ok E) (pay_rely E) Q (f x) t"
    and "\<And>e t. Q (Inl e) t"
  shows "guar (keys_ok E) (pay_rely E) Q (call (save_paid E found) f) s"
proof (rule rely.guar_call)
  fix t r u assume a: "pay_rely E s t" "keys_ok E t" "save_paid E found t = (r, u)"
  from rely_same [OF save_paid_payments [OF a(3)]] a(1,2) rely.R_trans assms
  show "keys_ok E u \<and> pay_rely E t u \<and> (case r of Inl e \<Rightarrow> guar (keys_ok E) (pay_rely E) Q (Done (Inl e)) u
    | Inr x \<Rightarrow> guar (keys_ok E) (pay_rely E) Q (f x) u)" by (auto split: sum.splits; blast)
qed

definition created :: "payment_dto \<Rightarrow> payment_result result \<Rightarrow> ('p, 'm, 'd, 'w) pay_state \<Rightarrow> bool" where
  "created dto r s \<longleftrightarrow> (\<forall>x. r = Inr x \<longrightarrow> stored E (pr_paymentId x) (\<lambda>d. py_idempotencyKey d = pm_idempotencyKey dto) s)"

lemma guar_Done_created:
  assumes "\<And>x. r = Inr x \<Longrightarrow> stored E (pr_paymentId x) (\<lambda>d. py_idempotencyKey d = pm_idempotencyKey dto) s"
  shows "guar (keys_ok E) (pay_rely E) (created dto) (Done r) s"
  using assms stored_key_stable by (auto simp: created_def)

lemma guar_execute:
  "guar (keys_ok E) (pay_rely E) (created dto) (execute_task E (pm_idempotencyKey dto) owner found) s"
  unfolding execute_task_def Let_def
proof (rule guar_world)
  fix s1 resp
  let ?d = "new_payment (record_bill found) resp (pm_idempotencyKey dto) owner"
  let ?k = "\<lambda>saved. if bs_status resp = SUCCESS
      then call (save_paid E found) (\<lambda>_. Done (Inr (paid_result (record_bill found) saved)))
      else Done (Inr (paid_result (record_bill found) saved))"
  show "guar (keys_ok E) (pay_rely E) (created dto) (call (onPayments (insertR (pe_payments E) ?d)) ?k) s1"
  proof (rule rely.guar_call)
    fix t r u assume a: "keys_ok E t" "onPayments (insertR (pe_payments E) ?d) t = (r, u)"
    obtain v where i: "insertR (pe_payments E) ?d (ps_payments t) = (r, v)" and u: "u = t\<lparr>ps_payments := v\<rparr>"
      using a(2) by (auto simp: onPayments_def zoom_def split: prod.splits)
    from insert_step [OF i a(1)] have step: "keys_ok E u" "pay_rely E t u"
      "\<And>e. r = Inr e \<Longrightarrow> stored E (rid e) (\<lambda>x. x = ?d) u" by (auto simp: u)
    have st: "stored E (pr_paymentId (paid_result (record_bill found) e))
        (\<lambda>d. py_idempotencyKey d = pm_idempotencyKey dto) u" if "r = Inr e" for e
      using step(3) [OF that] by (auto simp: stored_def paid_result_def new_payment_def)
    have "guar (keys_ok E) (pay_rely E) (created dto) (?k e) u" if "r = Inr e" for e
    proof (cases "bs_status resp = SUCCESS")
      case True
      have "guar (keys_ok E) (pay_rely E) (created dto)
          (call (save_paid E found) (\<lambda>_. Done (Inr (paid_result (record_bill found) e)))) u"
        by (rule guar_save_paid, rule guar_Done_created)
          (use st [OF that] stored_key_stable in \<open>auto simp: created_def\<close>)
      with True show ?thesis by simp
    next
      case False
      have "guar (keys_ok E) (pay_rely E) (created dto) (Done (Inr (paid_result (record_bill found) e))) u"
        by (rule guar_Done_created) (use st [OF that] in auto)
      with False show ?thesis by simp
    qed
    with step show "keys_ok E u \<and> pay_rely E t u \<and> (case r of
        Inl e \<Rightarrow> guar (keys_ok E) (pay_rely E) (created dto) (Done (Inl e)) u
      | Inr x \<Rightarrow> guar (keys_ok E) (pay_rely E) (created dto) (?k x) u)"
      by (auto simp: created_def split: sum.splits)
  qed
qed (simp add: created_def)

lemma guar_replay:
  assumes "p \<in> rows (pe_payments E) (ps_payments s)" and "py_idempotencyKey (rdata p) = pm_idempotencyKey dto"
  shows "guar (keys_ok E) (pay_rely E) (created dto) (replay_task E dto actor p) s"
proof -
  have st: "stored E (rid p) (\<lambda>d. py_idempotencyKey d = pm_idempotencyKey dto) s"
    using assms by (auto simp: stored_def)
  have ans: "guar (keys_ok E) (pay_rely E) (created dto) (answer_replay p same) t" if "pay_rely E s t" for same t
    unfolding answer_replay_def using stored_key_stable [OF st that]
    by (intro guar_Done_created) (auto simp: duplicate_of_def split: if_splits)
  show ?thesis
    unfolding replay_task_def by_number_task_def
    by (auto intro!: guar_billing ans rely.R_refl simp del: guar.simps split: sum.splits) (simp add: created_def)
qed

lemma guar_create: "guar (keys_ok E) (pay_rely E) (created dto) (create_task E dto actor) s"
proof -
  have err: "guar (keys_ok E) (pay_rely E) (created dto) (Done (Inl e)) t" for e t by (simp add: created_def)
  have check: "guar (keys_ok E) (pay_rely E) (created dto) (check_task E dto owner found) t" for found owner t
    using err guar_execute by (simp add: check_task_def Let_def del: guar.simps split: option.splits)
  have fresh: "guar (keys_ok E) (pay_rely E) (created dto) (fresh_task E dto owner) t" for owner t
    unfolding fresh_task_def by_number_task_def by_consumer_task_def by (auto intro!: guar_billing check)
  have replay: "guar (keys_ok E) (pay_rely E) (created dto) (replay_task E dto actor p) t"
    if "findOneR (pe_payments E) (\<lambda>p. py_idempotencyKey (rdata p) = pm_idempotencyKey dto) (ps_payments t) = Some p" for p t
    using pays.findOne_Some [OF that] by (simp add: guar_replay)
  show ?thesis
    unfolding create_task_def
    by (auto intro!: rely.guar_look err fresh replay simp del: guar.simps split: sum.splits option.splits)
qed

definition read_ok :: "string \<Rightarrow> payment row result \<Rightarrow> ('p, 'm, 'd, 'w) pay_state \<Rightarrow> bool" where
  "read_ok i r s \<longleftrightarrow> (\<forall>x. r = Inr x \<longrightarrow> rid x = i \<and> stored E i (\<lambda>d. True) s)"

lemma guar_read_err: "guar (keys_ok E) (pay_rely E) (read_ok i) (Done (Inl e)) s"
  by (simp add: read_ok_def)

lemma guar_read_back: "guar (keys_ok E) (pay_rely E) (read_ok i) (read_back E i actor) s"
  unfolding read_back_def
proof (rule rely.guar_call)
  fix t r u assume a: "keys_ok E t" "onPayments (py_findOne (pe_payments E) i actor) t = (r, u)"
  then have u: "u = t" by (auto simp: onPayments_def zoom_def py_findOne_def split: prod.splits option.splits sum.splits)
  have "rid p = i \<and> stored E i (\<lambda>d. True) t" if "r = Inr p" for p
  proof -
    from a(2) that have "findOneR (pe_payments E) (byId i) (ps_payments t) = Some p"
      by (auto simp: onPayments_def zoom_def py_findOne_def split: prod.splits option.splits sum.splits)
    with pays.findOne_Some [OF this] show ?thesis by (auto simp: stored_def)
  qed
  with stored_stable show "keys_ok E u \<and> pay_rely E t u \<and> (case r of
      Inl e \<Rightarrow> guar (keys_ok E) (pay_rely E) (read_ok i) (Done (Inl e)) u
    | Inr x \<Rightarrow> guar (keys_ok E) (pay_rely E) (read_ok i) (Done (Inr x)) u)"
    using a(1) rely.R_refl by (auto simp: u read_ok_def split: sum.splits)
qed

lemma guar_redispatch:
  assumes "p \<in> rows (pe_payments E) (ps_payments s)"
  shows "guar (keys_ok E) (pay_rely E) (read_ok i) (redispatch_task E p (read_back E i actor)) s"
  unfolding redispatch_task_def
proof (rule guar_world)
  fix s1 and resp :: bbps_response assume s1: "pay_rely E s s1"
  let ?k = "\<lambda>_. if bs_status resp = SUCCESS
     then by_consumer_task E (py_billerCode (rdata p)) (py_consumerNumber (rdata p)) (\<lambda>found. case found of
         None \<Rightarrow> read_back E i actor | Some f \<Rightarrow> call (save_paid E f) (\<lambda>_. read_back E i actor))
     else read_back E i actor"
  have k: "guar (keys_ok E) (pay_rely E) (read_ok i) (?k x) t" for x t
    unfolding by_consumer_task_def
    by (auto intro!: guar_billing guar_save_paid guar_read_back split: option.splits) (simp_all add: read_ok_def)
  show "guar (keys_ok E) (pay_rely E) (read_ok i) (call (onPayments (saveR (pe_payments E) (upd (retried resp) p))) ?k) s1"
  proof (rule rely.guar_call)
    fix t r u assume a: "pay_rely E s1 t" "keys_ok E t" "onPayments (saveR (pe_payments E) (upd (retried resp) p)) t = (r, u)"
    obtain v where sv: "saveR (pe_payments E) (upd (retried resp) p) (ps_payments t) = (r, v)" and u: "u = t\<lparr>ps_payments := v\<rparr>"
      using a(3) by (auto simp: onPayments_def zoom_def split: prod.splits)
    have step: "keys_ok E (t\<lparr>ps_payments := v\<rparr>)" "pay_rely E t (t\<lparr>ps_payments := v\<rparr>)"
      using save_step [OF sv a(2) assms rely.R_trans [OF s1 a(1)]] by simp_all
    show "keys_ok E u \<and> pay_rely E t u \<and> (case r of
        Inl e \<Rightarrow> guar (keys_ok E) (pay_rely E) (read_ok i) (Done (Inl e)) u
      | Inr x \<Rightarrow> guar (keys_ok E) (pay_rely E) (read_ok i) (?k x) u)"
      unfolding u by (cases r) (simp_all only: sum.case step k guar_read_err simp_thms)
  qed
qed (simp add: read_ok_def)

lemma guar_retry: "guar (keys_ok E) (pay_rely E) (read_ok i) (retry_task E i actor) s"
  unfolding retry_task_def
  by (auto intro!: rely.guar_look guar_read_err guar_read_back guar_redispatch pays.findOne_mem
      simp del: guar.simps split: option.splits sum.splits)

lemma guar_pay_task: "guar (keys_ok E) (pay_rely E) (pay_answer E q) (pay_task E q) s"
proof (cases q)
  case (Pay dto actor)
  have "pay_answer E q (map_sum id pr_paymentId r) u = created dto r u" for r u
    by (cases r) (simp_all add: Pay created_def)
  then have "(\<lambda>r. pay_answer E q (map_sum id pr_paymentId r)) = created dto" by (intro ext)
  with guar_create [of dto actor s] show ?thesis unfolding Pay pay_task.simps by (intro guar_map_task) simp
next
  case (Retry i actor)
  have "pay_answer E q (map_sum id rid r) u = read_ok i r u" for r :: "payment row result" and u
    by (cases r) (auto simp: Retry read_ok_def)
  then have "(\<lambda>r. pay_answer E q (map_sum id rid r)) = read_ok i" by (intro ext)
  with guar_retry [of i actor s] show ?thesis unfolding Retry pay_task.simps by (intro guar_map_task) simp
qed

lemma concurrent_payments:
  assumes "interleave sched (map (pay_task E) qs, s) = (ps, t)" and "unique_keys (pe_payments E) (ps_payments s)"
  shows "unique_keys (pe_payments E) (ps_payments t) \<and> pay_rely E s t \<and> length ps = length qs
    \<and> (\<forall>j < length qs. \<forall>r. ps ! j = Done r \<longrightarrow> pay_answer E (qs ! j) r t)"
proof -
  have I: "keys_ok E s" using assms(2) by (simp add: keys_ok_def)
  have G: "\<forall>j < length (map (pay_task E) qs). guar (keys_ok E) (pay_rely E) (pay_answer E (qs ! j)) (map (pay_task E) qs ! j) s"
    using guar_pay_task by simp
  from rely.guar_interleave [OF assms(1) I G] rely.guar_results [OF assms(1) I G]
  show ?thesis by (auto simp: keys_ok_def)
qed

end

interpretation mem_indexed: indexed_payments "mem_pay_env adapter"
proof (intro indexed_payments.intro indexed_payments_axioms.intro)
  show "payments (mem_pay_env adapter)" by (rule mem_payments.payments_axioms)
  fix d t e u x
  assume a: "insertR (pe_payments (mem_pay_env adapter)) d t = (Inr e, u)" "x \<in> rows (pe_payments (mem_pay_env adapter)) t"
  then have "mem_free same_key d (slots t)" "x \<in> set (live t)" by (auto simp: mem_insert_def mem_rows split: if_splits)
  then obtain i q where "slots t ! i = Some q" "i < length (slots t)" "x = q\<lparr>rid := row_id i\<rparr>"
    by (auto simp: live_iff show_slot_iff)
  with \<open>mem_free same_key d (slots t)\<close> show "py_idempotencyKey (rdata x) \<noteq> py_idempotencyKey d"
    by (auto simp: mem_free_def same_key_def list_all_length split: option.splits)
qed

subsection \<open>Properties\<close>

text \<open>
  The operations of the service are their tasks run alone: the creation and the retry,
  step by step with nothing in between, do exactly what the actions of the model do, and
  always come to an end.
\<close>

theorem payment_tasks_run:
  "run (create_task E dto actor) = py_create E dto actor \<and> run (retry_task E i actor) = retry_payment E i actor
   \<and> (\<exists>n. interleave (replicate n 0) ([create_task E dto actor], s)
        = ([Done (fst (py_create E dto actor s))], snd (py_create E dto actor s)))
   \<and> (\<exists>n. interleave (replicate n 0) ([retry_task E i actor], s)
        = ([Done (fst (retry_payment E i actor s))], snd (retry_payment E i actor s)))"
  using interleave_alone [of "create_task E dto actor" s] interleave_alone [of "retry_task E i actor" s]
  by (simp add: run_create_task run_retry_task)

text \<open>
  C4: however the awaits of any number of payment requests and retries interleave, no two
  payments get the same idempotency key, none disappears or changes its owner, and every
  request that is answered names a stored payment, a creation one with its own key.
\<close>

theorem payments_interleaved:
  assumes "indexed_payments E" and "unique_keys (pe_payments E) (ps_payments s)"
    and "interleave sched (map (pay_task E) qs, s) = (ps, t)"
  shows "unique_keys (pe_payments E) (ps_payments t) \<and> pay_rely E s t
    \<and> (\<forall>j < length qs. \<forall>r. ps ! j = Done r \<longrightarrow> pay_answer E (qs ! j) r t)"
  using indexed_payments.concurrent_payments [OF assms(1,3,2)] by simp

definition ex_pair where
  "ex_pair = interleave [0, 1, 0, 1, 0, 1, 0, 1, 0, 1]
     (map (pay_task ex_env) [Pay (ex_dto ''k1'') ex_customer, Pay (ex_dto ''k1'') ex_customer], ex_state [SUCCESS, SUCCESS])"

theorem payments_interleaved_witness:
  "unique_keys (pe_payments ex_env) (ps_payments (snd ex_pair)) \<and> live (ps_payments (snd ex_pair)) \<noteq> []"
proof -
  have "unique_keys (pe_payments ex_env) (ps_payments (ex_state [SUCCESS, SUCCESS]))"
    by (simp add: unique_keys_def ex_rows ex_state_def mem_empty_def live_def)
  moreover have "indexed_payments ex_env" by (simp add: ex_env_def mem_indexed.indexed_payments_axioms)
  moreover have "live (ps_payments (snd ex_pair)) \<noteq> []" by code_simp
  ultimately show ?thesis using payments_interleaved [of ex_env "ex_state [SUCCESS, SUCCESS]"] ex_pair_def
    by (metis prod.collapse)
qed

text \<open>The steps of a request for the bill of the examples: two reads, then the call of the network.\<close>

definition ex_found :: billing_record where
  "ex_found = Mock_record (hd (live (ps_mock (ex_state []))))"

lemma ex_found: "findBillingRecordByBillNumber ex_env ''BBPS-WATER-001'' (ex_state W) = Some ex_found"
proof -
  have "findBillingRecordByBillNumber ex_env ''BBPS-WATER-001'' (ex_state W)
      = findBillingRecordByBillNumber ex_env ''BBPS-WATER-001'' (ex_state [])"
    by (simp add: findBillingRecordByBillNumber_def find_billing_def ex_state_def split: option.splits)
  also have "\<dots> = Some ex_found" by code_simp
  finally show ?thesis .
qed

lemma ex_mock: "findOneR (pe_mock ex_env) (of_number ''BBPS-WATER-001'') (ps_mock (ex_state W)) = Some (hd (live (ps_mock (ex_state []))))"
  using ex_found [of W] by (auto simp: findBillingRecordByBillNumber_def find_billing_def ex_found_def split: option.splits)

lemma ex_check: "check_task ex_env (ex_dto key) ''u1'' (Some ex_found) = execute_task ex_env key ''u1'' ex_found"
proof -
  have "mb_status (record_bill ex_found) = ''UNPAID''" by code_simp
  then show ?thesis by (simp add: check_task_def Let_def requested_amount_def ex_dto_def)
qed

lemma ex_fresh:
  "fresh_task ex_env (ex_dto key) ''u1'' = look (\<lambda>s. findOneR (pe_mock ex_env) (of_number ''BBPS-WATER-001'') (ps_mock s))
     (\<lambda>mock. case mock of Some m \<Rightarrow> check_task ex_env (ex_dto key) ''u1'' (Some (Mock_record m))
      | None \<Rightarrow> look (\<lambda>s. findOneR (pe_demo ex_env) (of_number ''BBPS-WATER-001'') (ps_demo s))
          (\<lambda>demo. check_task ex_env (ex_dto key) ''u1'' (map_option Demo_record demo)))"
proof -
  have "truthy (pm_billNumber (ex_dto key))" "orElse (pm_billNumber (ex_dto key)) [] = ''BBPS-WATER-001''"
    by (simp_all add: ex_dto_def)
  then show ?thesis by (simp add: fresh_task_def by_number_task_def billing_task_def)
qed

lemma ex_create:
  "create_task ex_env (ex_dto key) ex_customer =
     look (\<lambda>s. findOneR (pe_payments ex_env) (\<lambda>p. py_idempotencyKey (rdata p) = key) (ps_payments s))
       (\<lambda>existing. case existing of Some p \<Rightarrow> replay_task ex_env (ex_dto key) ex_customer p
         | None \<Rightarrow> fresh_task ex_env (ex_dto key) ''u1'')"
proof -
  have "requireActorSub ex_customer = Inr ''u1''" by code_simp
  moreover have "truthy (pm_billNumber (ex_dto key))" "pm_idempotencyKey (ex_dto key) = key" by (simp_all add: ex_dto_def)
  ultimately show ?thesis by (simp add: create_task_def)
qed

definition ex_resp :: bbps_response where
  "ex_resp = \<lparr>bs_status = SUCCESS, bs_referenceId = Some ''BBPS-1''\<rparr>"

definition ex_insert :: "string \<Rightarrow> ((payment mem, mock_bill mem, demo_bill mem, bbps_status list) pay_state, payment_result) task" where
  "ex_insert key = call (onPayments (insertR (pe_payments ex_env) (new_payment (record_bill ex_found) ex_resp key ''u1'')))
     (\<lambda>saved. call (save_paid ex_env ex_found) (\<lambda>_. Done (Inr (paid_result (record_bill ex_found) saved))))"

lemma ex_called:
  "interleave [0..<n] (replicate n (execute_task ex_env key ''u1'' ex_found), ex_state (replicate n SUCCESS))
   = (replicate n (ex_insert key), ex_state [])"
proof -
  let ?h = "\<lambda>s. s\<lparr>ps_world := tl (ps_world s)\<rparr> :: (payment mem, mock_bill mem, demo_bill mem, bbps_status list) pay_state"
  have h: "(?h ^^ i) (ex_state (replicate n SUCCESS)) = ex_state (replicate (n - i) SUCCESS)" if "i \<le> n" for i
    using that by (induction i) (simp_all add: ex_state_def Suc_diff_Suc [symmetric])
  have "interleave [0..<n] (replicate n (execute_task ex_env key ''u1'' ex_found), ex_state (replicate n SUCCESS))
    = (replicate n (ex_insert key), (?h ^^ n) (ex_state (replicate n SUCCESS)))"
    unfolding execute_task_def Let_def
  proof (subst interleave_round_call [where x = ex_resp and h = ?h])
    fix i assume "i < n"
    then obtain m where m: "n - i = Suc m" by (metis Suc_diff_Suc)
    have "(?h ^^ i) (ex_state (replicate n SUCCESS)) = ex_state (SUCCESS # replicate m SUCCESS)"
      using h [of i] \<open>i < n\<close> m by simp
    then show "onAdapter (pe_adapter ex_env (bbps_request_of (record_bill ex_found))) ((?h ^^ i) (ex_state (replicate n SUCCESS)))
      = (Inr ex_resp, ?h ((?h ^^ i) (ex_state (replicate n SUCCESS))))"
      by (simp add: onAdapter_def zoom_eq ex_env_def ex_state_def ex_resp_def)
  qed (simp add: ex_insert_def ex_resp_def)
  with h [of n] show ?thesis by simp
qed

definition ex_stored :: "string \<Rightarrow> (payment mem, mock_bill mem, demo_bill mem, bbps_status list) pay_state" where
  "ex_stored key = (ex_state [])\<lparr>ps_payments := snd (mem_insert same_key (new_payment (record_bill ex_found) ex_resp key ''u1'') mem_empty)\<rparr>"

lemma ex_insert_first:
  "onPayments (insertR (pe_payments ex_env) (new_payment (record_bill ex_found) ex_resp key ''u1'')) (ex_state [])
   = (Inr (mem_new mem_empty (new_payment (record_bill ex_found) ex_resp key ''u1'')), ex_stored key)"
  by (simp add: onPayments_def zoom_eq ex_env_def ex_state_def ex_stored_def mem_insert_def mem_free_def mem_empty_def)

lemma ex_insert_again:
  "onPayments (insertR (pe_payments ex_env) (new_payment (record_bill ex_found) ex_resp key ''u1'')) (ex_stored key)
   = (Inl duplicate_entry, ex_stored key)"
  by (simp add: onPayments_def zoom_eq ex_env_def ex_state_def ex_stored_def mem_insert_def mem_free_def mem_empty_def
      mem_new_def same_key_def)

text \<open>
  C15: the unique key is checked too late: of any number of equal requests that are in
  progress at once every one can be sent to the network and succeed there before the first is
  stored; then one of them gets a payment, and all the others fail although they were charged.
\<close>

theorem payment_race_charges_each:
  "\<exists>sched t saved. interleave sched (replicate (Suc n) (create_task ex_env (ex_dto key) ex_customer), ex_state (replicate (Suc n) SUCCESS))
      = (saved # replicate n (Done (Inl duplicate_entry)), t)
    \<and> ps_world t = [] \<and> map (\<lambda>p. py_idempotencyKey (rdata p)) (live (ps_payments t)) = [key]"
proof -
  let ?n = "Suc n" and ?W = "replicate (Suc n) SUCCESS"
  have 1: "interleave [0..<?n] (replicate ?n (create_task ex_env (ex_dto key) ex_customer), ex_state ?W)
      = (replicate ?n (fresh_task ex_env (ex_dto key) ''u1''), ex_state ?W)"
  proof -
    have "findOneR (pe_payments ex_env) P (ps_payments (ex_state ?W)) = None" for P
      by (simp add: ex_env_def ex_state_def live_def mem_empty_def)
    then show ?thesis unfolding ex_create interleave_round_look by simp
  qed
  have 2: "interleave [0..<?n] (replicate ?n (fresh_task ex_env (ex_dto key) ''u1''), ex_state ?W)
      = (replicate ?n (execute_task ex_env key ''u1'' ex_found), ex_state ?W)"
    unfolding ex_fresh interleave_round_look ex_mock by (simp add: ex_check [unfolded ex_found_def] ex_found_def)
  define saved where "saved = call (save_paid ex_env ex_found)
     (\<lambda>_. Done (Inr (paid_result (record_bill ex_found) (mem_new mem_empty (new_payment (record_bill ex_found) ex_resp key ''u1'')))))"
  have 4: "interleave (0 # map Suc [0..<n]) (replicate ?n (ex_insert key), ex_state [])
      = (saved # replicate n (Done (Inl duplicate_entry)), ex_stored key)"
  proof -
    have "advance_task 0 (replicate ?n (ex_insert key), ex_state []) = (saved # replicate n (ex_insert key), ex_stored key)"
      by (simp add: advance_task_def ex_insert_def call_def ex_insert_first saved_def)
    moreover have "interleave [0..<n] (replicate n (ex_insert key), ex_stored key)
        = (replicate n (Done (Inl duplicate_entry)), ex_stored key)"
      unfolding ex_insert_def by (rule interleave_round_fail) (rule ex_insert_again)
    ultimately show ?thesis by (simp add: interleave_Suc)
  qed
  have "interleave ([0..<?n] @ [0..<?n] @ [0..<?n] @ 0 # map Suc [0..<n])
      (replicate ?n (create_task ex_env (ex_dto key) ex_customer), ex_state ?W)
    = (saved # replicate n (Done (Inl duplicate_entry)), ex_stored key)"
    unfolding interleave_simps(3) 1 2 ex_called by (rule 4)
  moreover have "ps_world (ex_stored key) = []" by (simp add: ex_stored_def ex_state_def)
  moreover have "map (\<lambda>p. py_idempotencyKey (rdata p)) (live (ps_payments (ex_stored key))) = [key]"
    by (simp add: ex_stored_def mem_insert_def mem_free_def mem_empty_def live_def show_slot_def mem_new_def new_payment_def)
  ultimately show ?thesis by (intro exI conjI)
qed

end
