(* ===== verification/Async_Races.thy ===== *)
theory Async_Races
  imports Async Otp_Properties Schedule_Properties
begin

text \<open>
  The verification of one-time passwords and the changes of schedules as tasks, and what two
  requests that are in progress at once can do that no sequence of requests does: both write
  what they decided on an old read.
\<close>

subsection \<open>otp.service.ts\<close>

definition verify_task ::
  "('t, otp_challenge) repo \<Rightarrow> otp_config \<Rightarrow> (string \<Rightarrow> string) \<Rightarrow> int \<Rightarrow> string \<Rightarrow> string \<Rightarrow> ('t, string) task" where
  "verify_task R cfg hash now i otp = look (findOneR R (byId i)) (\<lambda>found. case found of
      None \<Rightarrow> Done (Inl otp_not_found)
    | Some c \<Rightarrow>
        if otp_locked now (rdata c) then Done (Inl (otp_locked_until (the (oc_lockedUntil (rdata c)))))
        else if isExpired now (oc_expiresAt (rdata c)) then Done (Inl (BadRequestException (Msg ''OTP has expired'')))
        else if hash otp \<noteq> oc_otpHash (rdata c)
        then call (saveR R (upd (otp_wrong cfg now) c)) (\<lambda>_. Done (Inl (BadRequestException (Msg ''Invalid OTP''))))
        else call (softDeleteR R (rid c)) (\<lambda>_. Done (Inr (oc_mobileNumber (rdata c)))))"

lemma run_verify_task: "run (verify_task R cfg hash now i otp) = otp_verify R cfg hash now i otp"
  by (rule ext) (simp add: verify_task_def otp_verify_def run_look split: option.splits)

context reliable_otp begin

lemma save_again:
  assumes "c \<in> rows R t" and "u = ((\<lambda>v. snd (saveR R (upd g c) v)) ^^ n) t"
  shows "(\<exists>f. saveR R (upd g c) u = (Inr f, snd (saveR R (upd g c) u)))
    \<and> rid ` rows R u = rid ` rows R t \<and> (0 < n \<longrightarrow> otp_row R (rid c) (\<lambda>d. d = g (rdata c)) u)"
  using assms(2)
proof (induction n arbitrary: u)
  case 0
  have "rid (upd g c) \<in> rid ` rows R t" using assms(1) by simp
  from save_total [OF this] 0 show ?case by auto
next
  case (Suc n)
  let ?v = "((\<lambda>v. snd (saveR R (upd g c) v)) ^^ n) t"
  from Suc.IH [of ?v] obtain f where f: "saveR R (upd g c) ?v = (Inr f, u)" and keys: "rid ` rows R ?v = rid ` rows R t"
    using Suc.prems by auto
  have k: "rid (upd g c) \<in> rid ` rows R ?v" using assms(1) keys by simp
  from save_ok [OF f k] have r: "rows R u = insert f {x \<in> rows R ?v. rid x \<noteq> rid c}" "rid f = rid c" "rdata f = g (rdata c)"
    by simp_all
  have keys_u: "rid ` rows R u = rid ` rows R t" using save_keys [OF f k] keys by simp
  then have "rid (upd g c) \<in> rid ` rows R u" using k keys by simp
  from save_total [OF this] keys_u r show ?case by (auto simp: otp_row_def)
qed

lemma race_wrong:
  assumes "c \<in> rows R t" and "\<not> otp_locked now (rdata c)" and "now \<le> oc_expiresAt (rdata c)"
    and "\<forall>otp \<in> set otps. hash otp \<noteq> oc_otpHash (rdata c)" and "otps \<noteq> []"
  shows "\<exists>u. interleave ([0..<length otps] @ [0..<length otps])
        (map (verify_task R cfg hash now (rid c)) otps, t)
      = (replicate (length otps) (Done (Inl (BadRequestException (Msg ''Invalid OTP'')))), u)
    \<and> otp_row R (rid c) (\<lambda>d. d = otp_wrong cfg now (rdata c)) u"
proof -
  let ?save = "\<lambda>v. snd (saveR R (upd (otp_wrong cfg now) c) v)"
  let ?wrong = "call (saveR R (upd (otp_wrong cfg now) c)) (\<lambda>_. Done (Inl (BadRequestException (Msg ''Invalid OTP'')))) :: ('t, string) task"
  have 1: "interleave [0..<length otps] (map (verify_task R cfg hash now (rid c)) otps, t) = (replicate (length otps) ?wrong, t)"
    unfolding verify_task_def interleave_round_looks findOne_byId [OF assms(1)]
    using assms(2-4) by (auto simp: isExpired_def intro!: replicate_eqI)
  have "interleave [0..<length otps] (replicate (length otps) ?wrong, t)
      = (replicate (length otps) (Done (Inl (BadRequestException (Msg ''Invalid OTP'')))), (?save ^^ length otps) t)"
    unfolding call_def
  proof (rule interleave_round)
    fix i
    from save_again [OF assms(1) refl, of "otp_wrong cfg now" i]
    obtain f v where s: "saveR R (upd (otp_wrong cfg now) c) ((?save ^^ i) t) = (Inr f, v)" by blast
    show "(case saveR R (upd (otp_wrong cfg now) c) ((?save ^^ i) t) of (Inl e, t) \<Rightarrow> (t, Done (Inl e))
        | (Inr x, t) \<Rightarrow> (t, Done (Inl (BadRequestException (Msg ''Invalid OTP'')))))
      = (?save ((?save ^^ i) t), Done (Inl (BadRequestException (Msg ''Invalid OTP''))))" by (simp add: s)
  qed
  with 1 have "interleave ([0..<length otps] @ [0..<length otps]) (map (verify_task R cfg hash now (rid c)) otps, t)
      = (replicate (length otps) (Done (Inl (BadRequestException (Msg ''Invalid OTP'')))), (?save ^^ length otps) t)"
    by simp
  moreover have "otp_row R (rid c) (\<lambda>d. d = otp_wrong cfg now (rdata c)) ((?save ^^ length otps) t)"
    using save_again [OF assms(1) refl, of "otp_wrong cfg now" "length otps"] assms(5) by simp
  ultimately show ?thesis by blast
qed

lemma race_right:
  assumes "c \<in> rows R t" and "\<not> otp_locked now (rdata c)" and "now \<le> oc_expiresAt (rdata c)"
    and "hash otp = oc_otpHash (rdata c)"
  shows "\<exists>u. interleave ([0..<n] @ [0..<n]) (replicate n (verify_task R cfg hash now (rid c) otp), t)
      = (replicate n (Done (Inr (oc_mobileNumber (rdata c)))), u)"
proof -
  let ?del = "\<lambda>v. snd (softDeleteR R (rid c) v)"
  let ?right = "call (softDeleteR R (rid c)) (\<lambda>_. Done (Inr (oc_mobileNumber (rdata c)))) :: ('t, string) task"
  have 1: "interleave [0..<n] (replicate n (verify_task R cfg hash now (rid c) otp), t) = (replicate n ?right, t)"
    unfolding verify_task_def interleave_round_look findOne_byId [OF assms(1)]
    using assms(2-4) by (simp add: isExpired_def)
  have "interleave [0..<n] (replicate n ?right, t) = (replicate n (Done (Inr (oc_mobileNumber (rdata c)))), (?del ^^ n) t)"
  proof (rule interleave_round_call)
    fix i
    from softDelete_total [of "rid c" "(?del ^^ i) t"]
    show "softDeleteR R (rid c) ((?del ^^ i) t) = (Inr (), ?del ((?del ^^ i) t))" by auto
  qed
  with 1 show ?thesis by simp
qed

end

text \<open>
  C21: requests in progress at once defeat the limit and the single use of a code. However
  many wrong codes are sent together, they can all be checked and count as one attempt; and
  any number of requests with the right code can all be accepted.
\<close>

theorem otp_race_defeats_limit:
  assumes "reliable_repository R" and "c \<in> rows R t" and "\<not> otp_locked now (rdata c)" and "now \<le> oc_expiresAt (rdata c)"
    and "\<forall>otp \<in> set otps. hash otp \<noteq> oc_otpHash (rdata c)" and "otps \<noteq> []" and "hash right = oc_otpHash (rdata c)"
  shows "(\<exists>sched u. interleave sched (map (verify_task R cfg hash now (rid c)) otps, t)
        = (replicate (length otps) (Done (Inl (BadRequestException (Msg ''Invalid OTP'')))), u)
      \<and> otp_row R (rid c) (\<lambda>d. oc_attemptCount d = oc_attemptCount (rdata c) + 1
          \<and> (oc_attemptCount (rdata c) + 1 < maxAttempts cfg \<longrightarrow> oc_lockedUntil d = oc_lockedUntil (rdata c))) u)
    \<and> (\<exists>sched u. interleave sched (replicate n (verify_task R cfg hash now (rid c) right), t)
        = (replicate n (Done (Inr (oc_mobileNumber (rdata c)))), u))"
proof -
  have L: "reliable_otp R"
    by (intro reliable_otp.intro otp_repository.intro reliable_repository.axioms(1) [OF assms(1)] assms(1))
  obtain u where "interleave ([0..<length otps] @ [0..<length otps]) (map (verify_task R cfg hash now (rid c)) otps, t)
      = (replicate (length otps) (Done (Inl (BadRequestException (Msg ''Invalid OTP'')))), u)"
    "otp_row R (rid c) (\<lambda>d. d = otp_wrong cfg now (rdata c)) u"
    using reliable_otp.race_wrong [OF L assms(2-6)] by blast
  moreover from this(2) have "otp_row R (rid c) (\<lambda>d. oc_attemptCount d = oc_attemptCount (rdata c) + 1
      \<and> (oc_attemptCount (rdata c) + 1 < maxAttempts cfg \<longrightarrow> oc_lockedUntil d = oc_lockedUntil (rdata c))) u"
    by (auto simp: otp_row_def otp_wrong_def Let_def)
  ultimately show ?thesis using reliable_otp.race_right [where hash = hash and otp = right and n = n, OF L assms(2-4) assms(7)] by blast
qed

theorem otp_race_defeats_limit_witness:
  "\<exists>sched u. interleave sched (map (verify_task (mem_repo no_conf) otp_defaults (\<lambda>s. s) 1000 (row_id 0))
       (replicate 1000 ''000000''), otp_example)
     = (replicate 1000 (Done (Inl (BadRequestException (Msg ''Invalid OTP'')))), u)
   \<and> otp_row (mem_repo no_conf) (row_id 0) (\<lambda>d. oc_attemptCount d = 1 \<and> oc_lockedUntil d = None) u"
proof -
  let ?c = "mem_new mem_empty \<lparr>oc_mobileNumber = ''9876543210'', oc_otpHash = ''123456'',
     oc_attemptCount = 0, oc_lockedUntil = None, oc_expiresAt = 300000\<rparr>"
  have c: "?c \<in> rows (mem_repo no_conf) otp_example" by (simp add: otp_example_rows)
  have i: "rid ?c = row_id 0" by (simp add: mem_new_def mem_empty_def)
  have "\<not> otp_locked 1000 (rdata ?c)" "1000 \<le> oc_expiresAt (rdata ?c)"
    "\<forall>otp \<in> set (replicate 1000 ''000000''). otp \<noteq> oc_otpHash (rdata ?c)" "replicate 1000 ''000000'' \<noteq> []"
    "''123456'' = oc_otpHash (rdata ?c)" by (simp_all add: otp_locked_def mem_new_def)
  from otp_race_defeats_limit [OF mem_reliable.reliable_repository_axioms c this, of otp_defaults]
  show ?thesis unfolding i by (auto simp: mem_new_def otp_defaults_def)
qed

subsection \<open>bill-schedule.service.ts\<close>

definition resume_task ::
  "('t, bill_schedule) repo \<Rightarrow> string \<Rightarrow> actor option \<Rightarrow> ('t, bill_schedule row) task" where
  "resume_task R i actor = call (getOwnedSchedule R i actor) (\<lambda>r.
     if sc_status (rdata r) = S_ACTIVE
     then Done (Inl (BadRequestException (Coded ''SCHEDULE_ALREADY_ACTIVE'' ''Schedule is already active'')))
     else if sc_status (rdata r) \<noteq> S_PAUSED
     then Done (Inl (cannot ''SCHEDULE_CANNOT_RESUME'' ''resume'' (sc_status (rdata r))))
     else call (saveR R (upd (set_status S_ACTIVE True) r)) (\<lambda>x. Done (Inr x)))"

definition cancel_task ::
  "('t, bill_schedule) repo \<Rightarrow> string \<Rightarrow> actor option \<Rightarrow> ('t, bill_schedule row) task" where
  "cancel_task R i actor = call (getOwnedSchedule R i actor) (\<lambda>r.
     if sc_status (rdata r) = S_CANCELLED
     then Done (Inl (BadRequestException (Coded ''SCHEDULE_ALREADY_CANCELLED'' ''Schedule is already cancelled'')))
     else if sc_status (rdata r) \<in> set TERMINAL_SCHEDULE_STATUSES
     then Done (Inl (cannot ''SCHEDULE_CANNOT_CANCEL'' ''cancel'' (sc_status (rdata r))))
     else if sc_status (rdata r) \<noteq> S_ACTIVE \<and> sc_status (rdata r) \<noteq> S_PAUSED
     then Done (Inl (cannot ''SCHEDULE_CANNOT_CANCEL'' ''cancel'' (sc_status (rdata r))))
     else call (saveR R (upd (set_status S_CANCELLED False) r)) (\<lambda>x. Done (Inr x)))"

lemma run_return: "andThen m (\<lambda>x. ret x) = m"
  by (auto simp: andThen_def ret_def fun_eq_iff split: prod.splits sum.splits)

lemma run_schedule_tasks:
  "run (resume_task R i actor) = resumeSchedule R i actor" "run (cancel_task R i actor) = cancelSchedule R i actor"
proof -
  have *: "run (if b then p else q) = (if b then run p else run q)" for b and p q :: "('t, bill_schedule row) task" by simp
  show "run (resume_task R i actor) = resumeSchedule R i actor"
    unfolding resume_task_def resumeSchedule_def run_call * run_Done run_return ..
  show "run (cancel_task R i actor) = cancelSchedule R i actor"
    unfolding cancel_task_def cancelSchedule_def run_call * run_Done run_return ..
qed

context reliable_schedules begin

lemma race_revives:
  assumes "r \<in> rows R t" and "sc_status (rdata r) = S_PAUSED"
    and "assertScheduleOwnedByActor (sc_keycloakUserId (rdata r)) actor = Inr ()"
  shows "\<exists>a c u. interleave [0, 1, 1, 0] ([resume_task R (rid r) actor, cancel_task R (rid r) actor], t)
      = ([Done (Inr a), Done (Inr c)], u)
    \<and> rid c = rid r \<and> sc_status (rdata c) = S_CANCELLED \<and> {x \<in> rows R u. rid x = rid r} = {a} \<and> sc_status (rdata a) = S_ACTIVE"
proof -
  let ?R = "upd (set_status S_ACTIVE True) r" and ?C = "upd (set_status S_CANCELLED False) r"
  have own: "getOwnedSchedule R (rid r) actor t = (Inr r, t)"
    using assms(3) by (simp add: getOwnedSchedule_def findOne_byId [OF assms(1)])
  have k: "rid ?C \<in> rid ` rows R t" using assms(1) by simp
  from save_total [OF this] obtain c v where c: "saveR R ?C t = (Inr c, v)" by blast
  have "rid ?R \<in> rid ` rows R v" using save_keys [OF c k] assms(1) by simp
  note k' = this
  from save_total [OF k'] obtain a u where a: "saveR R ?R v = (Inr a, u)" by blast
  have steps: "advance_task 0 ([resume_task R (rid r) actor, q], t) = ([call (saveR R ?R) (\<lambda>x. Done (Inr x)), q], t)"
    "advance_task 1 ([q, cancel_task R (rid r) actor], t) = ([q, call (saveR R ?C) (\<lambda>x. Done (Inr x))], t)"
    "advance_task 1 ([q, call (saveR R ?C) (\<lambda>x. Done (Inr x))], t) = ([q, Done (Inr c)], v)"
    "advance_task 0 ([call (saveR R ?R) (\<lambda>x. Done (Inr x)), q], v) = ([Done (Inr a), q], u)" for q
    using assms(2) own c a
    by (simp_all add: advance_task_def resume_task_def cancel_task_def call_def TERMINAL_SCHEDULE_STATUSES_def)
  have "interleave [0, 1, 1, 0] ([resume_task R (rid r) actor, cancel_task R (rid r) actor], t) = ([Done (Inr a), Done (Inr c)], u)"
    by (simp only: interleave_simps steps)
  moreover have "{x \<in> rows R u. rid x = rid r} = {a}" using save_ok [OF a k'] by auto
  ultimately show ?thesis using save_ok [OF a k'] save_ok [OF c k]
    by (intro exI [of _ a] exI [of _ c] exI [of _ u]) (simp add: set_status_def)
qed

end

text \<open>
  A cancellation that has returned can be undone by a resumption that was in progress:
  both requests succeed, and the schedule, cancelled for its owner, is active again.
\<close>

theorem schedule_race_revives:
  assumes "reliable_repository R" and "r \<in> rows R t" and "sc_status (rdata r) = S_PAUSED"
    and "assertScheduleOwnedByActor (sc_keycloakUserId (rdata r)) actor = Inr ()"
  shows "\<exists>a c u. interleave [0, 1, 1, 0] ([resume_task R (rid r) actor, cancel_task R (rid r) actor], t)
      = ([Done (Inr a), Done (Inr c)], u)
    \<and> rid c = rid r \<and> sc_status (rdata c) = S_CANCELLED \<and> {x \<in> rows R u. rid x = rid r} = {a} \<and> sc_status (rdata a) = S_ACTIVE"
proof -
  have "reliable_schedules R"
    by (intro reliable_schedules.intro schedule_repository.intro reliable_repository.axioms(1) [OF assms(1)] assms(1))
  from reliable_schedules.race_revives [OF this assms(2-4)] show ?thesis .
qed

text \<open>The paused schedule of the examples.\<close>

definition sched_paused :: "bill_schedule mem" where
  "sched_paused = snd (schedule_trace (mem_repo no_conf) (\<lambda>_. 0) (take 2 sched_story) mem_empty)"

theorem schedule_race_revives_witness:
  "\<exists>a c u. interleave [0, 1, 1, 0] ([resume_task (mem_repo no_conf) (row_id 0) (sched_actor ''u1''),
        cancel_task (mem_repo no_conf) (row_id 0) (sched_actor ''u1'')], sched_paused) = ([Done (Inr a), Done (Inr c)], u)
    \<and> sc_status (rdata c) = S_CANCELLED \<and> sc_status (rdata a) = S_ACTIVE"
proof -
  let ?r = "hd (live sched_paused)"
  have 1: "live sched_paused \<noteq> []" "sc_status (rdata ?r) = S_PAUSED" "rid ?r = row_id 0"
    "assertScheduleOwnedByActor (sc_keycloakUserId (rdata ?r)) (sched_actor ''u1'') = Inr ()" by code_simp+
  then have "?r \<in> rows (mem_repo no_conf) sched_paused" by (simp add: mem_rows)
  from schedule_race_revives [OF mem_reliable.reliable_repository_axioms this 1(2,4)] 1(3) show ?thesis by auto
qed

end
