(* ===== verification/Async_Tasks.thy ===== *)
theory Async_Tasks
  imports Async
begin

text \<open>
  Tasks composed the way asynchronous functions are: a single awaited call, one task after
  another, a \<open>try ... catch\<close> around a task, and a task on one part of the state. Run alone,
  each is the operation on actions of the same shape.
\<close>

subsection \<open>Composition\<close>

definition atom :: "('s, 'a) act \<Rightarrow> ('s, 'a) task" where
  "atom m = call m (\<lambda>x. Done (Inr x))"

primrec bind_task :: "('s, 'x) task \<Rightarrow> ('x \<Rightarrow> ('s, 'a) task) \<Rightarrow> ('s, 'a) task" where
  "bind_task (Done r) = (\<lambda>f. case r of Inl e \<Rightarrow> Done (Inl e) | Inr x \<Rightarrow> f x)"
| "bind_task (Await k) = (\<lambda>f. Await (\<lambda>s. case map_prod id bind_task (k s) of (t, p) \<Rightarrow> (t, p f)))"

primrec catch_task :: "('s, 'a) task \<Rightarrow> (exn \<Rightarrow> ('s, 'a) task) \<Rightarrow> ('s, 'a) task" where
  "catch_task (Done r) = (\<lambda>h. case r of Inl e \<Rightarrow> h e | Inr x \<Rightarrow> Done (Inr x))"
| "catch_task (Await k) = (\<lambda>h. Await (\<lambda>s. case map_prod id catch_task (k s) of (t, p) \<Rightarrow> (t, p h)))"

primrec zoom_task :: "('t, 'a) task \<Rightarrow> ('s \<Rightarrow> 't) \<Rightarrow> ('t \<Rightarrow> 's \<Rightarrow> 's) \<Rightarrow> ('s, 'a) task" where
  "zoom_task (Done r) = (\<lambda>get put. Done r)"
| "zoom_task (Await k) = (\<lambda>get put. Await (\<lambda>s.
     case map_prod id zoom_task (k (get s)) of (t, p) \<Rightarrow> (put t s, p get put)))"

text \<open>A step of a composed task is a step of its first part.\<close>

lemma task_steps [simp]:
  "bind_task (Await k) f = Await (\<lambda>s. (fst (k s), bind_task (snd (k s)) f))"
  "catch_task (Await k) h = Await (\<lambda>s. (fst (k s), catch_task (snd (k s)) h))"
  "zoom_task (Await k) get put = Await (\<lambda>s. (put (fst (k (get s))) s, zoom_task (snd (k (get s))) get put))"
  by (simp_all add: case_prod_beta)

declare bind_task.simps(2) [simp del] catch_task.simps(2) [simp del] zoom_task.simps(2) [simp del]

lemma task_steps_induct [case_names Done Await]:
  assumes "\<And>r. P (Done r)" and "\<And>k. (\<And>t. P (snd (k t))) \<Longrightarrow> P (Await k)"
  shows "P p"
proof (induction p)
  case (Await k)
  have "k t \<in> range k" "snd (k t) \<in> Basic_BNFs.snds (k t)" for t by (simp_all add: Basic_BNFs.prod_set_defs)
  with Await.IH assms(2) show ?case by blast
qed (rule assms(1))

lemma run_Await: "run (Await k) s = run (snd (k s)) (fst (k s))"
  by (simp add: case_prod_beta)

lemma run_atom [simp]: "run (atom m) = m"
  by (auto simp: atom_def andThen_def ret_def fun_eq_iff split: prod.splits sum.splits)

lemma run_bind [simp]: "run (bind_task p f) = andThen (run p) (\<lambda>x. run (f x))"
proof (induction p rule: task_steps_induct)
  case (Done r)
  then show ?case by (auto simp: andThen_def fun_eq_iff split: sum.splits)
next
  case (Await k)
  show ?case
  proof
    fix s
    from Await.IH show "run (bind_task (Await k) f) s = andThen (run (Await k)) (\<lambda>x. run (f x)) s"
      by (simp add: run_Await andThen_def del: run.simps)
  qed
qed

lemma run_catch [simp]: "run (catch_task p h) = catch (run p) (\<lambda>e. run (h e))"
proof (induction p rule: task_steps_induct)
  case (Done r)
  then show ?case by (auto simp: catch_def fun_eq_iff split: sum.splits)
next
  case (Await k)
  show ?case
  proof
    fix s
    from Await.IH show "run (catch_task (Await k) h) s = catch (run (Await k)) (\<lambda>e. run (h e)) s"
      by (simp add: run_Await catch_def del: run.simps)
  qed
qed

lemma run_zoom:
  assumes "\<And>s. put (get s) s = s" and "\<And>t s. get (put t s) = t" and "\<And>t u s. put t (put u s) = put t s"
  shows "run (zoom_task p get put) = zoom get put (run p)"
proof (induction p rule: task_steps_induct)
  case (Done r)
  then show ?case by (auto simp: zoom_def fun_eq_iff assms(1))
next
  case (Await k)
  show ?case
  proof
    fix s
    from Await.IH [of "get s"]
    show "run (zoom_task (Await k) get put) s = zoom get put (run (Await k)) s"
      by (simp add: run_Await zoom_def assms split: prod.splits del: run.simps)
  qed
qed

lemma run_map_task_bind: "run (map_task f p) = andThen (run p) (\<lambda>x. ret (f x))"
  by (auto simp: fun_eq_iff run_map_task andThen_def ret_def split: prod.splits sum.splits)

lemma run_if: "run (if b then p else q) = (if b then run p else run q)"
  by simp

subsection \<open>Steps of two tasks\<close>

lemma advance_two [simp]:
  "advance_task 0 ([Await k, q], s) = ([snd (k s), q], fst (k s))"
  "advance_task (Suc 0) ([q, Await k], s) = ([q, snd (k s)], fst (k s))"
  by (simp_all add: advance_task_def case_prod_beta)

lemma atom_alone: "atom m = Await (\<lambda>s. case m s of (Inl e, t) \<Rightarrow> (t, Done (Inl e)) | (Inr x, t) \<Rightarrow> (t, Done (Inr x)))"
  by (simp add: atom_def call_def)

lemma atom_step:
  "bind_task (atom m) f = Await (\<lambda>s. case m s of (Inl e, t) \<Rightarrow> (t, Done (Inl e)) | (Inr x, t) \<Rightarrow> (t, f x))"
  by (auto simp: atom_def call_def fun_eq_iff split: prod.splits sum.splits)

subsection \<open>Runs of a part\<close>

text \<open>The others wait while one task runs its first part, or runs to its end.\<close>

lemma interleave_prefix:
  assumes "i < length ps" and "ps ! i = bind_task p f" and "run p s = (Inr x, t)"
  shows "\<exists>sched. interleave sched (ps, s) = (ps[i := f x], t)"
  using assms
proof (induction p arbitrary: ps s rule: task_steps_induct)
  case (Done r)
  then have "ps ! i = f x" "t = s" by auto
  then show ?case by (intro exI [of _ "[]"]) (metis interleave_simps(1) list_update_id)
next
  case (Await k)
  let ?ps = "ps[i := bind_task (snd (k s)) f]"
  have "run (snd (k s)) (fst (k s)) = (Inr x, t)" using Await.prems(3) by (simp add: run_Await del: run.simps)
  from Await.IH [OF _ _ this, of ?ps] Await.prems(1) obtain sched
    where "interleave sched (?ps, fst (k s)) = (?ps[i := f x], t)" by auto
  with Await.prems(1,2) show ?case by (intro exI [of _ "i # sched"]) simp
qed

lemma interleave_finish:
  assumes "i < length ps" and "run (ps ! i) s = (r, t)"
  shows "\<exists>sched. interleave sched (ps, s) = (ps[i := Done r], t)"
proof -
  have "run p s = (r, t) \<Longrightarrow> i < length ps \<Longrightarrow> ps ! i = p \<Longrightarrow> \<exists>sched. interleave sched (ps, s) = (ps[i := Done r], t)" for p
  proof (induction p arbitrary: ps s rule: task_steps_induct)
    case (Done r')
    then have "ps ! i = Done r" "t = s" by auto
    then show ?case by (intro exI [of _ "[]"]) (metis interleave_simps(1) list_update_id)
  next
    case (Await k)
    let ?ps = "ps[i := snd (k s)]"
    have "run (snd (k s)) (fst (k s)) = (r, t)" using Await.prems(1) by (simp add: run_Await del: run.simps)
    from Await.IH [OF this, of ?ps] Await.prems(2) obtain sched
      where "interleave sched (?ps, fst (k s)) = (?ps[i := Done r], t)" by auto
    with Await.prems(2,3) show ?case by (intro exI [of _ "i # sched"]) simp
  qed
  with assms show ?thesis by blast
qed

text \<open>
  A request that decides on what it read before another request ran: its reads, the whole
  other request, and then the rest of it.
\<close>

lemma stale_read:
  assumes "run p s = (Inr x, s)" and "run q s = (r, t)" and "run (f x) t = (r', u)"
  shows "\<exists>sched. interleave sched ([q, bind_task p f], s) = ([Done r, Done r'], u)"
proof -
  from interleave_prefix [of 1 "[q, bind_task p f]", OF _ _ assms(1)] obtain s1
    where 1: "interleave s1 ([q, bind_task p f], s) = ([q, f x], s)" by auto
  from interleave_finish [of 0 "[q, f x]" s r t] assms(2) obtain s2 where 2: "interleave s2 ([q, f x], s) = ([Done r, f x], t)" by auto
  from interleave_finish [of 1 "[Done r, f x]" t r' u] assms(3) obtain s3
    where "interleave s3 ([Done r, f x], t) = ([Done r, Done r'], u)" by auto
  with 1 2 show ?thesis by (intro exI [of _ "s1 @ s2 @ s3"]) simp
qed

subsection \<open>Interference\<close>

context interference begin

text \<open>What is shown from the states that can be met holds from the start.\<close>

lemma guar_by: "(\<And>t. R s t \<Longrightarrow> I t \<Longrightarrow> guar I R Q p t) \<Longrightarrow> guar I R Q p s"
  using R_refl by (cases p) (auto simp: guar_Await)

lemma guar_bind:
  assumes "guar I R (\<lambda>r t. case r of Inl e \<Rightarrow> Q (Inl e) t | Inr x \<Rightarrow> guar I R Q (f x) t) p s"
  shows "guar I R Q (bind_task p f) s"
  using assms
proof (induction p arbitrary: s rule: task_steps_induct)
  case (Done r)
  then show ?case using guar_by [of s I Q] by (auto split: sum.splits)
next
  case (Await k)
  have "guar I R Q (bind_task (snd (k t)) f) (fst (k t))" if "R s t" "I t" for t
    using Await.IH [of t "fst (k t)"] Await.prems that by (simp add: guar_Await)
  with Await.prems show ?case by (simp add: guar_Await)
qed

lemma guar_catch:
  assumes "guar I R (\<lambda>r t. case r of Inl e \<Rightarrow> guar I R Q (h e) t | Inr x \<Rightarrow> Q (Inr x) t) p s"
  shows "guar I R Q (catch_task p h) s"
  using assms
proof (induction p arbitrary: s rule: task_steps_induct)
  case (Done r)
  then show ?case using guar_by [of s I Q] by (auto split: sum.splits)
next
  case (Await k)
  have "guar I R Q (catch_task (snd (k t)) h) (fst (k t))" if "R s t" "I t" for t
    using Await.IH [of t "fst (k t)"] Await.prems that by (simp add: guar_Await)
  with Await.prems show ?case by (simp add: guar_Await)
qed

lemma guar_atom:
  assumes "\<And>t r u. R s t \<Longrightarrow> I t \<Longrightarrow> m t = (r, u) \<Longrightarrow> I u \<and> R t u \<and> (\<forall>v. R u v \<and> I v \<longrightarrow> Q r v)"
  shows "guar I R Q (atom m) s"
  unfolding atom_def
proof (rule guar_call)
  fix t r u assume "R s t" "I t" "m t = (r, u)"
  from assms [OF this]
  show "I u \<and> R t u \<and> (case r of Inl e \<Rightarrow> guar I R Q (Done (Inl e)) u | Inr x \<Rightarrow> guar I R Q (Done (Inr x)) u)"
    by (auto split: sum.splits)
qed

text \<open>What holds of every state that can be met, and stays true, may be added to the result.\<close>

lemma guar_mono:
  assumes "guar I R Q p s" and "\<And>r t. R s t \<Longrightarrow> I t \<Longrightarrow> Q r t \<Longrightarrow> Q' r t"
  shows "guar I R Q' p s"
  using assms
proof (induction p arbitrary: s rule: task_steps_induct)
  case (Await k)
  have "guar I R Q' (snd (k t)) (fst (k t))" if "R s t" "I t" for t
    using Await.prems(1) that R_trans [OF R_trans [OF that(1)]]
    by (intro Await.IH [of t "fst (k t)"] Await.prems(2)) (auto simp: guar_Await)
  with Await.prems(1) show ?case by (simp add: guar_Await)
qed auto

end

end
