(* ===== verification/Async_Registration.thy ===== *)
theory Async_Registration
  imports Async_Tasks Async_Races Registration_Properties
begin

text \<open>
  The requests of the registration saga as tasks, what remains true of the attempts when any
  number of them is in progress at once, and what a request sent twice can do. Every read and
  write of the attempts and of the challenges is an \<open>await\<close> of its own; a call of Keycloak and
  the action of a compensation are one each, because they touch no attempt.
\<close>

subsection \<open>registration-orchestrator.service.ts\<close>

definition find_attempt ::
  "('a, 'o, 'd, 'c, 'w) reg_env \<Rightarrow> string \<Rightarrow> (('a, 'o, 'd, 'c, 'w) reg_state, attempt row) task" where
  "find_attempt E i = atom (onAttempts (at_findOne (en_attempts E) i))"

definition save_attempt ::
  "('a, 'o, 'd, 'c, 'w) reg_env \<Rightarrow> (attempt \<Rightarrow> attempt) \<Rightarrow> attempt row
   \<Rightarrow> (('a, 'o, 'd, 'c, 'w) reg_state, attempt row) task" where
  "save_attempt E f a = atom (onAttempts (saveR (en_attempts E) (upd f a)))"

definition advance_attempt ::
  "('a, 'o, 'd, 'c, 'w) reg_env \<Rightarrow> string \<Rightarrow> registration_step
   \<Rightarrow> (('a, 'o, 'd, 'c, 'w) reg_state, attempt row) task" where
  "advance_attempt E attemptId toStep = bind_task (find_attempt E attemptId) (\<lambda>a.
     if step_index (step_name toStep) \<noteq> step_index (at_currentStep (rdata a)) + 1
     then Done (Inl (BadRequestException (Msg (''Cannot move attempt '' @ attemptId @ '' from ''
            @ at_currentStep (rdata a) @ '' to '' @ step_name toStep))))
     else save_attempt E (\<lambda>d. d\<lparr>at_currentStep := step_name toStep\<rparr>) a)"

text \<open>\<open>rollback\<close>: the attempt is read, and then at most one action is started.\<close>

definition rollback_task ::
  "('a, 'o, 'd, 'c, 'w) reg_env \<Rightarrow> string \<Rightarrow> registration_step
   \<Rightarrow> (('a, 'o, 'd, 'c, 'w) reg_state, unit) task" where
  "rollback_task E attemptId atStep = look (\<lambda>s. findOneR (en_attempts E) (byId attemptId) (st_attempts s))
     (\<lambda>found. case found of
        None \<Rightarrow> Done (Inr ())
      | Some attempt \<Rightarrow>
          let dev = at_deviceProfileId (rdata attempt); kcUser = at_keycloakUserId (rdata attempt) in
          (case atStep of
             DEVICE_REGISTERED \<Rightarrow>
               if truthy dev then atom (safely (onDevices (dp_softDelete (en_devices E) (orElse dev []))))
               else Done (Inr ())
           | KEYCLOAK_USER_CREATED \<Rightarrow>
               if truthy kcUser then atom (safely (onWorld (disableUser (en_http E) (en_kc E) (orElse kcUser []))))
               else Done (Inr ())
           | CREDENTIALS_SET \<Rightarrow>
               if truthy kcUser
               then atom (safely (onCreds (softDeleteByKeycloakUserId (en_creds E) (orElse kcUser []))))
               else Done (Inr ())
           | _ \<Rightarrow> Done (Inr ())))"

definition fail_task ::
  "('a, 'o, 'd, 'c, 'w) reg_env \<Rightarrow> string \<Rightarrow> registration_step \<Rightarrow> string
   \<Rightarrow> (('a, 'o, 'd, 'c, 'w) reg_state, unit) task" where
  "fail_task E attemptId atStep reason =
     look (\<lambda>s. findOneR (en_attempts E) (byId attemptId) (st_attempts s)) (\<lambda>found. bind_task
       (case found of
          None \<Rightarrow> Done (Inr ())
        | Some a \<Rightarrow> bind_task (save_attempt E (\<lambda>d. d\<lparr>at_failureReason := Some reason\<rparr>) a) (\<lambda>_. Done (Inr ())))
       (\<lambda>_. rollback_task E attemptId atStep))"

subsection \<open>registration.service.ts\<close>

definition require_step :: "attempt row \<Rightarrow> registration_step \<Rightarrow> ('s, unit) task" where
  "require_step a expected = (if at_currentStep (rdata a) = step_name expected then Done (Inr ())
     else Done (Inl (BadRequestException (Msg (''Registration attempt '' @ rid a @ '' is at '' @ at_currentStep (rdata a)
        @ '', expected '' @ step_name expected)))))"

definition onOtps_task :: "('o, 'x) task \<Rightarrow> (('a, 'o, 'd, 'c, 'w) reg_state, 'x) task" where
  "onOtps_task p = zoom_task p st_otps (\<lambda>x s. s\<lparr>st_otps := x\<rparr>)"

definition verify_otp_task ::
  "('a, 'o, 'd, 'c, 'w) reg_env \<Rightarrow> int \<Rightarrow> string \<Rightarrow> string \<Rightarrow> string
   \<Rightarrow> (('a, 'o, 'd, 'c, 'w) reg_state, attempt row) task" where
  "verify_otp_task E now attemptId challengeId otp =
     bind_task (find_attempt E attemptId) (\<lambda>a.
     bind_task (require_step a INIT) (\<lambda>_.
     bind_task (onOtps_task (verify_task (en_otps E) (en_otp E) (en_hash E) now challengeId otp)) (\<lambda>_.
     advance_attempt E attemptId OTP_VERIFIED)))"

definition provision_task ::
  "('a, 'o, 'd, 'c, 'w) reg_env \<Rightarrow> string \<Rightarrow> string \<Rightarrow> attempt
   \<Rightarrow> (('a, 'o, 'd, 'c, 'w) reg_state, unit) task" where
  "provision_task E attemptId password d =
     bind_task (atom (onWorld (createUser (en_http E) (en_kc E) (customer_user d password)))) (\<lambda>userId.
     bind_task (atom (onWorld (assignRealmRoleToUser (en_http E) (en_kc E) userId ''RETAIL_CUSTOMER''))) (\<lambda>_.
     bind_task (find_attempt E attemptId) (\<lambda>updated.
     bind_task (save_attempt E (\<lambda>d. d\<lparr>at_keycloakUserId := Some userId\<rparr>) updated) (\<lambda>_.
     Done (Inr ())))))"

definition compensated_task ::
  "('a, 'o, 'd, 'c, 'w) reg_env \<Rightarrow> string \<Rightarrow> registration_step \<Rightarrow> (('a, 'o, 'd, 'c, 'w) reg_state, unit) task
   \<Rightarrow> (('a, 'o, 'd, 'c, 'w) reg_state, unit) task" where
  "compensated_task E attemptId atStep p = catch_task p
     (\<lambda>e. bind_task (fail_task E attemptId atStep (exn_message e)) (\<lambda>_. Done (Inl e)))"

definition create_credentials_task ::
  "('a, 'o, 'd, 'c, 'w) reg_env \<Rightarrow> string \<Rightarrow> string \<Rightarrow> (('a, 'o, 'd, 'c, 'w) reg_state, attempt row) task" where
  "create_credentials_task E attemptId password =
     bind_task (find_attempt E attemptId) (\<lambda>a.
     if at_currentStep (rdata a) \<noteq> step_name OTP_VERIFIED \<and> at_currentStep (rdata a) \<noteq> step_name CREDENTIALS_SET
     then Done (Inl (BadRequestException (Msg (''Registration attempt '' @ attemptId @ '' is at ''
          @ at_currentStep (rdata a)
          @ '', expected OTP_VERIFIED, or CREDENTIALS_SET to retry a previously failed attempt''))))
     else
       bind_task (if at_currentStep (rdata a) = step_name OTP_VERIFIED
          then bind_task (advance_attempt E attemptId CREDENTIALS_SET) (\<lambda>_. Done (Inr ())) else Done (Inr ())) (\<lambda>_.
       bind_task (compensated_task E attemptId CREDENTIALS_SET (provision_task E attemptId password (rdata a))) (\<lambda>_.
       advance_attempt E attemptId KEYCLOAK_USER_CREATED)))"

definition link_device_task ::
  "('a, 'o, 'd, 'c, 'w) reg_env \<Rightarrow> string \<Rightarrow> register_device_dto
   \<Rightarrow> (('a, 'o, 'd, 'c, 'w) reg_state, unit) task" where
  "link_device_task E attemptId dto =
     bind_task (atom (onDevices (dp_create (en_devices E) dto))) (\<lambda>device.
     bind_task (find_attempt E attemptId) (\<lambda>updated.
     bind_task (save_attempt E (\<lambda>d. d\<lparr>at_deviceProfileId := Some (rid device)\<rparr>) updated) (\<lambda>_.
     Done (Inr ()))))"

definition register_device_task ::
  "('a, 'o, 'd, 'c, 'w) reg_env \<Rightarrow> string \<Rightarrow> string \<Rightarrow> string option
   \<Rightarrow> (('a, 'o, 'd, 'c, 'w) reg_state, attempt row) task" where
  "register_device_task E attemptId deviceId deviceModel =
     bind_task (find_attempt E attemptId) (\<lambda>a.
     bind_task (require_step a KEYCLOAK_USER_CREATED) (\<lambda>_.
     if \<not> truthy (at_keycloakUserId (rdata a))
     then Done (Inl (BadRequestException (Msg (''Attempt '' @ attemptId @ '' has no Keycloak user to link a device to''))))
     else
       bind_task (compensated_task E attemptId DEVICE_REGISTERED (link_device_task E attemptId
          \<lparr>rd_userId = orElse (at_keycloakUserId (rdata a)) [], rd_deviceId = deviceId,
           rd_deviceModel = deviceModel\<rparr>)) (\<lambda>_.
       advance_attempt E attemptId DEVICE_REGISTERED)))"

definition complete_task ::
  "('a, 'o, 'd, 'c, 'w) reg_env \<Rightarrow> string
   \<Rightarrow> (('a, 'o, 'd, 'c, 'w) reg_state, string \<times> string option \<times> registration_step) task" where
  "complete_task E attemptId =
     bind_task (find_attempt E attemptId) (\<lambda>a.
     bind_task (require_step a DEVICE_REGISTERED) (\<lambda>_.
     bind_task (advance_attempt E attemptId COMPLETED) (\<lambda>_.
     Done (Inr (attemptId, at_keycloakUserId (rdata a), COMPLETED)))))"

definition delete_task ::
  "('a, 'o, 'd, 'c, 'w) reg_env \<Rightarrow> string \<Rightarrow> (('a, 'o, 'd, 'c, 'w) reg_state, string) task" where
  "delete_task E i = bind_task (find_attempt E i) (\<lambda>_.
     bind_task (atom (onAttempts (softDeleteR (en_attempts E) i))) (\<lambda>_. Done (Inr i)))"

text \<open>A request as a task that answers with nothing but its success.\<close>

definition finish :: "('s, 'x) task \<Rightarrow> ('s, unit) task" where
  "finish p = bind_task p (\<lambda>_. Done (Inr ()))"

fun reg_task ::
  "('a, 'o, 'd, 'c, 'w) reg_env \<Rightarrow> reg_request \<Rightarrow> (('a, 'o, 'd, 'c, 'w) reg_state, unit) task" where
  "reg_task E (Create_attempt m p) = finish (atom (onAttempts (at_create (en_attempts E) m p)))"
| "reg_task E (Verify_otp now a c otp) = finish (verify_otp_task E now a c otp)"
| "reg_task E (Create_credentials a pw) = finish (create_credentials_task E a pw)"
| "reg_task E (Register_device a d m) = finish (register_device_task E a d m)"
| "reg_task E (Complete_attempt a) = finish (complete_task E a)"
| "reg_task E (Delete_attempt a) = finish (delete_task E a)"

subsection \<open>The tasks run alone\<close>

lemma onAttempts_andThen: "onAttempts (andThen m f) = andThen (onAttempts m) (\<lambda>x. onAttempts (f x))"
  by (auto simp: onAttempts_def zoom_def andThen_def fun_eq_iff split: prod.splits sum.splits)

lemma onAttempts_simple:
  "onAttempts (throw e) = throw e" "onAttempts (ret x) = ret x" "onAttempts (guardA b e) = guardA b e"
  "onAttempts (if b then m else m') = (if b then onAttempts m else onAttempts m')"
  by (auto simp: onAttempts_def zoom_def fun_eq_iff guardA_def)

lemma run_find_attempt: "run (find_attempt E i) = onAttempts (at_findOne (en_attempts E) i)"
  by (simp add: find_attempt_def)

lemma run_save_attempt: "run (save_attempt E f a) = onAttempts (saveR (en_attempts E) (upd f a))"
  by (simp add: save_attempt_def)

lemma run_advance_attempt: "run (advance_attempt E i st) = onAttempts (advance (en_attempts E) i st)"
  by (simp add: advance_attempt_def advance_def onAttempts_andThen onAttempts_simple run_find_attempt run_save_attempt
      run_if cong: if_cong)

lemma run_require_step: "run (require_step a st) = requireStep a st"
  by (simp add: require_step_def requireStep_def guardA_def)

lemma run_rollback_task: "run (rollback_task E i st) = rollback E i st"
  by (rule ext) (simp add: rollback_task_def rollback_def run_look Let_def split: option.splits registration_step.splits)

lemma run_fail_task: "run (fail_task E i st reason) = fail_attempt E i st reason"
  by (rule ext) (auto simp: fail_task_def fail_attempt_def run_look run_save_attempt run_rollback_task
      onAttempts_def zoom_def andThen_def split: option.splits prod.splits sum.splits)

lemma run_provision_task: "run (provision_task E i pw d) = provision E i pw d"
  by (simp add: provision_task_def provision_def run_find_attempt run_save_attempt)

lemma run_compensated_task: "run (compensated_task E i st p) = compensated E i st (run p)"
  by (simp add: compensated_task_def compensated_def run_fail_task)

lemma run_link_device_task: "run (link_device_task E i dto) = link_device E i dto"
  by (simp add: link_device_task_def link_device_def run_find_attempt run_save_attempt)

lemma run_onOtps_task: "run (onOtps_task p) = onOtps (run p)"
  unfolding onOtps_task_def onOtps_def by (rule run_zoom) simp_all

lemma run_verify_otp_task: "run (verify_otp_task E now i c otp) = verifyOtp E now i c otp"
  by (simp add: verify_otp_task_def verifyOtp_def run_find_attempt run_require_step run_onOtps_task run_verify_task
      run_advance_attempt)

lemma andThen_guard: "andThen (guardA b e) f = (if b then f () else throw e)"
  by (auto simp: fun_eq_iff guardA_def)

lemma run_create_credentials_task: "run (create_credentials_task E i pw) = createCredentials E i pw"
proof -
  have n: "(at_currentStep d \<noteq> step_name OTP_VERIFIED \<and> at_currentStep d \<noteq> step_name CREDENTIALS_SET) =
      (\<not> (at_currentStep d = step_name OTP_VERIFIED \<or> at_currentStep d = step_name CREDENTIALS_SET))" for d :: attempt
    by blast
  show ?thesis
    unfolding create_credentials_task_def createCredentials_def run_bind run_find_attempt andThen_guard n if_not_P
    by (rule arg_cong [of _ _ "andThen _"])
      (auto simp: fun_eq_iff run_compensated_task run_provision_task run_advance_attempt)
qed

lemma run_register_device_task: "run (register_device_task E i d m) = registerDevice E i d m"
  unfolding register_device_task_def registerDevice_def run_bind run_find_attempt run_require_step andThen_guard
  by (rule arg_cong [of _ _ "andThen _"])
    (auto simp: fun_eq_iff andThen_def run_compensated_task run_link_device_task run_advance_attempt
      split: prod.splits sum.splits)

lemma run_complete_task: "run (complete_task E i) = onAttempts (complete (en_attempts E) i)"
  by (simp add: complete_task_def complete_def requireStep_def onAttempts_andThen onAttempts_simple run_find_attempt
      run_require_step run_advance_attempt)

lemma run_delete_task: "run (delete_task E i) = onAttempts (at_softDelete (en_attempts E) i)"
  by (simp add: delete_task_def at_softDelete_def onAttempts_andThen onAttempts_simple run_find_attempt)

lemma run_reg_task: "run (reg_task E q) = reg_run E q"
  by (cases q) (simp_all add: finish_def done_with_def run_verify_otp_task run_create_credentials_task
      run_register_device_task run_complete_task run_delete_task)

subsection \<open>What concurrent requests keep\<close>

text \<open>
  The requests delete no attempt, and keep whose it is. \<open>waits E i\<close>: the attempt \<open>i\<close> has not
  left \<open>INIT\<close>. \<open>seen\<close> is what a request knows of an attempt it has read, however old the
  read is.
\<close>

definition same_identity :: "attempt row \<Rightarrow> attempt row \<Rightarrow> bool" where
  "same_identity x y \<longleftrightarrow> rid y = rid x \<and> at_mobileNumber (rdata y) = at_mobileNumber (rdata x)
     \<and> at_panOrCif (rdata y) = at_panOrCif (rdata x)"





lemma same_identity_refl [simp]: "same_identity x x"
  by (simp add: same_identity_def)








subsection \<open>A request sent twice\<close>

context reliable_attempts begin

text \<open>A write of an attempt that was read earlier, and the read that follows.\<close>

lemma write_old:
  assumes "a \<in> rows R t" and "rid ` rows R u = rid ` rows R t"
  shows "\<exists>f v. saveR R (upd g a) u = (Inr f, v) \<and> f \<in> rows R v \<and> rid f = rid a \<and> rdata f = g (rdata a)
    \<and> rid ` rows R v = rid ` rows R t \<and> findOneR R (byId (rid a)) v = Some f"
proof -
  have k: "rid (upd g a) \<in> rid ` rows R u" using assms by simp
  with save_total obtain f v where s: "saveR R (upd g a) u = (Inr f, v)" by blast
  from save_ok [OF s k] have f: "f \<in> rows R v" "rid f = rid a" "rdata f = g (rdata a)" by auto
  with s save_keys [OF s k] assms(2) findOne_byId [OF f(1)] show ?thesis by (intro exI [of _ f] exI [of _ v]) simp
qed

end

abbreviation credentials_twice where
  "credentials_twice E i pw s sched \<equiv> interleave sched
     ([create_credentials_task E i pw, create_credentials_task E i pw], s)"

lemma onAttempts_apply: "onAttempts m s = (fst (m (st_attempts s)), s\<lparr>st_attempts := snd (m (st_attempts s))\<rparr>)"
  by (simp add: onAttempts_def zoom_def case_prod_beta)

lemma onWorld_apply: "onWorld m s = (fst (m (st_world s)), s\<lparr>st_world := snd (m (st_world s))\<rparr>)"
  by (simp add: onWorld_def zoom_def case_prod_beta)

lemma credentials_race:
  assumes R: "reliable_attempts (en_attempts E)"
    and a: "a \<in> rows (en_attempts E) (st_attempts s)" "rid a = i" "at_currentStep (rdata a) = step_name OTP_VERIFIED"
      "at_keycloakUserId (rdata a) = None"
    and created: "createUser (en_http E) (en_kc E) (customer_user (rdata a) pw) (st_world s) = (Inr uid, w)"
    and role: "assignRealmRoleToUser (en_http E) (en_kc E) uid ''RETAIL_CUSTOMER'' w = (Inr (), w')"
    and refused: "createUser (en_http E) (en_kc E) (customer_user (rdata a) pw) w' = (Inl e, w'')"
  shows "(\<exists>sched x u. credentials_twice E i pw s sched = ([Done (Inr x), Done (Inl e)], s\<lparr>st_attempts := u, st_world := w''\<rparr>)
      \<and> rid x = i \<and> at_currentStep (rdata x) = step_name KEYCLOAK_USER_CREATED
      \<and> at_row (en_attempts E) i ((rdata a)\<lparr>at_currentStep := step_name CREDENTIALS_SET,
           at_failureReason := Some (exn_message e)\<rparr>) u)
    \<and> (\<exists>sched x u. credentials_twice E i pw s sched = ([Done (Inr x), Done (Inl e)], s\<lparr>st_attempts := u, st_world := w''\<rparr>)
      \<and> at_row (en_attempts E) i ((rdata a)\<lparr>at_currentStep := step_name KEYCLOAK_USER_CREATED,
           at_failureReason := Some (exn_message e)\<rparr>) u)"
proof -
  let ?R = "en_attempts E" and ?i = "rid a"
  let ?step = "\<lambda>st d. d\<lparr>at_currentStep := step_name st\<rparr>" and ?user = "\<lambda>d. d\<lparr>at_keycloakUserId := Some uid\<rparr>"
    and ?why = "\<lambda>d. d\<lparr>at_failureReason := Some (exn_message e)\<rparr>"
  note W = reliable_attempts.write_old [OF R]
  have f0: "findOneR ?R (byId ?i) (st_attempts s) = Some a"
    using reliable_attempts.axioms(1) [OF R] a(1) by (simp add: attempt_repository_def repository.findOne_byId)
  obtain f1 u1 where 1: "saveR ?R (upd (?step CREDENTIALS_SET) a) (st_attempts s) = (Inr f1, u1)"
    "rid ` rows ?R u1 = rid ` rows ?R (st_attempts s)" using W [OF a(1) refl, of "?step CREDENTIALS_SET"] by blast
  obtain f2 u2 where 2: "saveR ?R (upd (?step CREDENTIALS_SET) a) u1 = (Inr f2, u2)" "f2 \<in> rows ?R u2" "rid f2 = ?i"
    "rdata f2 = ?step CREDENTIALS_SET (rdata a)" "findOneR ?R (byId ?i) u2 = Some f2"
    using W [OF a(1) 1(2), of "?step CREDENTIALS_SET"] by blast
  obtain f3 u3 where 3: "saveR ?R (upd ?user f2) u2 = (Inr f3, u3)" "f3 \<in> rows ?R u3" "rid f3 = ?i"
    "rdata f3 = ?user (rdata f2)" "findOneR ?R (byId ?i) u3 = Some f3" "rid ` rows ?R u3 = rid ` rows ?R u2"
    using W [OF 2(2) refl, of ?user] 2(3) by metis
  obtain f4 u4 where 4: "saveR ?R (upd (?step KEYCLOAK_USER_CREATED) f3) u3 = (Inr f4, u4)" "rid f4 = ?i"
    "rdata f4 = ?step KEYCLOAK_USER_CREATED (rdata f3)" "rid ` rows ?R u4 = rid ` rows ?R u2"
    using W [OF 3(2) refl, of "?step KEYCLOAK_USER_CREATED"] 3(3,6) by metis
  obtain f5 u5 where 5: "saveR ?R (upd ?why f2) u4 = (Inr f5, u5)" "f5 \<in> rows ?R u5" "rid f5 = ?i"
    "rdata f5 = ?why (rdata f2)" "findOneR ?R (byId ?i) u5 = Some f5"
    using W [OF 2(2) 4(4), of ?why] 2(3) by metis
  obtain g4 v4 where 6: "saveR ?R (upd ?why f2) u3 = (Inr g4, v4)" "g4 \<in> rows ?R v4" "rid g4 = ?i"
    "rdata g4 = ?why (rdata f2)" "findOneR ?R (byId ?i) v4 = Some g4"
    using W [OF 2(2) 3(6), of ?why] 2(3) by metis
  obtain g5 v5 where 7: "saveR ?R (upd (?step KEYCLOAK_USER_CREATED) g4) v4 = (Inr g5, v5)" "g5 \<in> rows ?R v5" "rid g5 = ?i"
    "rdata g5 = ?step KEYCLOAK_USER_CREATED (rdata g4)" "findOneR ?R (byId ?i) v5 = Some g5"
    using W [OF 6(2) refl, of "?step KEYCLOAK_USER_CREATED"] 6(3) by metis
  note defs = create_credentials_task_def find_attempt_def advance_attempt_def save_attempt_def compensated_task_def
    provision_task_def fail_task_def rollback_task_def look_def atom_step atom_alone at_findOne_def onAttempts_apply onWorld_apply
  let ?start = "[0, 1, 0, 1, 0, 1] @ [0, 0, 1, 1, 0, 0]"
  have A: "credentials_twice E i pw s (?start @ [0, 0, 1, 1])
      = ([Done (Inr f4), Done (Inl e)], s\<lparr>st_attempts := u5, st_world := w''\<rparr>)"
    using a(2-4) created role refused f0 1 2 3 4 5 by (simp add: defs)
  have B: "credentials_twice E i pw s (?start @ [1, 0, 0, 1])
      = ([Done (Inr g5), Done (Inl e)], s\<lparr>st_attempts := v5, st_world := w''\<rparr>)"
    using a(2-4) created role refused f0 1 2 3 6 7 by (simp add: defs)
  have "at_row ?R i (?why (?step CREDENTIALS_SET (rdata a))) u5" using 5 2 a(2) unfolding at_row_def by auto
  moreover have "?why (?step CREDENTIALS_SET (rdata a))
      = (rdata a)\<lparr>at_currentStep := step_name CREDENTIALS_SET, at_failureReason := Some (exn_message e)\<rparr>" by simp
  moreover have "at_row ?R i (rdata g5) v5" using 7(2,3) a(2) unfolding at_row_def by auto
  moreover have "rdata g5 = (rdata a)\<lparr>at_currentStep := step_name KEYCLOAK_USER_CREATED, at_failureReason := Some (exn_message e)\<rparr>"
    using 7(4) 6(4) 2(4) by simp
  moreover have "rid f4 = i" "at_currentStep (rdata f4) = step_name KEYCLOAK_USER_CREATED" using 4(2,3) a(2) by simp_all
  ultimately show ?thesis using A B by metis
qed

text \<open>An attempt without a Keycloak user at \<open>KEYCLOAK_USER_CREATED\<close> is refused by every request.\<close>

definition stuck :: "('a, 'o, 'd, 'c, 'w) reg_env \<Rightarrow> string \<Rightarrow> ('a, 'o, 'd, 'c, 'w) reg_state \<Rightarrow> bool" where
  "stuck E i s \<longleftrightarrow> (\<forall>now c otp pw d m. isl (fst (verifyOtp E now i c otp s)) \<and> snd (verifyOtp E now i c otp s) = s
     \<and> isl (fst (createCredentials E i pw s)) \<and> snd (createCredentials E i pw s) = s
     \<and> isl (fst (registerDevice E i d m s)) \<and> snd (registerDevice E i d m s) = s
     \<and> isl (fst (complete (en_attempts E) i (st_attempts s))) \<and> snd (complete (en_attempts E) i (st_attempts s)) = st_attempts s)"

lemma no_user_stuck:
  assumes "reliable_attempts (en_attempts E)" and "at_row (en_attempts E) i d (st_attempts s)"
    and "at_currentStep d = step_name KEYCLOAK_USER_CREATED" and "at_keycloakUserId d = None"
  shows "stuck E i s"
proof -
  from assms(2) obtain x where x: "x \<in> rows (en_attempts E) (st_attempts s)" "rid x = i" "rdata x = d" by (auto simp: at_row_def)
  then have f: "findOneR (en_attempts E) (byId i) (st_attempts s) = Some x"
    using reliable_attempts.axioms(1) [OF assms(1)] by (simp add: attempt_repository_def repository.findOne_byId_iff)
  have n: "step_name KEYCLOAK_USER_CREATED \<noteq> step_name INIT" "step_name KEYCLOAK_USER_CREATED \<noteq> step_name OTP_VERIFIED"
    "step_name KEYCLOAK_USER_CREATED \<noteq> step_name CREDENTIALS_SET" "step_name KEYCLOAK_USER_CREATED \<noteq> step_name DEVICE_REGISTERED"
    by (simp_all add: step_name.simps)
  show ?thesis
    using assms(3,4) x(3) f n
    by (simp add: stuck_def verifyOtp_def createCredentials_def registerDevice_def complete_def requireStep_def
        onAttempts_apply at_findOne_def andThen_def guardA_def)
qed

text \<open>
  C16: a customer who submits the form of step 3 twice can lose his registration. One request
  creates the user in Keycloak and answers that the attempt is at \<open>KEYCLOAK_USER_CREATED\<close>, the
  other, refused by Keycloak, saves what it read before: then the attempt is back at
  \<open>CREDENTIALS_SET\<close> without the user, or past it without the user, where no request moves it on.
\<close>

theorem credentials_race_strands:
  assumes "reliable_repository (en_attempts E)"
    and "a \<in> rows (en_attempts E) (st_attempts s)" and "rid a = i" and "at_currentStep (rdata a) = step_name OTP_VERIFIED"
    and "at_keycloakUserId (rdata a) = None"
    and "createUser (en_http E) (en_kc E) (customer_user (rdata a) pw) (st_world s) = (Inr uid, w)"
    and "assignRealmRoleToUser (en_http E) (en_kc E) uid ''RETAIL_CUSTOMER'' w = (Inr (), w')"
    and "createUser (en_http E) (en_kc E) (customer_user (rdata a) pw) w' = (Inl e, w'')"
  shows "(\<exists>sched x t. interleave sched ([create_credentials_task E i pw, create_credentials_task E i pw], s)
          = ([Done (Inr x), Done (Inl e)], t)
        \<and> rid x = i \<and> at_currentStep (rdata x) = step_name KEYCLOAK_USER_CREATED
        \<and> at_row (en_attempts E) i ((rdata a)\<lparr>at_currentStep := step_name CREDENTIALS_SET,
             at_failureReason := Some (exn_message e)\<rparr>) (st_attempts t))
    \<and> (\<exists>sched x t. interleave sched ([create_credentials_task E i pw, create_credentials_task E i pw], s)
          = ([Done (Inr x), Done (Inl e)], t) \<and> stuck E i t)"
proof -
  have R: "reliable_attempts (en_attempts E)"
    by (intro reliable_attempts.intro attempt_repository.intro reliable_repository.axioms(1) [OF assms(1)] assms(1))
  note race = credentials_race [OF R assms(2-8)]
  from race [THEN conjunct2] obtain sched x u where
    1: "credentials_twice E i pw s sched = ([Done (Inr x), Done (Inl e)], s\<lparr>st_attempts := u, st_world := w''\<rparr>)"
    and u: "at_row (en_attempts E) i ((rdata a)\<lparr>at_currentStep := step_name KEYCLOAK_USER_CREATED,
           at_failureReason := Some (exn_message e)\<rparr>) u" by blast
  have "stuck E i (s\<lparr>st_attempts := u, st_world := w''\<rparr>)"
    by (rule no_user_stuck [OF R], simp, rule u) (simp_all add: assms(5))
  with 1 race [THEN conjunct1] show ?thesis by force
qed

text \<open>A Keycloak that refuses a user it has been asked to create before.\<close>

definition taken_http :: "http_req list http" where
  "taken_http q w = (if hq_below_500 q \<and> q \<in> set w
     then (Inr \<lparr>hr_status = 409, hr_location = None,
       hr_data = JObj [(''errorMessage'', JStr ''User exists with same username'')]\<rparr>, w @ [q])
     else sim_http [] q w)"

definition taken_env :: "(attempt mem, otp_challenge mem, device_profile mem, credential mem, http_req list) reg_env" where
  "taken_env = mem_reg_env taken_http sim_config otp_defaults (\<lambda>s. s)"

theorem credentials_race_strands_witness:
  "\<exists>sched x t. interleave sched ([create_credentials_task taken_env (row_id 0) ''pw'', create_credentials_task taken_env (row_id 0) ''pw''],
       sim_after 2) = ([Done (Inr x), Done (Inl (UnauthorizedException (Msg ''User exists with same username'')))], t)
     \<and> stuck taken_env (row_id 0) t"
proof -
  let ?a = "hd (live (st_attempts (sim_after 2)))" and ?create = "createUser taken_http sim_config"
    and ?role = "assignRealmRoleToUser taken_http sim_config ''u1'' ''RETAIL_CUSTOMER''"
  have a: "live (st_attempts (sim_after 2)) \<noteq> []" "rid ?a = row_id 0" "at_currentStep (rdata ?a) = step_name OTP_VERIFIED"
    "at_keycloakUserId (rdata ?a) = None" "st_world (sim_after 2) = []" by code_simp+
  have w: "fst (?create (customer_user (rdata ?a) ''pw'') []) = Inr ''u1''"
    "fst (?role (snd (?create (customer_user (rdata ?a) ''pw'') []))) = Inr ()"
    "fst (?create (customer_user (rdata ?a) ''pw'') (snd (?role (snd (?create (customer_user (rdata ?a) ''pw'') [])))))
      = Inl (UnauthorizedException (Msg ''User exists with same username''))" by code_simp+
  have E: "en_attempts taken_env = mem_repo no_conf" "en_http taken_env = taken_http" "en_kc taken_env = sim_config"
    by (simp_all add: taken_env_def)
  have R: "reliable_repository (en_attempts taken_env)" by (simp add: E mem_reliable.reliable_repository_axioms)
  have m: "?a \<in> rows (en_attempts taken_env) (st_attempts (sim_after 2))" using a(1) by (simp add: E mem_rows)
  from credentials_race_strands [OF R m a(2-4), of "''pw''" "''u1''" _ _ _ _, unfolded E a(5),
      OF prod_eqI prod_eqI prod_eqI, unfolded fst_conv snd_conv, OF w(1) refl w(2) refl w(3) refl]
  show ?thesis by blast
qed

end
