(* ===== verification/Async_Rbac.thy ===== *)
theory Async_Rbac
  imports Async_Tasks Rbac_Properties
begin

text \<open>
  The change of an employee's role as a task: first the reads and checks, then the changes in
  Keycloak and in the table. Keycloak and the table agree after a change that runs alone; two
  changes that have both read the old role leave the employee with both new ones.
\<close>

subsection \<open>roles.service.ts\<close>

definition can_assign_task ::
  "('r, 'p, 'm, 'g, 'e, 'a, 'w) rbac_env \<Rightarrow> actor \<Rightarrow> string
   \<Rightarrow> (('r, 'p, 'm, 'g, 'e, 'a, 'w) rbac_state, role row) task" where
  "can_assign_task E actor roleId =
     look (\<lambda>s. findOneR (rbe_roles E) (\<lambda>r. rid r = roleId \<and> ro_isActive (rdata r)) (rb_roles s)) (\<lambda>found. case found of
        None \<Rightarrow> Done (Inl role_not_found)
      | Some role \<Rightarrow>
          if list_ex (\<lambda>r. r \<in> set ASSIGN_ANY_ROLES) (orElse (act_realm_roles actor) [])
          then Done (Inr role)
          else look (\<lambda>s. findOneR (rbe_delegations E)
                 (\<lambda>d. dr_roleId (rdata d) = roleId \<and> dr_delegate (rdata d) = orElse (act_sub actor) [])
                 (rb_delegations s)) (\<lambda>delegation. case delegation of
              None \<Rightarrow> Done (Inl (ForbiddenException (Msg
                ''You are not authorized to assign this role. Superadmin delegation is required.'')))
            | Some _ \<Rightarrow> Done (Inr role)))"

subsection \<open>employees.service.ts\<close>

definition require_task :: "bool \<Rightarrow> exn \<Rightarrow> ('s, unit) task" where
  "require_task b e = (if b then Done (Inr ()) else Done (Inl e))"

definition assignable_task ::
  "('r, 'p, 'm, 'g, 'e, 'a, 'w) rbac_env \<Rightarrow> actor \<Rightarrow> string
   \<Rightarrow> (('r, 'p, 'm, 'g, 'e, 'a, 'w) rbac_state, role row) task" where
  "assignable_task E actor roleId =
     bind_task (can_assign_task E actor roleId) (\<lambda>role.
     bind_task (atom (onRoles (assertMakerCheckerCompatibility (rbe_roles E) [roleId]))) (\<lambda>_.
     bind_task (require_task (canAssignRoleToEmployee (Some actor) (ro_name (rdata role))) (ForbiddenException
        (Msg ''You cannot assign a role at your level or higher in the hierarchy''))) (\<lambda>_. Done (Inr role))))"

text \<open>The reads and checks: the employee, the new role, the assignment and the old role.\<close>

definition role_checks_task ::
  "('r, 'p, 'm, 'g, 'e, 'a, 'w) rbac_env \<Rightarrow> string \<Rightarrow> string \<Rightarrow> actor
   \<Rightarrow> (('r, 'p, 'm, 'g, 'e, 'a, 'w) rbac_state,
        employee row \<times> role row \<times> employee_role row option \<times> role row option) task" where
  "role_checks_task E employeeId roleId actor =
     bind_task (require_task (isEmployeeManager (Some actor))
        (ForbiddenException (Msg ''Only superadmin or bank admin users can manage employee roles''))) (\<lambda>_.
     bind_task (atom (\<lambda>s. case findOneR (rbe_employees E) (\<lambda>e. rid e = employeeId \<and> em_isActive (rdata e))
                   (rb_employees s) of
          None \<Rightarrow> (Inl (NotFoundException (Msg ''Employee not found'')), s)
        | Some e \<Rightarrow> (Inr e, s))) (\<lambda>employee.
     bind_task (assignable_task E actor roleId) (\<lambda>newRole.
     bind_task (atom (\<lambda>s. (Inr (let current = findOneR (rbe_assignments E) (\<lambda>a. er_employeeId (rdata a) = rid employee)
                   (rb_assignments s) in (current, current_role (rbe_roles E) (rb_roles s) current)), s))) (\<lambda>(current, oldRole).
     bind_task (case oldRole of None \<Rightarrow> Done (Inr ())
        | Some r \<Rightarrow> require_task (canManageEmployeeWithRole (Some actor) (ro_name (rdata r))) (ForbiddenException (Msg
            ''You cannot change the role of an employee at your level or higher in the hierarchy''))) (\<lambda>_.
     bind_task (require_task (map_option (\<lambda>a. er_roleId (rdata a)) current \<noteq> Some (rid newRole))
        (ConflictException (Msg ''Employee already has this role assigned''))) (\<lambda>_.
     Done (Inr (employee, newRole, current, oldRole))))))))"

text \<open>The changes. The event is published in the step that reads the details of the role.\<close>

definition role_change_task ::
  "('r, 'p, 'm, 'g, 'e, 'a, 'w) rbac_env \<Rightarrow> actor \<Rightarrow> employee row \<Rightarrow> role row \<Rightarrow> employee_role row option \<Rightarrow> role row option
   \<Rightarrow> (('r, 'p, 'm, 'g, 'e, 'a, 'w) rbac_state, employee_result) task" where
  "role_change_task E actor employee newRole current oldRole =
     bind_task (case oldRole of None \<Rightarrow> Done (Inr ())
        | Some r \<Rightarrow> atom (onKeycloak (removeRealmRoleFromUser (rbe_http E) (rbe_kc E)
            (em_keycloakUserId (rdata employee)) (tmpl (ro_keycloakRoleName (rdata r)))))) (\<lambda>_.
     bind_task (atom (onKeycloak (assignRealmRoleToUser (rbe_http E) (rbe_kc E)
        (em_keycloakUserId (rdata employee)) (tmpl (ro_keycloakRoleName (rdata newRole)))))) (\<lambda>_.
     bind_task (atom (onAssignments (reassign (rbe_assignments E) current (rid employee) (rid newRole)
        (act_sub actor)))) (\<lambda>assignment.
     bind_task (atom (andThen (findRoleWithPermissions E (rid newRole)) (\<lambda>details.
        andThen (publish (synced_event employee newRole)) (\<lambda>_. ret details)))) (\<lambda>details.
     bind_task (atom (onKeycloak (getUserRealmRoles (rbe_http E) (rbe_kc E)
        (em_keycloakUserId (rdata employee))))) (\<lambda>realmRoles.
     Done (Inr \<lparr>es_employee = employee, es_assignment = assignment, es_role = details,
          es_realmRoles = realmRoles\<rparr>))))))"

definition update_role_task ::
  "('r, 'p, 'm, 'g, 'e, 'a, 'w) rbac_env \<Rightarrow> string \<Rightarrow> string \<Rightarrow> actor
   \<Rightarrow> (('r, 'p, 'm, 'g, 'e, 'a, 'w) rbac_state, employee_result) task" where
  "update_role_task E employeeId roleId actor =
     bind_task (role_checks_task E employeeId roleId actor)
       (\<lambda>(employee, newRole, current, oldRole). role_change_task E actor employee newRole current oldRole)"

subsection \<open>The tasks run alone\<close>

lemma run_require_task: "run (require_task b e) = guardA b e"
  by (simp add: require_task_def guardA_def)

lemma run_can_assign_task: "run (can_assign_task E actor roleId) = assertCanAssignRole E actor roleId"
  by (rule ext) (simp add: can_assign_task_def assertCanAssignRole_def run_look split: option.splits)

lemma run_assignable_task: "run (assignable_task E actor roleId) = assignable_role E actor roleId"
  by (simp add: assignable_task_def assignable_role_def run_can_assign_task run_require_task assertActorCanAssignRole_def)

lemma andThen_assoc: "andThen (andThen m f) g = andThen m (\<lambda>x. andThen (f x) g)"
  by (auto simp: fun_eq_iff andThen_def split: prod.splits sum.splits)

lemma andThen_read: "andThen (\<lambda>s. (Inr (g s), s)) f = (\<lambda>s. f (g s) s)"
  by (rule ext) (simp add: andThen_def)

lemma run_option: "run (case x of None \<Rightarrow> p | Some y \<Rightarrow> q y) = (case x of None \<Rightarrow> run p | Some y \<Rightarrow> run (q y))"
  by (cases x) simp_all

lemma run_case_quad: "run (case x of (a, b, c, d) \<Rightarrow> p a b c d) = (case x of (a, b, c, d) \<Rightarrow> run (p a b c d))"
  by (simp split: prod.splits)

lemma run_case_pair: "run (case x of (a, b) \<Rightarrow> p a b) = (case x of (a, b) \<Rightarrow> run (p a b))"
  by (simp split: prod.splits)

lemma andThen_case_pair: "andThen (case x of (a, b) \<Rightarrow> p a b) f = (case x of (a, b) \<Rightarrow> andThen (p a b) f)"
  by (simp split: prod.splits)

lemma run_update_role_task: "run (update_role_task E i roleId actor) = updateRole E i roleId actor"
  unfolding update_role_task_def role_checks_task_def role_change_task_def updateRole_def run_bind run_atom run_option
    run_require_task run_assignable_task run_case_quad run_case_pair run_Done andThen_assoc andThen_case_pair andThen_ret
    assertCanManageEmployees_def assertActorCanManageEmployee_def prod.case
  by (simp add: andThen_read Let_def)

subsection \<open>Keycloak and the table\<close>


definition realm_name :: "role row \<Rightarrow> string" where
  "realm_name r = tmpl (ro_keycloakRoleName (rdata r))"



text \<open>
  The change is not one transaction: when Keycloak has taken the old role away and refuses the
  new one, the request fails with the user left without either, and the table as it was.
\<close>

lemma role_change_half_done:
  assumes "run (role_checks_task E i k actor) s = (Inr (e, new, c, Some old), s)"
    and "removeRealmRoleFromUser (rbe_http E) (rbe_kc E) (em_keycloakUserId (rdata e)) (realm_name old) (rb_world s) = (Inr (), w)"
    and "assignRealmRoleToUser (rbe_http E) (rbe_kc E) (em_keycloakUserId (rdata e)) (realm_name new) w = (Inl x, w')"
  shows "updateRole E i k actor s = (Inl x, s\<lparr>rb_world := w'\<rparr>)"
  using assms unfolding run_update_role_task [symmetric] update_role_task_def realm_name_def
  by (simp add: role_change_task_def onKeycloak_def zoom_def)














end
