(* ===== verification/Event_Bus.thy ===== *)
theory Event_Bus
  imports Async Admin_Users
begin

text \<open>
  internal-event-bus.service.ts over an emitter that is not part of the repository, and the
  listener of the admin module as a task: what is published reaches the portal, and what two
  events that are handled at once can do to it.
\<close>

subsection \<open>internal-event-bus.service.ts\<close>

text \<open>
  The emitter is given by how it registers a listener and by the listeners it calls for an
  event. Every listener is started with the payload; the tasks go on after \<open>publish\<close> returns.
\<close>

definition bus_publish :: "('e \<Rightarrow> string \<Rightarrow> ('p \<Rightarrow> 'q) list) \<Rightarrow> string \<Rightarrow> 'p \<Rightarrow> 'e \<Rightarrow> 'q list" where
  "bus_publish listeners eventName payload emitter = map (\<lambda>h. h payload) (listeners emitter eventName)"

definition bus_on :: "(string \<Rightarrow> 'h \<Rightarrow> 'e \<Rightarrow> 'e) \<Rightarrow> string \<Rightarrow> 'h \<Rightarrow> 'e \<Rightarrow> 'e" where
  "bus_on add eventName handler emitter = add eventName handler emitter"

definition EMPLOYEE_ACCOUNT_SYNCED_EVENT :: string where
  "EMPLOYEE_ACCOUNT_SYNCED_EVENT = ''rbac.employee-account.synced''"

subsection \<open>admin-user-sync.listener.ts\<close>

text \<open>A task whose exception is caught.\<close>

primrec rescue :: "('s, 'a) task \<Rightarrow> (exn \<Rightarrow> 'a) \<Rightarrow> ('s, 'a) task" where
  "rescue (Done r) = (\<lambda>h. Done (case r of Inl e \<Rightarrow> Inr (h e) | Inr x \<Rightarrow> Inr x))"
| "rescue (Await k) = (\<lambda>h. Await (\<lambda>s. case map_prod id rescue (k s) of (t, p) \<Rightarrow> (t, p h)))"

lemma run_rescue: "run (rescue p h) = catch (run p) (\<lambda>e. ret (h e))"
proof (induction p)
  case (Done r)
  then show ?case by (auto simp: catch_def ret_def fun_eq_iff split: sum.splits)
next
  case (Await k)
  show ?case
  proof
    fix s
    obtain t q where k: "k s = (t, q)" by fastforce
    have "(t, q) \<in> range k" "q \<in> Basic_BNFs.snds (t, q)" using k by (metis rangeI, simp add: Basic_BNFs.prod_set_defs)
    from Await.IH [OF this] k show "run (rescue (Await k) h) s = catch (run (Await k)) (\<lambda>e. ret (h e)) s"
      by (simp add: catch_def ret_def split: prod.splits sum.splits)
  qed
qed

definition handle_task :: "('t, admin_user) repo \<Rightarrow> int \<Rightarrow> account_synced_event \<Rightarrow> ('t, unit) task" where
  "handle_task R now e =
     (if ev_roleName e \<notin> set ADMIN_PORTAL_ROLES then Done (Inr ())
      else look (findOneR R (au_of_keycloak (ev_keycloakUserId e))) (\<lambda>found. case found of
          Some existing \<Rightarrow> call (saveR R (upd (\<lambda>_. admin_of_event now e) existing)) (\<lambda>_. Done (Inr ()))
        | None \<Rightarrow> call (insertR R (admin_of_event now e)) (\<lambda>_. Done (Inr ()))))"

definition listen_task :: "('t, admin_user) repo \<Rightarrow> int \<Rightarrow> account_synced_event \<Rightarrow> ('t, unit) task" where
  "listen_task R now e = rescue (handle_task R now e) (\<lambda>_. ())"

definition listener_onModuleInit ::
  "(string \<Rightarrow> (account_synced_event \<Rightarrow> ('t, unit) task) \<Rightarrow> 'e \<Rightarrow> 'e) \<Rightarrow> ('t, admin_user) repo \<Rightarrow> int \<Rightarrow> 'e \<Rightarrow> 'e" where
  "listener_onModuleInit add R now = bus_on add EMPLOYEE_ACCOUNT_SYNCED_EVENT (listen_task R now)"

lemma run_handle_task: "run (handle_task R now e) = au_handle R now e"
  by (rule ext) (simp add: handle_task_def au_handle_def run_look split: option.splits)

lemma run_listen_task: "run (listen_task R now e) = au_listen R now e"
  by (simp add: listen_task_def au_listen_def run_rescue run_handle_task)

subsection \<open>From the publication to the portal\<close>

text \<open>
  With an emitter that calls the registered listeners in their order, the events published
  after the start of the module start its listener once each, and when every one ends before
  the next is started, the portal is brought up to date as by \<open>au_sync\<close>.
\<close>

lemma published_events:
  assumes "\<And>n h e m. listeners (add n h e) m = listeners e m @ (if m = n then [h] else [])"
    and "listeners emitter EMPLOYEE_ACCOUNT_SYNCED_EVENT = []"
  shows "concat (map (\<lambda>e. bus_publish listeners EMPLOYEE_ACCOUNT_SYNCED_EVENT e (listener_onModuleInit add R now emitter)) es)
      = map (listen_task R now) es"
  using assms by (induction es) (simp_all add: bus_publish_def listener_onModuleInit_def bus_on_def)

lemma run_published_events: "foldr (\<lambda>p k. andThen (run p) (\<lambda>_. k)) (map (listen_task R now) es) (ret ()) = au_sync R now es"
  by (induction es) (simp_all add: run_listen_task)

context admin_repository
begin

lemma race_loses_event:
  assumes reliable: "reliable_repository R" and found: "findOneR R (au_of_keycloak uid) t = Some r"
    and events: "ev_keycloakUserId e = uid" "ev_keycloakUserId f = uid"
      "ev_roleName e \<in> set ADMIN_PORTAL_ROLES" "ev_roleName f \<in> set ADMIN_PORTAL_ROLES"
  shows "\<exists>a u. interleave [0, 1, 1, 0] ([listen_task R now e, listen_task R now f], t) = ([Done (Inr ()), Done (Inr ())], u)
    \<and> {x \<in> rows R u. rid x = rid r} = {a} \<and> rdata a = admin_of_event now e"
proof -
  let ?s = "\<lambda>e. upd (\<lambda>_. admin_of_event now e) r"
  note save_total = reliable_repository.save_total [OF reliable]
  have k: "rid (?s f) \<in> rid ` rows R t" using findOne_mem [OF found] by simp
  obtain b v where b: "saveR R (?s f) t = (Inr b, v)" using save_total [OF k] by blast
  have k': "rid (?s e) \<in> rid ` rows R v" using save_keys [OF b k] findOne_mem [OF found] by simp
  obtain a u where a: "saveR R (?s e) v = (Inr a, u)" using save_total [OF k'] by blast
  let ?p = "\<lambda>e. rescue (call (saveR R (?s e)) (\<lambda>_. Done (Inr ()))) (\<lambda>_. ())"
  have steps: "advance_task 0 ([listen_task R now e, q], t) = ([?p e, q], t)"
    "advance_task 1 ([q, listen_task R now f], t) = ([q, ?p f], t)"
    "advance_task 1 ([q, ?p f], t) = ([q, Done (Inr ())], v)"
    "advance_task 0 ([?p e, q], v) = ([Done (Inr ()), q], u)" for q
    using found events a b by (simp_all add: advance_task_def listen_task_def handle_task_def look_def call_def)
  have "interleave [0, 1, 1, 0] ([listen_task R now e, listen_task R now f], t) = ([Done (Inr ()), Done (Inr ())], u)"
    by (simp only: interleave_simps steps)
  moreover have "{x \<in> rows R u. rid x = rid r} = {a}" "rdata a = admin_of_event now e"
    using save_ok [OF a k'] by auto
  ultimately show ?thesis by blast
qed

end

text \<open>
  Two role changes of one account that are handled at once can leave the older role in the
  portal for good: the listener of the first event saves after that of the second, both end
  without an error, and the one row of the account is that of the first event.
\<close>

theorem late_event_lost:
  assumes "reliable_repository R" and "findOneR R (au_of_keycloak uid) t = Some r"
    and "ev_keycloakUserId e = uid" and "ev_keycloakUserId f = uid"
    and "ev_roleName e \<in> set ADMIN_PORTAL_ROLES" and "ev_roleName f \<in> set ADMIN_PORTAL_ROLES"
  shows "\<exists>a u. interleave [0, 1, 1, 0] ([listen_task R now e, listen_task R now f], t) = ([Done (Inr ()), Done (Inr ())], u)
    \<and> {x \<in> rows R u. rid x = rid r} = {a} \<and> rdata a = admin_of_event now e"
proof -
  have "admin_repository R"
    by (intro admin_repository.intro reliable_repository.axioms(1) [OF assms(1)])
  from admin_repository.race_loses_event [OF this assms] show ?thesis .
qed

theorem late_event_example:
  "let e = \<lparr>ev_employeeId = ''e1'', ev_keycloakUserId = ''k1'', ev_username = ''asha'', ev_email = ''a@b'',
         ev_firstName = ''A'', ev_lastName = ''B'', ev_roleId = ''r1'', ev_roleName = ''BANK_MAKER'', ev_isActive = True\<rparr>;
       f = e\<lparr>ev_roleId := ''r2'', ev_roleName := ''BANK_ADMIN''\<rparr>;
       t = snd (au_listen (mem_repo no_conf) 1 e mem_empty);
       u = snd (interleave [0, 1, 1, 0] ([listen_task (mem_repo no_conf) 2 e, listen_task (mem_repo no_conf) 2 f], t))
   in map (\<lambda>r. au_roleName (rdata r)) (live u) = [''BANK_MAKER'']
      \<and> map (\<lambda>r. au_roleName (rdata r)) (live (snd (au_sync (mem_repo no_conf) 2 [e, f] t))) = [''BANK_ADMIN'']"
  by code_simp

end
