(* ===== verification/Nest_Modules.thy ===== *)
theory Nest_Modules
  imports Main
begin

text \<open>
  The modules of the application as the container of NestJS sees them: what each imports,
  provides and exports, and what the constructors ask for. The application can start only if
  every dependency can be resolved and none depends on itself.
\<close>

subsection \<open>Names\<close>

text \<open>The classes that can be injected; the last ones belong to libraries.\<close>

datatype auth_class =
    CorporateHierarchyController | CorporateHierarchyService | CredentialController | CredentialService
    | DeviceController | DeviceService | KeycloakService | OtpController | OtpService
    | RegistrationCompensationService | RegistrationOrchestratorService | RegistrationController
    | RegistrationService | AuthController

datatype rbac_class =
    EmployeesController | PermissionsController | RolesController | UsersController | SuperadminGuard
    | EmployeesService | PermissionsService | RolesService | UsersAccessService

datatype admin_class =
    AdminUserSyncListener | AdminUserController | AdminUserService | AuthorizationRulesController
    | AuthorizationRulesService | ReportExportService | TransactionProvider | ReportingController
    | ReportingService

datatype bill_class =
    BillController | BillService | BillerController | BillerService | BbpsCatalogSeeder | MockBbpsAdapter
    | PaymentController | PaymentService | BillScheduleController | BillScheduleService | BBPS_ADAPTER

datatype client_class =
    AuditOutboxRelayJob | AuditOutboxRepository | AuditClient | CbsClient | NotificationClient
    | InternalEventBusService

datatype common_class =
    ChecksumGuard | IdorGuard | KeycloakAuthGuard | RolesGuard | HealthController
    | ChecksumSigningInterceptor | IdempotencyKeyInterceptor | LoggingInterceptor
    | ResponseTransformInterceptor | TemplatesController | TemplatesService | BankConfigService
    | TenantContextMiddleware | KeycloakConnectConfigService

datatype lib_class =
    AuthGuard | RoleGuard | ConfigService | EventEmitter2 | Reflector | HttpService | HealthCheckService
    | TypeOrmHealthIndicator

datatype class_name = Auth auth_class | Rbac rbac_class | Admin admin_class | Bill bill_class
  | Client client_class | Common common_class | Lib lib_class

text \<open>The entities and the modules, those of the libraries at the end.\<close>

datatype entity_name =
    AuditOutbox | NotificationTemplate | AdminUser | AuthorizationRule | AuthorizationRuleHistory
    | CorporateHierarchy | Credential | DeviceProfile | OtpChallenge | RegistrationAttempt | MockBill
    | BillerRegistration | DemoBbpsData | BillPayment | BillSchedule | BillScheduleExecution | Employee
    | EmployeeUserRole | Permission | Role | RolePermission | DelegatedRole | NotificationTemplateHistory

datatype nest_name =
    App_module | Auth_module | Rbac_module | Admin_module | BillPayment_module
    | InternalEventBus_module | AuditOutbox_module | Templates_module | Config_module | TypeOrm_module
    | KeycloakConnect_module | Terminus_module | Schedule_module | Http_module | EventEmitter_module

datatype token = Class class_name | Repository entity_name

subsection \<open>Modules\<close>

text \<open>
  \<open>nm_repositories\<close> are the entities of \<open>TypeOrmModule.forFeature\<close>, each of which provides a
  repository; an import that is not a module of the application belongs to a library.
\<close>

record nest_module =
  nm_name :: nest_name
  nm_imports :: "nest_name list"
  nm_repositories :: "entity_name list"
  nm_controllers :: "class_name list"
  nm_providers :: "class_name list"
  nm_exports :: "class_name list"

definition AuthModule_metadata :: nest_module where
  "AuthModule_metadata = \<lparr>nm_name = Auth_module,
     nm_imports = [Http_module],
     nm_repositories = [RegistrationAttempt, Credential, DeviceProfile, CorporateHierarchy, OtpChallenge],
     nm_controllers = [Auth RegistrationController, Auth CredentialController, Auth DeviceController,
       Auth CorporateHierarchyController, Auth OtpController, Auth AuthController],
     nm_providers = [Auth RegistrationService, Auth RegistrationOrchestratorService,
       Auth RegistrationCompensationService, Auth CredentialService, Auth DeviceService,
       Auth CorporateHierarchyService, Auth OtpService, Auth KeycloakService],
     nm_exports = [Auth KeycloakService]\<rparr>"

definition RbacModule_metadata :: nest_module where
  "RbacModule_metadata = \<lparr>nm_name = Rbac_module,
     nm_imports = [Auth_module, InternalEventBus_module],
     nm_repositories = [Role, Permission, RolePermission, Employee, EmployeeUserRole, DelegatedRole],
     nm_controllers = [Rbac RolesController, Rbac PermissionsController, Rbac EmployeesController,
       Rbac UsersController],
     nm_providers = [Rbac RolesService, Rbac PermissionsService, Rbac EmployeesService, Rbac UsersAccessService,
       Rbac SuperadminGuard],
     nm_exports = []\<rparr>"

definition AdminModule_metadata :: nest_module where
  "AdminModule_metadata = \<lparr>nm_name = Admin_module,
     nm_imports = [InternalEventBus_module],
     nm_repositories = [AdminUser, AuthorizationRule, AuthorizationRuleHistory],
     nm_controllers = [Admin AdminUserController, Admin AuthorizationRulesController, Admin ReportingController],
     nm_providers = [Admin AdminUserService, Admin AdminUserSyncListener, Admin AuthorizationRulesService,
       Admin ReportingService, Admin TransactionProvider, Admin ReportExportService],
     nm_exports = []\<rparr>"

definition BillPaymentModule_metadata :: nest_module where
  "BillPaymentModule_metadata = \<lparr>nm_name = BillPayment_module,
     nm_imports = [],
     nm_repositories = [BillerRegistration, BillPayment, BillSchedule, BillScheduleExecution, MockBill,
       DemoBbpsData],
     nm_controllers = [Bill BillerController, Bill PaymentController, Bill BillController,
       Bill BillScheduleController],
     nm_providers = [Bill BillerService, Bill PaymentService, Bill BillScheduleService, Bill BillService,
       Bill BbpsCatalogSeeder, Bill MockBbpsAdapter, Bill BBPS_ADAPTER],
     nm_exports = [Bill PaymentService]\<rparr>"

definition InternalEventBusModule_metadata :: nest_module where
  "InternalEventBusModule_metadata = \<lparr>nm_name = InternalEventBus_module,
     nm_imports = [EventEmitter_module],
     nm_repositories = [],
     nm_controllers = [],
     nm_providers = [Client InternalEventBusService],
     nm_exports = [Client InternalEventBusService]\<rparr>"

definition AuditOutboxModule_metadata :: nest_module where
  "AuditOutboxModule_metadata = \<lparr>nm_name = AuditOutbox_module,
     nm_imports = [Http_module],
     nm_repositories = [AuditOutbox],
     nm_controllers = [],
     nm_providers = [Client AuditOutboxRepository, Client AuditOutboxRelayJob, Client AuditClient],
     nm_exports = [Client AuditOutboxRepository]\<rparr>"

definition TemplatesModule_metadata :: nest_module where
  "TemplatesModule_metadata = \<lparr>nm_name = Templates_module,
     nm_imports = [],
     nm_repositories = [NotificationTemplate, NotificationTemplateHistory],
     nm_controllers = [Common TemplatesController],
     nm_providers = [Common TemplatesService],
     nm_exports = [Common TemplatesService]\<rparr>"

text \<open>The two global guards are those of the service or, outside mock mode, those of nest-keycloak-connect.\<close>

definition authGuardProviders :: "bool \<Rightarrow> class_name list" where
  "authGuardProviders mock = (if mock then [Common KeycloakAuthGuard, Common RolesGuard] else [Lib AuthGuard, Lib RoleGuard])"

definition AppModule_metadata :: "bool \<Rightarrow> nest_module" where
  "AppModule_metadata mock = \<lparr>nm_name = App_module,
     nm_imports = [Config_module, TypeOrm_module, KeycloakConnect_module, Terminus_module, Schedule_module,
       Auth_module, Rbac_module, Admin_module, BillPayment_module, InternalEventBus_module, AuditOutbox_module],
     nm_repositories = [],
     nm_controllers = [Common HealthController],
     nm_providers = authGuardProviders mock @ [Common BankConfigService],
     nm_exports = []\<rparr>"

definition all_modules :: "bool \<Rightarrow> nest_module list" where
  "all_modules mock = [AppModule_metadata mock, AuthModule_metadata, RbacModule_metadata, AdminModule_metadata,
       BillPaymentModule_metadata, InternalEventBusModule_metadata, AuditOutboxModule_metadata,
       TemplatesModule_metadata]"

subsection \<open>Constructors\<close>

text \<open>What the constructor of a class asks for; the classes without an entry ask for nothing.\<close>

definition AuditOutboxRelayJob_injects :: "token list" where
  "AuditOutboxRelayJob_injects = [Class (Client AuditOutboxRepository), Class (Client AuditClient)]"

definition AuditOutboxRepository_injects :: "token list" where
  "AuditOutboxRepository_injects = [Repository AuditOutbox]"

definition AuditClient_injects :: "token list" where
  "AuditClient_injects = [Class (Lib HttpService)]"

definition CbsClient_injects :: "token list" where
  "CbsClient_injects = [Class (Lib HttpService)]"

definition NotificationClient_injects :: "token list" where
  "NotificationClient_injects = [Class (Lib HttpService)]"

definition ChecksumGuard_injects :: "token list" where
  "ChecksumGuard_injects = [Class (Lib ConfigService)]"

definition KeycloakAuthGuard_injects :: "token list" where
  "KeycloakAuthGuard_injects = [Class (Lib Reflector)]"

definition RolesGuard_injects :: "token list" where
  "RolesGuard_injects = [Class (Lib Reflector)]"

definition HealthController_injects :: "token list" where
  "HealthController_injects = [Class (Lib HealthCheckService), Class (Lib TypeOrmHealthIndicator)]"

definition ChecksumSigningInterceptor_injects :: "token list" where
  "ChecksumSigningInterceptor_injects = [Class (Lib ConfigService)]"

definition TemplatesController_injects :: "token list" where
  "TemplatesController_injects = [Class (Common TemplatesService)]"

definition TemplatesService_injects :: "token list" where
  "TemplatesService_injects = [Repository NotificationTemplate]"

definition BankConfigService_injects :: "token list" where
  "BankConfigService_injects = [Class (Lib ConfigService)]"

definition TenantContextMiddleware_injects :: "token list" where
  "TenantContextMiddleware_injects = [Class (Common BankConfigService)]"

definition KeycloakConnectConfigService_injects :: "token list" where
  "KeycloakConnectConfigService_injects = [Class (Lib ConfigService)]"

definition InternalEventBusService_injects :: "token list" where
  "InternalEventBusService_injects = [Class (Lib EventEmitter2)]"

definition AdminUserSyncListener_injects :: "token list" where
  "AdminUserSyncListener_injects = [Repository AdminUser, Class (Client InternalEventBusService)]"

definition AdminUserController_injects :: "token list" where
  "AdminUserController_injects = [Class (Admin AdminUserService)]"

definition AdminUserService_injects :: "token list" where
  "AdminUserService_injects = [Repository AdminUser]"

definition AuthorizationRulesController_injects :: "token list" where
  "AuthorizationRulesController_injects = [Class (Admin AuthorizationRulesService)]"

definition AuthorizationRulesService_injects :: "token list" where
  "AuthorizationRulesService_injects = [Repository AuthorizationRule, Repository AuthorizationRuleHistory]"

definition ReportingController_injects :: "token list" where
  "ReportingController_injects = [Class (Admin ReportingService), Class (Admin ReportExportService)]"

definition ReportingService_injects :: "token list" where
  "ReportingService_injects = [Class (Admin TransactionProvider)]"

definition CorporateHierarchyController_injects :: "token list" where
  "CorporateHierarchyController_injects = [Class (Auth CorporateHierarchyService)]"

definition CorporateHierarchyService_injects :: "token list" where
  "CorporateHierarchyService_injects = [Repository CorporateHierarchy]"

definition CredentialController_injects :: "token list" where
  "CredentialController_injects = [Class (Auth CredentialService)]"

definition CredentialService_injects :: "token list" where
  "CredentialService_injects = [Repository Credential, Class (Auth KeycloakService)]"

definition DeviceController_injects :: "token list" where
  "DeviceController_injects = [Class (Auth DeviceService)]"

definition DeviceService_injects :: "token list" where
  "DeviceService_injects = [Repository DeviceProfile]"

definition KeycloakService_injects :: "token list" where
  "KeycloakService_injects = [Class (Lib ConfigService), Class (Lib HttpService)]"

definition OtpController_injects :: "token list" where
  "OtpController_injects = [Class (Auth OtpService)]"

definition OtpService_injects :: "token list" where
  "OtpService_injects = [Repository OtpChallenge]"

definition RegistrationCompensationService_injects :: "token list" where
  "RegistrationCompensationService_injects = [Repository RegistrationAttempt, Class (Auth KeycloakService),
       Class (Auth DeviceService), Class (Auth CredentialService)]"

definition RegistrationOrchestratorService_injects :: "token list" where
  "RegistrationOrchestratorService_injects = [Repository RegistrationAttempt,
       Class (Auth RegistrationCompensationService)]"

definition RegistrationController_injects :: "token list" where
  "RegistrationController_injects = [Class (Auth RegistrationService),
       Class (Auth RegistrationOrchestratorService)]"

definition RegistrationService_injects :: "token list" where
  "RegistrationService_injects = [Repository RegistrationAttempt, Class (Auth RegistrationOrchestratorService),
       Class (Auth OtpService), Class (Auth KeycloakService), Class (Auth DeviceService)]"

definition AuthController_injects :: "token list" where
  "AuthController_injects = [Class (Auth KeycloakService)]"

definition BillController_injects :: "token list" where
  "BillController_injects = [Class (Bill BillService)]"

definition BillService_injects :: "token list" where
  "BillService_injects = [Repository MockBill, Repository BillerRegistration, Repository DemoBbpsData]"

definition BillerController_injects :: "token list" where
  "BillerController_injects = [Class (Bill BillerService)]"

definition BillerService_injects :: "token list" where
  "BillerService_injects = [Repository BillerRegistration]"

definition BbpsCatalogSeeder_injects :: "token list" where
  "BbpsCatalogSeeder_injects = [Repository BillerRegistration, Repository MockBill, Repository DemoBbpsData]"

definition PaymentController_injects :: "token list" where
  "PaymentController_injects = [Class (Bill PaymentService)]"

definition PaymentService_injects :: "token list" where
  "PaymentService_injects = [Repository BillPayment, Repository MockBill, Repository DemoBbpsData,
       Class (Bill BBPS_ADAPTER)]"

definition BillScheduleController_injects :: "token list" where
  "BillScheduleController_injects = [Class (Bill BillScheduleService)]"

definition BillScheduleService_injects :: "token list" where
  "BillScheduleService_injects = [Repository BillSchedule, Repository BillScheduleExecution]"

definition EmployeesController_injects :: "token list" where
  "EmployeesController_injects = [Class (Rbac EmployeesService)]"

definition PermissionsController_injects :: "token list" where
  "PermissionsController_injects = [Class (Rbac PermissionsService)]"

definition RolesController_injects :: "token list" where
  "RolesController_injects = [Class (Rbac RolesService)]"

definition UsersController_injects :: "token list" where
  "UsersController_injects = [Class (Rbac UsersAccessService)]"

definition EmployeesService_injects :: "token list" where
  "EmployeesService_injects = [Repository Employee, Repository EmployeeUserRole, Class (Rbac RolesService),
       Class (Auth KeycloakService), Class (Client InternalEventBusService)]"

definition PermissionsService_injects :: "token list" where
  "PermissionsService_injects = [Repository Permission]"

definition RolesService_injects :: "token list" where
  "RolesService_injects = [Repository Role, Repository Permission, Repository RolePermission,
       Repository DelegatedRole, Class (Auth KeycloakService)]"

definition UsersAccessService_injects :: "token list" where
  "UsersAccessService_injects = [Repository Employee, Repository EmployeeUserRole, Repository Role,
       Repository RolePermission, Class (Auth KeycloakService)]"

fun injects :: "class_name \<Rightarrow> token list" where
  "injects (Client AuditOutboxRelayJob) = AuditOutboxRelayJob_injects"
| "injects (Client AuditOutboxRepository) = AuditOutboxRepository_injects"
| "injects (Client AuditClient) = AuditClient_injects"
| "injects (Client CbsClient) = CbsClient_injects"
| "injects (Client NotificationClient) = NotificationClient_injects"
| "injects (Common ChecksumGuard) = ChecksumGuard_injects"
| "injects (Common KeycloakAuthGuard) = KeycloakAuthGuard_injects"
| "injects (Common RolesGuard) = RolesGuard_injects"
| "injects (Common HealthController) = HealthController_injects"
| "injects (Common ChecksumSigningInterceptor) = ChecksumSigningInterceptor_injects"
| "injects (Common TemplatesController) = TemplatesController_injects"
| "injects (Common TemplatesService) = TemplatesService_injects"
| "injects (Common BankConfigService) = BankConfigService_injects"
| "injects (Common TenantContextMiddleware) = TenantContextMiddleware_injects"
| "injects (Common KeycloakConnectConfigService) = KeycloakConnectConfigService_injects"
| "injects (Client InternalEventBusService) = InternalEventBusService_injects"
| "injects (Admin AdminUserSyncListener) = AdminUserSyncListener_injects"
| "injects (Admin AdminUserController) = AdminUserController_injects"
| "injects (Admin AdminUserService) = AdminUserService_injects"
| "injects (Admin AuthorizationRulesController) = AuthorizationRulesController_injects"
| "injects (Admin AuthorizationRulesService) = AuthorizationRulesService_injects"
| "injects (Admin ReportingController) = ReportingController_injects"
| "injects (Admin ReportingService) = ReportingService_injects"
| "injects (Auth CorporateHierarchyController) = CorporateHierarchyController_injects"
| "injects (Auth CorporateHierarchyService) = CorporateHierarchyService_injects"
| "injects (Auth CredentialController) = CredentialController_injects"
| "injects (Auth CredentialService) = CredentialService_injects"
| "injects (Auth DeviceController) = DeviceController_injects"
| "injects (Auth DeviceService) = DeviceService_injects"
| "injects (Auth KeycloakService) = KeycloakService_injects"
| "injects (Auth OtpController) = OtpController_injects"
| "injects (Auth OtpService) = OtpService_injects"
| "injects (Auth RegistrationCompensationService) = RegistrationCompensationService_injects"
| "injects (Auth RegistrationOrchestratorService) = RegistrationOrchestratorService_injects"
| "injects (Auth RegistrationController) = RegistrationController_injects"
| "injects (Auth RegistrationService) = RegistrationService_injects"
| "injects (Auth AuthController) = AuthController_injects"
| "injects (Bill BillController) = BillController_injects"
| "injects (Bill BillService) = BillService_injects"
| "injects (Bill BillerController) = BillerController_injects"
| "injects (Bill BillerService) = BillerService_injects"
| "injects (Bill BbpsCatalogSeeder) = BbpsCatalogSeeder_injects"
| "injects (Bill PaymentController) = PaymentController_injects"
| "injects (Bill PaymentService) = PaymentService_injects"
| "injects (Bill BillScheduleController) = BillScheduleController_injects"
| "injects (Bill BillScheduleService) = BillScheduleService_injects"
| "injects (Rbac EmployeesController) = EmployeesController_injects"
| "injects (Rbac PermissionsController) = PermissionsController_injects"
| "injects (Rbac RolesController) = RolesController_injects"
| "injects (Rbac UsersController) = UsersController_injects"
| "injects (Rbac EmployeesService) = EmployeesService_injects"
| "injects (Rbac PermissionsService) = PermissionsService_injects"
| "injects (Rbac RolesService) = RolesService_injects"
| "injects (Rbac UsersAccessService) = UsersAccessService_injects"
| "injects (Bill BBPS_ADAPTER) = [Class (Bill MockBbpsAdapter)]"
| "injects _ = []"

subsection \<open>Resolution\<close>

text \<open>
  A library module is given by what it exports, and the global modules by what they provide.
  A class finds what its module provides, what the repositories are for, what the imported
  modules export and what is global.
\<close>

definition exported :: "nest_module list \<Rightarrow> (nest_name \<Rightarrow> class_name list) \<Rightarrow> nest_name \<Rightarrow> class_name list" where
  "exported ms lib n = (case find (\<lambda>m. nm_name m = n) ms of None \<Rightarrow> lib n | Some m \<Rightarrow> nm_exports m)"

definition visible ::
  "nest_module list \<Rightarrow> (nest_name \<Rightarrow> class_name list) \<Rightarrow> class_name list \<Rightarrow> nest_module \<Rightarrow> token list" where
  "visible ms lib global m = map Class (nm_providers m @ concat (map (exported ms lib) (nm_imports m)) @ global)
     @ map Repository (nm_repositories m)"

definition unresolved ::
  "nest_module list \<Rightarrow> (nest_name \<Rightarrow> class_name list) \<Rightarrow> class_name list \<Rightarrow> nest_module \<Rightarrow> (class_name \<times> token) list" where
  "unresolved ms lib global m = (let vs = visible ms lib global m in
     filter (\<lambda>(c, t). t \<notin> set vs) (concat (map (\<lambda>c. map (Pair c) (injects c)) (nm_controllers m @ nm_providers m))))"

text \<open>An order in which the classes can be built: none asks for itself or for one that comes later.\<close>

fun builds_in_order :: "class_name list \<Rightarrow> bool" where
  "builds_in_order [] = True"
| "builds_in_order (c # cs) \<longleftrightarrow> list_all (\<lambda>t. t \<notin> set (map Class (c # cs))) (injects c) \<and> builds_in_order cs"

definition registered :: "bool \<Rightarrow> nest_module \<Rightarrow> bool" where
  "registered mock m \<longleftrightarrow> nm_name m = App_module \<or> nm_name m \<in> set (nm_imports (AppModule_metadata mock))"

definition registered_classes :: "bool \<Rightarrow> class_name list" where
  "registered_classes mock =
     concat (map (\<lambda>m. nm_controllers m @ nm_providers m) (filter (registered mock) (all_modules mock)))"

definition build_order :: "bool \<Rightarrow> class_name list" where
  "build_order mock = authGuardProviders mock @
     [Common HealthController, Common BankConfigService, Auth KeycloakService, Auth DeviceService,
       Auth CredentialService,
     Auth RegistrationCompensationService, Auth RegistrationOrchestratorService, Auth OtpService,
     Auth RegistrationService, Auth RegistrationController, Auth CredentialController, Auth DeviceController,
     Auth CorporateHierarchyService, Auth CorporateHierarchyController, Auth OtpController, Auth AuthController,
     Rbac RolesService, Rbac RolesController, Rbac PermissionsService, Rbac PermissionsController,
     Client InternalEventBusService, Rbac EmployeesService, Rbac EmployeesController, Rbac UsersAccessService,
     Rbac UsersController, Rbac SuperadminGuard, Admin AdminUserService, Admin AdminUserController,
     Admin AuthorizationRulesService, Admin AuthorizationRulesController, Admin TransactionProvider,
     Admin ReportingService, Admin ReportExportService, Admin ReportingController, Admin AdminUserSyncListener,
     Bill BillerService, Bill BillerController, Bill MockBbpsAdapter, Bill BBPS_ADAPTER, Bill PaymentService,
     Bill PaymentController, Bill BillService, Bill BillController, Bill BillScheduleService,
       Bill BillScheduleController,
     Bill BbpsCatalogSeeder, Client AuditOutboxRepository, Client AuditClient, Client AuditOutboxRelayJob]"

lemma visible_mono:
  assumes "\<And>n. set (lib n) \<subseteq> set (lib' n)" and "set global \<subseteq> set global'"
  shows "set (visible ms lib global m) \<subseteq> set (visible ms lib' global' m)"
proof -
  have "set (exported ms lib n) \<subseteq> set (exported ms lib' n)" for n
    using assms(1) by (auto simp: exported_def split: option.splits)
  then show ?thesis using assms(2) by (fastforce simp: visible_def)
qed

lemma unresolved_mono:
  assumes "\<And>n. set (lib n) \<subseteq> set (lib' n)" and "set global \<subseteq> set global'" and "unresolved ms lib global m = []"
  shows "unresolved ms lib' global' m = []"
  using visible_mono [where lib = lib and lib' = lib' and ms = ms and m = m, OF assms(1,2)] assms(3)
  by (fastforce simp: unresolved_def Let_def filter_empty_conv)

text \<open>The least that the libraries have to offer.\<close>

definition least_lib :: "nest_name \<Rightarrow> class_name list" where
  "least_lib n = (if n = Http_module then [Lib HttpService]
     else if n = Terminus_module then [Lib HealthCheckService, Lib TypeOrmHealthIndicator] else [])"

definition least_global :: "class_name list" where
  "least_global = [Lib ConfigService, Lib EventEmitter2, Lib Reflector]"

lemma least_resolved:
  "list_all (\<lambda>m. unresolved (all_modules True) least_lib least_global m = []) (all_modules True)"
  "list_all (\<lambda>m. unresolved (all_modules False) least_lib least_global m = []) (all_modules False)"
  by code_simp+

lemma build_order_ok:
  "builds_in_order (build_order True)" "set (registered_classes True) = set (build_order True)"
  "builds_in_order (build_order False)" "set (registered_classes False) = set (build_order False)"
  by code_simp+

text \<open>
  The application can be put together, with its own guards and with those of the library:
  if the libraries offer what they document, every dependency of every controller and provider
  is provided in its module, exported to it or global; and there is an order in which the
  registered classes can be built, so that none depends on itself.
\<close>

theorem application_starts:
  assumes "Lib HttpService \<in> set (lib Http_module)"
    and "Lib HealthCheckService \<in> set (lib Terminus_module)" and "Lib TypeOrmHealthIndicator \<in> set (lib Terminus_module)"
    and "Lib ConfigService \<in> set global" and "Lib EventEmitter2 \<in> set global" and "Lib Reflector \<in> set global"
  shows "(\<forall>m \<in> set (all_modules mock). unresolved (all_modules mock) lib global m = [])
    \<and> (\<exists>cs. builds_in_order cs \<and> set cs = set (registered_classes mock))"
proof
  have "unresolved (all_modules mock) lib global m = []" if "m \<in> set (all_modules mock)" for m
  proof (rule unresolved_mono)
    show "set (least_lib n) \<subseteq> set (lib n)" for n using assms(1-3) by (auto simp: least_lib_def)
    show "set least_global \<subseteq> set global" using assms(4-6) by (simp add: least_global_def)
    show "unresolved (all_modules mock) least_lib least_global m = []"
      using least_resolved that by (cases mock) (simp_all add: list_all_iff)
  qed
  then show "\<forall>m \<in> set (all_modules mock). unresolved (all_modules mock) lib global m = []" by simp
  show "\<exists>cs. builds_in_order cs \<and> set cs = set (registered_classes mock)"
    using build_order_ok by (cases mock) metis+
qed

text \<open>
  The classes that no registered module knows, although they ask to be injected; and the audit
  outbox, which only its own relay job reads: no class that could write an event has it.
\<close>

lemma unused_classes:
  "filter (\<lambda>c. c \<notin> set (registered_classes True))
     [Client CbsClient, Client NotificationClient, Client AuditClient, Common ChecksumGuard,
       Common ChecksumSigningInterceptor, Common TemplatesController, Common TemplatesService]
   = [Client CbsClient, Client NotificationClient, Common ChecksumGuard, Common ChecksumSigningInterceptor,
       Common TemplatesController, Common TemplatesService]"
  by code_simp

lemma outbox_without_writer:
  "filter (\<lambda>c. Class (Client AuditOutboxRepository) \<in> set (injects c) \<or> Repository AuditOutbox \<in> set (injects c))
     (registered_classes True) = [Client AuditOutboxRepository, Client AuditOutboxRelayJob]"
  by code_simp

end
