(* ===== verification/Source_Files.thy ===== *)
theory Source_Files
  imports Main
begin

text \<open>
  The source files of the service (tests apart) and the modules their import statements name,
  in the order of the statements: other files, by their constructor, and packages. A type-only
  import counts too; the compiler leaves it out of the program, so what is loaded when the
  service runs is a part of this graph.
\<close>

subsection \<open>Files and packages\<close>

text \<open>The entry, the root module and the configuration.\<close>

datatype root_file =
    App_module_ts | Api_path_config_ts | App_config_ts | Database_config_ts
  | Keycloak_connect_config_ts | Config_Keycloak_config_ts | Main_ts

text \<open>common: decorators, guards, interceptors and DTOs.\<close>

datatype common_file =
    Error_codes_constant_ts | Idempotency_constants_ts
  | Notification_template_keys_constant_ts | Regex_constant_ts | Auth_decorator_ts | Current_user_decorator_ts
  | Idempotency_key_decorator_ts | Base_response_dto_ts | Id_request_dto_ts | Pagination_dto_ts
  | Http_exception_filter_ts | Checksum_guard_ts | Idor_guard_ts | Keycloak_auth_guard_ts | Roles_guard_ts
  | Health_controller_ts | Checksum_signing_interceptor_ts | Idempotency_key_interceptor_ts
  | Logging_interceptor_ts | Response_transform_interceptor_ts | Authenticated_user_interface_ts

text \<open>common: entities, templates, tenant, resilience, utilities.\<close>

datatype support_file =
    Soft_delete_entity_ts | Normalize_bearer_middleware_ts
  | Resilient_http_client_factory_ts | Api_audience_constants_ts | Swagger_document_util_ts
  | Create_template_dto_ts | Notification_template_history_entity_ts | Notification_template_entity_ts
  | Templates_controller_ts | Templates_module_ts | Templates_service_ts | Bank_config_service_ts
  | Tenant_context_middleware_ts | Date_util_ts | Masking_util_ts

text \<open>The clients and the event bus.\<close>

datatype service_file =
    Audit_outbox_relay_job_ts | Audit_outbox_entity_ts | Audit_outbox_module_ts
  | Audit_outbox_repository_ts | Audit_client_ts | Cbs_client_ts | Notification_client_ts | Event_log_entity_ts
  | Internal_event_bus_module_ts | Internal_event_bus_service_ts

text \<open>modules/auth: credentials, devices, hierarchy, Keycloak.\<close>

datatype auth_file =
    Auth_module_ts | Corporate_hierarchy_controller_ts | Corporate_hierarchy_service_ts
  | Set_hierarchy_role_dto_ts | Corporate_hierarchy_entity_ts | Credential_controller_ts | Credential_service_ts
  | Get_credential_dto_ts | Set_credential_dto_ts | Verify_credential_dto_ts | Credential_entity_ts
  | Mpin_hash_util_ts | Device_controller_ts | Device_service_ts | Register_device_dto_ts
  | Device_profile_entity_ts | User_deactivated_event_ts | User_registered_event_ts
  | Modules_auth_keycloak_Keycloak_config_ts | Keycloak_service_ts | Mock_users_const_ts
  | M1789030000000_AddRegistrationSagaColumns_ts

text \<open>modules/auth: one-time passwords, registration, tokens.\<close>

datatype login_file =
    Generate_otp_dto_ts | Verify_otp_dto_ts | Otp_challenge_entity_ts | Otp_controller_ts
  | Otp_service_ts | Create_credentials_dto_ts | Init_registration_dto_ts | Register_attempt_device_dto_ts
  | Verify_registration_otp_dto_ts | Registration_attempt_entity_ts | Registration_compensation_service_ts
  | Registration_orchestrator_service_ts | Registration_controller_ts | Registration_service_ts
  | Auth_controller_ts | Login_dto_ts | Logout_dto_ts | Signup_dto_ts | Token_login_response_dto_ts
  | Token_response_dto_ts

text \<open>modules/bill-payment: bills, billers and the catalog.\<close>

datatype bill_file =
    Bill_payment_module_ts | Bill_controller_ts | Fetch_bill_dto_ts | Mock_bill_entity_ts
  | Bill_service_ts | Biller_controller_ts | Biller_service_ts | Create_biller_dto_ts
  | List_billers_query_dto_ts | Biller_registration_entity_ts | Bbps_catalog_const_ts | Bbps_catalog_seeder_ts
  | Bbps_access_util_ts | Demo_bbps_data_seeder_ts | Demo_bbps_data_entity_ts | Bill_payment_completed_event_ts
  | M1788780440681_InitialBillPayment_ts | M1788784048534_AddConsumerAndBillNumber_ts
  | M1788844566220_UpdateBillPaymentAmount_ts | M1788849842117_AddIdempotencyKey_ts
  | M1788851200000_AddKeycloakUserIdToBbps_ts | M1788852000000_AddScheduleStatusAndExecution_ts

text \<open>modules/bill-payment: payments and schedules.\<close>

datatype payment_file =
    Bbps_adapter_ts | Mock_bbps_adapter_ts | Create_payment_dto_ts
  | Bill_payment_entity_ts | Payment_controller_ts | Payment_service_ts | Bill_schedule_controller_ts
  | Bill_schedule_service_ts | Create_bill_schedule_dto_ts | Bill_schedule_execution_entity_ts
  | Bill_schedule_entity_ts | Schedule_status_constant_ts

text \<open>modules/admin.\<close>

datatype admin_file =
    Admin_user_sync_listener_ts | Admin_user_controller_ts | Admin_user_service_ts
  | List_admin_users_dto_ts | Admin_user_entity_ts | Admin_module_ts | Authorization_rules_controller_ts
  | Authorization_rules_service_ts | Create_authorization_rule_dto_ts | Update_authorization_rule_dto_ts
  | Authorization_rule_history_entity_ts | Authorization_rule_entity_ts | Admin_action_audited_event_ts
  | M1788856000000_CreateAdminModuleTables_ts | Report_export_dto_ts | Report_query_dto_ts
  | Report_export_service_ts | Transaction_provider_ts | Reporting_controller_ts | Reporting_service_ts

text \<open>modules/rbac.\<close>

datatype rbac_file =
    Rbac_constants_ts | Employees_controller_ts | Permissions_controller_ts
  | Roles_controller_ts | Users_controller_ts | Employee_dto_ts | Fetch_access_details_dto_ts
  | Permission_dto_ts | Role_dto_ts | Delegated_role_entity_ts | Employee_user_role_entity_ts
  | Employee_entity_ts | Permission_entity_ts | Role_permission_entity_ts | Role_entity_ts
  | Employee_account_synced_event_ts | Superadmin_guard_ts | Rbac_module_ts | Employees_service_ts
  | Permissions_service_ts | Roles_service_ts | Users_access_service_ts

datatype package =
    Nestjs_axios_pkg | Nestjs_common_pkg | Nestjs_config_pkg | Nestjs_core_pkg
  | Nestjs_event_emitter_pkg | Nestjs_schedule_pkg | Nestjs_swagger_pkg | Nestjs_terminus_pkg
  | Nestjs_typeorm_pkg | Axios_pkg | Class_transformer_pkg | Class_validator_pkg | Crypto_pkg | Csv_writer_pkg
  | Dotenv_config_pkg | Exceljs_pkg | Express_pkg | Helmet_pkg | Nest_keycloak_connect_pkg | Opossum_pkg
  | Pdfkit_pkg | Rxjs_pkg | Rxjs_operators_pkg | Typeorm_pkg

datatype source =
    Root_src root_file | Common_src common_file | Support_src support_file
  | Services_src service_file | Auth_src auth_file | Login_src login_file | Bill_src bill_file
  | Payment_src payment_file | Admin_src admin_file | Rbac_src rbac_file | Pkg package

subsection \<open>The entry, the root module and the configuration.\<close>

definition app_module_imports :: "source list" where
  "app_module_imports =
    [Pkg Nestjs_common_pkg, Pkg Nestjs_config_pkg, Pkg Nestjs_typeorm_pkg, Pkg Nestjs_terminus_pkg,
     Pkg Nestjs_schedule_pkg, Pkg Nestjs_core_pkg, Pkg Nest_keycloak_connect_pkg, Pkg Typeorm_pkg,
     Root_src App_config_ts, Root_src Database_config_ts, Root_src Config_Keycloak_config_ts,
     Root_src Keycloak_connect_config_ts, Auth_src Auth_module_ts, Rbac_src Rbac_module_ts,
     Admin_src Admin_module_ts, Bill_src Bill_payment_module_ts, Common_src Health_controller_ts,
     Services_src Internal_event_bus_module_ts, Services_src Audit_outbox_module_ts,
     Common_src Keycloak_auth_guard_ts, Common_src Roles_guard_ts, Support_src Tenant_context_middleware_ts,
     Support_src Bank_config_service_ts]"

definition app_config_imports :: "source list" where
  "app_config_imports =
    [Pkg Nestjs_config_pkg, Root_src Api_path_config_ts]"

definition database_config_imports :: "source list" where
  "database_config_imports =
    [Pkg Nestjs_config_pkg, Pkg Typeorm_pkg]"

definition keycloak_connect_config_imports :: "source list" where
  "keycloak_connect_config_imports =
    [Pkg Nestjs_common_pkg, Pkg Nestjs_config_pkg, Pkg Nest_keycloak_connect_pkg]"

definition config_Keycloak_config_imports :: "source list" where
  "config_Keycloak_config_imports =
    [Pkg Nestjs_config_pkg]"

definition main_imports :: "source list" where
  "main_imports =
    [Pkg Dotenv_config_pkg, Pkg Nestjs_core_pkg, Pkg Helmet_pkg, Pkg Nestjs_common_pkg, Pkg Nestjs_swagger_pkg,
     Root_src App_module_ts, Common_src Http_exception_filter_ts, Support_src Normalize_bearer_middleware_ts,
     Common_src Logging_interceptor_ts, Common_src Response_transform_interceptor_ts,
     Root_src Api_path_config_ts, Support_src Swagger_document_util_ts]"

primrec root_imports :: "root_file \<Rightarrow> source list" where
  "root_imports App_module_ts = app_module_imports"
| "root_imports Api_path_config_ts = []"
| "root_imports App_config_ts = app_config_imports"
| "root_imports Database_config_ts = database_config_imports"
| "root_imports Keycloak_connect_config_ts = keycloak_connect_config_imports"
| "root_imports Config_Keycloak_config_ts = config_Keycloak_config_imports"
| "root_imports Main_ts = main_imports"

lemmas root_import_defs = app_module_imports_def app_config_imports_def database_config_imports_def
  keycloak_connect_config_imports_def config_Keycloak_config_imports_def main_imports_def

subsection \<open>common: decorators, guards, interceptors and DTOs.\<close>

definition auth_decorator_imports :: "source list" where
  "auth_decorator_imports =
    [Pkg Nestjs_common_pkg, Pkg Nestjs_swagger_pkg, Pkg Nest_keycloak_connect_pkg]"

definition current_user_decorator_imports :: "source list" where
  "current_user_decorator_imports =
    [Pkg Nestjs_common_pkg]"

definition idempotency_key_decorator_imports :: "source list" where
  "idempotency_key_decorator_imports =
    [Pkg Nestjs_common_pkg, Pkg Nestjs_swagger_pkg, Common_src Idempotency_constants_ts,
     Common_src Idempotency_key_interceptor_ts]"

definition id_request_dto_imports :: "source list" where
  "id_request_dto_imports =
    [Pkg Nestjs_swagger_pkg, Pkg Class_validator_pkg]"

definition pagination_dto_imports :: "source list" where
  "pagination_dto_imports =
    [Pkg Class_validator_pkg, Pkg Class_transformer_pkg]"

definition http_exception_filter_imports :: "source list" where
  "http_exception_filter_imports =
    [Pkg Nestjs_common_pkg, Pkg Express_pkg]"

definition checksum_guard_imports :: "source list" where
  "checksum_guard_imports =
    [Pkg Nestjs_common_pkg, Pkg Nestjs_config_pkg, Pkg Crypto_pkg]"

definition idor_guard_imports :: "source list" where
  "idor_guard_imports =
    [Pkg Nestjs_common_pkg]"

definition keycloak_auth_guard_imports :: "source list" where
  "keycloak_auth_guard_imports =
    [Pkg Nestjs_common_pkg, Pkg Nestjs_core_pkg, Auth_src Mock_users_const_ts]"

definition roles_guard_imports :: "source list" where
  "roles_guard_imports =
    [Pkg Nestjs_common_pkg, Pkg Nestjs_core_pkg]"

definition health_controller_imports :: "source list" where
  "health_controller_imports =
    [Pkg Nestjs_common_pkg, Pkg Nestjs_swagger_pkg, Pkg Nestjs_terminus_pkg, Pkg Nest_keycloak_connect_pkg]"

definition checksum_signing_interceptor_imports :: "source list" where
  "checksum_signing_interceptor_imports =
    [Pkg Nestjs_common_pkg, Pkg Nestjs_config_pkg, Pkg Crypto_pkg, Pkg Rxjs_pkg, Pkg Rxjs_operators_pkg]"

definition idempotency_key_interceptor_imports :: "source list" where
  "idempotency_key_interceptor_imports =
    [Pkg Nestjs_common_pkg, Pkg Rxjs_pkg, Common_src Idempotency_constants_ts]"

definition logging_interceptor_imports :: "source list" where
  "logging_interceptor_imports =
    [Pkg Nestjs_common_pkg, Pkg Rxjs_pkg, Pkg Rxjs_operators_pkg, Support_src Masking_util_ts]"

definition response_transform_interceptor_imports :: "source list" where
  "response_transform_interceptor_imports =
    [Pkg Nestjs_common_pkg, Pkg Rxjs_pkg, Pkg Rxjs_operators_pkg, Common_src Base_response_dto_ts]"

primrec common_imports :: "common_file \<Rightarrow> source list" where
  "common_imports Error_codes_constant_ts = []"
| "common_imports Idempotency_constants_ts = []"
| "common_imports Notification_template_keys_constant_ts = []"
| "common_imports Regex_constant_ts = []"
| "common_imports Auth_decorator_ts = auth_decorator_imports"
| "common_imports Current_user_decorator_ts = current_user_decorator_imports"
| "common_imports Idempotency_key_decorator_ts = idempotency_key_decorator_imports"
| "common_imports Base_response_dto_ts = []"
| "common_imports Id_request_dto_ts = id_request_dto_imports"
| "common_imports Pagination_dto_ts = pagination_dto_imports"
| "common_imports Http_exception_filter_ts = http_exception_filter_imports"
| "common_imports Checksum_guard_ts = checksum_guard_imports"
| "common_imports Idor_guard_ts = idor_guard_imports"
| "common_imports Keycloak_auth_guard_ts = keycloak_auth_guard_imports"
| "common_imports Roles_guard_ts = roles_guard_imports"
| "common_imports Health_controller_ts = health_controller_imports"
| "common_imports Checksum_signing_interceptor_ts = checksum_signing_interceptor_imports"
| "common_imports Idempotency_key_interceptor_ts = idempotency_key_interceptor_imports"
| "common_imports Logging_interceptor_ts = logging_interceptor_imports"
| "common_imports Response_transform_interceptor_ts = response_transform_interceptor_imports"
| "common_imports Authenticated_user_interface_ts = []"

lemmas common_import_defs = auth_decorator_imports_def current_user_decorator_imports_def
  idempotency_key_decorator_imports_def id_request_dto_imports_def pagination_dto_imports_def
  http_exception_filter_imports_def checksum_guard_imports_def idor_guard_imports_def
  keycloak_auth_guard_imports_def roles_guard_imports_def health_controller_imports_def
  checksum_signing_interceptor_imports_def idempotency_key_interceptor_imports_def
  logging_interceptor_imports_def response_transform_interceptor_imports_def

subsection \<open>common: entities, templates, tenant, resilience, utilities.\<close>

definition soft_delete_entity_imports :: "source list" where
  "soft_delete_entity_imports =
    [Pkg Typeorm_pkg]"

definition normalize_bearer_middleware_imports :: "source list" where
  "normalize_bearer_middleware_imports =
    [Pkg Express_pkg]"

definition resilient_http_client_factory_imports :: "source list" where
  "resilient_http_client_factory_imports =
    [Pkg Nestjs_axios_pkg, Pkg Opossum_pkg]"

definition swagger_document_util_imports :: "source list" where
  "swagger_document_util_imports =
    [Pkg Nestjs_swagger_pkg]"

definition create_template_dto_imports :: "source list" where
  "create_template_dto_imports =
    [Pkg Class_validator_pkg]"

definition notification_template_history_entity_imports :: "source list" where
  "notification_template_history_entity_imports =
    [Pkg Typeorm_pkg]"

definition notification_template_entity_imports :: "source list" where
  "notification_template_entity_imports =
    [Pkg Typeorm_pkg]"

definition templates_controller_imports :: "source list" where
  "templates_controller_imports =
    [Pkg Nestjs_common_pkg, Pkg Nestjs_swagger_pkg, Common_src Auth_decorator_ts,
     Support_src Templates_service_ts, Support_src Create_template_dto_ts]"

definition templates_module_imports :: "source list" where
  "templates_module_imports =
    [Pkg Nestjs_common_pkg, Pkg Nestjs_typeorm_pkg, Support_src Templates_controller_ts,
     Support_src Templates_service_ts, Support_src Notification_template_entity_ts,
     Support_src Notification_template_history_entity_ts]"

definition templates_service_imports :: "source list" where
  "templates_service_imports =
    [Pkg Nestjs_common_pkg, Pkg Nestjs_typeorm_pkg, Pkg Typeorm_pkg,
     Support_src Notification_template_entity_ts]"

definition bank_config_service_imports :: "source list" where
  "bank_config_service_imports =
    [Pkg Nestjs_common_pkg, Pkg Nestjs_config_pkg]"

definition tenant_context_middleware_imports :: "source list" where
  "tenant_context_middleware_imports =
    [Pkg Nestjs_common_pkg, Pkg Express_pkg, Support_src Bank_config_service_ts]"

primrec support_imports :: "support_file \<Rightarrow> source list" where
  "support_imports Soft_delete_entity_ts = soft_delete_entity_imports"
| "support_imports Normalize_bearer_middleware_ts = normalize_bearer_middleware_imports"
| "support_imports Resilient_http_client_factory_ts = resilient_http_client_factory_imports"
| "support_imports Api_audience_constants_ts = []"
| "support_imports Swagger_document_util_ts = swagger_document_util_imports"
| "support_imports Create_template_dto_ts = create_template_dto_imports"
| "support_imports Notification_template_history_entity_ts = notification_template_history_entity_imports"
| "support_imports Notification_template_entity_ts = notification_template_entity_imports"
| "support_imports Templates_controller_ts = templates_controller_imports"
| "support_imports Templates_module_ts = templates_module_imports"
| "support_imports Templates_service_ts = templates_service_imports"
| "support_imports Bank_config_service_ts = bank_config_service_imports"
| "support_imports Tenant_context_middleware_ts = tenant_context_middleware_imports"
| "support_imports Date_util_ts = []"
| "support_imports Masking_util_ts = []"

lemmas support_import_defs = soft_delete_entity_imports_def normalize_bearer_middleware_imports_def
  resilient_http_client_factory_imports_def swagger_document_util_imports_def create_template_dto_imports_def
  notification_template_history_entity_imports_def notification_template_entity_imports_def
  templates_controller_imports_def templates_module_imports_def templates_service_imports_def
  bank_config_service_imports_def tenant_context_middleware_imports_def

subsection \<open>The clients and the event bus.\<close>

definition audit_outbox_relay_job_imports :: "source list" where
  "audit_outbox_relay_job_imports =
    [Pkg Nestjs_common_pkg, Pkg Nestjs_schedule_pkg, Services_src Audit_outbox_repository_ts,
     Services_src Audit_client_ts]"

definition audit_outbox_entity_imports :: "source list" where
  "audit_outbox_entity_imports =
    [Pkg Typeorm_pkg]"

definition audit_outbox_module_imports :: "source list" where
  "audit_outbox_module_imports =
    [Pkg Nestjs_common_pkg, Pkg Nestjs_axios_pkg, Pkg Nestjs_typeorm_pkg, Services_src Audit_outbox_entity_ts,
     Services_src Audit_outbox_repository_ts, Services_src Audit_outbox_relay_job_ts,
     Services_src Audit_client_ts]"

definition audit_outbox_repository_imports :: "source list" where
  "audit_outbox_repository_imports =
    [Pkg Nestjs_common_pkg, Pkg Nestjs_typeorm_pkg, Pkg Typeorm_pkg, Services_src Audit_outbox_entity_ts]"

definition audit_client_imports :: "source list" where
  "audit_client_imports =
    [Pkg Nestjs_common_pkg, Pkg Nestjs_axios_pkg, Pkg Opossum_pkg, Pkg Rxjs_pkg,
     Support_src Resilient_http_client_factory_ts]"

definition cbs_client_imports :: "source list" where
  "cbs_client_imports =
    [Pkg Nestjs_common_pkg, Pkg Nestjs_axios_pkg, Pkg Opossum_pkg, Pkg Rxjs_pkg,
     Support_src Resilient_http_client_factory_ts]"

definition notification_client_imports :: "source list" where
  "notification_client_imports =
    [Pkg Nestjs_common_pkg, Pkg Nestjs_axios_pkg, Pkg Opossum_pkg, Pkg Rxjs_pkg,
     Support_src Resilient_http_client_factory_ts]"

definition event_log_entity_imports :: "source list" where
  "event_log_entity_imports =
    [Pkg Typeorm_pkg]"

definition internal_event_bus_module_imports :: "source list" where
  "internal_event_bus_module_imports =
    [Pkg Nestjs_common_pkg, Pkg Nestjs_event_emitter_pkg, Services_src Internal_event_bus_service_ts]"

definition internal_event_bus_service_imports :: "source list" where
  "internal_event_bus_service_imports =
    [Pkg Nestjs_common_pkg, Pkg Nestjs_event_emitter_pkg]"

primrec service_imports :: "service_file \<Rightarrow> source list" where
  "service_imports Audit_outbox_relay_job_ts = audit_outbox_relay_job_imports"
| "service_imports Audit_outbox_entity_ts = audit_outbox_entity_imports"
| "service_imports Audit_outbox_module_ts = audit_outbox_module_imports"
| "service_imports Audit_outbox_repository_ts = audit_outbox_repository_imports"
| "service_imports Audit_client_ts = audit_client_imports"
| "service_imports Cbs_client_ts = cbs_client_imports"
| "service_imports Notification_client_ts = notification_client_imports"
| "service_imports Event_log_entity_ts = event_log_entity_imports"
| "service_imports Internal_event_bus_module_ts = internal_event_bus_module_imports"
| "service_imports Internal_event_bus_service_ts = internal_event_bus_service_imports"

lemmas service_import_defs = audit_outbox_relay_job_imports_def audit_outbox_entity_imports_def
  audit_outbox_module_imports_def audit_outbox_repository_imports_def audit_client_imports_def
  cbs_client_imports_def notification_client_imports_def event_log_entity_imports_def
  internal_event_bus_module_imports_def internal_event_bus_service_imports_def

subsection \<open>modules/auth: credentials, devices, hierarchy, Keycloak.\<close>

definition auth_module_imports :: "source list" where
  "auth_module_imports =
    [Pkg Nestjs_common_pkg, Pkg Nestjs_axios_pkg, Pkg Nestjs_typeorm_pkg, Login_src Registration_controller_ts,
     Login_src Registration_service_ts, Login_src Registration_orchestrator_service_ts,
     Login_src Registration_compensation_service_ts, Login_src Registration_attempt_entity_ts,
     Auth_src Credential_controller_ts, Auth_src Credential_service_ts, Auth_src Credential_entity_ts,
     Auth_src Device_controller_ts, Auth_src Device_service_ts, Auth_src Device_profile_entity_ts,
     Auth_src Corporate_hierarchy_controller_ts, Login_src Auth_controller_ts,
     Auth_src Corporate_hierarchy_service_ts, Auth_src Corporate_hierarchy_entity_ts,
     Login_src Otp_controller_ts, Login_src Otp_service_ts, Login_src Otp_challenge_entity_ts,
     Auth_src Keycloak_service_ts]"

definition corporate_hierarchy_controller_imports :: "source list" where
  "corporate_hierarchy_controller_imports =
    [Pkg Nestjs_common_pkg, Pkg Nestjs_swagger_pkg, Common_src Auth_decorator_ts, Common_src Id_request_dto_ts,
     Auth_src Corporate_hierarchy_service_ts, Auth_src Set_hierarchy_role_dto_ts]"

definition corporate_hierarchy_service_imports :: "source list" where
  "corporate_hierarchy_service_imports =
    [Pkg Nestjs_common_pkg, Pkg Nestjs_typeorm_pkg, Pkg Typeorm_pkg, Auth_src Corporate_hierarchy_entity_ts,
     Auth_src Set_hierarchy_role_dto_ts]"

definition set_hierarchy_role_dto_imports :: "source list" where
  "set_hierarchy_role_dto_imports =
    [Pkg Nestjs_swagger_pkg, Pkg Class_validator_pkg]"

definition corporate_hierarchy_entity_imports :: "source list" where
  "corporate_hierarchy_entity_imports =
    [Pkg Typeorm_pkg, Support_src Soft_delete_entity_ts]"

definition credential_controller_imports :: "source list" where
  "credential_controller_imports =
    [Pkg Nestjs_common_pkg, Pkg Nestjs_swagger_pkg, Pkg Nest_keycloak_connect_pkg,
     Common_src Auth_decorator_ts, Support_src Api_audience_constants_ts, Common_src Idor_guard_ts,
     Auth_src Credential_service_ts, Auth_src Get_credential_dto_ts, Auth_src Set_credential_dto_ts,
     Auth_src Verify_credential_dto_ts]"

definition credential_service_imports :: "source list" where
  "credential_service_imports =
    [Pkg Nestjs_common_pkg, Pkg Nestjs_typeorm_pkg, Pkg Typeorm_pkg, Auth_src Keycloak_service_ts,
     Auth_src Get_credential_dto_ts, Auth_src Set_credential_dto_ts, Auth_src Credential_entity_ts,
     Auth_src Mpin_hash_util_ts]"

definition get_credential_dto_imports :: "source list" where
  "get_credential_dto_imports =
    [Pkg Nestjs_swagger_pkg, Pkg Class_validator_pkg]"

definition set_credential_dto_imports :: "source list" where
  "set_credential_dto_imports =
    [Pkg Nestjs_swagger_pkg, Pkg Class_validator_pkg]"

definition verify_credential_dto_imports :: "source list" where
  "verify_credential_dto_imports =
    [Pkg Nestjs_swagger_pkg, Pkg Class_validator_pkg]"

definition credential_entity_imports :: "source list" where
  "credential_entity_imports =
    [Pkg Typeorm_pkg, Support_src Soft_delete_entity_ts]"

definition mpin_hash_util_imports :: "source list" where
  "mpin_hash_util_imports =
    [Pkg Crypto_pkg]"

definition device_controller_imports :: "source list" where
  "device_controller_imports =
    [Pkg Nestjs_common_pkg, Pkg Nestjs_swagger_pkg, Common_src Auth_decorator_ts, Common_src Id_request_dto_ts,
     Auth_src Device_service_ts, Auth_src Register_device_dto_ts]"

definition device_service_imports :: "source list" where
  "device_service_imports =
    [Pkg Nestjs_common_pkg, Pkg Nestjs_typeorm_pkg, Pkg Typeorm_pkg, Auth_src Device_profile_entity_ts,
     Auth_src Register_device_dto_ts]"

definition register_device_dto_imports :: "source list" where
  "register_device_dto_imports =
    [Pkg Nestjs_swagger_pkg, Pkg Class_validator_pkg]"

definition device_profile_entity_imports :: "source list" where
  "device_profile_entity_imports =
    [Pkg Typeorm_pkg, Support_src Soft_delete_entity_ts]"

definition modules_auth_keycloak_Keycloak_config_imports :: "source list" where
  "modules_auth_keycloak_Keycloak_config_imports =
    [Pkg Nestjs_config_pkg]"

definition keycloak_service_imports :: "source list" where
  "keycloak_service_imports =
    [Pkg Nestjs_axios_pkg, Pkg Nestjs_common_pkg, Pkg Nestjs_config_pkg, Pkg Axios_pkg, Pkg Rxjs_pkg,
     Login_src Login_dto_ts, Login_src Logout_dto_ts, Login_src Signup_dto_ts, Login_src Token_response_dto_ts,
     Auth_src Mock_users_const_ts]"

definition m1789030000000_AddRegistrationSagaColumns_imports :: "source list" where
  "m1789030000000_AddRegistrationSagaColumns_imports =
    [Pkg Typeorm_pkg]"

primrec auth_imports :: "auth_file \<Rightarrow> source list" where
  "auth_imports Auth_module_ts = auth_module_imports"
| "auth_imports Corporate_hierarchy_controller_ts = corporate_hierarchy_controller_imports"
| "auth_imports Corporate_hierarchy_service_ts = corporate_hierarchy_service_imports"
| "auth_imports Set_hierarchy_role_dto_ts = set_hierarchy_role_dto_imports"
| "auth_imports Corporate_hierarchy_entity_ts = corporate_hierarchy_entity_imports"
| "auth_imports Credential_controller_ts = credential_controller_imports"
| "auth_imports Credential_service_ts = credential_service_imports"
| "auth_imports Get_credential_dto_ts = get_credential_dto_imports"
| "auth_imports Set_credential_dto_ts = set_credential_dto_imports"
| "auth_imports Verify_credential_dto_ts = verify_credential_dto_imports"
| "auth_imports Credential_entity_ts = credential_entity_imports"
| "auth_imports Mpin_hash_util_ts = mpin_hash_util_imports"
| "auth_imports Device_controller_ts = device_controller_imports"
| "auth_imports Device_service_ts = device_service_imports"
| "auth_imports Register_device_dto_ts = register_device_dto_imports"
| "auth_imports Device_profile_entity_ts = device_profile_entity_imports"
| "auth_imports User_deactivated_event_ts = []"
| "auth_imports User_registered_event_ts = []"
| "auth_imports Modules_auth_keycloak_Keycloak_config_ts = modules_auth_keycloak_Keycloak_config_imports"
| "auth_imports Keycloak_service_ts = keycloak_service_imports"
| "auth_imports Mock_users_const_ts = []"
| "auth_imports M1789030000000_AddRegistrationSagaColumns_ts = m1789030000000_AddRegistrationSagaColumns_imports"

lemmas auth_import_defs = auth_module_imports_def corporate_hierarchy_controller_imports_def
  corporate_hierarchy_service_imports_def set_hierarchy_role_dto_imports_def
  corporate_hierarchy_entity_imports_def credential_controller_imports_def credential_service_imports_def
  get_credential_dto_imports_def set_credential_dto_imports_def verify_credential_dto_imports_def
  credential_entity_imports_def mpin_hash_util_imports_def device_controller_imports_def
  device_service_imports_def register_device_dto_imports_def device_profile_entity_imports_def
  modules_auth_keycloak_Keycloak_config_imports_def keycloak_service_imports_def
  m1789030000000_AddRegistrationSagaColumns_imports_def

subsection \<open>modules/auth: one-time passwords, registration, tokens.\<close>

definition generate_otp_dto_imports :: "source list" where
  "generate_otp_dto_imports =
    [Pkg Nestjs_swagger_pkg, Pkg Class_validator_pkg, Common_src Regex_constant_ts]"

definition verify_otp_dto_imports :: "source list" where
  "verify_otp_dto_imports =
    [Pkg Nestjs_swagger_pkg, Pkg Class_validator_pkg, Common_src Regex_constant_ts]"

definition otp_challenge_entity_imports :: "source list" where
  "otp_challenge_entity_imports =
    [Pkg Typeorm_pkg, Support_src Soft_delete_entity_ts]"

definition otp_controller_imports :: "source list" where
  "otp_controller_imports =
    [Pkg Nestjs_common_pkg, Pkg Nestjs_swagger_pkg, Pkg Nest_keycloak_connect_pkg,
     Common_src Auth_decorator_ts, Common_src Id_request_dto_ts, Login_src Otp_service_ts,
     Login_src Generate_otp_dto_ts, Login_src Verify_otp_dto_ts]"

definition otp_service_imports :: "source list" where
  "otp_service_imports =
    [Pkg Nestjs_common_pkg, Pkg Nestjs_typeorm_pkg, Pkg Crypto_pkg, Pkg Typeorm_pkg,
     Login_src Otp_challenge_entity_ts, Login_src Generate_otp_dto_ts, Login_src Verify_otp_dto_ts,
     Support_src Date_util_ts]"

definition create_credentials_dto_imports :: "source list" where
  "create_credentials_dto_imports =
    [Pkg Nestjs_swagger_pkg, Pkg Class_validator_pkg]"

definition init_registration_dto_imports :: "source list" where
  "init_registration_dto_imports =
    [Pkg Nestjs_swagger_pkg, Pkg Class_validator_pkg, Common_src Regex_constant_ts]"

definition register_attempt_device_dto_imports :: "source list" where
  "register_attempt_device_dto_imports =
    [Pkg Nestjs_swagger_pkg, Pkg Class_validator_pkg]"

definition verify_registration_otp_dto_imports :: "source list" where
  "verify_registration_otp_dto_imports =
    [Pkg Nestjs_swagger_pkg, Pkg Class_validator_pkg, Common_src Regex_constant_ts]"

definition registration_attempt_entity_imports :: "source list" where
  "registration_attempt_entity_imports =
    [Pkg Typeorm_pkg, Support_src Soft_delete_entity_ts]"

definition registration_compensation_service_imports :: "source list" where
  "registration_compensation_service_imports =
    [Pkg Nestjs_common_pkg, Pkg Nestjs_typeorm_pkg, Pkg Typeorm_pkg,
     Login_src Registration_orchestrator_service_ts, Login_src Registration_attempt_entity_ts,
     Auth_src Keycloak_service_ts, Auth_src Device_service_ts, Auth_src Credential_service_ts]"

definition registration_orchestrator_service_imports :: "source list" where
  "registration_orchestrator_service_imports =
    [Pkg Nestjs_common_pkg, Pkg Nestjs_typeorm_pkg, Pkg Typeorm_pkg, Login_src Registration_attempt_entity_ts,
     Login_src Registration_compensation_service_ts]"

definition registration_controller_imports :: "source list" where
  "registration_controller_imports =
    [Pkg Nestjs_common_pkg, Pkg Nestjs_swagger_pkg, Pkg Nest_keycloak_connect_pkg,
     Common_src Auth_decorator_ts, Support_src Api_audience_constants_ts, Common_src Id_request_dto_ts,
     Login_src Registration_service_ts, Login_src Registration_orchestrator_service_ts,
     Login_src Init_registration_dto_ts, Login_src Verify_registration_otp_dto_ts,
     Login_src Create_credentials_dto_ts, Login_src Register_attempt_device_dto_ts]"

definition registration_service_imports :: "source list" where
  "registration_service_imports =
    [Pkg Nestjs_common_pkg, Pkg Nestjs_typeorm_pkg, Pkg Typeorm_pkg, Login_src Registration_attempt_entity_ts,
     Login_src Init_registration_dto_ts, Login_src Verify_registration_otp_dto_ts,
     Login_src Create_credentials_dto_ts, Login_src Register_attempt_device_dto_ts,
     Login_src Registration_orchestrator_service_ts, Login_src Otp_service_ts, Auth_src Keycloak_service_ts,
     Auth_src Device_service_ts]"

definition auth_controller_imports :: "source list" where
  "auth_controller_imports =
    [Pkg Nestjs_common_pkg, Pkg Nestjs_swagger_pkg, Pkg Nest_keycloak_connect_pkg,
     Common_src Auth_decorator_ts, Auth_src Keycloak_service_ts, Login_src Login_dto_ts,
     Login_src Logout_dto_ts, Login_src Signup_dto_ts, Login_src Token_login_response_dto_ts]"

definition login_dto_imports :: "source list" where
  "login_dto_imports =
    [Pkg Nestjs_swagger_pkg, Pkg Class_validator_pkg]"

definition logout_dto_imports :: "source list" where
  "logout_dto_imports =
    [Pkg Nestjs_swagger_pkg, Pkg Class_validator_pkg]"

definition signup_dto_imports :: "source list" where
  "signup_dto_imports =
    [Pkg Nestjs_swagger_pkg, Pkg Class_validator_pkg]"

definition token_login_response_dto_imports :: "source list" where
  "token_login_response_dto_imports =
    [Pkg Nestjs_swagger_pkg, Login_src Token_response_dto_ts]"

definition token_response_dto_imports :: "source list" where
  "token_response_dto_imports =
    [Pkg Nestjs_swagger_pkg]"

primrec login_imports :: "login_file \<Rightarrow> source list" where
  "login_imports Generate_otp_dto_ts = generate_otp_dto_imports"
| "login_imports Verify_otp_dto_ts = verify_otp_dto_imports"
| "login_imports Otp_challenge_entity_ts = otp_challenge_entity_imports"
| "login_imports Otp_controller_ts = otp_controller_imports"
| "login_imports Otp_service_ts = otp_service_imports"
| "login_imports Create_credentials_dto_ts = create_credentials_dto_imports"
| "login_imports Init_registration_dto_ts = init_registration_dto_imports"
| "login_imports Register_attempt_device_dto_ts = register_attempt_device_dto_imports"
| "login_imports Verify_registration_otp_dto_ts = verify_registration_otp_dto_imports"
| "login_imports Registration_attempt_entity_ts = registration_attempt_entity_imports"
| "login_imports Registration_compensation_service_ts = registration_compensation_service_imports"
| "login_imports Registration_orchestrator_service_ts = registration_orchestrator_service_imports"
| "login_imports Registration_controller_ts = registration_controller_imports"
| "login_imports Registration_service_ts = registration_service_imports"
| "login_imports Auth_controller_ts = auth_controller_imports"
| "login_imports Login_dto_ts = login_dto_imports"
| "login_imports Logout_dto_ts = logout_dto_imports"
| "login_imports Signup_dto_ts = signup_dto_imports"
| "login_imports Token_login_response_dto_ts = token_login_response_dto_imports"
| "login_imports Token_response_dto_ts = token_response_dto_imports"

lemmas login_import_defs = generate_otp_dto_imports_def verify_otp_dto_imports_def
  otp_challenge_entity_imports_def otp_controller_imports_def otp_service_imports_def
  create_credentials_dto_imports_def init_registration_dto_imports_def register_attempt_device_dto_imports_def
  verify_registration_otp_dto_imports_def registration_attempt_entity_imports_def
  registration_compensation_service_imports_def registration_orchestrator_service_imports_def
  registration_controller_imports_def registration_service_imports_def auth_controller_imports_def
  login_dto_imports_def logout_dto_imports_def signup_dto_imports_def token_login_response_dto_imports_def
  token_response_dto_imports_def

subsection \<open>modules/bill-payment: bills, billers and the catalog.\<close>

definition bill_payment_module_imports :: "source list" where
  "bill_payment_module_imports =
    [Pkg Nestjs_common_pkg, Pkg Nestjs_typeorm_pkg, Bill_src Biller_controller_ts, Bill_src Biller_service_ts,
     Bill_src Biller_registration_entity_ts, Payment_src Payment_controller_ts, Payment_src Payment_service_ts,
     Payment_src Bill_payment_entity_ts, Payment_src Bill_schedule_controller_ts,
     Payment_src Bill_schedule_service_ts, Payment_src Bill_schedule_entity_ts,
     Payment_src Bill_schedule_execution_entity_ts, Bill_src Mock_bill_entity_ts, Bill_src Bill_controller_ts,
     Bill_src Bill_service_ts, Payment_src Bbps_adapter_ts, Payment_src Mock_bbps_adapter_ts,
     Bill_src Demo_bbps_data_entity_ts, Bill_src Bbps_catalog_seeder_ts]"

definition bill_controller_imports :: "source list" where
  "bill_controller_imports =
    [Pkg Nestjs_common_pkg, Pkg Nestjs_swagger_pkg, Common_src Auth_decorator_ts, Rbac_src Rbac_constants_ts,
     Bill_src Bill_service_ts, Bill_src Fetch_bill_dto_ts]"

definition fetch_bill_dto_imports :: "source list" where
  "fetch_bill_dto_imports =
    [Pkg Class_validator_pkg]"

definition mock_bill_entity_imports :: "source list" where
  "mock_bill_entity_imports =
    [Pkg Typeorm_pkg]"

definition bill_service_imports :: "source list" where
  "bill_service_imports =
    [Pkg Nestjs_common_pkg, Pkg Nestjs_typeorm_pkg, Pkg Typeorm_pkg, Bill_src Mock_bill_entity_ts,
     Bill_src Biller_registration_entity_ts, Bill_src Demo_bbps_data_entity_ts, Bill_src Fetch_bill_dto_ts]"

definition biller_controller_imports :: "source list" where
  "biller_controller_imports =
    [Pkg Nestjs_common_pkg, Pkg Nestjs_swagger_pkg, Common_src Auth_decorator_ts, Rbac_src Rbac_constants_ts,
     Bill_src Biller_service_ts, Bill_src Create_biller_dto_ts, Bill_src List_billers_query_dto_ts]"

definition biller_service_imports :: "source list" where
  "biller_service_imports =
    [Pkg Nestjs_common_pkg, Pkg Nestjs_typeorm_pkg, Pkg Typeorm_pkg, Bill_src Bbps_catalog_const_ts,
     Bill_src Biller_registration_entity_ts]"

definition create_biller_dto_imports :: "source list" where
  "create_biller_dto_imports =
    [Pkg Class_validator_pkg]"

definition list_billers_query_dto_imports :: "source list" where
  "list_billers_query_dto_imports =
    [Pkg Nestjs_swagger_pkg, Pkg Class_validator_pkg]"

definition biller_registration_entity_imports :: "source list" where
  "biller_registration_entity_imports =
    [Pkg Typeorm_pkg]"

definition bbps_catalog_seeder_imports :: "source list" where
  "bbps_catalog_seeder_imports =
    [Pkg Nestjs_common_pkg, Pkg Nestjs_typeorm_pkg, Pkg Typeorm_pkg, Bill_src Bbps_catalog_const_ts,
     Bill_src Biller_registration_entity_ts, Bill_src Mock_bill_entity_ts, Bill_src Demo_bbps_data_entity_ts]"

definition bbps_access_util_imports :: "source list" where
  "bbps_access_util_imports =
    [Pkg Nestjs_common_pkg, Rbac_src Rbac_constants_ts]"

definition demo_bbps_data_entity_imports :: "source list" where
  "demo_bbps_data_entity_imports =
    [Pkg Typeorm_pkg]"

definition m1788780440681_InitialBillPayment_imports :: "source list" where
  "m1788780440681_InitialBillPayment_imports =
    [Pkg Typeorm_pkg]"

definition m1788784048534_AddConsumerAndBillNumber_imports :: "source list" where
  "m1788784048534_AddConsumerAndBillNumber_imports =
    [Pkg Typeorm_pkg]"

definition m1788844566220_UpdateBillPaymentAmount_imports :: "source list" where
  "m1788844566220_UpdateBillPaymentAmount_imports =
    [Pkg Typeorm_pkg]"

definition m1788849842117_AddIdempotencyKey_imports :: "source list" where
  "m1788849842117_AddIdempotencyKey_imports =
    [Pkg Typeorm_pkg]"

definition m1788851200000_AddKeycloakUserIdToBbps_imports :: "source list" where
  "m1788851200000_AddKeycloakUserIdToBbps_imports =
    [Pkg Typeorm_pkg]"

definition m1788852000000_AddScheduleStatusAndExecution_imports :: "source list" where
  "m1788852000000_AddScheduleStatusAndExecution_imports =
    [Pkg Typeorm_pkg]"

primrec bill_imports :: "bill_file \<Rightarrow> source list" where
  "bill_imports Bill_payment_module_ts = bill_payment_module_imports"
| "bill_imports Bill_controller_ts = bill_controller_imports"
| "bill_imports Fetch_bill_dto_ts = fetch_bill_dto_imports"
| "bill_imports Mock_bill_entity_ts = mock_bill_entity_imports"
| "bill_imports Bill_service_ts = bill_service_imports"
| "bill_imports Biller_controller_ts = biller_controller_imports"
| "bill_imports Biller_service_ts = biller_service_imports"
| "bill_imports Create_biller_dto_ts = create_biller_dto_imports"
| "bill_imports List_billers_query_dto_ts = list_billers_query_dto_imports"
| "bill_imports Biller_registration_entity_ts = biller_registration_entity_imports"
| "bill_imports Bbps_catalog_const_ts = []"
| "bill_imports Bbps_catalog_seeder_ts = bbps_catalog_seeder_imports"
| "bill_imports Bbps_access_util_ts = bbps_access_util_imports"
| "bill_imports Demo_bbps_data_seeder_ts = []"
| "bill_imports Demo_bbps_data_entity_ts = demo_bbps_data_entity_imports"
| "bill_imports Bill_payment_completed_event_ts = []"
| "bill_imports M1788780440681_InitialBillPayment_ts = m1788780440681_InitialBillPayment_imports"
| "bill_imports M1788784048534_AddConsumerAndBillNumber_ts = m1788784048534_AddConsumerAndBillNumber_imports"
| "bill_imports M1788844566220_UpdateBillPaymentAmount_ts = m1788844566220_UpdateBillPaymentAmount_imports"
| "bill_imports M1788849842117_AddIdempotencyKey_ts = m1788849842117_AddIdempotencyKey_imports"
| "bill_imports M1788851200000_AddKeycloakUserIdToBbps_ts = m1788851200000_AddKeycloakUserIdToBbps_imports"
| "bill_imports M1788852000000_AddScheduleStatusAndExecution_ts = m1788852000000_AddScheduleStatusAndExecution_imports"

lemmas bill_import_defs = bill_payment_module_imports_def bill_controller_imports_def fetch_bill_dto_imports_def
  mock_bill_entity_imports_def bill_service_imports_def biller_controller_imports_def biller_service_imports_def
  create_biller_dto_imports_def list_billers_query_dto_imports_def biller_registration_entity_imports_def
  bbps_catalog_seeder_imports_def bbps_access_util_imports_def demo_bbps_data_entity_imports_def
  m1788780440681_InitialBillPayment_imports_def m1788784048534_AddConsumerAndBillNumber_imports_def
  m1788844566220_UpdateBillPaymentAmount_imports_def m1788849842117_AddIdempotencyKey_imports_def
  m1788851200000_AddKeycloakUserIdToBbps_imports_def m1788852000000_AddScheduleStatusAndExecution_imports_def

subsection \<open>modules/bill-payment: payments and schedules.\<close>

definition mock_bbps_adapter_imports :: "source list" where
  "mock_bbps_adapter_imports =
    [Pkg Nestjs_common_pkg, Payment_src Bbps_adapter_ts]"

definition create_payment_dto_imports :: "source list" where
  "create_payment_dto_imports =
    [Pkg Nestjs_swagger_pkg, Pkg Class_validator_pkg]"

definition bill_payment_entity_imports :: "source list" where
  "bill_payment_entity_imports =
    [Pkg Typeorm_pkg]"

definition payment_controller_imports :: "source list" where
  "payment_controller_imports =
    [Pkg Nestjs_common_pkg, Pkg Nestjs_swagger_pkg, Pkg Nest_keycloak_connect_pkg,
     Common_src Auth_decorator_ts, Common_src Idempotency_key_decorator_ts, Common_src Id_request_dto_ts,
     Rbac_src Rbac_constants_ts, Payment_src Payment_service_ts, Payment_src Create_payment_dto_ts]"

definition payment_service_imports :: "source list" where
  "payment_service_imports =
    [Pkg Nestjs_common_pkg, Pkg Nestjs_typeorm_pkg, Pkg Typeorm_pkg, Payment_src Bill_payment_entity_ts,
     Bill_src Mock_bill_entity_ts, Bill_src Demo_bbps_data_entity_ts, Payment_src Create_payment_dto_ts,
     Payment_src Bbps_adapter_ts, Bill_src Bbps_access_util_ts]"

definition bill_schedule_controller_imports :: "source list" where
  "bill_schedule_controller_imports =
    [Pkg Nestjs_common_pkg, Pkg Nestjs_swagger_pkg, Pkg Nest_keycloak_connect_pkg,
     Common_src Auth_decorator_ts, Rbac_src Rbac_constants_ts, Payment_src Bill_schedule_service_ts,
     Payment_src Create_bill_schedule_dto_ts]"

definition bill_schedule_service_imports :: "source list" where
  "bill_schedule_service_imports =
    [Pkg Nestjs_common_pkg, Pkg Nestjs_typeorm_pkg, Pkg Typeorm_pkg, Bill_src Bbps_access_util_ts,
     Payment_src Bill_schedule_execution_entity_ts, Payment_src Bill_schedule_entity_ts,
     Payment_src Create_bill_schedule_dto_ts, Payment_src Schedule_status_constant_ts]"

definition create_bill_schedule_dto_imports :: "source list" where
  "create_bill_schedule_dto_imports =
    [Pkg Nestjs_swagger_pkg, Pkg Class_validator_pkg]"

definition bill_schedule_execution_entity_imports :: "source list" where
  "bill_schedule_execution_entity_imports =
    [Pkg Typeorm_pkg, Payment_src Bill_schedule_entity_ts]"

definition bill_schedule_entity_imports :: "source list" where
  "bill_schedule_entity_imports =
    [Pkg Typeorm_pkg, Payment_src Schedule_status_constant_ts]"

primrec payment_imports :: "payment_file \<Rightarrow> source list" where
  "payment_imports Bbps_adapter_ts = []"
| "payment_imports Mock_bbps_adapter_ts = mock_bbps_adapter_imports"
| "payment_imports Create_payment_dto_ts = create_payment_dto_imports"
| "payment_imports Bill_payment_entity_ts = bill_payment_entity_imports"
| "payment_imports Payment_controller_ts = payment_controller_imports"
| "payment_imports Payment_service_ts = payment_service_imports"
| "payment_imports Bill_schedule_controller_ts = bill_schedule_controller_imports"
| "payment_imports Bill_schedule_service_ts = bill_schedule_service_imports"
| "payment_imports Create_bill_schedule_dto_ts = create_bill_schedule_dto_imports"
| "payment_imports Bill_schedule_execution_entity_ts = bill_schedule_execution_entity_imports"
| "payment_imports Bill_schedule_entity_ts = bill_schedule_entity_imports"
| "payment_imports Schedule_status_constant_ts = []"

lemmas payment_import_defs = mock_bbps_adapter_imports_def create_payment_dto_imports_def
  bill_payment_entity_imports_def payment_controller_imports_def payment_service_imports_def
  bill_schedule_controller_imports_def bill_schedule_service_imports_def create_bill_schedule_dto_imports_def
  bill_schedule_execution_entity_imports_def bill_schedule_entity_imports_def

subsection \<open>modules/admin.\<close>

definition admin_user_sync_listener_imports :: "source list" where
  "admin_user_sync_listener_imports =
    [Pkg Nestjs_common_pkg, Pkg Nestjs_typeorm_pkg, Pkg Typeorm_pkg,
     Services_src Internal_event_bus_service_ts, Rbac_src Employee_account_synced_event_ts,
     Admin_src Admin_user_entity_ts]"

definition admin_user_controller_imports :: "source list" where
  "admin_user_controller_imports =
    [Pkg Nestjs_common_pkg, Pkg Nestjs_swagger_pkg, Pkg Nest_keycloak_connect_pkg,
     Common_src Auth_decorator_ts, Common_src Id_request_dto_ts, Admin_src Admin_user_service_ts,
     Admin_src List_admin_users_dto_ts]"

definition admin_user_service_imports :: "source list" where
  "admin_user_service_imports =
    [Pkg Nestjs_common_pkg, Pkg Nestjs_typeorm_pkg, Pkg Typeorm_pkg, Rbac_src Rbac_constants_ts,
     Admin_src List_admin_users_dto_ts, Admin_src Admin_user_entity_ts]"

definition list_admin_users_dto_imports :: "source list" where
  "list_admin_users_dto_imports =
    [Pkg Nestjs_swagger_pkg, Pkg Class_validator_pkg]"

definition admin_user_entity_imports :: "source list" where
  "admin_user_entity_imports =
    [Pkg Typeorm_pkg]"

definition admin_module_imports :: "source list" where
  "admin_module_imports =
    [Pkg Nestjs_common_pkg, Pkg Nestjs_typeorm_pkg, Services_src Internal_event_bus_module_ts,
     Admin_src Admin_user_controller_ts, Admin_src Admin_user_service_ts, Admin_src Admin_user_sync_listener_ts,
     Admin_src Admin_user_entity_ts, Admin_src Authorization_rules_controller_ts,
     Admin_src Authorization_rules_service_ts, Admin_src Authorization_rule_entity_ts,
     Admin_src Authorization_rule_history_entity_ts, Admin_src Reporting_controller_ts,
     Admin_src Reporting_service_ts, Admin_src Transaction_provider_ts, Admin_src Report_export_service_ts]"

definition authorization_rules_controller_imports :: "source list" where
  "authorization_rules_controller_imports =
    [Pkg Nestjs_common_pkg, Pkg Nestjs_swagger_pkg, Pkg Nest_keycloak_connect_pkg,
     Common_src Auth_decorator_ts, Common_src Id_request_dto_ts, Admin_src Authorization_rules_service_ts,
     Admin_src Create_authorization_rule_dto_ts, Admin_src Update_authorization_rule_dto_ts]"

definition authorization_rules_service_imports :: "source list" where
  "authorization_rules_service_imports =
    [Pkg Nestjs_common_pkg, Pkg Nestjs_typeorm_pkg, Pkg Typeorm_pkg, Rbac_src Rbac_constants_ts,
     Admin_src Create_authorization_rule_dto_ts, Admin_src Update_authorization_rule_dto_ts,
     Admin_src Authorization_rule_history_entity_ts, Admin_src Authorization_rule_entity_ts]"

definition create_authorization_rule_dto_imports :: "source list" where
  "create_authorization_rule_dto_imports =
    [Pkg Nestjs_swagger_pkg, Pkg Class_validator_pkg]"

definition update_authorization_rule_dto_imports :: "source list" where
  "update_authorization_rule_dto_imports =
    [Pkg Nestjs_swagger_pkg, Pkg Class_validator_pkg]"

definition authorization_rule_history_entity_imports :: "source list" where
  "authorization_rule_history_entity_imports =
    [Pkg Typeorm_pkg]"

definition authorization_rule_entity_imports :: "source list" where
  "authorization_rule_entity_imports =
    [Pkg Typeorm_pkg, Support_src Soft_delete_entity_ts]"

definition m1788856000000_CreateAdminModuleTables_imports :: "source list" where
  "m1788856000000_CreateAdminModuleTables_imports =
    [Pkg Typeorm_pkg]"

definition report_export_dto_imports :: "source list" where
  "report_export_dto_imports =
    [Pkg Class_validator_pkg, Admin_src Report_query_dto_ts]"

definition report_query_dto_imports :: "source list" where
  "report_query_dto_imports =
    [Pkg Class_validator_pkg]"

definition report_export_service_imports :: "source list" where
  "report_export_service_imports =
    [Pkg Nestjs_common_pkg, Pkg Express_pkg, Pkg Exceljs_pkg, Pkg Pdfkit_pkg, Pkg Csv_writer_pkg]"

definition transaction_provider_imports :: "source list" where
  "transaction_provider_imports =
    [Pkg Nestjs_common_pkg]"

definition reporting_controller_imports :: "source list" where
  "reporting_controller_imports =
    [Pkg Nestjs_common_pkg, Pkg Nestjs_swagger_pkg, Pkg Express_pkg, Common_src Auth_decorator_ts,
     Admin_src Reporting_service_ts, Admin_src Report_query_dto_ts, Admin_src Report_export_dto_ts,
     Admin_src Report_export_service_ts]"

definition reporting_service_imports :: "source list" where
  "reporting_service_imports =
    [Pkg Nestjs_common_pkg, Admin_src Report_query_dto_ts, Admin_src Transaction_provider_ts]"

primrec admin_imports :: "admin_file \<Rightarrow> source list" where
  "admin_imports Admin_user_sync_listener_ts = admin_user_sync_listener_imports"
| "admin_imports Admin_user_controller_ts = admin_user_controller_imports"
| "admin_imports Admin_user_service_ts = admin_user_service_imports"
| "admin_imports List_admin_users_dto_ts = list_admin_users_dto_imports"
| "admin_imports Admin_user_entity_ts = admin_user_entity_imports"
| "admin_imports Admin_module_ts = admin_module_imports"
| "admin_imports Authorization_rules_controller_ts = authorization_rules_controller_imports"
| "admin_imports Authorization_rules_service_ts = authorization_rules_service_imports"
| "admin_imports Create_authorization_rule_dto_ts = create_authorization_rule_dto_imports"
| "admin_imports Update_authorization_rule_dto_ts = update_authorization_rule_dto_imports"
| "admin_imports Authorization_rule_history_entity_ts = authorization_rule_history_entity_imports"
| "admin_imports Authorization_rule_entity_ts = authorization_rule_entity_imports"
| "admin_imports Admin_action_audited_event_ts = []"
| "admin_imports M1788856000000_CreateAdminModuleTables_ts = m1788856000000_CreateAdminModuleTables_imports"
| "admin_imports Report_export_dto_ts = report_export_dto_imports"
| "admin_imports Report_query_dto_ts = report_query_dto_imports"
| "admin_imports Report_export_service_ts = report_export_service_imports"
| "admin_imports Transaction_provider_ts = transaction_provider_imports"
| "admin_imports Reporting_controller_ts = reporting_controller_imports"
| "admin_imports Reporting_service_ts = reporting_service_imports"

lemmas admin_import_defs = admin_user_sync_listener_imports_def admin_user_controller_imports_def
  admin_user_service_imports_def list_admin_users_dto_imports_def admin_user_entity_imports_def
  admin_module_imports_def authorization_rules_controller_imports_def authorization_rules_service_imports_def
  create_authorization_rule_dto_imports_def update_authorization_rule_dto_imports_def
  authorization_rule_history_entity_imports_def authorization_rule_entity_imports_def
  m1788856000000_CreateAdminModuleTables_imports_def report_export_dto_imports_def report_query_dto_imports_def
  report_export_service_imports_def transaction_provider_imports_def reporting_controller_imports_def
  reporting_service_imports_def

subsection \<open>modules/rbac.\<close>

definition employees_controller_imports :: "source list" where
  "employees_controller_imports =
    [Pkg Nestjs_common_pkg, Pkg Nestjs_swagger_pkg, Pkg Nest_keycloak_connect_pkg,
     Common_src Auth_decorator_ts, Rbac_src Employee_dto_ts, Rbac_src Employees_service_ts]"

definition permissions_controller_imports :: "source list" where
  "permissions_controller_imports =
    [Pkg Nestjs_common_pkg, Pkg Nestjs_swagger_pkg, Common_src Auth_decorator_ts, Rbac_src Permission_dto_ts,
     Rbac_src Superadmin_guard_ts, Rbac_src Permissions_service_ts]"

definition roles_controller_imports :: "source list" where
  "roles_controller_imports =
    [Pkg Nestjs_common_pkg, Pkg Nestjs_swagger_pkg, Pkg Nest_keycloak_connect_pkg,
     Common_src Auth_decorator_ts, Rbac_src Role_dto_ts, Rbac_src Superadmin_guard_ts, Rbac_src Roles_service_ts]"

definition users_controller_imports :: "source list" where
  "users_controller_imports =
    [Pkg Nestjs_common_pkg, Pkg Nestjs_swagger_pkg, Common_src Auth_decorator_ts,
     Rbac_src Fetch_access_details_dto_ts, Rbac_src Users_access_service_ts]"

definition employee_dto_imports :: "source list" where
  "employee_dto_imports =
    [Pkg Nestjs_swagger_pkg, Pkg Class_validator_pkg]"

definition fetch_access_details_dto_imports :: "source list" where
  "fetch_access_details_dto_imports =
    [Pkg Nestjs_swagger_pkg, Pkg Class_validator_pkg, Common_src Regex_constant_ts]"

definition permission_dto_imports :: "source list" where
  "permission_dto_imports =
    [Pkg Nestjs_swagger_pkg, Pkg Class_validator_pkg]"

definition role_dto_imports :: "source list" where
  "role_dto_imports =
    [Pkg Nestjs_swagger_pkg, Pkg Class_validator_pkg]"

definition delegated_role_entity_imports :: "source list" where
  "delegated_role_entity_imports =
    [Pkg Typeorm_pkg, Rbac_src Role_entity_ts]"

definition employee_user_role_entity_imports :: "source list" where
  "employee_user_role_entity_imports =
    [Pkg Typeorm_pkg, Rbac_src Employee_entity_ts, Rbac_src Role_entity_ts]"

definition employee_entity_imports :: "source list" where
  "employee_entity_imports =
    [Pkg Typeorm_pkg, Support_src Soft_delete_entity_ts, Rbac_src Employee_user_role_entity_ts]"

definition permission_entity_imports :: "source list" where
  "permission_entity_imports =
    [Pkg Typeorm_pkg, Support_src Soft_delete_entity_ts, Rbac_src Role_permission_entity_ts]"

definition role_permission_entity_imports :: "source list" where
  "role_permission_entity_imports =
    [Pkg Typeorm_pkg, Rbac_src Role_entity_ts, Rbac_src Permission_entity_ts]"

definition role_entity_imports :: "source list" where
  "role_entity_imports =
    [Pkg Typeorm_pkg, Support_src Soft_delete_entity_ts, Rbac_src Rbac_constants_ts,
     Rbac_src Role_permission_entity_ts, Rbac_src Employee_user_role_entity_ts,
     Rbac_src Delegated_role_entity_ts]"

definition superadmin_guard_imports :: "source list" where
  "superadmin_guard_imports =
    [Pkg Nestjs_common_pkg, Rbac_src Rbac_constants_ts]"

definition rbac_module_imports :: "source list" where
  "rbac_module_imports =
    [Services_src Internal_event_bus_module_ts, Pkg Nestjs_common_pkg, Pkg Nestjs_typeorm_pkg,
     Auth_src Auth_module_ts, Rbac_src Employees_controller_ts, Rbac_src Permissions_controller_ts,
     Rbac_src Roles_controller_ts, Rbac_src Users_controller_ts, Rbac_src Delegated_role_entity_ts,
     Rbac_src Employee_user_role_entity_ts, Rbac_src Employee_entity_ts, Rbac_src Permission_entity_ts,
     Rbac_src Role_permission_entity_ts, Rbac_src Role_entity_ts, Rbac_src Superadmin_guard_ts,
     Rbac_src Employees_service_ts, Rbac_src Permissions_service_ts, Rbac_src Roles_service_ts,
     Rbac_src Users_access_service_ts]"

definition employees_service_imports :: "source list" where
  "employees_service_imports =
    [Services_src Internal_event_bus_service_ts, Rbac_src Employee_account_synced_event_ts,
     Pkg Nestjs_common_pkg, Pkg Nestjs_typeorm_pkg, Pkg Typeorm_pkg, Auth_src Keycloak_service_ts,
     Rbac_src Rbac_constants_ts, Rbac_src Employee_dto_ts, Rbac_src Employee_user_role_entity_ts,
     Rbac_src Employee_entity_ts, Rbac_src Roles_service_ts]"

definition permissions_service_imports :: "source list" where
  "permissions_service_imports =
    [Pkg Nestjs_common_pkg, Pkg Nestjs_typeorm_pkg, Pkg Typeorm_pkg, Rbac_src Permission_dto_ts,
     Rbac_src Permission_entity_ts]"

definition roles_service_imports :: "source list" where
  "roles_service_imports =
    [Pkg Nestjs_common_pkg, Pkg Nestjs_typeorm_pkg, Pkg Typeorm_pkg, Auth_src Keycloak_service_ts,
     Rbac_src Rbac_constants_ts, Rbac_src Role_dto_ts, Rbac_src Delegated_role_entity_ts,
     Rbac_src Permission_entity_ts, Rbac_src Role_permission_entity_ts, Rbac_src Role_entity_ts]"

definition users_access_service_imports :: "source list" where
  "users_access_service_imports =
    [Pkg Nestjs_common_pkg, Pkg Nestjs_typeorm_pkg, Pkg Typeorm_pkg, Auth_src Keycloak_service_ts,
     Rbac_src Fetch_access_details_dto_ts, Rbac_src Employee_user_role_entity_ts, Rbac_src Employee_entity_ts,
     Rbac_src Role_permission_entity_ts, Rbac_src Role_entity_ts]"

primrec rbac_imports :: "rbac_file \<Rightarrow> source list" where
  "rbac_imports Rbac_constants_ts = []"
| "rbac_imports Employees_controller_ts = employees_controller_imports"
| "rbac_imports Permissions_controller_ts = permissions_controller_imports"
| "rbac_imports Roles_controller_ts = roles_controller_imports"
| "rbac_imports Users_controller_ts = users_controller_imports"
| "rbac_imports Employee_dto_ts = employee_dto_imports"
| "rbac_imports Fetch_access_details_dto_ts = fetch_access_details_dto_imports"
| "rbac_imports Permission_dto_ts = permission_dto_imports"
| "rbac_imports Role_dto_ts = role_dto_imports"
| "rbac_imports Delegated_role_entity_ts = delegated_role_entity_imports"
| "rbac_imports Employee_user_role_entity_ts = employee_user_role_entity_imports"
| "rbac_imports Employee_entity_ts = employee_entity_imports"
| "rbac_imports Permission_entity_ts = permission_entity_imports"
| "rbac_imports Role_permission_entity_ts = role_permission_entity_imports"
| "rbac_imports Role_entity_ts = role_entity_imports"
| "rbac_imports Employee_account_synced_event_ts = []"
| "rbac_imports Superadmin_guard_ts = superadmin_guard_imports"
| "rbac_imports Rbac_module_ts = rbac_module_imports"
| "rbac_imports Employees_service_ts = employees_service_imports"
| "rbac_imports Permissions_service_ts = permissions_service_imports"
| "rbac_imports Roles_service_ts = roles_service_imports"
| "rbac_imports Users_access_service_ts = users_access_service_imports"

lemmas rbac_import_defs = employees_controller_imports_def permissions_controller_imports_def
  roles_controller_imports_def users_controller_imports_def employee_dto_imports_def
  fetch_access_details_dto_imports_def permission_dto_imports_def role_dto_imports_def
  delegated_role_entity_imports_def employee_user_role_entity_imports_def employee_entity_imports_def
  permission_entity_imports_def role_permission_entity_imports_def role_entity_imports_def
  superadmin_guard_imports_def rbac_module_imports_def employees_service_imports_def
  permissions_service_imports_def roles_service_imports_def users_access_service_imports_def

subsection \<open>The graph\<close>

primrec imports_of :: "source \<Rightarrow> source list" where
  "imports_of (Root_src f) = root_imports f"
| "imports_of (Common_src f) = common_imports f"
| "imports_of (Support_src f) = support_imports f"
| "imports_of (Services_src f) = service_imports f"
| "imports_of (Auth_src f) = auth_imports f"
| "imports_of (Login_src f) = login_imports f"
| "imports_of (Bill_src f) = bill_imports f"
| "imports_of (Payment_src f) = payment_imports f"
| "imports_of (Admin_src f) = admin_imports f"
| "imports_of (Rbac_src f) = rbac_imports f"
| "imports_of (Pkg p) = []"

lemmas import_defs = root_import_defs common_import_defs support_import_defs service_import_defs
  auth_import_defs login_import_defs bill_import_defs payment_import_defs admin_import_defs rbac_import_defs

definition imports_file :: "source \<Rightarrow> source \<Rightarrow> bool" where
  "imports_file f g \<longleftrightarrow> g \<in> set (imports_of f)"

text \<open>The path of a file from the root of the service.\<close>

primrec root_path :: "root_file \<Rightarrow> string" where
  "root_path App_module_ts = ''src/app.module.ts''"
| "root_path Api_path_config_ts = ''src/config/api-path.config.ts''"
| "root_path App_config_ts = ''src/config/app.config.ts''"
| "root_path Database_config_ts = ''src/config/database.config.ts''"
| "root_path Keycloak_connect_config_ts = ''src/config/keycloak-connect.config.ts''"
| "root_path Config_Keycloak_config_ts = ''src/config/keycloak.config.ts''"
| "root_path Main_ts = ''src/main.ts''"

primrec common_path :: "common_file \<Rightarrow> string" where
  "common_path Error_codes_constant_ts = ''src/common/constants/error-codes.constant.ts''"
| "common_path Idempotency_constants_ts = ''src/common/constants/idempotency.constants.ts''"
| "common_path Notification_template_keys_constant_ts = ''src/common/constants/notification-template-keys.constant.ts''"
| "common_path Regex_constant_ts = ''src/common/constants/regex.constant.ts''"
| "common_path Auth_decorator_ts = ''src/common/decorators/auth.decorator.ts''"
| "common_path Current_user_decorator_ts = ''src/common/decorators/current-user.decorator.ts''"
| "common_path Idempotency_key_decorator_ts = ''src/common/decorators/idempotency-key.decorator.ts''"
| "common_path Base_response_dto_ts = ''src/common/dto/base-response.dto.ts''"
| "common_path Id_request_dto_ts = ''src/common/dto/id-request.dto.ts''"
| "common_path Pagination_dto_ts = ''src/common/dto/pagination.dto.ts''"
| "common_path Http_exception_filter_ts = ''src/common/filters/http-exception.filter.ts''"
| "common_path Checksum_guard_ts = ''src/common/guards/checksum.guard.ts''"
| "common_path Idor_guard_ts = ''src/common/guards/idor.guard.ts''"
| "common_path Keycloak_auth_guard_ts = ''src/common/guards/keycloak-auth.guard.ts''"
| "common_path Roles_guard_ts = ''src/common/guards/roles.guard.ts''"
| "common_path Health_controller_ts = ''src/common/health/health.controller.ts''"
| "common_path Checksum_signing_interceptor_ts = ''src/common/interceptors/checksum-signing.interceptor.ts''"
| "common_path Idempotency_key_interceptor_ts = ''src/common/interceptors/idempotency-key.interceptor.ts''"
| "common_path Logging_interceptor_ts = ''src/common/interceptors/logging.interceptor.ts''"
| "common_path Response_transform_interceptor_ts = ''src/common/interceptors/response-transform.interceptor.ts''"
| "common_path Authenticated_user_interface_ts = ''src/common/interfaces/authenticated-user.interface.ts''"

primrec support_path :: "support_file \<Rightarrow> string" where
  "support_path Soft_delete_entity_ts = ''src/common/entities/soft-delete.entity.ts''"
| "support_path Normalize_bearer_middleware_ts = ''src/common/middleware/normalize-bearer.middleware.ts''"
| "support_path Resilient_http_client_factory_ts = ''src/common/resilience/resilient-http-client.factory.ts''"
| "support_path Api_audience_constants_ts = ''src/common/swagger/api-audience.constants.ts''"
| "support_path Swagger_document_util_ts = ''src/common/swagger/swagger-document.util.ts''"
| "support_path Create_template_dto_ts = ''src/common/templates/dto/create-template.dto.ts''"
| "support_path Notification_template_history_entity_ts = ''src/common/templates/entities/notification-template-history.entity.ts''"
| "support_path Notification_template_entity_ts = ''src/common/templates/entities/notification-template.entity.ts''"
| "support_path Templates_controller_ts = ''src/common/templates/templates.controller.ts''"
| "support_path Templates_module_ts = ''src/common/templates/templates.module.ts''"
| "support_path Templates_service_ts = ''src/common/templates/templates.service.ts''"
| "support_path Bank_config_service_ts = ''src/common/tenant/bank-config.service.ts''"
| "support_path Tenant_context_middleware_ts = ''src/common/tenant/tenant-context.middleware.ts''"
| "support_path Date_util_ts = ''src/common/utils/date.util.ts''"
| "support_path Masking_util_ts = ''src/common/utils/masking.util.ts''"

primrec service_path :: "service_file \<Rightarrow> string" where
  "service_path Audit_outbox_relay_job_ts = ''src/clients/audit-outbox/audit-outbox-relay.job.ts''"
| "service_path Audit_outbox_entity_ts = ''src/clients/audit-outbox/audit-outbox.entity.ts''"
| "service_path Audit_outbox_module_ts = ''src/clients/audit-outbox/audit-outbox.module.ts''"
| "service_path Audit_outbox_repository_ts = ''src/clients/audit-outbox/audit-outbox.repository.ts''"
| "service_path Audit_client_ts = ''src/clients/audit.client.ts''"
| "service_path Cbs_client_ts = ''src/clients/cbs.client.ts''"
| "service_path Notification_client_ts = ''src/clients/notification.client.ts''"
| "service_path Event_log_entity_ts = ''src/internal-events/event-log.entity.ts''"
| "service_path Internal_event_bus_module_ts = ''src/internal-events/internal-event-bus.module.ts''"
| "service_path Internal_event_bus_service_ts = ''src/internal-events/internal-event-bus.service.ts''"

primrec auth_path :: "auth_file \<Rightarrow> string" where
  "auth_path Auth_module_ts = ''src/modules/auth/auth.module.ts''"
| "auth_path Corporate_hierarchy_controller_ts = ''src/modules/auth/corporate-hierarchy/corporate-hierarchy.controller.ts''"
| "auth_path Corporate_hierarchy_service_ts = ''src/modules/auth/corporate-hierarchy/corporate-hierarchy.service.ts''"
| "auth_path Set_hierarchy_role_dto_ts = ''src/modules/auth/corporate-hierarchy/dto/set-hierarchy-role.dto.ts''"
| "auth_path Corporate_hierarchy_entity_ts = ''src/modules/auth/corporate-hierarchy/entities/corporate-hierarchy.entity.ts''"
| "auth_path Credential_controller_ts = ''src/modules/auth/credential/credential.controller.ts''"
| "auth_path Credential_service_ts = ''src/modules/auth/credential/credential.service.ts''"
| "auth_path Get_credential_dto_ts = ''src/modules/auth/credential/dto/get-credential.dto.ts''"
| "auth_path Set_credential_dto_ts = ''src/modules/auth/credential/dto/set-credential.dto.ts''"
| "auth_path Verify_credential_dto_ts = ''src/modules/auth/credential/dto/verify-credential.dto.ts''"
| "auth_path Credential_entity_ts = ''src/modules/auth/credential/entities/credential.entity.ts''"
| "auth_path Mpin_hash_util_ts = ''src/modules/auth/credential/utils/mpin-hash.util.ts''"
| "auth_path Device_controller_ts = ''src/modules/auth/device/device.controller.ts''"
| "auth_path Device_service_ts = ''src/modules/auth/device/device.service.ts''"
| "auth_path Register_device_dto_ts = ''src/modules/auth/device/dto/register-device.dto.ts''"
| "auth_path Device_profile_entity_ts = ''src/modules/auth/device/entities/device-profile.entity.ts''"
| "auth_path User_deactivated_event_ts = ''src/modules/auth/events/user-deactivated.event.ts''"
| "auth_path User_registered_event_ts = ''src/modules/auth/events/user-registered.event.ts''"
| "auth_path Modules_auth_keycloak_Keycloak_config_ts = ''src/modules/auth/keycloak/keycloak.config.ts''"
| "auth_path Keycloak_service_ts = ''src/modules/auth/keycloak/keycloak.service.ts''"
| "auth_path Mock_users_const_ts = ''src/modules/auth/keycloak/mock-users.const.ts''"
| "auth_path M1789030000000_AddRegistrationSagaColumns_ts = ''src/modules/auth/migrations/1789030000000-AddRegistrationSagaColumns.ts''"

primrec login_path :: "login_file \<Rightarrow> string" where
  "login_path Generate_otp_dto_ts = ''src/modules/auth/otp/dto/generate-otp.dto.ts''"
| "login_path Verify_otp_dto_ts = ''src/modules/auth/otp/dto/verify-otp.dto.ts''"
| "login_path Otp_challenge_entity_ts = ''src/modules/auth/otp/entities/otp-challenge.entity.ts''"
| "login_path Otp_controller_ts = ''src/modules/auth/otp/otp.controller.ts''"
| "login_path Otp_service_ts = ''src/modules/auth/otp/otp.service.ts''"
| "login_path Create_credentials_dto_ts = ''src/modules/auth/registration/dto/create-credentials.dto.ts''"
| "login_path Init_registration_dto_ts = ''src/modules/auth/registration/dto/init-registration.dto.ts''"
| "login_path Register_attempt_device_dto_ts = ''src/modules/auth/registration/dto/register-attempt-device.dto.ts''"
| "login_path Verify_registration_otp_dto_ts = ''src/modules/auth/registration/dto/verify-registration-otp.dto.ts''"
| "login_path Registration_attempt_entity_ts = ''src/modules/auth/registration/entities/registration-attempt.entity.ts''"
| "login_path Registration_compensation_service_ts = ''src/modules/auth/registration/registration-compensation.service.ts''"
| "login_path Registration_orchestrator_service_ts = ''src/modules/auth/registration/registration-orchestrator.service.ts''"
| "login_path Registration_controller_ts = ''src/modules/auth/registration/registration.controller.ts''"
| "login_path Registration_service_ts = ''src/modules/auth/registration/registration.service.ts''"
| "login_path Auth_controller_ts = ''src/modules/auth/token/auth.controller.ts''"
| "login_path Login_dto_ts = ''src/modules/auth/token/dto/login.dto.ts''"
| "login_path Logout_dto_ts = ''src/modules/auth/token/dto/logout.dto.ts''"
| "login_path Signup_dto_ts = ''src/modules/auth/token/dto/signup.dto.ts''"
| "login_path Token_login_response_dto_ts = ''src/modules/auth/token/dto/token-login-response.dto.ts''"
| "login_path Token_response_dto_ts = ''src/modules/auth/token/dto/token-response.dto.ts''"

primrec bill_path :: "bill_file \<Rightarrow> string" where
  "bill_path Bill_payment_module_ts = ''src/modules/bill-payment/bill-payment.module.ts''"
| "bill_path Bill_controller_ts = ''src/modules/bill-payment/bill/controller/bill.controller.ts''"
| "bill_path Fetch_bill_dto_ts = ''src/modules/bill-payment/bill/dto/fetch-bill.dto.ts''"
| "bill_path Mock_bill_entity_ts = ''src/modules/bill-payment/bill/entities/mock-bill.entity.ts''"
| "bill_path Bill_service_ts = ''src/modules/bill-payment/bill/service/bill.service.ts''"
| "bill_path Biller_controller_ts = ''src/modules/bill-payment/biller/biller.controller.ts''"
| "bill_path Biller_service_ts = ''src/modules/bill-payment/biller/biller.service.ts''"
| "bill_path Create_biller_dto_ts = ''src/modules/bill-payment/biller/dto/create-biller.dto.ts''"
| "bill_path List_billers_query_dto_ts = ''src/modules/bill-payment/biller/dto/list-billers-query.dto.ts''"
| "bill_path Biller_registration_entity_ts = ''src/modules/bill-payment/biller/entities/biller-registration.entity.ts''"
| "bill_path Bbps_catalog_const_ts = ''src/modules/bill-payment/catalog/bbps-catalog.const.ts''"
| "bill_path Bbps_catalog_seeder_ts = ''src/modules/bill-payment/catalog/bbps-catalog.seeder.ts''"
| "bill_path Bbps_access_util_ts = ''src/modules/bill-payment/common/bbps-access.util.ts''"
| "bill_path Demo_bbps_data_seeder_ts = ''src/modules/bill-payment/demo/demo-bbps-data.seeder.ts''"
| "bill_path Demo_bbps_data_entity_ts = ''src/modules/bill-payment/demo/entities/demo-bbps-data.entity.ts''"
| "bill_path Bill_payment_completed_event_ts = ''src/modules/bill-payment/events/bill-payment-completed.event.ts''"
| "bill_path M1788780440681_InitialBillPayment_ts = ''src/modules/bill-payment/migrations/1788780440681-InitialBillPayment.ts''"
| "bill_path M1788784048534_AddConsumerAndBillNumber_ts = ''src/modules/bill-payment/migrations/1788784048534-AddConsumerAndBillNumber.ts''"
| "bill_path M1788844566220_UpdateBillPaymentAmount_ts = ''src/modules/bill-payment/migrations/1788844566220-UpdateBillPaymentAmount.ts''"
| "bill_path M1788849842117_AddIdempotencyKey_ts = ''src/modules/bill-payment/migrations/1788849842117-AddIdempotencyKey.ts''"
| "bill_path M1788851200000_AddKeycloakUserIdToBbps_ts = ''src/modules/bill-payment/migrations/1788851200000-AddKeycloakUserIdToBbps.ts''"
| "bill_path M1788852000000_AddScheduleStatusAndExecution_ts = ''src/modules/bill-payment/migrations/1788852000000-AddScheduleStatusAndExecution.ts''"

primrec payment_path :: "payment_file \<Rightarrow> string" where
  "payment_path Bbps_adapter_ts = ''src/modules/bill-payment/payment/adapter/bbps.adapter.ts''"
| "payment_path Mock_bbps_adapter_ts = ''src/modules/bill-payment/payment/adapter/mock-bbps.adapter.ts''"
| "payment_path Create_payment_dto_ts = ''src/modules/bill-payment/payment/dto/create-payment.dto.ts''"
| "payment_path Bill_payment_entity_ts = ''src/modules/bill-payment/payment/entities/bill-payment.entity.ts''"
| "payment_path Payment_controller_ts = ''src/modules/bill-payment/payment/payment.controller.ts''"
| "payment_path Payment_service_ts = ''src/modules/bill-payment/payment/payment.service.ts''"
| "payment_path Bill_schedule_controller_ts = ''src/modules/bill-payment/scheduling/bill-schedule.controller.ts''"
| "payment_path Bill_schedule_service_ts = ''src/modules/bill-payment/scheduling/bill-schedule.service.ts''"
| "payment_path Create_bill_schedule_dto_ts = ''src/modules/bill-payment/scheduling/dto/create-bill-schedule.dto.ts''"
| "payment_path Bill_schedule_execution_entity_ts = ''src/modules/bill-payment/scheduling/entities/bill-schedule-execution.entity.ts''"
| "payment_path Bill_schedule_entity_ts = ''src/modules/bill-payment/scheduling/entities/bill-schedule.entity.ts''"
| "payment_path Schedule_status_constant_ts = ''src/modules/bill-payment/scheduling/schedule-status.constant.ts''"

primrec admin_path :: "admin_file \<Rightarrow> string" where
  "admin_path Admin_user_sync_listener_ts = ''src/modules/admin/admin-user/admin-user-sync.listener.ts''"
| "admin_path Admin_user_controller_ts = ''src/modules/admin/admin-user/admin-user.controller.ts''"
| "admin_path Admin_user_service_ts = ''src/modules/admin/admin-user/admin-user.service.ts''"
| "admin_path List_admin_users_dto_ts = ''src/modules/admin/admin-user/dto/list-admin-users.dto.ts''"
| "admin_path Admin_user_entity_ts = ''src/modules/admin/admin-user/entities/admin-user.entity.ts''"
| "admin_path Admin_module_ts = ''src/modules/admin/admin.module.ts''"
| "admin_path Authorization_rules_controller_ts = ''src/modules/admin/authorization-rules/authorization-rules.controller.ts''"
| "admin_path Authorization_rules_service_ts = ''src/modules/admin/authorization-rules/authorization-rules.service.ts''"
| "admin_path Create_authorization_rule_dto_ts = ''src/modules/admin/authorization-rules/dto/create-authorization-rule.dto.ts''"
| "admin_path Update_authorization_rule_dto_ts = ''src/modules/admin/authorization-rules/dto/update-authorization-rule.dto.ts''"
| "admin_path Authorization_rule_history_entity_ts = ''src/modules/admin/authorization-rules/entities/authorization-rule-history.entity.ts''"
| "admin_path Authorization_rule_entity_ts = ''src/modules/admin/authorization-rules/entities/authorization-rule.entity.ts''"
| "admin_path Admin_action_audited_event_ts = ''src/modules/admin/events/admin-action-audited.event.ts''"
| "admin_path M1788856000000_CreateAdminModuleTables_ts = ''src/modules/admin/migrations/1788856000000-CreateAdminModuleTables.ts''"
| "admin_path Report_export_dto_ts = ''src/modules/admin/reporting/dto/report-export.dto.ts''"
| "admin_path Report_query_dto_ts = ''src/modules/admin/reporting/dto/report-query.dto.ts''"
| "admin_path Report_export_service_ts = ''src/modules/admin/reporting/exporters/report-export.service.ts''"
| "admin_path Transaction_provider_ts = ''src/modules/admin/reporting/providers/transaction.provider.ts''"
| "admin_path Reporting_controller_ts = ''src/modules/admin/reporting/reporting.controller.ts''"
| "admin_path Reporting_service_ts = ''src/modules/admin/reporting/reporting.service.ts''"

primrec rbac_path :: "rbac_file \<Rightarrow> string" where
  "rbac_path Rbac_constants_ts = ''src/modules/rbac/constants/rbac.constants.ts''"
| "rbac_path Employees_controller_ts = ''src/modules/rbac/controllers/employees.controller.ts''"
| "rbac_path Permissions_controller_ts = ''src/modules/rbac/controllers/permissions.controller.ts''"
| "rbac_path Roles_controller_ts = ''src/modules/rbac/controllers/roles.controller.ts''"
| "rbac_path Users_controller_ts = ''src/modules/rbac/controllers/users.controller.ts''"
| "rbac_path Employee_dto_ts = ''src/modules/rbac/dto/employee.dto.ts''"
| "rbac_path Fetch_access_details_dto_ts = ''src/modules/rbac/dto/fetch-access-details.dto.ts''"
| "rbac_path Permission_dto_ts = ''src/modules/rbac/dto/permission.dto.ts''"
| "rbac_path Role_dto_ts = ''src/modules/rbac/dto/role.dto.ts''"
| "rbac_path Delegated_role_entity_ts = ''src/modules/rbac/entities/delegated-role.entity.ts''"
| "rbac_path Employee_user_role_entity_ts = ''src/modules/rbac/entities/employee-user-role.entity.ts''"
| "rbac_path Employee_entity_ts = ''src/modules/rbac/entities/employee.entity.ts''"
| "rbac_path Permission_entity_ts = ''src/modules/rbac/entities/permission.entity.ts''"
| "rbac_path Role_permission_entity_ts = ''src/modules/rbac/entities/role-permission.entity.ts''"
| "rbac_path Role_entity_ts = ''src/modules/rbac/entities/role.entity.ts''"
| "rbac_path Employee_account_synced_event_ts = ''src/modules/rbac/events/employee-account-synced.event.ts''"
| "rbac_path Superadmin_guard_ts = ''src/modules/rbac/guards/superadmin.guard.ts''"
| "rbac_path Rbac_module_ts = ''src/modules/rbac/rbac.module.ts''"
| "rbac_path Employees_service_ts = ''src/modules/rbac/services/employees.service.ts''"
| "rbac_path Permissions_service_ts = ''src/modules/rbac/services/permissions.service.ts''"
| "rbac_path Roles_service_ts = ''src/modules/rbac/services/roles.service.ts''"
| "rbac_path Users_access_service_ts = ''src/modules/rbac/services/users-access.service.ts''"

primrec path_of :: "source \<Rightarrow> string" where
  "path_of (Root_src f) = root_path f"
| "path_of (Common_src f) = common_path f"
| "path_of (Support_src f) = support_path f"
| "path_of (Services_src f) = service_path f"
| "path_of (Auth_src f) = auth_path f"
| "path_of (Login_src f) = login_path f"
| "path_of (Bill_src f) = bill_path f"
| "path_of (Payment_src f) = payment_path f"
| "path_of (Admin_src f) = admin_path f"
| "path_of (Rbac_src f) = rbac_path f"
| "path_of (Pkg p) = ''node_modules''"

end
