(* ===== verification/Boundaries.thy ===== *)
theory Boundaries
  imports Source_Files Nest_Modules JS "HOL-Library.Sublist"
begin

text \<open>
  The rules of .eslintrc.js on which modules may import which, checked on the graph of all
  source files; what the service never loads; and the order in which the files of an import
  cycle are evaluated.
\<close>

subsection \<open>.eslintrc.js\<close>











subsection \<open>The domains\<close>
















subsection \<open>The rules hold\<close>














subsection \<open>Loading\<close>

text \<open>
  The loader of CommonJS. A file is entered once: its imports are loaded in their order, then
  its body is evaluated. A file that imports one that has been entered and not yet evaluated
  gets its exports as they are, empty at first: this happens exactly in an import cycle.
\<close>

record load_state =
  entered :: "source list"
  evaluated :: "source list"

fun load_files :: "nat \<Rightarrow> source list \<Rightarrow> load_state \<Rightarrow> load_state option" where
  "load_files n [] st = Some st"
| "load_files 0 (f # fs) st = None"
| "load_files (Suc n) (f # fs) st =
     (if f \<in> set (entered st) then load_files (Suc n) fs st
      else case load_files n (imports_of f) (st\<lparr>entered := f # entered st\<rparr>) of
          None \<Rightarrow> None
        | Some u \<Rightarrow> load_files (Suc n) fs (u\<lparr>evaluated := evaluated u @ [f]\<rparr>))"

definition nothing_loaded :: load_state where
  "nothing_loaded = \<lparr>entered = [], evaluated = []\<rparr>"

text \<open>The imports whose file is not evaluated when the importing file is.\<close>

fun partial_imports :: "source list \<Rightarrow> source list \<Rightarrow> (source \<times> source) list" where
  "partial_imports done [] = []"
| "partial_imports done (f # fs) =
     map (Pair f) (filter (\<lambda>g. g \<notin> set done) (imports_of f)) @ partial_imports (f # done) fs"

text \<open>What a run of the loader enters is evaluated, is reached from its roots, and is closed.\<close>

lemma load_files_visits:
  assumes "load_files n fs st = Some u"
  shows "set fs \<subseteq> set (entered u) \<and> set (entered st) \<subseteq> set (entered u)
    \<and> (\<forall>f \<in> set (entered u) - set (entered st). set (imports_of f) \<subseteq> set (entered u) \<and> (\<exists>r \<in> set fs. imports_file\<^sup>*\<^sup>* r f))
    \<and> set (evaluated u) = set (evaluated st) \<union> (set (entered u) - set (entered st))"
  using assms
proof (induction n fs st arbitrary: u rule: load_files.induct)
  case (3 n f fs st)
  show ?case
  proof (cases "f \<in> set (entered st)")
    case True
    with 3 show ?thesis by auto
  next
    case False
    let ?st = "st\<lparr>entered := f # entered st\<rparr>"
    obtain v where v: "load_files n (imports_of f) ?st = Some v" using 3(4) False by (auto split: option.splits)
    let ?v = "v\<lparr>evaluated := evaluated v @ [f]\<rparr>"
    from v 3(4) False have u: "load_files (Suc n) fs ?v = Some u" by simp
    note V = 3(2) [OF False v] and U = 3(3) [OF False v u]
    have vu: "set (entered v) \<subseteq> set (entered u)" and fv: "f \<in> set (entered v)" using U V by auto
    have new: "set (imports_of x) \<subseteq> set (entered u) \<and> (\<exists>r \<in> set (f # fs). imports_file\<^sup>*\<^sup>* r x)"
      if x: "x \<in> set (entered u) - set (entered st)" for x
    proof (cases "x \<in> set (entered v)")
      case True
      show ?thesis
      proof (cases "x = f")
        case True
        have "set (imports_of f) \<subseteq> set (entered v)" using V by simp
        with True vu show ?thesis by auto
      next
        case False
        with \<open>x \<in> set (entered v)\<close> x have "x \<in> set (entered v) - set (entered ?st)" by simp
        with V obtain r where "set (imports_of x) \<subseteq> set (entered v)" "r \<in> set (imports_of f)" "imports_file\<^sup>*\<^sup>* r x" by blast
        moreover from this(2,3) have "imports_file\<^sup>*\<^sup>* f x" by (auto simp: imports_file_def intro: converse_rtranclp_into_rtranclp)
        ultimately show ?thesis using vu by auto
      qed
    next
      case False
      with x have "x \<in> set (entered u) - set (entered ?v)" by simp
      with U show ?thesis by auto
    qed
    have "set (evaluated u) = set (evaluated st) \<union> (set (entered u) - set (entered st))"
      using U V False vu fv by auto
    with new U V fv vu show ?thesis by auto
  qed
qed auto

lemma loaded_reachable:
  assumes "load_files n [r] nothing_loaded = Some u"
  shows "set (evaluated u) = {f. imports_file\<^sup>*\<^sup>* r f}"
proof -
  note V = load_files_visits [OF assms, unfolded nothing_loaded_def, simplified]
  have "f \<in> set (entered u)" if "imports_file\<^sup>*\<^sup>* r f" for f
    using that V by (induction rule: rtranclp_induct) (auto simp: imports_file_def)
  with V show ?thesis by auto
qed

definition loads :: "source \<Rightarrow> source list" where
  "loads r = (case load_files 30 [r] nothing_loaded of Some u \<Rightarrow> evaluated u | None \<Rightarrow> [])"

text \<open>
  The files nothing imports on the way from main.ts: unused clients, constants, events, DTOs
  and the templates, the checks of checksums, and the migrations, which only the command line
  of TypeORM runs.
\<close>

definition never_loaded :: "source list" where
  "never_loaded =
    [Services_src Cbs_client_ts, Services_src Notification_client_ts, Common_src Error_codes_constant_ts,
     Common_src Notification_template_keys_constant_ts, Common_src Current_user_decorator_ts,
     Common_src Pagination_dto_ts, Common_src Checksum_guard_ts, Common_src Checksum_signing_interceptor_ts,
     Common_src Authenticated_user_interface_ts, Support_src Templates_controller_ts,
     Support_src Templates_module_ts, Support_src Templates_service_ts, Support_src Create_template_dto_ts,
     Support_src Notification_template_history_entity_ts, Support_src Notification_template_entity_ts,
     Services_src Event_log_entity_ts, Admin_src Admin_action_audited_event_ts,
     Admin_src M1788856000000_CreateAdminModuleTables_ts, Auth_src User_deactivated_event_ts,
     Auth_src User_registered_event_ts, Auth_src Modules_auth_keycloak_Keycloak_config_ts,
     Auth_src M1789030000000_AddRegistrationSagaColumns_ts, Bill_src Demo_bbps_data_seeder_ts,
     Bill_src Bill_payment_completed_event_ts, Bill_src M1788780440681_InitialBillPayment_ts,
     Bill_src M1788784048534_AddConsumerAndBillNumber_ts, Bill_src M1788844566220_UpdateBillPaymentAmount_ts,
     Bill_src M1788849842117_AddIdempotencyKey_ts, Bill_src M1788851200000_AddKeycloakUserIdToBbps_ts,
     Bill_src M1788852000000_AddScheduleStatusAndExecution_ts]"

lemma start_ends: "load_files 30 [Root_src Main_ts] nothing_loaded \<noteq> None"
  by code_simp

lemma start_leaves_out: "list_all (\<lambda>f. f \<notin> set (loads (Root_src Main_ts))) never_loaded"
  by code_simp

lemma start_reaches: "set (loads (Root_src Main_ts)) = {f. imports_file\<^sup>*\<^sup>* (Root_src Main_ts) f}"
  using start_ends loaded_reachable [of 30 "Root_src Main_ts"] by (auto simp: loads_def)

text \<open>
  The start of the service loads what main.ts reaches, and every file is evaluated after
  the files it imports, but for six imports of import cycles. One of them is harmless only
  because of the order of the imports: the orchestrator of the registration, whose constructor
  asks for the compensation service, is entered first. A program that enters the compensation
  service first evaluates the orchestrator without it.
\<close>

theorem startup_load_order:
  "load_files 30 [Root_src Main_ts] nothing_loaded \<noteq> None
   \<and> set (loads (Root_src Main_ts)) = {f. imports_file\<^sup>*\<^sup>* (Root_src Main_ts) f}
   \<and> set never_loaded \<inter> set (loads (Root_src Main_ts)) = {}
   \<and> partial_imports [] (loads (Root_src Main_ts)) =
       [(Login_src Registration_compensation_service_ts, Login_src Registration_orchestrator_service_ts),
        (Rbac_src Employee_entity_ts, Rbac_src Employee_user_role_entity_ts),
        (Rbac_src Permission_entity_ts, Rbac_src Role_permission_entity_ts),
        (Rbac_src Role_permission_entity_ts, Rbac_src Role_entity_ts),
        (Rbac_src Delegated_role_entity_ts, Rbac_src Role_entity_ts),
        (Rbac_src Role_entity_ts, Rbac_src Employee_user_role_entity_ts)]
   \<and> Class (Auth RegistrationCompensationService) \<in> set (injects (Auth RegistrationOrchestratorService))
   \<and> partial_imports [] (loads (Login_src Registration_compensation_service_ts)) =
       [(Login_src Registration_orchestrator_service_ts, Login_src Registration_compensation_service_ts)]"
proof (intro conjI)
  show "partial_imports [] (loads (Root_src Main_ts)) =
       [(Login_src Registration_compensation_service_ts, Login_src Registration_orchestrator_service_ts),
        (Rbac_src Employee_entity_ts, Rbac_src Employee_user_role_entity_ts),
        (Rbac_src Permission_entity_ts, Rbac_src Role_permission_entity_ts),
        (Rbac_src Role_permission_entity_ts, Rbac_src Role_entity_ts),
        (Rbac_src Delegated_role_entity_ts, Rbac_src Role_entity_ts),
        (Rbac_src Role_entity_ts, Rbac_src Employee_user_role_entity_ts)]" by code_simp
  show "partial_imports [] (loads (Login_src Registration_compensation_service_ts)) =
       [(Login_src Registration_orchestrator_service_ts, Login_src Registration_compensation_service_ts)]" by code_simp
  show "Class (Auth RegistrationCompensationService) \<in> set (injects (Auth RegistrationOrchestratorService))"
    by (simp add: RegistrationOrchestratorService_injects_def)
  show "set never_loaded \<inter> set (loads (Root_src Main_ts)) = {}"
    using start_leaves_out by (auto simp: list_all_iff)
qed (rule start_ends start_reaches)+

end
