(* ===== verification/Startup.thy ===== *)
theory Startup
  imports Config Interceptors Keycloak
begin

text \<open>
  The start of the server by main.ts, call by call; the texts of the documentation that the
  controllers and the bootstrap share; the health check; and what the logging interceptor
  writes about a request.
\<close>

subsection \<open>main.ts\<close>

text \<open>The calls on the application, on express and on the logger; the libraries behind them are not modelled.\<close>

datatype boot_call =
    Log_warn string
  | Set_global_prefix string
  | Express_set string nat
  | Use_helmet "(string \<times> bool) list"
  | Enable_cors
  | Use_middleware string
  | Use_validation_pipe "(string \<times> bool) list"
  | Use_filters "string list"
  | Use_interceptors "string list"
  | Create_document "(string \<times> string) list" "string option"
  | Apply_security_defaults
  | Setup_swagger string string "(string \<times> bool) list" "string option"
  | Log_info string
  | Listen string string

definition line_break :: string where
  "line_break = [char_of (10 :: nat)]"

definition code_text :: "string \<Rightarrow> string" where
  "code_text s = CHR 0x60 # s @ [CHR 0x60]"

definition in_quotes :: "string \<Rightarrow> string" where
  "in_quotes s = CHR 0x22 # s @ [CHR 0x22]"

definition swagger_description :: string where
  "swagger_description =
     ''Bharat Banking authentication APIs. All endpoints use POST.'' @ line_break @ line_break @
     ''**Audiences:**'' @ line_break @
     ''- '' @ code_text ''[Mobile / Customer]'' @ '' '' @ em_dash @ '' mobile app endpoints for retail/corporate customers (use Keycloak client ''
       @ code_text ''mobile-app'' @ '')'' @ line_break @
     ''- '' @ code_text ''[Admin]'' @ '' '' @ em_dash @ '' admin web portal for bank staff (use Keycloak client ''
       @ code_text ''admin-web'' @ '')'' @ line_break @ line_break @
     ''**Auth flow:**'' @ line_break @
     ''1. '' @ code_text ''POST /auth/login'' @ '' '' @ em_dash @ '' in the **Response body**, copy **'' @ code_text ''data.accessToken''
       @ ''** (not '' @ code_text ''data.refreshToken'' @ '')'' @ line_break @
     ''2. Click **Authorize** (top right), paste the JWT only (no '' @ code_text ''Bearer'' @ '' prefix), then **Authorize** again''
       @ line_break @
     ''3. Call protected endpoints within 5 minutes'' @ line_break @
     ''4. '' @ code_text ''POST /auth/logout'' @ '' when done''"

definition swagger_config :: "(string \<times> string) list" where
  "swagger_config =
    [(''title'', ''NPST BCB '' @ em_dash @ '' Auth Service''),
     (''description'', swagger_description),
     (''version'', ''1.0''),
     (''bearer.type'', ''http''), (''bearer.scheme'', ''bearer''), (''bearer.bearerFormat'', ''JWT''),
     (''bearer.description'',
      ''Paste **accessToken** from POST /auth/login only. Do not paste refreshToken or the word Bearer.''),
     (''security'', ''bearer'')]"

definition bootstrap_calls :: "env \<Rightarrow> boot_call list" where
  "bootstrap_calls env = (let
     globalPrefix = resolveApiGlobalPrefix (env ''API_GLOBAL_PREFIX'');
     gatewayPrefix = resolveGatewayPathPrefix (env ''GATEWAY_PATH_PREFIX'');
     configuredPrefix = strip_slashes (orElse (env ''API_GLOBAL_PREFIX'') ''api/v1'');
     publicBaseUrl = map_option (\<lambda>s. rev (dropWhile (\<lambda>c. c = CHR ''/'') (rev s))) (env ''APP_PUBLIC_BASE_URL'');
     server = (if truthy publicBaseUrl then publicBaseUrl
        else if gatewayPrefix \<noteq> [] then Some (CHR ''/'' # gatewayPrefix) else None);
     swaggerMountPath = globalPrefix @ ''/docs'';
     swaggerJsonPath = globalPrefix @ ''/docs-json'' in
     (if startsWith ''identity/'' configuredPrefix
      then [Log_warn (''API_GLOBAL_PREFIX must not include '' @ in_quotes ''identity/''
        @ '' '' @ em_dash @ '' the gateway adds that externally. Using '' @ in_quotes globalPrefix
        @ '' instead of '' @ in_quotes configuredPrefix @ ''.'')] else [])
     @ [Set_global_prefix globalPrefix,
        Express_set ''trust proxy'' 1,
        Use_helmet (if env ''ENABLE_HTTPS_HEADERS'' = Some ''true'' then []
          else [(''hsts'', False), (''crossOriginOpenerPolicy'', False), (''contentSecurityPolicy'', False)]),
        Enable_cors,
        Use_middleware ''normalizeBearerMiddleware'',
        Use_validation_pipe [(''whitelist'', True), (''transform'', True)],
        Use_filters [''HttpExceptionFilter''],
        Use_interceptors [''LoggingInterceptor'', ''ResponseTransformInterceptor''],
        Create_document swagger_config server,
        Apply_security_defaults,
        Setup_swagger swaggerMountPath swaggerJsonPath [(''persistAuthorization'', True)]
          (if gatewayPrefix \<noteq> [] then Some (buildPublicPath gatewayPrefix swaggerJsonPath) else None),
        Log_info (''API prefix (internal): /'' @ globalPrefix)]
     @ (if gatewayPrefix \<noteq> []
        then [Log_info (''Gateway prefix (external): /'' @ gatewayPrefix),
              Log_info (''Swagger UI (external): '' @ buildPublicPath gatewayPrefix swaggerMountPath)]
        else [Log_info (''Swagger UI: /'' @ swaggerMountPath)])
     @ [Listen (orElse (env ''PORT'') ''3000'') (orElse (env ''HOST'') ''0.0.0.0'')])"

text \<open>The calls carry the settings of \<open>bootstrap\<close>, and the server listens last.\<close>

lemma bootstrap_calls_settings:
  "Set_global_prefix (bt_prefix (bootstrap env)) \<in> set (bootstrap_calls env)"
  "Setup_swagger (bt_swagger_path (bootstrap env)) (bt_swagger_json (bootstrap env)) [(''persistAuthorization'', True)]
     (bt_swagger_url (bootstrap env)) \<in> set (bootstrap_calls env)"
  "Create_document swagger_config (bt_server (bootstrap env)) \<in> set (bootstrap_calls env)"
  "(\<exists>m. Log_warn m \<in> set (bootstrap_calls env)) \<longleftrightarrow> bt_prefix_warning (bootstrap env)"
  "last (bootstrap_calls env) = Listen (bt_port (bootstrap env)) (bt_host (bootstrap env))"
  by (auto simp: bootstrap_calls_def bootstrap_def Let_def)

text \<open>No call but the last opens the port: every middleware, pipe and filter is in place by then.\<close>

lemma listens_last: "Listen p h \<notin> set (butlast (bootstrap_calls env))"
  by (auto simp: bootstrap_calls_def Let_def butlast_append split: if_splits)

subsection \<open>health.controller.ts\<close>

text \<open>\<open>HealthCheckService.check\<close> and the indicator of the database belong to @nestjs/terminus.\<close>

definition health_check :: "(('s, 'x) act list \<Rightarrow> ('s, 'r) act) \<Rightarrow> (string \<Rightarrow> ('s, 'x) act) \<Rightarrow> ('s, 'r) act" where
  "health_check check pingCheck = check [pingCheck ''database'']"

subsection \<open>api-audience.constants.ts\<close>

definition AUDIENCE_MOBILE_CUSTOMER :: string where
  "AUDIENCE_MOBILE_CUSTOMER = ''**Audience:** Mobile app (retail/corporate **customer**). Use Keycloak client ''
     @ code_text ''mobile-app'' @ '' for login.''"

definition AUDIENCE_ADMIN_PORTAL :: string where
  "AUDIENCE_ADMIN_PORTAL = ''**Audience:** Admin web portal (**bank staff** / superadmin). Use Keycloak client ''
     @ code_text ''admin-web'' @ '' for login.''"

definition AUDIENCE_BOTH :: string where
  "AUDIENCE_BOTH = ''**Audience:** Mobile app (customer) and admin web portal (bank staff), depending on the operation.''"

record operation_doc =
  od_summary :: string
  od_description :: string

definition mobileCustomerOp :: "string \<Rightarrow> string \<Rightarrow> operation_doc" where
  "mobileCustomerOp summary detail = \<lparr>od_summary = ''[Mobile / Customer] '' @ summary,
     od_description = AUDIENCE_MOBILE_CUSTOMER @ line_break @ line_break @ detail\<rparr>"

definition adminPortalOp :: "string \<Rightarrow> string \<Rightarrow> operation_doc" where
  "adminPortalOp summary detail = \<lparr>od_summary = ''[Admin] '' @ summary,
     od_description = AUDIENCE_ADMIN_PORTAL @ line_break @ line_break @ detail\<rparr>"

subsection \<open>idempotency-key.decorator.ts\<close>

record api_header =
  ah_interceptors :: "string list"
  ah_name :: string
  ah_description :: string
  ah_required :: bool
  ah_example :: string

definition IdempotencyKey :: api_header where
  "IdempotencyKey = \<lparr>ah_interceptors = [''IdempotencyKeyInterceptor''], ah_name = IDEMPOTENCY_KEY_HEADER,
     ah_description = ''Client-generated unique key for this mutation. Reuse the same value when retrying the same payment after a timeout.'',
     ah_required = True, ah_example = ''pay-unique-key-001''\<rparr>"

subsection \<open>error-codes.constant.ts and notification-template-keys.constant.ts\<close>

definition ERROR_CODES :: "(string \<times> string) list" where
  "ERROR_CODES =
    [(''VALIDATION_FAILED'', ''ERR_VALIDATION_FAILED''), (''UNAUTHORIZED'', ''ERR_UNAUTHORIZED''),
     (''FORBIDDEN'', ''ERR_FORBIDDEN''), (''NOT_FOUND'', ''ERR_NOT_FOUND''), (''OTP_INVALID'', ''ERR_OTP_INVALID''),
     (''OTP_LOCKED'', ''ERR_OTP_LOCKED''), (''DUPLICATE_REQUEST'', ''ERR_DUPLICATE_REQUEST''),
     (''DOWNSTREAM_UNAVAILABLE'', ''ERR_DOWNSTREAM_UNAVAILABLE'')]"

definition NOTIFICATION_TEMPLATE_KEYS :: "(string \<times> string) list" where
  "NOTIFICATION_TEMPLATE_KEYS =
    [(''REGISTRATION_OTP'', ''registration_otp''), (''REGISTRATION_SUCCESS'', ''registration_success''),
     (''BILL_PAYMENT_SUCCESS'', ''bill_payment_success''), (''BILL_PAYMENT_FAILED'', ''bill_payment_failed''),
     (''ADMIN_ACTION_AUDITED'', ''admin_action_audited'')]"

lemma constants_distinct:
  "distinct (map fst ERROR_CODES) \<and> distinct (map snd ERROR_CODES)
   \<and> distinct (map fst NOTIFICATION_TEMPLATE_KEYS) \<and> distinct (map snd NOTIFICATION_TEMPLATE_KEYS)"
  by (simp add: ERROR_CODES_def NOTIFICATION_TEMPLATE_KEYS_def)

subsection \<open>token-login-response.dto.ts\<close>

text \<open>A login answers with its tokens in the wrapper of every response.\<close>

record token_login_response =
  tl_success :: bool
  tl_timestamp :: string
  tl_data :: token_response

definition login_response :: "int \<Rightarrow> token_response \<Rightarrow> token_login_response" where
  "login_response now tokens = (let r = responseTransform now tokens in
     \<lparr>tl_success = br_success r, tl_timestamp = br_timestamp r, tl_data = br_data r\<rparr>)"

lemma login_response_fields:
  "login_response now tokens = \<lparr>tl_success = True, tl_timestamp = toISOString now, tl_data = tokens\<rparr>"
  by (simp add: login_response_def responseTransform_def)

subsection \<open>logging.interceptor.ts\<close>

text \<open>
  The lines of a request: one before the handler and one after it, with the body of the
  response or the message of the error. An absent body is printed as \<open>undefined\<close>.
\<close>

datatype log_line = Log_line string | Warn_line string

record http_request =
  rq_method :: string
  rq_url :: string
  rq_body :: "json option"

definition body_text :: "json option \<Rightarrow> string" where
  "body_text b = (case b of None \<Rightarrow> ''undefined'' | Some v \<Rightarrow> stringify (maskPii None v))"

definition log_intercept :: "int \<Rightarrow> int \<Rightarrow> http_request \<Rightarrow> json option result \<Rightarrow> log_line list" where
  "log_intercept start now request outcome = (let
     what = rq_method request @ '' '' @ rq_url request; ms = show_int (now - start) @ ''ms'' in
     [Log_line (''--> '' @ what @ '' '' @ body_text (rq_body request)),
      (case outcome of
         Inr responseBody \<Rightarrow> Log_line (''<-- '' @ what @ '' '' @ ms @ '' '' @ body_text responseBody)
       | Inl e \<Rightarrow> Warn_line (''<-x '' @ what @ '' '' @ ms @ '' '' @ exn_message e))])"

text \<open>The lines depend on the bodies only through the mask.\<close>

lemma log_masked:
  assumes "maskPii None b = maskPii None b'" and "maskPii None r = maskPii None r'"
  shows "log_intercept t u \<lparr>rq_method = m, rq_url = l, rq_body = Some b\<rparr> (Inr (Some r))
    = log_intercept t u \<lparr>rq_method = m, rq_url = l, rq_body = Some b'\<rparr> (Inr (Some r'))"
  by (simp add: log_intercept_def body_text_def assms)

text \<open>
  The message of an error is logged as it is. A sign-up whose username is a mobile number in
  use is logged with the number in clear.
\<close>

lemma error_logged_in_clear:
  assumes "findUsersByUsername http c (su_username dto) w = (Inr (u # us), w')"
  shows "\<exists>e. signup http c dto w = (Inl e, w')
    \<and> Warn_line (''<-x POST '' @ url @ '' '' @ show_int (now - start) @ ''ms Username '' @ su_username dto @ '' already exists'')
        \<in> set (log_intercept start now \<lparr>rq_method = ''POST'', rq_url = url, rq_body = b\<rparr> (Inl e))"
  using assms by (simp add: signup_def log_intercept_def Let_def)

end
