(* ===== verification/Sql.thy ===== *)
theory Sql
  imports JS
begin

text \<open>
  The part of MySQL's SQL in which the migrations are written: the statements that define
  tables, and the updates of rows between them. A statement either fails and leaves the
  database as it was, or gives the new one; it is committed at once.
\<close>

subsection \<open>Values, columns, tables\<close>

datatype sql_value = Null | Str string | Num rat

datatype sql_type = Varchar nat | Fixed_char nat | Text | Json | Whole | Tinyint | Decimal nat nat
  | Datetime nat | Timestamp nat | Date

datatype sql_default = No_default | Default_value sql_value | Default_now | Default_uuid

record column =
  cl_type :: sql_type
  cl_nullable :: bool
  cl_default :: sql_default
  cl_on_update_now :: bool

record index =
  ix_unique :: bool
  ix_columns :: "string list"

record foreign =
  fk_columns :: "string list"
  fk_table :: string
  fk_target :: "string list"
  fk_cascade :: bool

type_synonym sql_row = "string \<Rightarrow> sql_value"

record table =
  tb_columns :: "(string \<times> column) list"
  tb_indexes :: "(string \<times> index) list"
  tb_foreign :: "(string \<times> foreign) list"
  tb_rows :: "sql_row list"

text \<open>The primary key is the unique index PRIMARY. A row is null at the columns its table does not have.\<close>

definition new_table :: "(string \<times> column) list \<Rightarrow> (string \<times> index) list \<Rightarrow> (string \<times> foreign) list \<Rightarrow> table" where
  "new_table cs is fs = \<lparr>tb_columns = cs,
     tb_indexes = (''PRIMARY'', \<lparr>ix_unique = True, ix_columns = [''id'']\<rparr>) # is, tb_foreign = fs, tb_rows = []\<rparr>"

type_synonym database = "(string \<times> table) list"

datatype sql_error = Table_exists string | Unknown_table string | Duplicate_column string | Unknown_column string
  | Duplicate_index string | Unknown_index string | Duplicate_entry string | Null_value string | Bad_value string
  | Referenced string | Not_modelled string

subsection \<open>Statements\<close>

datatype sql_expr = Column string | Literal sql_value | Concat sql_expr sql_expr
  | If_equal sql_expr sql_expr sql_expr sql_expr

datatype sql_statement =
    Create_table string table
  | Drop_table string
  | Add_column string string column
  | Drop_column string string
  | Modify_column string string column
  | Add_index string string index
  | Drop_index string string
  | Update string string sql_expr "string option"

text \<open>
  \<open>Create_table\<close> carries a table without rows. \<open>Update t c e w\<close> sets column \<open>c\<close> to \<open>e\<close>, in the
  rows where column \<open>w\<close> is null if there is a \<open>w\<close>.
\<close>

fun sql_eval :: "sql_row \<Rightarrow> sql_expr \<Rightarrow> sql_value" where
  "sql_eval r (Column c) = r c"
| "sql_eval r (Literal v) = v"
| "sql_eval r (Concat a b) = (case (sql_eval r a, sql_eval r b) of (Str x, Str y) \<Rightarrow> Str (x @ y) | _ \<Rightarrow> Null)"
| "sql_eval r (If_equal a b x y) =
     (if sql_eval r a \<noteq> Null \<and> sql_eval r a = sql_eval r b then sql_eval r x else sql_eval r y)"

text \<open>
  Storing a value in a column: decimals are rounded half away from zero, and what does not fit
  is refused. The migrations never store a value of one kind in a column of another, so the
  implicit conversions of MySQL are left out: such a value does not fit.
\<close>

definition round_scale :: "nat \<Rightarrow> rat \<Rightarrow> rat" where
  "round_scale s x = (let n = of_int \<lfloor>\<bar>x\<bar> * 10 ^ s + 1/2\<rfloor> / 10 ^ s in if x < 0 then - n else n)"

definition store :: "sql_type \<Rightarrow> sql_value \<Rightarrow> sql_value" where
  "store ty v = (case ty of Decimal p s \<Rightarrow> (case v of Num x \<Rightarrow> Num (round_scale s x) | _ \<Rightarrow> v) | _ \<Rightarrow> v)"

definition fits :: "sql_type \<Rightarrow> sql_value \<Rightarrow> bool" where
  "fits ty v \<longleftrightarrow> (case v of
       Null \<Rightarrow> True
     | Str s \<Rightarrow> (case ty of Varchar n \<Rightarrow> length s \<le> n | Fixed_char n \<Rightarrow> length s \<le> n
          | Whole \<Rightarrow> False | Tinyint \<Rightarrow> False | Decimal p q \<Rightarrow> False | _ \<Rightarrow> True)
     | Num x \<Rightarrow> (case ty of Decimal p q \<Rightarrow> \<bar>round_scale q x\<bar> < 10 ^ (p - q)
          | Whole \<Rightarrow> x = of_int \<lfloor>x\<rfloor> \<and> - (2 ^ 31) \<le> x \<and> x < 2 ^ 31
          | Tinyint \<Rightarrow> x = of_int \<lfloor>x\<rfloor> \<and> - 128 \<le> x \<and> x < 128 | _ \<Rightarrow> False))"

text \<open>
  The value that the existing rows get when a column is added: its default, null, or the empty
  string and zero for a column that may not be null. The other cases do not occur.
\<close>

definition added_value :: "column \<Rightarrow> sql_value option" where
  "added_value c = (case cl_default c of
      Default_value v \<Rightarrow> Some v
    | Default_now \<Rightarrow> None
    | Default_uuid \<Rightarrow> None
    | No_default \<Rightarrow> if cl_nullable c then Some Null else (case cl_type c of
          Varchar n \<Rightarrow> Some (Str []) | Fixed_char n \<Rightarrow> Some (Str []) | Whole \<Rightarrow> Some (Num 0)
        | Tinyint \<Rightarrow> Some (Num 0) | Decimal p s \<Rightarrow> Some (Num 0) | _ \<Rightarrow> None))"

text \<open>A unique index: no two rows agree on its columns, unless one of them is null.\<close>

definition clash :: "string list \<Rightarrow> sql_row \<Rightarrow> sql_row \<Rightarrow> bool" where
  "clash cs a b \<longleftrightarrow> list_all (\<lambda>c. a c \<noteq> Null \<and> a c = b c) cs"

fun unique_rows :: "string list \<Rightarrow> sql_row list \<Rightarrow> bool" where
  "unique_rows cs [] = True"
| "unique_rows cs (r # rs) \<longleftrightarrow> list_all (\<lambda>s. \<not> clash cs r s) rs \<and> unique_rows cs rs"

definition find_clash :: "table \<Rightarrow> string option" where
  "find_clash t = map_option fst (find (\<lambda>(n, i). ix_unique i \<and> \<not> unique_rows (ix_columns i) (tb_rows t)) (tb_indexes t))"

definition has :: "(string \<times> 'a) list \<Rightarrow> string \<Rightarrow> bool" where
  "has xs n \<longleftrightarrow> n \<in> fst ` set xs"

definition put :: "string \<Rightarrow> table \<Rightarrow> database \<Rightarrow> database" where
  "put n t db = map (\<lambda>(m, u). if m = n then (m, t) else (m, u)) db"

definition del :: "string \<Rightarrow> ('k \<Rightarrow> string) \<Rightarrow> 'k list \<Rightarrow> 'k list" where
  "del n name = filter (\<lambda>x. name x \<noteq> n)"

definition on_table :: "string \<Rightarrow> database \<Rightarrow> (table \<Rightarrow> sql_error + table) \<Rightarrow> sql_error + database" where
  "on_table n db f = (case map_of db n of
      None \<Rightarrow> Inl (Unknown_table n)
    | Some t \<Rightarrow> (case f t of Inl e \<Rightarrow> Inl e | Inr u \<Rightarrow> Inr (put n u db)))"

definition on_column :: "string \<Rightarrow> table \<Rightarrow> sql_error + table \<Rightarrow> sql_error + table" where
  "on_column c t r = (if \<not> has (tb_columns t) c then Inl (Unknown_column c) else r)"

text \<open>A table after a change of its rows or indexes, if the unique indexes allow it.\<close>

definition checked :: "table \<Rightarrow> sql_error + table" where
  "checked t = (case find_clash t of None \<Rightarrow> Inr t | Some i \<Rightarrow> Inl (Duplicate_entry i))"

definition add_column :: "string \<Rightarrow> column \<Rightarrow> table \<Rightarrow> sql_error + table" where
  "add_column c d t = (if has (tb_columns t) c then Inl (Duplicate_column c)
     else (case added_value d of
         None \<Rightarrow> Inl (Not_modelled c)
       | Some v \<Rightarrow> Inr (t\<lparr>tb_columns := tb_columns t @ [(c, d)], tb_rows := map (\<lambda>r. r(c := v)) (tb_rows t)\<rparr>)))"

text \<open>A dropped column leaves the indexes; an index without columns goes with it.\<close>

definition drop_column :: "string \<Rightarrow> table \<Rightarrow> sql_error + table" where
  "drop_column c t = on_column c t (checked (t\<lparr>tb_columns := del c fst (tb_columns t),
     tb_indexes := filter (\<lambda>(n, i). ix_columns i \<noteq> [])
       (map (\<lambda>(n, i). (n, i\<lparr>ix_columns := del c id (ix_columns i)\<rparr>)) (tb_indexes t)),
     tb_rows := map (\<lambda>r. r(c := Null)) (tb_rows t)\<rparr>))"

definition modify_column :: "string \<Rightarrow> column \<Rightarrow> table \<Rightarrow> sql_error + table" where
  "modify_column c d t = on_column c t
     (if \<not> cl_nullable d \<and> list_ex (\<lambda>r. r c = Null) (tb_rows t) then Inl (Null_value c)
      else if list_ex (\<lambda>r. \<not> fits (cl_type d) (r c)) (tb_rows t) then Inl (Bad_value c)
      else checked (t\<lparr>tb_columns := map (\<lambda>(n, x). if n = c then (n, d) else (n, x)) (tb_columns t),
             tb_rows := map (\<lambda>r. r(c := store (cl_type d) (r c))) (tb_rows t)\<rparr>))"

definition add_index :: "string \<Rightarrow> index \<Rightarrow> table \<Rightarrow> sql_error + table" where
  "add_index n i t = (if has (tb_indexes t) n then Inl (Duplicate_index n)
     else (case find (\<lambda>c. \<not> has (tb_columns t) c) (ix_columns i) of
         Some c \<Rightarrow> Inl (Unknown_column c)
       | None \<Rightarrow> checked (t\<lparr>tb_indexes := tb_indexes t @ [(n, i)]\<rparr>)))"

definition drop_index :: "string \<Rightarrow> table \<Rightarrow> sql_error + table" where
  "drop_index n t = (if \<not> has (tb_indexes t) n then Inl (Unknown_index n)
     else Inr (t\<lparr>tb_indexes := del n fst (tb_indexes t)\<rparr>))"

definition selected :: "string option \<Rightarrow> sql_row \<Rightarrow> bool" where
  "selected w r \<longleftrightarrow> (case w of None \<Rightarrow> True | Some c \<Rightarrow> r c = Null)"

definition update_rows :: "string \<Rightarrow> sql_expr \<Rightarrow> string option \<Rightarrow> table \<Rightarrow> sql_error + table" where
  "update_rows c e w t = (case map_of (tb_columns t) c of
      None \<Rightarrow> Inl (Unknown_column c)
    | Some d \<Rightarrow>
        if list_ex (\<lambda>r. selected w r \<and> \<not> cl_nullable d \<and> sql_eval r e = Null) (tb_rows t) then Inl (Null_value c)
        else if list_ex (\<lambda>r. selected w r \<and> \<not> fits (cl_type d) (sql_eval r e)) (tb_rows t) then Inl (Bad_value c)
        else checked (t\<lparr>tb_rows := map (\<lambda>r. if selected w r then r(c := store (cl_type d) (sql_eval r e)) else r) (tb_rows t)\<rparr>))"

definition referenced :: "string \<Rightarrow> database \<Rightarrow> bool" where
  "referenced n db \<longleftrightarrow> list_ex (\<lambda>(m, t). m \<noteq> n \<and> list_ex (\<lambda>(k, f). fk_table f = n) (tb_foreign t)) db"

fun exec :: "sql_statement \<Rightarrow> database \<Rightarrow> sql_error + database" where
  "exec (Create_table n t) db = (if has db n then Inl (Table_exists n)
     else (case find (\<lambda>(k, f). \<not> has db (fk_table f)) (tb_foreign t) of
         Some (k, f) \<Rightarrow> Inl (Unknown_table (fk_table f))
       | None \<Rightarrow> Inr (db @ [(n, t)])))"
| "exec (Drop_table n) db = (if \<not> has db n then Inl (Unknown_table n)
     else if referenced n db then Inl (Referenced n) else Inr (del n fst db))"
| "exec (Add_column n c d) db = on_table n db (add_column c d)"
| "exec (Drop_column n c) db = on_table n db (drop_column c)"
| "exec (Modify_column n c d) db = on_table n db (modify_column c d)"
| "exec (Add_index n i x) db = on_table n db (add_index i x)"
| "exec (Drop_index n i) db = on_table n db (drop_index i)"
| "exec (Update n c e w) db = on_table n db (update_rows c e w)"

text \<open>A list of statements stops at the first that fails.\<close>

fun execs :: "sql_statement list \<Rightarrow> database \<Rightarrow> sql_error option \<times> database" where
  "execs [] db = (None, db)"
| "execs (q # qs) db = (case exec q db of Inl e \<Rightarrow> (Some e, db) | Inr d \<Rightarrow> execs qs d)"

lemma execs_append:
  "execs (ps @ qs) db = (case execs ps db of (Some e, d) \<Rightarrow> (Some e, d) | (None, d) \<Rightarrow> execs qs d)"
  by (induction ps arbitrary: db) (auto split: sum.splits)

end
