(* ===== verification/Migrations.thy ===== *)
theory Migrations
  imports Sql
begin

text \<open>
  The migrations of the three modules, statement by statement, in the order of their time stamps.
\<close>

subsection \<open>Columns and indexes as the statements write them\<close>

definition required :: "sql_type \<Rightarrow> column" where
  "required ty = \<lparr>cl_type = ty, cl_nullable = False, cl_default = No_default, cl_on_update_now = False\<rparr>"

definition optional :: "sql_type \<Rightarrow> column" where
  "optional ty = \<lparr>cl_type = ty, cl_nullable = True, cl_default = No_default, cl_on_update_now = False\<rparr>"

definition defaulting :: "sql_type \<Rightarrow> sql_value \<Rightarrow> column" where
  "defaulting ty v = (required ty)\<lparr>cl_default := Default_value v\<rparr>"

definition stamped :: "sql_type \<Rightarrow> column" where
  "stamped ty = (required ty)\<lparr>cl_default := Default_now\<rparr>"

definition restamped :: "sql_type \<Rightarrow> column" where
  "restamped ty = (stamped ty)\<lparr>cl_on_update_now := True\<rparr>"

definition generated :: "sql_type \<Rightarrow> column" where
  "generated ty = (required ty)\<lparr>cl_default := Default_uuid\<rparr>"

definition unique_on :: "string list \<Rightarrow> index" where
  "unique_on cs = \<lparr>ix_unique = True, ix_columns = cs\<rparr>"

definition plain_on :: "string list \<Rightarrow> index" where
  "plain_on cs = \<lparr>ix_unique = False, ix_columns = cs\<rparr>"

record migration =
  mg_name :: string
  mg_up :: "sql_statement list"
  mg_down :: "sql_statement list"

subsection \<open>InitialBillPayment: the tables of the three modules\<close>

definition event_log_table :: table where
  "event_log_table = new_table [
       (''id'', required (Varchar 36)), (''event_name'', required (Varchar 255)), (''payload'', required Json),
       (''created_at'', stamped (Datetime 6)), (''updated_at'', restamped (Datetime 6))]
       [] []"

definition audit_outbox_table :: table where
  "audit_outbox_table = new_table [
       (''id'', required (Varchar 36)), (''event_type'', required (Varchar 255)), (''payload'', required Json),
       (''status'', defaulting (Varchar 255) (Str ''PENDING'')), (''attempts'', defaulting Whole (Num 0)),
       (''created_at'', stamped (Datetime 6)), (''updated_at'', restamped (Datetime 6))]
       [] []"

definition notification_template_table :: table where
  "notification_template_table = new_table [
       (''id'', required (Varchar 36)), (''template_key'', required (Varchar 255)),
       (''channel'', required (Varchar 255)), (''subject'', optional (Varchar 255)), (''body'', required Text),
       (''version'', defaulting Whole (Num 1)), (''created_at'', stamped (Datetime 6)),
       (''updated_at'', restamped (Datetime 6))]
       [] []"

definition notification_template_history_table :: table where
  "notification_template_history_table = new_table [
       (''id'', required (Varchar 36)), (''template_id'', required (Varchar 255)), (''body'', required Text),
       (''version'', required Whole), (''created_at'', stamped (Datetime 6)),
       (''updated_at'', restamped (Datetime 6))]
       [] []"

definition bill_schedule_table :: table where
  "bill_schedule_table = new_table [
       (''id'', required (Varchar 36)), (''biller_code'', required (Varchar 255)),
       (''consumer_number'', required (Varchar 255)), (''frequency'', required (Varchar 255)),
       (''next_run_at'', required (Datetime 0)), (''active'', defaulting Tinyint (Num 1)),
       (''created_at'', stamped (Datetime 6)), (''updated_at'', restamped (Datetime 6))]
       [] []"

definition bill_payment_table :: table where
  "bill_payment_table = new_table [
       (''id'', required (Varchar 36)), (''biller_code'', required (Varchar 255)),
       (''consumer_number'', required (Varchar 255)), (''amount'', required (Decimal 10 0)),
       (''status'', defaulting (Varchar 255) (Str ''PENDING'')), (''bbps_reference_id'', optional (Varchar 255)),
       (''created_at'', stamped (Datetime 6)), (''updated_at'', restamped (Datetime 6))]
       [] []"

definition biller_registration_table :: table where
  "biller_registration_table = new_table [
       (''id'', required (Varchar 36)), (''biller_code'', required (Varchar 255)),
       (''biller_name'', required (Varchar 255)), (''category'', required (Varchar 255)),
       (''active'', defaulting Tinyint (Num 1)), (''created_at'', stamped (Datetime 6)),
       (''updated_at'', restamped (Datetime 6))]
       [] []"

definition registration_attempt_table :: table where
  "registration_attempt_table = new_table [
       (''id'', required (Varchar 36)), (''mobile_number'', required (Varchar 255)),
       (''pan_or_cif'', required (Varchar 255)), (''current_step'', defaulting (Varchar 255) (Str ''INIT'')),
       (''failure_reason'', optional (Varchar 255)), (''created_at'', stamped (Datetime 6)),
       (''updated_at'', restamped (Datetime 6))]
       [] []"

definition mock_bill_table :: table where
  "mock_bill_table = new_table [
       (''id'', required (Varchar 36)), (''biller_code'', required (Varchar 255)),
       (''customer_bill_number'', required (Varchar 255)), (''registered_mobile'', required (Varchar 255)),
       (''customer_name'', required (Varchar 255)), (''amount'', required (Decimal 12 2)),
       (''due_date'', required Date), (''status'', defaulting (Varchar 255) (Str ''UNPAID'')),
       (''created_at'', stamped (Datetime 6)), (''updated_at'', restamped (Datetime 6))]
       [(''IDX_988517e01eb4417484bfd3283a'', unique_on [''biller_code'', ''customer_bill_number''])] []"

definition otp_challenge_table :: table where
  "otp_challenge_table = new_table [
       (''id'', required (Varchar 36)), (''mobile_number'', required (Varchar 255)),
       (''otp_hash'', required (Varchar 255)), (''attempt_count'', defaulting Whole (Num 0)),
       (''locked_until'', optional (Datetime 0)), (''expires_at'', required (Datetime 0)),
       (''created_at'', stamped (Datetime 6)), (''updated_at'', restamped (Datetime 6))]
       [] []"

definition device_profile_table :: table where
  "device_profile_table = new_table [
       (''id'', required (Varchar 36)), (''user_id'', required (Varchar 255)),
       (''device_id'', required (Varchar 255)), (''device_model'', optional (Varchar 255)),
       (''trusted'', defaulting Tinyint (Num 0)), (''created_at'', stamped (Datetime 6)),
       (''updated_at'', restamped (Datetime 6))]
       [] []"

definition credential_table :: table where
  "credential_table = new_table [
       (''id'', required (Varchar 36)), (''user_id'', required (Varchar 255)),
       (''password_hash'', required (Varchar 255)), (''last_rotated_at'', optional (Datetime 0)),
       (''created_at'', stamped (Datetime 6)), (''updated_at'', restamped (Datetime 6))]
       [] []"

definition corporate_hierarchy_table :: table where
  "corporate_hierarchy_table = new_table [
       (''id'', required (Varchar 36)), (''user_id'', required (Varchar 255)), (''cif'', required (Varchar 255)),
       (''role'', required (Varchar 255)), (''approval_limit'', optional (Decimal 10 0)),
       (''created_at'', stamped (Datetime 6)), (''updated_at'', restamped (Datetime 6))]
       [] []"

definition cif_link_table :: table where
  "cif_link_table = new_table [
       (''id'', required (Varchar 36)), (''user_id'', required (Varchar 255)), (''cif'', required (Varchar 255)),
       (''linked_by'', required (Varchar 255)), (''created_at'', stamped (Datetime 6)),
       (''updated_at'', restamped (Datetime 6))]
       [] []"

definition authorization_rule_table :: table where
  "authorization_rule_table = new_table [
       (''id'', required (Varchar 36)), (''rule_name'', required (Varchar 255)), (''cif'', required (Varchar 255)),
       (''threshold'', required (Decimal 10 0)), (''version'', defaulting Whole (Num 1)),
       (''created_at'', stamped (Datetime 6)), (''updated_at'', restamped (Datetime 6))]
       [] []"

definition authorization_rule_history_table :: table where
  "authorization_rule_history_table = new_table [
       (''id'', required (Varchar 36)), (''rule_id'', required (Varchar 255)), (''snapshot'', required Json),
       (''version'', required Whole), (''created_at'', stamped (Datetime 6)),
       (''updated_at'', restamped (Datetime 6))]
       [] []"

definition admin_user_table :: table where
  "admin_user_table = new_table [
       (''id'', required (Varchar 36)), (''username'', required (Varchar 255)), (''email'', required (Varchar 255)),
       (''active'', defaulting Tinyint (Num 1)), (''created_at'', stamped (Datetime 6)),
       (''updated_at'', restamped (Datetime 6))]
       [] []"

definition InitialBillPayment :: migration where
  "InitialBillPayment = \<lparr>mg_name = ''InitialBillPayment1788780440681'',
   mg_up = [
     Create_table ''event_log'' event_log_table,
     Create_table ''audit_outbox'' audit_outbox_table,
     Create_table ''notification_template'' notification_template_table,
     Create_table ''notification_template_history'' notification_template_history_table,
     Create_table ''bill_schedule'' bill_schedule_table,
     Create_table ''bill_payment'' bill_payment_table,
     Create_table ''biller_registration'' biller_registration_table,
     Create_table ''registration_attempt'' registration_attempt_table,
     Create_table ''mock_bill'' mock_bill_table,
     Create_table ''otp_challenge'' otp_challenge_table,
     Create_table ''device_profile'' device_profile_table,
     Create_table ''credential'' credential_table,
     Create_table ''corporate_hierarchy'' corporate_hierarchy_table,
     Create_table ''cif_link'' cif_link_table,
     Create_table ''authorization_rule'' authorization_rule_table,
     Create_table ''authorization_rule_history'' authorization_rule_history_table,
     Create_table ''admin_user'' admin_user_table],
   mg_down = [
     Drop_table ''admin_user'',
     Drop_table ''authorization_rule_history'',
     Drop_table ''authorization_rule'',
     Drop_table ''cif_link'',
     Drop_table ''corporate_hierarchy'',
     Drop_table ''credential'',
     Drop_table ''device_profile'',
     Drop_table ''otp_challenge'',
     Drop_index ''mock_bill'' ''IDX_988517e01eb4417484bfd3283a'',
     Drop_table ''mock_bill'',
     Drop_table ''registration_attempt'',
     Drop_table ''biller_registration'',
     Drop_table ''bill_payment'',
     Drop_table ''bill_schedule'',
     Drop_table ''notification_template_history'',
     Drop_table ''notification_template'',
     Drop_table ''audit_outbox'',
     Drop_table ''event_log'']\<rparr>"

subsection \<open>AddConsumerAndBillNumber\<close>

definition AddConsumerAndBillNumber :: migration where
  "AddConsumerAndBillNumber = \<lparr>mg_name = ''AddConsumerAndBillNumber1788784048534'',
   mg_up = [
     Drop_index ''mock_bill'' ''IDX_988517e01eb4417484bfd3283a'',
     Drop_column ''mock_bill'' ''customer_bill_number'',
     Add_column ''mock_bill'' ''consumer_number'' (required (Varchar 255)),
     Add_column ''mock_bill'' ''bill_number'' (required (Varchar 255)),
     Add_index ''mock_bill'' ''IDX_955840860156cc2ca0d8ee57d8'' (unique_on [''biller_code'', ''consumer_number''])],
   mg_down = [
     Drop_index ''mock_bill'' ''IDX_955840860156cc2ca0d8ee57d8'',
     Drop_column ''mock_bill'' ''bill_number'',
     Drop_column ''mock_bill'' ''consumer_number'',
     Add_column ''mock_bill'' ''customer_bill_number'' (required (Varchar 255)),
     Add_index ''mock_bill'' ''IDX_988517e01eb4417484bfd3283a'' (unique_on [''biller_code'', ''customer_bill_number''])]\<rparr>"

subsection \<open>UpdateBillPaymentAmount\<close>

definition UpdateBillPaymentAmount :: migration where
  "UpdateBillPaymentAmount = \<lparr>mg_name = ''UpdateBillPaymentAmount1788844566220'',
   mg_up = [Modify_column ''bill_payment'' ''amount'' (required (Decimal 12 2))],
   mg_down = [Modify_column ''bill_payment'' ''amount'' (required (Decimal 10 0))]\<rparr>"

subsection \<open>AddIdempotencyKey\<close>

definition AddIdempotencyKey :: migration where
  "AddIdempotencyKey = \<lparr>mg_name = ''AddIdempotencyKey1788849842117'',
   mg_up = [
     Add_column ''bill_payment'' ''idempotency_key'' (optional (Varchar 255)),
     Update ''bill_payment'' ''idempotency_key'' (Concat (Literal (Str ''LEGACY-'')) (Column ''id'')) (Some ''idempotency_key''),
     Modify_column ''bill_payment'' ''idempotency_key'' (required (Varchar 255)),
     Add_index ''bill_payment'' ''IDX_00102e14a962999378bb9949f4'' (unique_on [''idempotency_key''])],
   mg_down = [
     Drop_index ''bill_payment'' ''IDX_00102e14a962999378bb9949f4'',
     Drop_column ''bill_payment'' ''idempotency_key'']\<rparr>"

subsection \<open>AddKeycloakUserIdToBbps\<close>

definition AddKeycloakUserIdToBbps :: migration where
  "AddKeycloakUserIdToBbps = \<lparr>mg_name = ''AddKeycloakUserIdToBbps1788851200000'',
   mg_up = [
     Add_column ''bill_payment'' ''keycloak_user_id'' (optional (Varchar 36)),
     Add_column ''bill_schedule'' ''keycloak_user_id'' (optional (Varchar 36))],
   mg_down = [
     Drop_column ''bill_schedule'' ''keycloak_user_id'',
     Drop_column ''bill_payment'' ''keycloak_user_id'']\<rparr>"

subsection \<open>AddScheduleStatusAndExecution\<close>

definition bill_schedule_execution_table :: table where
  "bill_schedule_execution_table = new_table [
       (''id'', required (Varchar 36)), (''schedule_id'', required (Varchar 36)),
       (''bill_number'', optional (Varchar 255)), (''bill_amount'', optional (Decimal 12 2)),
       (''maximum_amount'', optional (Decimal 12 2)), (''idempotency_key'', optional (Varchar 255)),
       (''status'', required (Varchar 32)), (''attempt_count'', defaulting Whole (Num 1)),
       (''failure_reason'', optional (Varchar 512)), (''payment_id'', optional (Varchar 36)),
       (''started_at'', optional (Datetime 0)), (''completed_at'', optional (Datetime 0)),
       (''created_at'', stamped (Datetime 6)), (''updated_at'', restamped (Datetime 6))]
       [(''IDX_bill_schedule_execution_schedule_created'', plain_on [''schedule_id'', ''created_at''])]
       [(''FK_bill_schedule_execution_schedule'', 
         \<lparr>fk_columns = [''schedule_id''], fk_table = ''bill_schedule'', fk_target = [''id''], fk_cascade = True\<rparr>)]"

definition AddScheduleStatusAndExecution :: migration where
  "AddScheduleStatusAndExecution = \<lparr>mg_name = ''AddScheduleStatusAndExecution1788852000000'',
   mg_up = [
     Add_column ''bill_schedule'' ''status'' (defaulting (Varchar 32) (Str ''ACTIVE'')),
     Update ''bill_schedule'' ''status''
       (If_equal (Column ''active'') (Literal (Num 1)) (Literal (Str ''ACTIVE'')) (Literal (Str ''PAUSED''))) None,
     Create_table ''bill_schedule_execution'' bill_schedule_execution_table],
   mg_down = [
     Drop_table ''bill_schedule_execution'',
     Drop_column ''bill_schedule'' ''status'']\<rparr>"

subsection \<open>CreateAdminModuleTables\<close>

definition admin_account_table :: table where
  "admin_account_table = new_table [
       (''id'', generated (Fixed_char 36)), (''employee_id'', required (Fixed_char 36)),
       (''keycloak_user_id'', required (Varchar 36)), (''username'', required (Varchar 100)),
       (''email'', required (Varchar 255)), (''first_name'', required (Varchar 100)),
       (''last_name'', required (Varchar 100)), (''role_id'', required (Fixed_char 36)),
       (''role_name'', required (Varchar 100)), (''is_active'', defaulting Tinyint (Num 1)),
       (''last_synced_at'', required (Datetime 0)), (''created_at'', stamped (Datetime 6)),
       (''updated_at'', restamped (Datetime 6))]
       [(''UQ_admin_user_keycloak_user_id'', unique_on [''keycloak_user_id'']),
        (''IDX_admin_user_role_name'', plain_on [''role_name''])] []"

definition admin_rule_table :: table where
  "admin_rule_table = new_table [
       (''id'', generated (Fixed_char 36)), (''created_at'', stamped (Timestamp 0)),
       (''updated_at'', restamped (Timestamp 0)), (''deleted_at'', optional (Timestamp 0)),
       (''rule_name'', required (Varchar 150)), (''cif'', required (Varchar 20)),
       (''threshold'', required (Decimal 18 2)), (''version'', defaulting Whole (Num 1)),
       (''created_by_keycloak_user_id'', required (Varchar 36)),
       (''updated_by_keycloak_user_id'', optional (Varchar 36))]
       [(''IDX_authorization_rule_cif'', plain_on [''cif''])] []"

definition admin_rule_history_table :: table where
  "admin_rule_history_table = new_table [
       (''id'', generated (Fixed_char 36)), (''rule_id'', required (Fixed_char 36)), (''snapshot'', required Json),
       (''version'', required Whole), (''changed_by_keycloak_user_id'', required (Varchar 36)),
       (''created_at'', stamped (Datetime 6))]
       [(''IDX_authorization_rule_history_rule_id'', plain_on [''rule_id''])] []"

definition CreateAdminModuleTables :: migration where
  "CreateAdminModuleTables = \<lparr>mg_name = ''CreateAdminModuleTables1788856000000'',
   mg_up = [
     Create_table ''admin_user'' admin_account_table,
     Create_table ''authorization_rule'' admin_rule_table,
     Create_table ''authorization_rule_history'' admin_rule_history_table],
   mg_down = [
     Drop_table ''authorization_rule_history'',
     Drop_table ''authorization_rule'',
     Drop_table ''admin_user'']\<rparr>"

subsection \<open>AddRegistrationSagaColumns\<close>

definition AddRegistrationSagaColumns :: migration where
  "AddRegistrationSagaColumns = \<lparr>mg_name = ''AddRegistrationSagaColumns1789030000000'',
   mg_up = [
     Add_column ''registration_attempt'' ''keycloak_user_id'' (optional (Varchar 36)),
     Add_column ''registration_attempt'' ''device_profile_id'' (optional (Varchar 36))],
   mg_down = [
     Drop_column ''registration_attempt'' ''device_profile_id'',
     Drop_column ''registration_attempt'' ''keycloak_user_id'']\<rparr>"

subsection \<open>Running the pending migrations\<close>

definition migrations :: "migration list" where
  "migrations = [InitialBillPayment, AddConsumerAndBillNumber, UpdateBillPaymentAmount, AddIdempotencyKey,
     AddKeycloakUserIdToBbps, AddScheduleStatusAndExecution, CreateAdminModuleTables, AddRegistrationSagaColumns]"

text \<open>
  The pending migrations run in the order of their time stamps, up to the first failure: then
  the error and the migration it comes from are given with the database as it is left, for a
  statement that defines tables is committed at once.
\<close>

fun migrate :: "migration list \<Rightarrow> database \<Rightarrow> (string \<times> sql_error) option \<times> database" where
  "migrate [] db = (None, db)"
| "migrate (m # ms) db = (case execs (mg_up m) db of
      (Some e, d) \<Rightarrow> (Some (mg_name m, e), d)
    | (None, d) \<Rightarrow> migrate ms d)"

end
