(* ===== verification/Entities.thy ===== *)
theory Entities
  imports Sql
begin

text \<open>
  The columns of the TypeORM entities, as their decorators name them, each with whether it may
  be null; and when a table serves an entity. TypeORM names every column of the entity in its
  statements, so a column that the table lacks fails them all. A property that an entity
  redeclares, as the two dates of a credential, is listed twice.
\<close>

record entity =
  en_table :: string
  en_columns :: "(string \<times> bool) list"

definition soft_delete_columns :: "(string \<times> bool) list" where
  "soft_delete_columns =
     [(''id'', False), (''created_at'', False), (''updated_at'', False), (''deleted_at'', True)]"

definition auditOutbox_entity :: entity where
  "auditOutbox_entity = \<lparr>en_table = ''audit_outbox'', en_columns = [
     (''id'', False), (''event_type'', False), (''payload'', False), (''status'', False), (''attempts'', False),
     (''created_at'', False), (''updated_at'', False)]\<rparr>"

definition notificationTemplateHistory_entity :: entity where
  "notificationTemplateHistory_entity = \<lparr>en_table = ''notification_template_history'', en_columns = [
     (''id'', False), (''template_id'', False), (''body'', False), (''version'', False), (''created_at'', False),
     (''updated_at'', False)]\<rparr>"

definition notificationTemplate_entity :: entity where
  "notificationTemplate_entity = \<lparr>en_table = ''notification_template'', en_columns = [
     (''id'', False), (''template_key'', False), (''channel'', False), (''subject'', True), (''body'', False),
     (''version'', False), (''created_at'', False), (''updated_at'', False)]\<rparr>"

definition eventLog_entity :: entity where
  "eventLog_entity = \<lparr>en_table = ''event_log'', en_columns = [
     (''id'', False), (''event_name'', False), (''payload'', False), (''created_at'', False),
     (''updated_at'', False)]\<rparr>"

definition adminUser_entity :: entity where
  "adminUser_entity = \<lparr>en_table = ''admin_user'', en_columns = [
     (''id'', False), (''employee_id'', False), (''keycloak_user_id'', False), (''username'', False),
     (''email'', False), (''first_name'', False), (''last_name'', False), (''role_id'', False),
     (''role_name'', False), (''is_active'', False), (''last_synced_at'', False), (''created_at'', False),
     (''updated_at'', False)]\<rparr>"

definition authorizationRuleHistory_entity :: entity where
  "authorizationRuleHistory_entity = \<lparr>en_table = ''authorization_rule_history'', en_columns = [
     (''id'', False), (''rule_id'', False), (''snapshot'', False), (''version'', False),
     (''changed_by_keycloak_user_id'', False), (''created_at'', False)]\<rparr>"

definition authorizationRule_entity :: entity where
  "authorizationRule_entity = \<lparr>en_table = ''authorization_rule'', en_columns = soft_delete_columns @ [
     (''rule_name'', False), (''cif'', False), (''threshold'', False), (''version'', False),
     (''created_by_keycloak_user_id'', False), (''updated_by_keycloak_user_id'', True)]\<rparr>"

definition corporateHierarchy_entity :: entity where
  "corporateHierarchy_entity = \<lparr>en_table = ''corporate_hierarchy'', en_columns = soft_delete_columns @ [
     (''user_id'', False), (''cif'', False), (''role'', False), (''approval_limit'', True)]\<rparr>"

definition credential_entity :: entity where
  "credential_entity = \<lparr>en_table = ''credential'', en_columns = soft_delete_columns @ [
     (''user_id'', False), (''password_hash'', False), (''last_rotated_at'', True), (''created_at'', False),
     (''updated_at'', False)]\<rparr>"

definition deviceProfile_entity :: entity where
  "deviceProfile_entity = \<lparr>en_table = ''device_profile'', en_columns = soft_delete_columns @ [
     (''user_id'', False), (''device_id'', False), (''device_model'', True), (''trusted'', False)]\<rparr>"

definition otpChallenge_entity :: entity where
  "otpChallenge_entity = \<lparr>en_table = ''otp_challenge'', en_columns = soft_delete_columns @ [
     (''mobile_number'', False), (''otp_hash'', False), (''attempt_count'', False), (''locked_until'', True),
     (''expires_at'', False)]\<rparr>"

definition registrationAttempt_entity :: entity where
  "registrationAttempt_entity = \<lparr>en_table = ''registration_attempt'', en_columns = soft_delete_columns @ [
     (''mobile_number'', False), (''pan_or_cif'', False), (''current_step'', False), (''failure_reason'', True),
     (''keycloak_user_id'', True), (''device_profile_id'', True)]\<rparr>"

definition mockBill_entity :: entity where
  "mockBill_entity = \<lparr>en_table = ''mock_bill'', en_columns = [
     (''id'', False), (''biller_code'', False), (''consumer_number'', False), (''bill_number'', False),
     (''registered_mobile'', False), (''customer_name'', False), (''amount'', False), (''due_date'', False),
     (''status'', False), (''created_at'', False), (''updated_at'', False)]\<rparr>"

definition billerRegistration_entity :: entity where
  "billerRegistration_entity = \<lparr>en_table = ''biller_registration'', en_columns = [
     (''id'', False), (''biller_code'', False), (''biller_name'', False), (''category'', False),
     (''active'', False), (''created_at'', False), (''updated_at'', False)]\<rparr>"

definition demoBbpsData_entity :: entity where
  "demoBbpsData_entity = \<lparr>en_table = ''demo_bbps_data'', en_columns = [
     (''id'', False), (''biller_code'', False), (''biller_name'', False), (''category'', False),
     (''consumer_number'', False), (''bill_number'', False), (''registered_mobile'', False),
     (''customer_name'', False), (''amount'', False), (''due_date'', False), (''status'', False),
     (''created_at'', False), (''updated_at'', False)]\<rparr>"

definition billPayment_entity :: entity where
  "billPayment_entity = \<lparr>en_table = ''bill_payment'', en_columns = [
     (''id'', False), (''biller_code'', False), (''consumer_number'', False), (''amount'', False),
     (''status'', False), (''idempotency_key'', False), (''keycloak_user_id'', True),
     (''bbps_reference_id'', True), (''created_at'', False), (''updated_at'', False)]\<rparr>"

definition billScheduleExecution_entity :: entity where
  "billScheduleExecution_entity = \<lparr>en_table = ''bill_schedule_execution'', en_columns = [
     (''id'', False), (''schedule_id'', False), (''bill_number'', True), (''bill_amount'', True),
     (''maximum_amount'', True), (''idempotency_key'', True), (''status'', False), (''attempt_count'', False),
     (''failure_reason'', True), (''payment_id'', True), (''started_at'', True), (''completed_at'', True),
     (''created_at'', False), (''updated_at'', False)]\<rparr>"

definition billSchedule_entity :: entity where
  "billSchedule_entity = \<lparr>en_table = ''bill_schedule'', en_columns = [
     (''id'', False), (''biller_code'', False), (''consumer_number'', False), (''schedule_type'', False),
     (''frequency'', True), (''next_run_at'', False), (''maximum_amount'', False), (''active'', False),
     (''status'', False), (''keycloak_user_id'', True), (''created_at'', False), (''updated_at'', False)]\<rparr>"

definition delegatedRole_entity :: entity where
  "delegatedRole_entity = \<lparr>en_table = ''rbac_delegated_role'', en_columns = [
     (''id'', False), (''delegate_keycloak_user_id'', False), (''role_id'', False),
     (''granted_by_keycloak_user_id'', False), (''granted_at'', False)]\<rparr>"

definition employeeUserRole_entity :: entity where
  "employeeUserRole_entity = \<lparr>en_table = ''rbac_employee_user_role'', en_columns = [
     (''id'', False), (''employee_id'', False), (''role_id'', False), (''assigned_by_keycloak_user_id'', False),
     (''assigned_at'', False)]\<rparr>"

definition employee_entity :: entity where
  "employee_entity = \<lparr>en_table = ''rbac_employee'', en_columns = soft_delete_columns @ [
     (''keycloak_user_id'', False), (''username'', False), (''email'', False), (''first_name'', False),
     (''last_name'', False), (''employee_code'', True), (''created_by_keycloak_user_id'', False),
     (''is_active'', False)]\<rparr>"

definition permission_entity :: entity where
  "permission_entity = \<lparr>en_table = ''rbac_permission'', en_columns = soft_delete_columns @ [
     (''code'', False), (''name'', False), (''description'', True), (''module'', False), (''action'', False),
     (''is_active'', False)]\<rparr>"

definition rolePermission_entity :: entity where
  "rolePermission_entity = \<lparr>en_table = ''rbac_role_permission'', en_columns = [
     (''id'', False), (''role_id'', False), (''permission_id'', False), (''mapped_by_keycloak_user_id'', False),
     (''created_at'', False)]\<rparr>"

definition role_entity :: entity where
  "role_entity = \<lparr>en_table = ''rbac_role'', en_columns = soft_delete_columns @ [
     (''name'', False), (''display_name'', False), (''description'', True), (''keycloak_role_id'', False),
     (''keycloak_role_name'', False), (''duty_type'', False), (''is_active'', False)]\<rparr>"

text \<open>The glob of the data source loads every entity file.\<close>

definition entities :: "entity list" where
  "entities = [
     auditOutbox_entity, notificationTemplateHistory_entity, notificationTemplate_entity, eventLog_entity,
     adminUser_entity, authorizationRuleHistory_entity, authorizationRule_entity, corporateHierarchy_entity,
     credential_entity, deviceProfile_entity, otpChallenge_entity, registrationAttempt_entity,
     mockBill_entity, billerRegistration_entity, demoBbpsData_entity, billPayment_entity,
     billScheduleExecution_entity, billSchedule_entity, delegatedRole_entity, employeeUserRole_entity,
     employee_entity, permission_entity, rolePermission_entity, role_entity]"

text \<open>
  An entity can be read when its table has all its columns. It can be stored when, besides, no
  column that must have a value is one that the entity may leave null or does not have.
\<close>

definition readable :: "database \<Rightarrow> entity \<Rightarrow> bool" where
  "readable db e \<longleftrightarrow> (case map_of db (en_table e) of
      None \<Rightarrow> False
    | Some t \<Rightarrow> list_all (\<lambda>(c, n). has (tb_columns t) c) (en_columns e))"

definition storable :: "database \<Rightarrow> entity \<Rightarrow> bool" where
  "storable db e \<longleftrightarrow> readable db e \<and> (case map_of db (en_table e) of
      None \<Rightarrow> False
    | Some t \<Rightarrow> list_all (\<lambda>(c, d). cl_nullable d \<or> cl_default d \<noteq> No_default \<or> map_of (en_columns e) c = Some False)
         (tb_columns t))"

definition readable_tables :: "database \<Rightarrow> string list" where
  "readable_tables db = map en_table (filter (readable db) entities)"

definition storable_tables :: "database \<Rightarrow> string list" where
  "storable_tables db = map en_table (filter (storable db) entities)"

end
