(* ===== verification/Migration_Properties.thy ===== *)
theory Migration_Properties
  imports Migrations Entities
begin

text \<open>
  What the migrations do to a database: which of them can be undone, what the keys of the
  payments made before there were keys become, and how far they get.
\<close>

subsection \<open>Consistent databases\<close>

definition wf_table :: "table \<Rightarrow> bool" where
  "wf_table t \<longleftrightarrow> find_clash t = None
     \<and> (\<forall>(n, i) \<in> set (tb_indexes t). ix_columns i \<noteq> [] \<and> (\<forall>c \<in> set (ix_columns i). has (tb_columns t) c))
     \<and> (\<forall>r \<in> set (tb_rows t). \<forall>c. \<not> has (tb_columns t) c \<longrightarrow> r c = Null)"

definition targets_known :: "database \<Rightarrow> table \<Rightarrow> bool" where
  "targets_known db t \<longleftrightarrow> (\<forall>(k, f) \<in> set (tb_foreign t). has db (fk_table f))"

definition wf_database :: "database \<Rightarrow> bool" where
  "wf_database db \<longleftrightarrow> distinct (map fst db)
     \<and> (\<forall>(n, t) \<in> set db. wf_table t \<and> targets_known db t)"

lemma has_Some: "map_of xs k = Some v \<Longrightarrow> has xs k"
  by (force simp: has_def dest: map_of_SomeD)

lemma not_has: "\<not> has xs k \<Longrightarrow> map_of xs k = None"
  by (simp add: has_def map_of_eq_None_iff)

lemma has_member: "(k, v) \<in> set xs \<Longrightarrow> has xs k"
  by (force simp: has_def)

lemma has_append [simp]: "has (xs @ ys) k \<longleftrightarrow> has xs k \<or> has ys k"
  by (auto simp: has_def)

lemma has_Cons [simp]: "has (x # xs) k \<longleftrightarrow> fst x = k \<or> has xs k"
  by (auto simp: has_def)

lemma has_Nil [simp]: "\<not> has [] k"
  by (simp add: has_def)

lemma put_Cons: "put n t (x # db) = (if fst x = n then (n, t) else x) # put n t db"
  by (simp add: put_def case_prod_beta)

lemma map_of_put [simp]: "map_of (put n t db) m = (if m = n \<and> has db n then Some t else map_of db m)"
  by (induction db) (auto simp: put_Cons put_def)

lemma fst_put [simp]: "map fst (put n t db) = map fst db"
  by (simp add: put_def case_prod_beta comp_def)

lemma has_put [simp]: "has (put n t db) m = has db m"
  by (metis (no_types, lifting) fst_put has_def list.set_map)

lemma put_put [simp]: "put n t (put n u db) = put n t db"
  by (auto simp: put_def)

lemma put_same:
  assumes "distinct (map fst db)" and "map_of db n = Some t"
  shows "put n t db = db"
  using assms by (auto simp: put_def intro!: map_idI dest: map_of_SomeD eq_key_imp_eq_value)

lemma wf_table_of:
  assumes "wf_database db" and "map_of db n = Some t"
  shows "wf_table t"
  using assms by (auto simp: wf_database_def dest: map_of_SomeD)

lemma on_table_Inr:
  assumes "on_table n db f = Inr e"
  obtains t u where "map_of db n = Some t" and "f t = Inr u" and "e = put n u db"
  using assms by (auto simp: on_table_def split: option.splits sum.splits)

lemma find_clash_None:
  "find_clash t = None \<longleftrightarrow> (\<forall>(n, i) \<in> set (tb_indexes t). ix_unique i \<longrightarrow> unique_rows (ix_columns i) (tb_rows t))"
  by (auto simp: find_clash_def find_None_iff)

lemma unique_rows_cong:
  assumes "\<And>r c. r \<in> set rs \<Longrightarrow> c \<in> set cs \<Longrightarrow> g r c = r c"
  shows "unique_rows cs (map g rs) = unique_rows cs rs"
proof -
  have eq: "clash cs (g a) (g b) = clash cs a b" if "a \<in> set rs" "b \<in> set rs" for a b
    using assms that by (simp add: clash_def list_all_iff)
  show ?thesis
    using eq by (induction rs) (auto simp: list_all_iff)
qed

lemma del_append: "\<not> has xs c \<Longrightarrow> del c fst (xs @ [(c, d)]) = xs"
  by (auto simp: del_def has_def filter_id_conv image_iff)

subsection \<open>A table with one more column\<close>

text \<open>
  \<open>extends c t u\<close>: table \<open>u\<close> is \<open>t\<close> with the column \<open>c\<close> at the end, whatever the rows have in it.
\<close>

definition extends :: "string \<Rightarrow> table \<Rightarrow> table \<Rightarrow> bool" where
  "extends c t u \<longleftrightarrow> \<not> has (tb_columns t) c \<and> (\<exists>d. tb_columns u = tb_columns t @ [(c, d)])
     \<and> tb_indexes u = tb_indexes t \<and> tb_foreign u = tb_foreign t \<and> map (\<lambda>r. r(c := Null)) (tb_rows u) = tb_rows t"

lemma extends_wf:
  assumes "wf_table t" and "extends c t u"
  shows "wf_table u"
proof -
  have rows: "tb_rows t = map (\<lambda>r. r(c := Null)) (tb_rows u)" using assms(2) by (simp add: extends_def)
  have un: "unique_rows (ix_columns i) (tb_rows t) = unique_rows (ix_columns i) (tb_rows u)"
    if "(n, i) \<in> set (tb_indexes t)" for n i
    unfolding rows using assms that
    by (intro unique_rows_cong) (auto simp: wf_table_def extends_def)
  have "r x = Null" if "r \<in> set (tb_rows u)" and "\<not> has (tb_columns u) x" for r x
  proof -
    have "r(c := Null) \<in> set (tb_rows t)" using rows that(1) by auto
    moreover have x: "\<not> has (tb_columns t) x" "x \<noteq> c" using assms(2) that(2) by (auto simp: extends_def)
    ultimately have "(r(c := Null)) x = Null" using assms(1) unfolding wf_table_def by blast
    then show ?thesis using x by simp
  qed
  then show ?thesis using assms un by (auto simp: wf_table_def extends_def find_clash_None)
qed

lemma add_column_extends:
  assumes "wf_table t" and "add_column c d t = Inr u"
  shows "extends c t u"
  using assms
  by (auto simp: add_column_def extends_def wf_table_def comp_def fun_upd_idem
      split: if_splits option.splits intro!: map_idI)

lemma extends_rows:
  assumes "extends c t u" and "\<And>r. (g r)(c := Null) = r(c := Null)"
  shows "extends c t (u\<lparr>tb_rows := map g (tb_rows u)\<rparr>)"
  using assms by (simp add: extends_def comp_def)

lemma update_rows_extends:
  assumes "extends c t u" and "update_rows c e w u = Inr v"
  shows "extends c t v"
  using assms(2) by (auto simp: update_rows_def checked_def split: if_splits option.splits intro!: extends_rows assms(1))

lemma modify_column_extends:
  assumes "extends c t u" and "modify_column c d u = Inr v"
  shows "extends c t v"
proof -
  have "map (\<lambda>(n, x). if n = c then (n, d) else (n, x)) (tb_columns t) = tb_columns t"
    using assms(1) by (intro map_idI) (auto simp: extends_def dest: has_member)
  moreover have "v = u\<lparr>tb_columns := map (\<lambda>(n, x). if n = c then (n, d) else (n, x)) (tb_columns u),
      tb_rows := map (\<lambda>r. r(c := store (cl_type d) (r c))) (tb_rows u)\<rparr>"
    using assms(2) by (auto simp: modify_column_def on_column_def checked_def split: if_splits option.splits)
  ultimately show ?thesis using assms(1) by (auto simp: extends_def comp_def)
qed

lemma drop_column_extends:
  assumes wf: "wf_table t" and ext: "extends c t u"
  shows "drop_column c u = Inr t"
proof -
  have no: "\<not> has (tb_columns t) c" using ext by (simp add: extends_def)
  have keep: "(case x of (n, i) \<Rightarrow> (n, i\<lparr>ix_columns := del c id (ix_columns i)\<rparr>)) = x"
    if "x \<in> set (tb_indexes t)" for x
  proof -
    have "c \<notin> set (ix_columns (snd x))" using wf no that by (auto simp: wf_table_def)
    then have "del c id (ix_columns (snd x)) = ix_columns (snd x)" by (auto simp: del_def filter_id_conv)
    then show ?thesis by (simp add: case_prod_beta)
  qed
  have same: "filter (\<lambda>(n, i). ix_columns i \<noteq> [])
      (map (\<lambda>(n, i). (n, i\<lparr>ix_columns := del c id (ix_columns i)\<rparr>)) (tb_indexes u)) = tb_indexes t"
    using keep wf ext by (auto simp: extends_def map_idI filter_id_conv wf_table_def cong: map_cong)
  obtain d where d: "tb_columns u = tb_columns t @ [(c, d)]" using ext by (auto simp: extends_def)
  have "u\<lparr>tb_columns := del c fst (tb_columns u), tb_indexes := tb_indexes t,
          tb_rows := map (\<lambda>r. r(c := Null)) (tb_rows u)\<rparr> = t"
    using ext no by (simp add: d del_append extends_def)
  then show ?thesis
    using wf by (simp add: drop_column_def on_column_def d checked_def same [unfolded d] wf_table_def same)
qed

subsection \<open>Lists of statements that undo each other\<close>

definition undoes :: "sql_statement list \<Rightarrow> sql_statement list \<Rightarrow> bool" where
  "undoes ps qs \<longleftrightarrow> (\<forall>db e. wf_database db \<longrightarrow> execs ps db = (None, e) \<longrightarrow>
     wf_database e \<and> execs qs e = (None, db))"

lemma undoesD:
  assumes "undoes ps qs" and "wf_database db" and "execs ps db = (None, e)"
  shows "wf_database e" and "execs qs e = (None, db)"
  using assms by (auto simp: undoes_def)


lemma undoes_append:
  assumes "undoes ps qs" and "undoes ps' qs'"
  shows "undoes (ps @ ps') (qs' @ qs)"
proof -
  have "wf_database e \<and> execs (qs' @ qs) e = (None, db)"
    if wf: "wf_database db" and run: "execs (ps @ ps') db = (None, e)" for db e
  proof -
    obtain d where d: "execs ps db = (None, d)" and e: "execs ps' d = (None, e)"
      using run by (auto simp: execs_append split: prod.splits option.splits)
    show ?thesis
      using undoesD [OF assms(1) wf d] undoesD(2) [OF assms(2) _ e] undoesD(1) [OF assms(2) _ e]
      by (simp add: execs_append)
  qed
  then show ?thesis by (simp add: undoes_def)
qed

lemma wf_put:
  assumes "wf_database db" and "map_of db n = Some t" and "wf_table u" and "tb_foreign u = tb_foreign t"
  shows "wf_database (put n u db)"
proof -
  have "(n, t) \<in> set db" using assms(2) by (rule map_of_SomeD)
  then have "targets_known db u" using assms by (auto simp: wf_database_def targets_known_def)
  then have "case x of (m, v) \<Rightarrow> wf_table v \<and> targets_known db v" if "x \<in> set (put n u db)" for x
    using that assms(1,3) by (auto simp: put_def wf_database_def split: if_splits)
  moreover have "targets_known (put n u db) v = targets_known db v" for v by (simp add: targets_known_def)
  ultimately show ?thesis using assms(1) by (simp add: wf_database_def)
qed

lemma undoes_extension:
  assumes wf: "wf_database db" and t: "map_of db n = Some t" and ext: "extends c t u"
  shows "wf_database (put n u db)" and "execs [Drop_column n c] (put n u db) = (None, db)"
proof -
  have wt: "wf_table t" using wf t by (rule wf_table_of)
  show "wf_database (put n u db)"
    using wf t extends_wf [OF wt ext] by (rule wf_put) (use ext in \<open>simp add: extends_def\<close>)
  show "execs [Drop_column n c] (put n u db) = (None, db)"
    using drop_column_extends [OF wt ext] has_Some [OF t] put_same [of db n t] wf t
    by (simp add: on_table_def wf_database_def)
qed

lemma undoes_add_column: "undoes [Add_column n c d] [Drop_column n c]"
proof -
  have "wf_database e \<and> execs [Drop_column n c] e = (None, db)"
    if wf: "wf_database db" and run: "execs [Add_column n c d] db = (None, e)" for db e
  proof -
    have "on_table n db (add_column c d) = Inr e" using run by (simp split: sum.splits)
    then obtain t u where t: "map_of db n = Some t" and u: "add_column c d t = Inr u" and e: "e = put n u db"
      by (rule on_table_Inr)
    show ?thesis
      using undoes_extension [OF wf t add_column_extends [OF wf_table_of [OF wf t] u]] by (simp add: e)
  qed
  then show ?thesis by (simp add: undoes_def)
qed

lemma undoes_filled_column: "undoes [Add_column n c d, Update n c x w] [Drop_column n c]"
proof -
  have "wf_database e \<and> execs [Drop_column n c] e = (None, db)"
    if wf: "wf_database db" and run: "execs [Add_column n c d, Update n c x w] db = (None, e)" for db e
  proof -
    obtain d1 where 1: "on_table n db (add_column c d) = Inr d1" and 2: "on_table n d1 (update_rows c x w) = Inr e"
      using run by (auto split: sum.splits)
    obtain t u where t: "map_of db n = Some t" and u: "add_column c d t = Inr u" and d1: "d1 = put n u db"
      using 1 by (rule on_table_Inr)
    obtain v where v: "update_rows c x w u = Inr v" and e: "e = put n v db"
      using 2 by (rule on_table_Inr) (use has_Some [OF t] in \<open>simp add: d1\<close>)
    show ?thesis
      using undoes_extension [OF wf t update_rows_extends [OF add_column_extends [OF wf_table_of [OF wf t] u] v]]
      by (simp add: e)
  qed
  then show ?thesis by (simp add: undoes_def)
qed

text \<open>The column of AddIdempotencyKey: added, filled and then made mandatory.\<close>

lemma undoes_mandatory_column:
  "undoes [Add_column n c d, Update n c x w, Modify_column n c d'] [Drop_column n c]"
proof -
  have "wf_database e \<and> execs [Drop_column n c] e = (None, db)"
    if wf: "wf_database db"
      and run: "execs [Add_column n c d, Update n c x w, Modify_column n c d'] db = (None, e)" for db e
  proof -
    obtain d1 d2 where 1: "on_table n db (add_column c d) = Inr d1"
      and 2: "on_table n d1 (update_rows c x w) = Inr d2" and 3: "on_table n d2 (modify_column c d') = Inr e"
      using run by (auto split: sum.splits)
    obtain t u where t: "map_of db n = Some t" and u: "add_column c d t = Inr u" and d1: "d1 = put n u db"
      using 1 by (rule on_table_Inr)
    obtain v where v: "update_rows c x w u = Inr v" and d2: "d2 = put n v db"
      using 2 by (rule on_table_Inr) (use has_Some [OF t] in \<open>simp add: d1\<close>)
    obtain y where y: "modify_column c d' v = Inr y" and e: "e = put n y db"
      using 3 by (rule on_table_Inr) (use has_Some [OF t] in \<open>simp add: d2\<close>)
    have "extends c t v"
      using add_column_extends [OF wf_table_of [OF wf t] u] v by (rule update_rows_extends)
    then show ?thesis
      using undoes_extension [OF wf t modify_column_extends [OF _ y]] by (simp add: e)
  qed
  then show ?thesis by (simp add: undoes_def)
qed

lemma undoes_index:
  assumes "ix_columns x \<noteq> []"
  shows "undoes [Add_index n i x] [Drop_index n i]"
proof -
  have "wf_database e \<and> execs [Drop_index n i] e = (None, db)"
    if wf: "wf_database db" and run: "execs [Add_index n i x] db = (None, e)" for db e
  proof -
    have "on_table n db (add_index i x) = Inr e" using run by (simp split: sum.splits)
    then obtain t u where t: "map_of db n = Some t" and u: "add_index i x t = Inr u" and e: "e = put n u db"
      by (rule on_table_Inr)
    have no: "\<not> has (tb_indexes t) i" and cols: "\<forall>c \<in> set (ix_columns x). has (tb_columns t) c"
      and ok: "find_clash u = None" and ueq: "u = t\<lparr>tb_indexes := tb_indexes t @ [(i, x)]\<rparr>"
      using u by (auto simp: add_index_def checked_def find_None_iff split: if_splits option.splits)
    have wu: "wf_table u"
      using wf_table_of [OF wf t] assms cols ok by (auto simp: wf_table_def ueq)
    have undo: "drop_index i u = Inr t"
      using no by (simp add: drop_index_def ueq del_append)
    show ?thesis
      using wf_put [OF wf t wu] undo has_Some [OF t] put_same [of db n t] wf t
      by (simp add: e ueq on_table_def wf_database_def)
  qed
  then show ?thesis by (simp add: undoes_def)
qed

lemma not_referenced:
  assumes "wf_database db" and "\<not> has db n"
  shows "\<not> referenced n (db @ [(n, t)])"
  using assms by (fastforce simp: referenced_def list_ex_iff wf_database_def targets_known_def)

lemma undoes_create:
  assumes "wf_table t"
  shows "undoes [Create_table n t] [Drop_table n]"
    and "has (tb_indexes t) i \<Longrightarrow> undoes [Create_table n t] [Drop_index n i, Drop_table n]"
proof -
  have 1: "wf_database e" and 2: "\<not> has db n" and 3: "e = db @ [(n, t)]"
    if wf: "wf_database db" and run: "execs [Create_table n t] db = (None, e)" for db e
  proof -
    show new: "\<not> has db n" and e: "e = db @ [(n, t)]" using run by (auto split: if_splits option.splits)
    have "targets_known e t"
      using run by (auto simp: targets_known_def e find_None_iff split: if_splits option.splits)
    moreover have "targets_known e u" if "targets_known db u" for u
      using that by (auto simp: targets_known_def e)
    ultimately show "wf_database e"
      using wf assms new by (auto simp: wf_database_def e has_def)
  qed
  have gone: "del n fst (db @ [(n, t)]) = db" if "\<not> has db n" for db :: database and t
    using that by (rule del_append)
  show "undoes [Create_table n t] [Drop_table n]"
    unfolding undoes_def
  proof (intro allI impI conjI)
    fix db e
    assume wf: "wf_database db" and run: "execs [Create_table n t] db = (None, e)"
    show "wf_database e" using wf run by (rule 1)
    show "execs [Drop_table n] e = (None, db)"
      using not_referenced [OF wf 2 [OF wf run]] gone [OF 2 [OF wf run]] by (simp add: 3 [OF wf run])
  qed
  show "undoes [Create_table n t] [Drop_index n i, Drop_table n]" if "has (tb_indexes t) i"
  proof -
    have "execs [Drop_index n i, Drop_table n] (db @ [(n, t)]) = (None, db)"
      if "wf_database db" "\<not> has db n" for db
    proof -
      have new: "map_of (db @ [(n, t)]) n = Some t"
        using that(2) by (simp add: map_add_def not_has)
      have "put n u (db @ [(n, t)]) = db @ [(n, u)]" for u
        using that(2) by (auto simp: put_def dest: has_member intro!: map_idI)
      then show ?thesis
        using that \<open>has (tb_indexes t) i\<close> new by (simp add: on_table_def drop_index_def gone not_referenced)
    qed
    then show ?thesis unfolding undoes_def using 1 2 3 by blast
  qed
qed

subsection \<open>Migrations that can be undone\<close>

lemmas migration_defs = InitialBillPayment_def AddConsumerAndBillNumber_def UpdateBillPaymentAmount_def
  AddIdempotencyKey_def AddKeycloakUserIdToBbps_def AddScheduleStatusAndExecution_def
  CreateAdminModuleTables_def AddRegistrationSagaColumns_def


lemma wf_new_table:
  assumes "has cs ''id''" and "list_all (\<lambda>(n, i). ix_columns i \<noteq> [] \<and> list_all (has cs) (ix_columns i)) is"
  shows "wf_table (new_table cs is fs)"
  using assms by (auto simp: wf_table_def new_table_def find_clash_None list_all_iff)

lemmas initial_tables = event_log_table_def audit_outbox_table_def notification_template_table_def
  notification_template_history_table_def bill_schedule_table_def bill_payment_table_def
  biller_registration_table_def registration_attempt_table_def mock_bill_table_def otp_challenge_table_def
  device_profile_table_def credential_table_def corporate_hierarchy_table_def cif_link_table_def
  authorization_rule_table_def authorization_rule_history_table_def admin_user_table_def

lemmas later_tables = bill_schedule_execution_table_def admin_account_table_def admin_rule_table_def
  admin_rule_history_table_def

lemma wf_tables:
  "wf_table event_log_table" "wf_table audit_outbox_table" "wf_table notification_template_table"
  "wf_table notification_template_history_table" "wf_table bill_schedule_table" "wf_table bill_payment_table"
  "wf_table biller_registration_table" "wf_table registration_attempt_table" "wf_table mock_bill_table"
  "wf_table otp_challenge_table" "wf_table device_profile_table" "wf_table credential_table"
  "wf_table corporate_hierarchy_table" "wf_table cif_link_table" "wf_table authorization_rule_table"
  "wf_table authorization_rule_history_table" "wf_table admin_user_table" "wf_table bill_schedule_execution_table"
  "wf_table admin_account_table" "wf_table admin_rule_table" "wf_table admin_rule_history_table"
  unfolding initial_tables later_tables by (rule wf_new_table; simp add: unique_on_def plain_on_def)+


lemma undoes_later:
  shows "undoes (mg_up AddIdempotencyKey) (mg_down AddIdempotencyKey)"
    and "undoes (mg_up AddKeycloakUserIdToBbps) (mg_down AddKeycloakUserIdToBbps)"
    and "undoes (mg_up AddScheduleStatusAndExecution) (mg_down AddScheduleStatusAndExecution)"
    and "undoes (mg_up CreateAdminModuleTables) (mg_down CreateAdminModuleTables)"
    and "undoes (mg_up AddRegistrationSagaColumns) (mg_down AddRegistrationSagaColumns)"
proof -
  show "undoes (mg_up AddIdempotencyKey) (mg_down AddIdempotencyKey)"
    using undoes_append [OF undoes_mandatory_column undoes_index [of "unique_on [''idempotency_key'']"]]
    by (simp add: AddIdempotencyKey_def unique_on_def)
  show "undoes (mg_up AddKeycloakUserIdToBbps) (mg_down AddKeycloakUserIdToBbps)"
    using undoes_append [OF undoes_add_column undoes_add_column] by (simp add: AddKeycloakUserIdToBbps_def)
  show "undoes (mg_up AddScheduleStatusAndExecution) (mg_down AddScheduleStatusAndExecution)"
    using undoes_append [OF undoes_filled_column undoes_create(1) [OF wf_tables(18)]]
    by (simp add: AddScheduleStatusAndExecution_def)
  show "undoes (mg_up CreateAdminModuleTables) (mg_down CreateAdminModuleTables)"
    using undoes_append [OF undoes_create(1) [OF wf_tables(19)]
        undoes_append [OF undoes_create(1) [OF wf_tables(20)] undoes_create(1) [OF wf_tables(21)]]]
    by (simp add: CreateAdminModuleTables_def)
  show "undoes (mg_up AddRegistrationSagaColumns) (mg_down AddRegistrationSagaColumns)"
    using undoes_append [OF undoes_add_column undoes_add_column] by (simp add: AddRegistrationSagaColumns_def)
qed

subsection \<open>Payments from before there were keys\<close>

lemma find_clash_rows:
  assumes "wf_table t" and "\<And>n i r c. (n, i) \<in> set (tb_indexes t) \<Longrightarrow> c \<in> set (ix_columns i) \<Longrightarrow> g r c = r c"
  shows "find_clash (t\<lparr>tb_columns := cs, tb_rows := map g (tb_rows t)\<rparr>) = None"
  using assms by (auto simp: find_clash_None wf_table_def unique_rows_cong)

lemma unique_rows_distinct:
  assumes "unique_rows [c] rs" and "\<forall>r \<in> set rs. r c \<noteq> Null"
  shows "distinct (map (\<lambda>r. r c) rs)"
  using assms by (induction rs) (auto simp: clash_def list_all_iff)

definition legacy_key :: "sql_row \<Rightarrow> sql_value" where
  "legacy_key r = (case r ''id'' of Str s \<Rightarrow> Str (''LEGACY-'' @ s) | _ \<Rightarrow> Null)"

lemma distinct_legacy_keys:
  assumes "\<forall>r \<in> set rs. \<exists>s. r ''id'' = Str s \<and> length s \<le> 36" and "distinct (map (\<lambda>r. r ''id'') rs)"
  shows "distinct (map legacy_key rs)"
proof -
  have "a ''id'' = b ''id''" if ab: "a \<in> set rs" "b \<in> set rs" and eq: "legacy_key a = legacy_key b" for a b
  proof -
    obtain x y where x: "a ''id'' = Str x" and y: "b ''id'' = Str y" using assms(1) ab by blast
    show ?thesis using eq by (simp add: legacy_key_def x y)
  qed
  then show ?thesis using assms(2) unfolding distinct_map inj_on_def by blast
qed

lemma distinct_unique_rows:
  assumes "distinct (map (\<lambda>r. r c) rs)"
  shows "unique_rows [c] rs"
  using assms by (induction rs) (auto simp: clash_def list_all_iff image_iff)

lemma update_rows_ok:
  assumes "map_of (tb_columns t) c = Some d"
    and "\<And>r. r \<in> set (tb_rows t) \<Longrightarrow> selected w r \<and> sql_eval r e = g r \<and> g r \<noteq> Null
           \<and> fits (cl_type d) (g r) \<and> store (cl_type d) (g r) = g r"
    and "find_clash (t\<lparr>tb_rows := map (\<lambda>r. r(c := g r)) (tb_rows t)\<rparr>) = None"
  shows "update_rows c e w t = Inr (t\<lparr>tb_rows := map (\<lambda>r. r(c := g r)) (tb_rows t)\<rparr>)"
proof -
  have rows: "map (\<lambda>r. if selected w r then r(c := store (cl_type d) (sql_eval r e)) else r) (tb_rows t)
      = map (\<lambda>r. r(c := g r)) (tb_rows t)"
    using assms(2) by (auto intro!: map_cong)
  show ?thesis
    using assms(1,2,3) by (simp add: update_rows_def checked_def list_ex_iff rows)
qed

lemma modify_column_ok:
  assumes "tb_columns t = cs @ [(c, d)]" and "\<not> has cs c"
    and "\<And>r. r \<in> set (tb_rows t) \<Longrightarrow> r c \<noteq> Null \<and> fits (cl_type d') (r c) \<and> store (cl_type d') (r c) = r c"
    and "find_clash (t\<lparr>tb_columns := cs @ [(c, d')]\<rparr>) = None"
  shows "modify_column c d' t = Inr (t\<lparr>tb_columns := cs @ [(c, d')]\<rparr>)"
proof -
  have cols: "map (\<lambda>(n, x). if n = c then (n, d') else (n, x)) (tb_columns t) = cs @ [(c, d')]"
    using assms(2) by (auto simp: assms(1) dest: has_member intro!: map_idI)
  have "map (\<lambda>r. r(c := store (cl_type d') (r c))) (tb_rows t) = tb_rows t"
    using assms(3) by (intro map_idI) (simp add: fun_upd_idem)
  then show ?thesis
    using assms(3,4) unfolding modify_column_def on_column_def cols
    by (simp add: assms(1) checked_def list_ex_iff)
qed

text \<open>The table of the payments after the four statements of AddIdempotencyKey.\<close>

definition keyed_table :: "table \<Rightarrow> table" where
  "keyed_table t = t\<lparr>
     tb_columns := tb_columns t @ [(''idempotency_key'', required (Varchar 255))],
     tb_indexes := tb_indexes t @ [(''IDX_00102e14a962999378bb9949f4'', unique_on [''idempotency_key''])],
     tb_rows := map (\<lambda>r. r(''idempotency_key'' := legacy_key r)) (tb_rows t)\<rparr>"

lemma keyed_clash:
  assumes "wf_table t" and "\<not> has (tb_columns t) ''idempotency_key''"
  shows "find_clash (t\<lparr>tb_columns := cs, tb_rows := map (\<lambda>r. r(''idempotency_key'' := legacy_key r)) (tb_rows t)\<rparr>) = None"
  using assms(1) by (rule find_clash_rows) (use assms in \<open>auto simp: wf_table_def\<close>)

lemma keyed_steps:
  assumes wf: "wf_table t"
    and new: "\<not> has (tb_columns t) ''idempotency_key''" "\<not> has (tb_indexes t) ''IDX_00102e14a962999378bb9949f4''"
    and ids: "\<forall>r \<in> set (tb_rows t). \<exists>s. r ''id'' = Str s \<and> length s \<le> 36"
    and dist: "distinct (map (\<lambda>r. r ''id'') (tb_rows t))"
  defines "t1 \<equiv> t\<lparr>tb_columns := tb_columns t @ [(''idempotency_key'', optional (Varchar 255))]\<rparr>"
  defines "t2 \<equiv> t1\<lparr>tb_rows := map (\<lambda>r. r(''idempotency_key'' := legacy_key r)) (tb_rows t)\<rparr>"
  defines "t3 \<equiv> t2\<lparr>tb_columns := tb_columns t @ [(''idempotency_key'', required (Varchar 255))]\<rparr>"
  shows "add_column ''idempotency_key'' (optional (Varchar 255)) t = Inr t1"
    and "update_rows ''idempotency_key'' (Concat (Literal (Str ''LEGACY-'')) (Column ''id'')) (Some ''idempotency_key'') t1
      = Inr t2"
    and "modify_column ''idempotency_key'' (required (Varchar 255)) t2 = Inr t3"
    and "add_index ''IDX_00102e14a962999378bb9949f4'' (unique_on [''idempotency_key'']) t3 = Inr (keyed_table t)"
proof -
  have null: "r ''idempotency_key'' = Null" if "r \<in> set (tb_rows t)" for r
    using wf new(1) that unfolding wf_table_def by blast
  have key: "sql_eval r (Concat (Literal (Str ''LEGACY-'')) (Column ''id'')) = legacy_key r
      \<and> legacy_key r \<noteq> Null \<and> fits (Varchar 255) (legacy_key r)" if r: "r \<in> set (tb_rows t)" for r
  proof -
    obtain s where "r ''id'' = Str s" "length s \<le> 36" using ids r by blast
    then show ?thesis by (simp add: legacy_key_def fits_def)
  qed
  have clash: "find_clash (t\<lparr>tb_columns := cs, tb_rows := map (\<lambda>r. r(''idempotency_key'' := legacy_key r)) (tb_rows t)\<rparr>)
      = None" for cs
    using wf new(1) by (rule keyed_clash)
  have clash': "find_clash (t\<lparr>tb_rows := map (\<lambda>r. r(''idempotency_key'' := legacy_key r)) (tb_rows t), tb_columns := cs\<rparr>)
      = None" for cs
    using clash [of cs] by (simp add: find_clash_None)
  have "map (\<lambda>r. r(''idempotency_key'' := Null)) (tb_rows t) = tb_rows t"
    using null by (intro map_idI) (simp add: fun_upd_idem)
  then show "add_column ''idempotency_key'' (optional (Varchar 255)) t = Inr t1"
    using new(1) by (simp add: add_column_def added_value_def optional_def t1_def)
  show "update_rows ''idempotency_key'' (Concat (Literal (Str ''LEGACY-'')) (Column ''id'')) (Some ''idempotency_key'') t1
      = Inr t2"
  proof -
    have rows: "tb_rows t = tb_rows t1" by (simp add: t1_def)
    show ?thesis
      unfolding t2_def rows
    proof (rule update_rows_ok)
      show "map_of (tb_columns t1) ''idempotency_key'' = Some (optional (Varchar 255))"
        using not_has [OF new(1)] by (simp add: t1_def map_add_def)
    qed (use key null clash in \<open>auto simp: t1_def optional_def selected_def store_def simp del: sql_eval.simps\<close>)
  qed
  show "modify_column ''idempotency_key'' (required (Varchar 255)) t2 = Inr t3"
    unfolding t3_def
  proof (rule modify_column_ok [OF _ new(1)])
    show "tb_columns t2 = tb_columns t @ [(''idempotency_key'', optional (Varchar 255))]" by (simp add: t1_def t2_def)
  qed (use key clash' in \<open>auto simp: t1_def t2_def required_def store_def simp del: sql_eval.simps\<close>)
  have "unique_rows [''idempotency_key''] (map (\<lambda>r. r(''idempotency_key'' := legacy_key r)) (tb_rows t))"
    using distinct_legacy_keys [OF ids dist] by (intro distinct_unique_rows) (simp add: comp_def)
  then have "find_clash (keyed_table t) = None"
    using clash [of "tb_columns t3"] by (auto simp: keyed_table_def find_clash_None unique_on_def)
  moreover have "t3\<lparr>tb_indexes := tb_indexes t3 @ [(''IDX_00102e14a962999378bb9949f4'', unique_on [''idempotency_key''])]\<rparr>
      = keyed_table t"
    by (cases t) (simp add: t1_def t2_def t3_def keyed_table_def)
  ultimately show "add_index ''IDX_00102e14a962999378bb9949f4'' (unique_on [''idempotency_key'']) t3 = Inr (keyed_table t)"
    using new(2) by (simp add: add_index_def) (simp add: t1_def t2_def t3_def unique_on_def checked_def)
qed

text \<open>
  Adding the idempotency key never fails on a table of payments with proper identifiers,
  whatever payments it holds: each of them gets the key LEGACY- followed by its identifier, no
  two get the same, nothing else of a row or of another table changes, and the database is as
  consistent as it was.
\<close>

lemma legacy_keys:
  assumes wf: "wf_database db" and t: "map_of db ''bill_payment'' = Some t"
    and new: "\<not> has (tb_columns t) ''idempotency_key''" "\<not> has (tb_indexes t) ''IDX_00102e14a962999378bb9949f4''"
    and ids: "\<forall>r \<in> set (tb_rows t). \<exists>s. r ''id'' = Str s \<and> length s \<le> 36"
    and primary: "(''PRIMARY'', unique_on [''id'']) \<in> set (tb_indexes t)"
  shows "\<exists>u. execs (mg_up AddIdempotencyKey) db = (None, put ''bill_payment'' u db)
    \<and> tb_rows u = map (\<lambda>r. r(''idempotency_key'' := legacy_key r)) (tb_rows t)
    \<and> distinct (map (\<lambda>r. r ''idempotency_key'') (tb_rows u)) \<and> wf_database (put ''bill_payment'' u db)"
proof (intro exI [of _ "keyed_table t"] conjI)
  have wt: "wf_table t" using wf t by (rule wf_table_of)
  then have "unique_rows [''id''] (tb_rows t)" using primary by (force simp: wf_table_def find_clash_None unique_on_def)
  then have dist: "distinct (map (\<lambda>r. r ''id'') (tb_rows t))" by (rule unique_rows_distinct) (use ids in auto)
  show run: "execs (mg_up AddIdempotencyKey) db = (None, put ''bill_payment'' (keyed_table t) db)"
    using keyed_steps [OF wt new ids dist] t has_Some [OF t] by (simp add: AddIdempotencyKey_def on_table_def)
  show "wf_database (put ''bill_payment'' (keyed_table t) db)"
    using undoesD(1) [OF undoes_later(1) wf run] .
  show "distinct (map (\<lambda>r. r ''idempotency_key'') (tb_rows (keyed_table t)))"
    using distinct_legacy_keys [OF ids dist] by (simp add: keyed_table_def comp_def)
qed (simp add: keyed_table_def)

definition sample_payments :: table where
  "sample_payments = bill_payment_table\<lparr>tb_rows :=
     [(\<lambda>c. Null)(''id'' := Str ''p1'', ''status'' := Str ''SUCCESS''), (\<lambda>c. Null)(''id'' := Str ''p2'')]\<rparr>"

lemma wf_sample: "wf_database [(''bill_payment'', sample_payments)]"
  by (auto simp: wf_database_def wf_table_def targets_known_def sample_payments_def bill_payment_table_def
      new_table_def find_clash_None clash_def)

lemma legacy_keys_witness:
  "map (\<lambda>r. r ''idempotency_key'') (tb_rows sample_payments) = [Null, Null]
   \<and> (\<exists>u. execs (mg_up AddIdempotencyKey) [(''bill_payment'', sample_payments)]
          = (None, put ''bill_payment'' u [(''bill_payment'', sample_payments)])
        \<and> map (\<lambda>r. r ''idempotency_key'') (tb_rows u) = [Str ''LEGACY-p1'', Str ''LEGACY-p2''])"
  using legacy_keys [OF wf_sample, of sample_payments]
  by (force simp: sample_payments_def bill_payment_table_def new_table_def unique_on_def legacy_key_def)



subsection \<open>A catalog that already has bills\<close>

lemma unique_rows_pair:
  assumes "unique_rows cs (xs @ a # ys @ b # zs)"
  shows "\<not> clash cs a b"
  using assms by (induction xs) auto

text \<open>
  The change of the bills to consumer numbers fails on a table that holds two bills of one
  biller, because the new column is empty in both; by then the old numbers are gone from
  every row, for no statement is taken back.
\<close>

lemma populated_bills_lose_numbers:
  assumes wf: "wf_database db" and t: "map_of db ''mock_bill'' = Some t"
    and schema: "tb_columns t = tb_columns mock_bill_table" "tb_indexes t = tb_indexes mock_bill_table"
    and bills: "tb_rows t = xs @ a # ys @ b # zs" "a ''biller_code'' = b ''biller_code''" "a ''biller_code'' \<noteq> Null"
  shows "\<exists>u. execs (mg_up AddConsumerAndBillNumber) db
        = (Some (Duplicate_entry ''IDX_955840860156cc2ca0d8ee57d8''), put ''mock_bill'' u db)
    \<and> length (tb_rows u) = length (tb_rows t) \<and> (\<forall>r \<in> set (tb_rows u). r ''customer_bill_number'' = Null)"
proof -
  let ?rows = "map (\<lambda>r. r(''customer_bill_number'' := Null, ''consumer_number'' := Str [], ''bill_number'' := Str []))
    (tb_rows t)"
  let ?cut = "map (\<lambda>r. r(''customer_bill_number'' := Null)) (tb_rows t)"
  have "unique_rows [''id''] (tb_rows t)"
    using wf_table_of [OF wf t] by (auto simp: wf_table_def find_clash_None schema mock_bill_table_def new_table_def)
  then have ids: "unique_rows [''id''] ?cut" "unique_rows [''id''] ?rows"
    by (subst unique_rows_cong; simp)+
  have dup: "\<not> unique_rows [''biller_code'', ''consumer_number''] ?rows"
    using unique_rows_pair [of "[''biller_code'', ''consumer_number'']"] bills by (fastforce simp: clash_def)
  show ?thesis
    using ids dup has_Some [OF t]
    by (simp add: AddConsumerAndBillNumber_def on_table_def t drop_index_def drop_column_def add_column_def add_index_def
        on_column_def schema mock_bill_table_def new_table_def unique_on_def del_def checked_def find_clash_def
        added_value_def required_def comp_def)
      (rule exI, rule conjI, rule refl, simp)
qed

definition sample_bills :: table where
  "sample_bills = mock_bill_table\<lparr>tb_rows :=
     [(\<lambda>c. Null)(''id'' := Str ''b1'', ''biller_code'' := Str ''MSEB'', ''customer_bill_number'' := Str ''N1''),
      (\<lambda>c. Null)(''id'' := Str ''b2'', ''biller_code'' := Str ''MSEB'', ''customer_bill_number'' := Str ''N2'')]\<rparr>"

lemma populated_bills_lose_numbers_witness:
  "map (\<lambda>r. r ''customer_bill_number'') (tb_rows sample_bills) = [Str ''N1'', Str ''N2'']
   \<and> fst (execs (mg_up AddConsumerAndBillNumber) [(''mock_bill'', sample_bills)])
       = Some (Duplicate_entry ''IDX_955840860156cc2ca0d8ee57d8'')
   \<and> (\<exists>u. snd (execs (mg_up AddConsumerAndBillNumber) [(''mock_bill'', sample_bills)]) = put ''mock_bill'' u [(''mock_bill'', sample_bills)]
        \<and> length (tb_rows u) = 2)"
proof -
  have wf: "wf_database [(''mock_bill'', sample_bills)]"
    by (auto simp: wf_database_def wf_table_def targets_known_def sample_bills_def mock_bill_table_def
        new_table_def find_clash_None clash_def unique_on_def)
  show ?thesis
    using populated_bills_lose_numbers [OF wf, of sample_bills "[]" _ "[]" _ "[]"]
    by (auto simp: sample_bills_def mock_bill_table_def new_table_def)
qed

subsection \<open>How far the migrations get\<close>

lemma has_del: "has (del m fst db) n \<longleftrightarrow> n \<noteq> m \<and> has db n"
  by (auto simp: has_def del_def)

lemma has_exec:
  assumes "exec q db = Inr d" and "has db n" and "q \<noteq> Drop_table n"
  shows "has d n"
  using assms by (cases q) (auto simp: has_del elim!: on_table_Inr split: if_splits option.splits)

lemma has_execs:
  assumes "execs qs db = (None, d)" and "has db n" and "Drop_table n \<notin> set qs"
  shows "has d n"
  using assms
proof (induction qs arbitrary: db)
  case Nil
  then show ?case by simp
next
  case (Cons q qs)
  obtain d' where q: "exec q db = Inr d'" and rest: "execs qs d' = (None, d)"
    using Cons.prems(1) by (auto split: sum.splits)
  show ?case using Cons.IH [OF rest has_exec [OF q]] Cons.prems by auto
qed

lemma execs_append_None:
  assumes "execs (ps @ qs) db = (None, d)"
  shows "\<exists>c. execs qs c = (None, d)"
  using assms by (auto simp: execs_append split: prod.splits option.splits)

lemma migrate_has:
  assumes "fst (migrate ms db) = None" and "has db n" and "list_all (\<lambda>m. Drop_table n \<notin> set (mg_up m)) ms"
  shows "has (snd (migrate ms db)) n"
  using assms by (induction ms arbitrary: db) (auto split: prod.splits option.splits dest: has_execs)

lemma migrate_append:
  "migrate (ms @ ns) db = (case migrate ms db of (Some e, d) \<Rightarrow> (Some e, d) | (None, d) \<Rightarrow> migrate ns d)"
  by (induction ms arbitrary: db) (auto split: prod.splits option.splits)

definition first_six :: "migration list" where
  "first_six = [InitialBillPayment, AddConsumerAndBillNumber, UpdateBillPaymentAmount, AddIdempotencyKey,
     AddKeycloakUserIdToBbps, AddScheduleStatusAndExecution]"

lemma migrations_split: "migrations = first_six @ [CreateAdminModuleTables, AddRegistrationSagaColumns]"
  by (simp add: migrations_def first_six_def)

lemma first_six_admin_user:
  assumes "migrate first_six db = (None, e)"
  shows "has e ''admin_user''"
proof -
  obtain d where d: "execs (mg_up InitialBillPayment) db = (None, d)" and e: "migrate (tl first_six) d = (None, e)"
    using assms by (auto simp: first_six_def split: prod.splits option.splits)
  have "mg_up InitialBillPayment = butlast (mg_up InitialBillPayment) @ [Create_table ''admin_user'' admin_user_table]"
    by (simp add: InitialBillPayment_def)
  then obtain c where "execs [Create_table ''admin_user'' admin_user_table] c = (None, d)"
    using d execs_append_None by metis
  then have "has d ''admin_user''" by (auto split: if_splits option.splits)
  then show ?thesis
    using migrate_has [of "tl first_six" d "''admin_user''"] e by (simp add: first_six_def migration_defs)
qed

text \<open>
  C32: The migrations never all succeed, on whatever database they are started: the first one
  creates the table of the admin users, no later one drops it, and the one of the admin module
  creates it again. On an empty database that is where they stop, so the columns of the
  registration saga are not added.
\<close>

lemma migrations_never_complete:
  "fst (migrate migrations db) \<noteq> None
   \<and> fst (migrate migrations []) = Some (mg_name CreateAdminModuleTables, Table_exists ''admin_user'')"
proof
  have stop: "fst (migrate migrations db) = Some (mg_name CreateAdminModuleTables, Table_exists ''admin_user'')"
    if ok: "fst (migrate first_six db) = None" for db
  proof -
    obtain e where e: "migrate first_six db = (None, e)" using ok by (cases "migrate first_six db") auto
    then show ?thesis
      using first_six_admin_user [OF e] by (simp add: migrations_split migrate_append CreateAdminModuleTables_def)
  qed
  have "fst (migrate first_six []) = None" by code_simp
  then show "fst (migrate migrations []) = Some (mg_name CreateAdminModuleTables, Table_exists ''admin_user'')"
    by (rule stop)
  show "fst (migrate migrations db) \<noteq> None"
    using stop [of db] by (cases "fst (migrate first_six db)") (auto simp: migrations_split migrate_append split: prod.splits)
qed

text \<open>
  After what the migrations do to an empty database, these are the entities whose tables
  can be read and stored; the other sixteen, which are those of the admin module, of role based
  access, of registration, of one-time passwords, of credentials, devices and schedules, are
  neither.
\<close>

lemma migrated_entities:
  "readable_tables (snd (migrate migrations [])) =
     [''audit_outbox'', ''notification_template_history'', ''notification_template'', ''event_log'',
      ''mock_bill'', ''biller_registration'', ''bill_payment'', ''bill_schedule_execution'']
   \<and> storable_tables (snd (migrate migrations [])) =
     [''audit_outbox'', ''notification_template_history'', ''notification_template'', ''event_log'',
      ''mock_bill'', ''biller_registration'', ''bill_payment'', ''bill_schedule_execution'']
   \<and> length entities = 24"
  by code_simp

end
